(* ===== verification/Prelude.thy ===== *)
theory Prelude
  imports Complex_Main "HOL-Library.Word" "HOL-Library.AList"
begin

text \<open>
  Shared vocabulary of the development: the types the models of the Python code are
  written in, Python's insertion-ordered \<open>dict\<close> over association lists (with the
  interface the components rely on, as a locale), the truthiness idioms
  \<open>x or d\<close> and \<open>x if x else None\<close>, the \<open>str\<close> of an integer, the result type of
  code that may raise, and the collections of lemmas the component proofs use.
\<close>

named_theorems dict_simps \<open>lookups, keys and well-formedness of dictionaries\<close>
named_theorems truthy_simps \<open>Python truthiness idioms\<close>

type_synonym byte = "8 word"
type_synonym bytes = "byte list"

subsection \<open>Results\<close>

text \<open>A call that returns or raises: \<open>Inl e\<close> is the exception, \<open>Inr a\<close> the value.\<close>

definition bind_res :: "'e + 'a \<Rightarrow> ('a \<Rightarrow> 'e + 'b) \<Rightarrow> 'e + 'b" where
  "bind_res r f = (case r of Inl e \<Rightarrow> Inl e | Inr a \<Rightarrow> f a)"

lemma bind_res_simps [simp]:
  "bind_res (Inl e) f = Inl e"
  "bind_res (Inr a) f = f a"
  by (simp_all add: bind_res_def)

lemma bind_res_Inr_conv: "bind_res r f = Inr b \<longleftrightarrow> (\<exists>a. r = Inr a \<and> f a = Inr b)"
  by (cases r) auto

fun map_res :: "('a \<Rightarrow> 'e + 'b) \<Rightarrow> 'a list \<Rightarrow> 'e + 'b list" where
  "map_res f [] = Inr []"
| "map_res f (x # xs) = bind_res (f x) (\<lambda>y. bind_res (map_res f xs) (\<lambda>ys. Inr (y # ys)))"

text \<open>A comprehension \<open>[f(x) for x in xs]\<close> whose \<open>f\<close> may raise: all or nothing.\<close>

lemma map_res_Inr_iff: "map_res f xs = Inr ys \<longleftrightarrow> list_all2 (\<lambda>x y. f x = Inr y) xs ys"
  by (induction xs arbitrary: ys) (auto simp: bind_res_Inr_conv list_all2_Cons1)

lemma map_res_total: "(\<And>x. x \<in> set xs \<Longrightarrow> f x = Inr (g x)) \<Longrightarrow> map_res f xs = Inr (map g xs)"
  by (induction xs) auto

subsection \<open>Truthiness\<close>

text \<open>\<open>x if x else None\<close> and \<open>x or d\<close> on numbers and on strings.\<close>

definition nonzero :: "'a::zero \<Rightarrow> 'a option" where
  "nonzero x = (if x = 0 then None else Some x)"

definition or_default :: "'a::zero \<Rightarrow> 'a \<Rightarrow> 'a" where
  "or_default x d = (if x = 0 then d else x)"

definition nonempty :: "'a list \<Rightarrow> 'a list option" where
  "nonempty s = (if s = [] then None else Some s)"

definition or_str :: "'a list \<Rightarrow> 'a list \<Rightarrow> 'a list" where
  "or_str s d = (if s = [] then d else s)"

lemma nonzero_simps [simp, truthy_simps]:
  "nonzero 0 = None"
  "x \<noteq> 0 \<Longrightarrow> nonzero x = Some x"
  "nonzero x = None \<longleftrightarrow> x = 0"
  "nonzero x = Some y \<longleftrightarrow> y = x \<and> x \<noteq> 0"
  by (auto simp: nonzero_def)

lemma or_default_simps [simp, truthy_simps]:
  "or_default 0 d = d"
  "x \<noteq> 0 \<Longrightarrow> or_default x d = x"
  by (simp_all add: or_default_def)

lemma nonempty_simps [simp, truthy_simps]:
  "nonempty [] = None"
  "nonempty (c # cs) = Some (c # cs)"
  by (simp_all add: nonempty_def)

lemma or_str_simps [simp, truthy_simps]:
  "or_str [] d = d"
  "or_str (c # cs) d = c # cs"
  by (simp_all add: or_str_def)

subsection \<open>Python's \<open>str\<close> on integers\<close>

definition digit_char :: "nat \<Rightarrow> char" where
  "digit_char d = char_of (48 + d)"

fun nat_str :: "nat \<Rightarrow> string" where
  "nat_str n = (if n < 10 then [digit_char n] else nat_str (n div 10) @ [digit_char (n mod 10)])"

declare nat_str.simps [simp del]

definition int_str :: "int \<Rightarrow> string" where
  "int_str i = (if i < 0 then CHR ''-'' # nat_str (nat (- i)) else nat_str (nat i))"

definition parse_digits :: "string \<Rightarrow> nat" where
  "parse_digits s = foldl (\<lambda>a c. 10 * a + (of_char c - 48)) 0 s"

lemma of_char_digit_char: "d < 10 \<Longrightarrow> (of_char (digit_char d) :: nat) = 48 + d"
  by (simp add: digit_char_def)

lemma parse_digits_snoc: "parse_digits (s @ [c]) = 10 * parse_digits s + (of_char c - 48)"
  by (simp add: parse_digits_def)

lemma parse_digits_nat_str [simp]: "parse_digits (nat_str n) = n"
proof (induction n rule: nat_str.induct)
  case (1 n)
  show ?case
  proof (cases "n < 10")
    case True
    then show ?thesis
      by (simp add: nat_str.simps [of n] parse_digits_def of_char_digit_char)
  next
    case False
    with 1 have "parse_digits (nat_str (n div 10)) = n div 10" by simp
    with False show ?thesis
      by (simp add: nat_str.simps [of n] parse_digits_snoc of_char_digit_char)
  qed
qed

lemma nat_str_inject [simp]: "nat_str m = nat_str n \<longleftrightarrow> m = n"
  by (metis parse_digits_nat_str)

lemma nat_str_nonempty [simp]: "nat_str n \<noteq> []"
  by (subst nat_str.simps) simp

subsection \<open>Dictionaries\<close>

text \<open>
  A Python \<open>dict\<close> keeps insertion order: assigning to a present key keeps its place,
  assigning to a new one appends, \<open>pop\<close> removes. That is an association list with
  distinct keys under \<open>AList.update\<close> and \<open>AList.delete\<close>.
\<close>

type_synonym ('k, 'v) dict = "('k \<times> 'v) list"

abbreviation dict_get :: "('k, 'v) dict \<Rightarrow> 'k \<Rightarrow> 'v option" where
  "dict_get \<equiv> map_of"

abbreviation dict_set :: "'k \<Rightarrow> 'v \<Rightarrow> ('k, 'v) dict \<Rightarrow> ('k, 'v) dict" where
  "dict_set \<equiv> AList.update"

abbreviation dict_pop :: "'k \<Rightarrow> ('k, 'v) dict \<Rightarrow> ('k, 'v) dict" where
  "dict_pop \<equiv> AList.delete"

abbreviation dict_keys :: "('k, 'v) dict \<Rightarrow> 'k list" where
  "dict_keys d \<equiv> map fst d"

definition wf_dict :: "('k, 'v) dict \<Rightarrow> bool" where
  "wf_dict d \<longleftrightarrow> distinct (dict_keys d)"

text \<open>
  What the components rely on: lookups after an assignment and after a removal, the
  order of the keys, and that every operation keeps the representation well formed.
\<close>

locale ordered_dict =
  fixes get :: "'d \<Rightarrow> 'k \<Rightarrow> 'v option"
    and assign :: "'k \<Rightarrow> 'v \<Rightarrow> 'd \<Rightarrow> 'd"
    and pop :: "'k \<Rightarrow> 'd \<Rightarrow> 'd"
    and keys :: "'d \<Rightarrow> 'k list"
    and wf :: "'d \<Rightarrow> bool"
  assumes get_assign: "get (assign k v d) l = (if l = k then Some v else get d l)"
    and get_pop: "get (pop k d) l = (if l = k then None else get d l)"
    and keys_get: "k \<in> set (keys d) \<longleftrightarrow> get d k \<noteq> None"
    and keys_assign: "keys (assign k v d) = (if k \<in> set (keys d) then keys d else keys d @ [k])"
    and keys_pop: "keys (pop k d) = removeAll k (keys d)"
    and wf_assign: "wf d \<Longrightarrow> wf (assign k v d)"
    and wf_pop: "wf d \<Longrightarrow> wf (pop k d)"
    and wf_distinct: "wf d \<longleftrightarrow> distinct (keys d)"
begin

lemma get_assign_same: "get (assign k v d) k = Some v"
  by (simp add: get_assign)

lemma get_pop_same: "get (pop k d) k = None"
  by (simp add: get_pop)

lemma pop_assign_fresh_get: "k \<notin> set (keys d) \<Longrightarrow> get (pop k (assign k v d)) l = get d l"
  using keys_get [of k d] by (simp add: get_assign get_pop)

lemma pop_assign_fresh_keys: "k \<notin> set (keys d) \<Longrightarrow> keys (pop k (assign k v d)) = keys d"
  by (simp add: keys_assign keys_pop)

lemma assign_commute_get:
  "k \<noteq> l \<Longrightarrow> get (assign k v (assign l w d)) m = get (assign l w (assign k v d)) m"
  by (simp add: get_assign)

lemma keys_assign_present: "get d k \<noteq> None \<Longrightarrow> keys (assign k v d) = keys d"
  using keys_get [of k d] by (simp add: keys_assign)

lemma keys_assign_fresh: "get d k = None \<Longrightarrow> keys (assign k v d) = keys d @ [k]"
  using keys_get [of k d] by (simp add: keys_assign)

end

interpretation dict: ordered_dict dict_get dict_set dict_pop dict_keys wf_dict
proof
  fix d :: "('k, 'v) dict" and k l :: 'k and v :: 'v
  show "dict_get (dict_set k v d) l = (if l = k then Some v else dict_get d l)"
    by (simp add: update_conv')
  show "dict_get (dict_pop k d) l = (if l = k then None else dict_get d l)"
    by (simp add: delete_conv')
  show "k \<in> set (dict_keys d) \<longleftrightarrow> dict_get d k \<noteq> None"
    by (simp add: map_of_eq_None_iff)
  show "dict_keys (dict_set k v d) = (if k \<in> set (dict_keys d) then dict_keys d else dict_keys d @ [k])"
    by (simp add: update_keys)
  show "dict_keys (dict_pop k d) = removeAll k (dict_keys d)"
    by (simp add: delete_keys)
  show "wf_dict d \<Longrightarrow> wf_dict (dict_set k v d)"
    by (simp add: wf_dict_def distinct_update)
  show "wf_dict d \<Longrightarrow> wf_dict (dict_pop k d)"
    by (simp add: wf_dict_def distinct_delete)
  show "wf_dict d \<longleftrightarrow> distinct (dict_keys d)"
    by (simp add: wf_dict_def)
qed

lemmas [dict_simps] = dict.get_assign dict.get_pop dict.wf_assign dict.wf_pop update_keys delete_keys

lemma wf_dict_Nil [simp]: "wf_dict []"
  by (simp add: wf_dict_def)

text \<open>A comprehension over \<open>items()\<close> that keeps the keys keeps the dictionary well formed.\<close>

lemma wf_dict_map_values [simp]: "wf_dict (map (\<lambda>(k, v). (k, f k v)) d) \<longleftrightarrow> wf_dict d"
proof -
  have "map fst (map (\<lambda>(k, v). (k, f k v)) d) = map fst d"
    by (induction d) auto
  then show ?thesis by (simp only: wf_dict_def)
qed

lemma dict_get_map_values [simp]:
  "dict_get (map (\<lambda>(k, v). (k, f k v)) d) k = map_option (f k) (dict_get d k)"
  by (induction d) auto

lemma dict_keys_map_values [simp]: "dict_keys (map (\<lambda>(k, v). (k, f k v)) d) = dict_keys d"
  by (induction d) auto

lemma dict_get_in: "wf_dict d \<Longrightarrow> (k, v) \<in> set d \<longleftrightarrow> dict_get d k = Some v"
  by (simp add: wf_dict_def)

end
