(* ===== verification/Exceptions.thy ===== *)
theory Exceptions
  imports Prelude
begin

text \<open>
  The exception hierarchy of \<open>exceptions.py\<close>, one constructor per class with the
  attributes its \<open>__init__\<close> stores, next to the exceptions of Python and anyio the
  client's handlers tell apart. The predicates are the \<open>isinstance\<close> checks and the
  classification methods of the source; \<open>exn_str\<close> is the text \<open>str(e)\<close> gives.
\<close>

subsection \<open>API errors\<close>

record api_error =
  ae_error_code :: string
  ae_description :: "string option"
  ae_ctid_trader_account_id :: "int option"
  ae_maintenance_end_timestamp :: "int option"
  ae_retry_after :: "int option"

text \<open>\<open>APIError(error_code, description)\<close>, the other arguments left at their default.\<close>

definition api_error_new :: "string \<Rightarrow> string option \<Rightarrow> api_error" where
  "api_error_new code desc =
     \<lparr>ae_error_code = code, ae_description = desc, ae_ctid_trader_account_id = None,
      ae_maintenance_end_timestamp = None, ae_retry_after = None\<rparr>"

text \<open>The names of the \<open>ProtoOAErrorCode\<close> members the client looks for.\<close>

definition OA_AUTH_TOKEN_EXPIRED :: string where "OA_AUTH_TOKEN_EXPIRED = ''OA_AUTH_TOKEN_EXPIRED''"
definition CH_ACCESS_TOKEN_INVALID :: string where "CH_ACCESS_TOKEN_INVALID = ''CH_ACCESS_TOKEN_INVALID''"
definition ALREADY_LOGGED_IN :: string where "ALREADY_LOGGED_IN = ''ALREADY_LOGGED_IN''"
definition REQUEST_FREQUENCY_EXCEEDED :: string where "REQUEST_FREQUENCY_EXCEEDED = ''REQUEST_FREQUENCY_EXCEEDED''"
definition SERVER_IS_UNDER_MAINTENANCE :: string where "SERVER_IS_UNDER_MAINTENANCE = ''SERVER_IS_UNDER_MAINTENANCE''"

definition TOKEN_ERROR_CODES :: "string list" where
  "TOKEN_ERROR_CODES = [OA_AUTH_TOKEN_EXPIRED, CH_ACCESS_TOKEN_INVALID]"

lemmas error_code_defs =
  OA_AUTH_TOKEN_EXPIRED_def CH_ACCESS_TOKEN_INVALID_def ALREADY_LOGGED_IN_def
  REQUEST_FREQUENCY_EXCEEDED_def SERVER_IS_UNDER_MAINTENANCE_def TOKEN_ERROR_CODES_def

definition is_rate_limited :: "api_error \<Rightarrow> bool" where
  "is_rate_limited e \<longleftrightarrow>
     ae_error_code e = REQUEST_FREQUENCY_EXCEEDED \<or> ae_retry_after e \<noteq> None"

definition is_token_failure :: "api_error \<Rightarrow> bool" where
  "is_token_failure e \<longleftrightarrow> ae_error_code e \<in> set TOKEN_ERROR_CODES"

definition is_maintenance :: "api_error \<Rightarrow> bool" where
  "is_maintenance e \<longleftrightarrow>
     ae_error_code e = SERVER_IS_UNDER_MAINTENANCE \<or> ae_maintenance_end_timestamp e \<noteq> None"

subsection \<open>The hierarchy\<close>

datatype exn =
    CTraderConnectionFailedError string int "exn option"
  | CTraderConnectionClosedError "string option" bool
  | CTraderConnectionTimeoutError rat string
  | CTraderReconnectAbandonedError string "exn option"
  | ApplicationAuthError string "string option"
  | AccountAuthError string "string option" "int option"
  | TokenExpiredError "int option"
  | TokenRefreshError "int option" "exn option"
  | AccountNotFoundError int "int list option"
  | APIError api_error
  | FramingError int int
  | DeserializationError int bytes
  | UnknownPayloadTypeError int
  | StructError
  | ValueError string
  | RuntimeError string
  | OverflowError
  | TimeoutError
  | OSError string
  | ClosedResourceError
  | BrokenResourceError
  | EndOfStream
  | OtherException string

type_synonym 'a res = "exn + 'a"

text \<open>\<open>CTraderConnectionClosedError(reason)\<close> with the default \<open>was_clean=False\<close>.\<close>

abbreviation ClosedError :: "string \<Rightarrow> exn" where
  "ClosedError reason \<equiv> CTraderConnectionClosedError (Some reason) False"

fun is_connection_error :: "exn \<Rightarrow> bool" where
  "is_connection_error (CTraderConnectionFailedError _ _ _) = True"
| "is_connection_error (CTraderConnectionClosedError _ _) = True"
| "is_connection_error (CTraderConnectionTimeoutError _ _) = True"
| "is_connection_error (CTraderReconnectAbandonedError _ _) = True"
| "is_connection_error _ = False"

fun is_authentication_error :: "exn \<Rightarrow> bool" where
  "is_authentication_error (ApplicationAuthError _ _) = True"
| "is_authentication_error (AccountAuthError _ _ _) = True"
| "is_authentication_error (TokenExpiredError _) = True"
| "is_authentication_error (TokenRefreshError _ _) = True"
| "is_authentication_error (AccountNotFoundError _ _) = True"
| "is_authentication_error _ = False"

fun is_protocol_error :: "exn \<Rightarrow> bool" where
  "is_protocol_error (FramingError _ _) = True"
| "is_protocol_error (DeserializationError _ _) = True"
| "is_protocol_error (UnknownPayloadTypeError _) = True"
| "is_protocol_error _ = False"

fun is_api_error :: "exn \<Rightarrow> bool" where
  "is_api_error (APIError _) = True"
| "is_api_error _ = False"

definition is_ctrader_error :: "exn \<Rightarrow> bool" where
  "is_ctrader_error e \<longleftrightarrow>
     is_connection_error e \<or> is_authentication_error e \<or> is_api_error e \<or> is_protocol_error e"

text \<open>Python's \<open>TimeoutError\<close> is a subclass of \<open>OSError\<close>.\<close>

fun is_os_error :: "exn \<Rightarrow> bool" where
  "is_os_error (OSError _) = True"
| "is_os_error TimeoutError = True"
| "is_os_error _ = False"

fun is_already_authorized :: "exn \<Rightarrow> bool" where
  "is_already_authorized (AccountAuthError code _ _) = (code = ALREADY_LOGGED_IN)"
| "is_already_authorized _ = False"

subsection \<open>Messages\<close>

text \<open>
  The message each constructor hands to \<open>Exception.__init__\<close>. An optional part is added
  when its argument is truthy, so an account id of 0 and an empty description are left
  out. \<open>show_float\<close> stands for the formatting of a float, \<open>show_other\<close> for the text of
  exceptions the client does not define.
\<close>

definition suffix_desc :: "string option \<Rightarrow> string" where
  "suffix_desc d = (case d of Some (c # cs) \<Rightarrow> '' - '' @ (c # cs) | _ \<Rightarrow> [])"

definition with_account :: "string \<Rightarrow> int option \<Rightarrow> string \<Rightarrow> string" where
  "with_account pre acct post =
     (case acct of None \<Rightarrow> [] | Some a \<Rightarrow> if a = 0 then [] else pre @ int_str a @ post)"

definition int_list_str :: "int list \<Rightarrow> string" where
  "int_list_str xs =
     ''['' @ (case xs of [] \<Rightarrow> [] | x # rest \<Rightarrow> int_str x @ concat (map (\<lambda>y. '', '' @ int_str y) rest)) @ '']''"

fun exn_str :: "(rat \<Rightarrow> string) \<Rightarrow> (exn \<Rightarrow> string) \<Rightarrow> exn \<Rightarrow> string" where
  "exn_str sf so (CTraderConnectionFailedError host port cause) =
     ''Failed to connect to '' @ host @ '':'' @ int_str port @
     (case cause of None \<Rightarrow> [] | Some c \<Rightarrow> '': '' @ exn_str sf so c)"
| "exn_str sf so (CTraderConnectionClosedError reason was_clean) =
     ''Connection closed'' @ (if was_clean then '' cleanly'' else []) @
     (case reason of Some (c # cs) \<Rightarrow> '': '' @ (c # cs) | _ \<Rightarrow> [])"
| "exn_str sf so (CTraderConnectionTimeoutError seconds operation) =
     operation @ '' timed out after '' @ sf seconds @ ''s''"
| "exn_str sf so (CTraderReconnectAbandonedError reason cause) =
     ''Reconnection abandoned: '' @ reason @
     (case cause of None \<Rightarrow> [] | Some c \<Rightarrow> '' ('' @ exn_str sf so c @ '')'')"
| "exn_str sf so (ApplicationAuthError code desc) =
     ''Application authentication failed: '' @ code @ suffix_desc desc"
| "exn_str sf so (AccountAuthError code desc acct) =
     ''Account authentication failed: '' @ code @ with_account '' (account: '' acct '')'' @ suffix_desc desc"
| "exn_str sf so (TokenExpiredError acct) =
     ''Access token has expired'' @ with_account '' for account '' acct []"
| "exn_str sf so (TokenRefreshError acct cause) =
     ''Failed to refresh access token'' @ with_account '' for account '' acct [] @
     (case cause of None \<Rightarrow> [] | Some c \<Rightarrow> '': '' @ exn_str sf so c)"
| "exn_str sf so (AccountNotFoundError login logins) =
     ''No account found with trader login '' @ int_str login @
     (case logins of Some (x # xs) \<Rightarrow> ''. Available logins: '' @ int_list_str (x # xs) | _ \<Rightarrow> [])"
| "exn_str sf so (APIError e) =
     ''API error: '' @ ae_error_code e @ with_account '' (account: '' (ae_ctid_trader_account_id e) '')'' @
     suffix_desc (ae_description e)"
| "exn_str sf so (FramingError expected received) =
     ''Framing error: expected '' @ int_str expected @ '' bytes, received '' @ int_str received"
| "exn_str sf so (DeserializationError pt raw) =
     ''Failed to deserialize message with payload type '' @ int_str pt @ '' ('' @
     int_str (int (length raw)) @ '' bytes)''"
| "exn_str sf so (UnknownPayloadTypeError pt) = ''Unknown payload type: '' @ int_str pt"
| "exn_str sf so e = so e"

lemma is_api_error_iff: "is_api_error e \<longleftrightarrow> (\<exists>a. e = APIError a)"
  by (cases e) simp_all

lemma already_authorized_is_no_token_failure:
  "ae_error_code a = ALREADY_LOGGED_IN \<Longrightarrow> \<not> is_token_failure a"
  by (simp add: is_token_failure_def error_code_defs)

end
