(* ===== verification/Proto_Types.thy ===== *)
theory Proto_Types
  imports Exceptions
begin

text \<open>
  The protobuf messages the client builds or reads, from the dataclasses of
  \<open>_internal/proto/\<close>: one record per message with more than three fields, field by
  field, and one constructor of \<open>message\<close> per message class. A scalar the wire omits
  reads as 0, the empty string or False. A sub-message field is an \<open>option\<close>: \<open>None\<close>
  is a sub-message that was not on the wire (\<open>serialized_on_wire\<close> is False), and
  reading through it sees the default instance. Enumeration fields are the integers the
  wire carries. The constant \<open>payload_type\<close> member of each class is kept where the
  client sets it. Registered classes the client never looks into keep their fields as
  raw bytes.
\<close>

text \<open>A protobuf \<open>double\<close> as the exact rational it denotes (finite values).\<close>

type_synonym double = rat

subsection \<open>Entities\<close>

record proto_oa_interval =
  piv_start_second :: int
  piv_end_second :: int

record proto_oa_holiday =
  phol_holiday_id :: int
  phol_name :: string
  phol_description :: string
  phol_schedule_time_zone :: string
  phol_holiday_date :: int
  phol_is_recurring :: bool
  phol_start_second :: int
  phol_end_second :: int

record proto_oa_symbol =
  psym_symbol_id :: int
  psym_digits :: int
  psym_pip_position :: int
  psym_enable_short_selling :: bool
  psym_guaranteed_stop_loss :: bool
  psym_swap_rollover3_days :: int
  psym_swap_long :: double
  psym_swap_short :: double
  psym_max_volume :: int
  psym_min_volume :: int
  psym_step_volume :: int
  psym_max_exposure :: int
  psym_schedule :: "proto_oa_interval list"
  psym_commission :: int
  psym_commission_type :: int
  psym_sl_distance :: int
  psym_tp_distance :: int
  psym_gsl_distance :: int
  psym_gsl_charge :: int
  psym_distance_set_in :: int
  psym_min_commission :: int
  psym_min_commission_type :: int
  psym_min_commission_asset :: string
  psym_rollover_commission :: int
  psym_skip_rollover_days :: int
  psym_schedule_time_zone :: string
  psym_trading_mode :: int
  psym_rollover_commission3_days :: int
  psym_swap_calculation_type :: int
  psym_lot_size :: int
  psym_precise_trading_commission_rate :: int
  psym_precise_min_commission :: int
  psym_holiday :: "proto_oa_holiday list"
  psym_pnl_conversion_fee_rate :: int
  psym_leverage_id :: int
  psym_swap_period :: int
  psym_swap_time :: int
  psym_skip_s_w_a_p_periods :: int
  psym_charge_swap_at_weekends :: bool
  psym_measurement_units :: string

record proto_oa_light_symbol =
  plsym_symbol_id :: int
  plsym_symbol_name :: string
  plsym_enabled :: bool
  plsym_base_asset_id :: int
  plsym_quote_asset_id :: int
  plsym_symbol_category_id :: int
  plsym_description :: string
  plsym_sorting_number :: double

record proto_oa_archived_symbol =
  pasym_symbol_id :: int
  pasym_name :: string
  pasym_utc_last_update_timestamp :: int
  pasym_description :: string

record proto_oa_trader =
  ptr_ctid_trader_account_id :: int
  ptr_balance :: int
  ptr_balance_version :: int
  ptr_manager_bonus :: int
  ptr_ib_bonus :: int
  ptr_non_withdrawable_bonus :: int
  ptr_access_rights :: int
  ptr_deposit_asset_id :: int
  ptr_swap_free :: bool
  ptr_leverage_in_cents :: int
  ptr_total_margin_calculation_type :: int
  ptr_max_leverage :: int
  ptr_french_risk :: bool
  ptr_trader_login :: int
  ptr_account_type :: int
  ptr_broker_name :: string
  ptr_registration_timestamp :: int
  ptr_is_limited_risk :: bool
  ptr_limited_risk_margin_calculation_strategy :: int
  ptr_money_digits :: int
  ptr_fair_stop_out :: bool
  ptr_stop_out_strategy :: int

record proto_oa_trade_data =
  ptd_symbol_id :: int
  ptd_volume :: int
  ptd_trade_side :: int
  ptd_open_timestamp :: int
  ptd_label :: string
  ptd_guaranteed_stop_loss :: bool
  ptd_comment :: string
  ptd_measurement_units :: string
  ptd_close_timestamp :: int

record proto_oa_position =
  ppos_position_id :: int
  ppos_trade_data :: "proto_oa_trade_data option"
  ppos_position_status :: int
  ppos_swap :: int
  ppos_price :: double
  ppos_stop_loss :: double
  ppos_take_profit :: double
  ppos_utc_last_update_timestamp :: int
  ppos_commission :: int
  ppos_margin_rate :: double
  ppos_mirroring_commission :: int
  ppos_guaranteed_stop_loss :: bool
  ppos_used_margin :: int
  ppos_stop_loss_trigger_method :: int
  ppos_money_digits :: int
  ppos_trailing_stop_loss :: bool

record proto_oa_order =
  pord_order_id :: int
  pord_trade_data :: "proto_oa_trade_data option"
  pord_order_type :: int
  pord_order_status :: int
  pord_expiration_timestamp :: int
  pord_execution_price :: double
  pord_executed_volume :: int
  pord_utc_last_update_timestamp :: int
  pord_base_slippage_price :: double
  pord_slippage_in_points :: int
  pord_closing_order :: bool
  pord_limit_price :: double
  pord_stop_price :: double
  pord_stop_loss :: double
  pord_take_profit :: double
  pord_client_order_id :: string
  pord_time_in_force :: int
  pord_position_id :: int
  pord_relative_stop_loss :: int
  pord_relative_take_profit :: int
  pord_is_stop_out :: bool
  pord_trailing_stop_loss :: bool
  pord_stop_trigger_method :: int

record proto_oa_bonus_deposit_withdraw =
  pbdw_operation_type :: int
  pbdw_bonus_history_id :: int
  pbdw_manager_bonus :: int
  pbdw_manager_delta :: int
  pbdw_ib_bonus :: int
  pbdw_ib_delta :: int
  pbdw_change_bonus_timestamp :: int
  pbdw_external_note :: string
  pbdw_introducing_broker_id :: int
  pbdw_money_digits :: int

record proto_oa_deposit_withdraw =
  pdw_operation_type :: int
  pdw_balance_history_id :: int
  pdw_balance :: int
  pdw_delta :: int
  pdw_change_balance_timestamp :: int
  pdw_external_note :: string
  pdw_balance_version :: int
  pdw_equity :: int
  pdw_money_digits :: int

record proto_oa_close_position_detail =
  pcpd_entry_price :: double
  pcpd_gross_profit :: int
  pcpd_swap :: int
  pcpd_commission :: int
  pcpd_balance :: int
  pcpd_quote_to_deposit_conversion_rate :: double
  pcpd_closed_volume :: int
  pcpd_balance_version :: int
  pcpd_money_digits :: int
  pcpd_pnl_conversion_fee :: int

record proto_oa_deal =
  pdeal_deal_id :: int
  pdeal_order_id :: int
  pdeal_position_id :: int
  pdeal_volume :: int
  pdeal_filled_volume :: int
  pdeal_symbol_id :: int
  pdeal_create_timestamp :: int
  pdeal_execution_timestamp :: int
  pdeal_utc_last_update_timestamp :: int
  pdeal_execution_price :: double
  pdeal_trade_side :: int
  pdeal_deal_status :: int
  pdeal_margin_rate :: double
  pdeal_commission :: int
  pdeal_base_to_usd_conversion_rate :: double
  pdeal_close_position_detail :: "proto_oa_close_position_detail option"
  pdeal_money_digits :: int

record proto_oa_trendbar =
  ptb_volume :: int
  ptb_period :: int
  ptb_low :: int
  ptb_delta_open :: int
  ptb_delta_close :: int
  ptb_delta_high :: int
  ptb_utc_timestamp_in_minutes :: int

record proto_oa_tick_data =
  ptick_timestamp :: int
  ptick_tick :: int

record proto_oa_ctid_trader_account =
  pcta_ctid_trader_account_id :: int
  pcta_is_live :: bool
  pcta_trader_login :: int
  pcta_last_closing_deal_timestamp :: int
  pcta_last_balance_update_timestamp :: int
  pcta_broker_title_short :: string

record proto_oa_depth_quote =
  pdq_id :: int
  pdq_size :: int
  pdq_bid :: int
  pdq_ask :: int

record proto_oa_margin_call =
  pmc_margin_call_type :: int
  pmc_margin_level_threshold :: double
  pmc_utc_last_update_timestamp :: int

record proto_oa_position_unrealized_pnl =
  ppnl_position_id :: int
  ppnl_gross_unrealized_pn_l :: int
  ppnl_net_unrealized_pn_l :: int

subsection \<open>Messages with many fields\<close>

record proto_oa_error_res =
  perr_ctid_trader_account_id :: int
  perr_error_code :: string
  perr_description :: string
  perr_maintenance_end_timestamp :: int
  perr_retry_after :: int

record proto_oa_new_order_req =
  pno_payload_type :: int
  pno_ctid_trader_account_id :: int
  pno_symbol_id :: int
  pno_order_type :: int
  pno_trade_side :: int
  pno_volume :: int
  pno_limit_price :: double
  pno_stop_price :: double
  pno_time_in_force :: int
  pno_expiration_timestamp :: int
  pno_stop_loss :: double
  pno_take_profit :: double
  pno_comment :: string
  pno_base_slippage_price :: double
  pno_slippage_in_points :: int
  pno_label :: string
  pno_position_id :: int
  pno_client_order_id :: string
  pno_relative_stop_loss :: int
  pno_relative_take_profit :: int
  pno_guaranteed_stop_loss :: bool
  pno_trailing_stop_loss :: bool
  pno_stop_trigger_method :: int

record proto_oa_amend_order_req =
  pao_payload_type :: int
  pao_ctid_trader_account_id :: int
  pao_order_id :: int
  pao_volume :: int
  pao_limit_price :: double
  pao_stop_price :: double
  pao_expiration_timestamp :: int
  pao_stop_loss :: double
  pao_take_profit :: double
  pao_slippage_in_points :: int
  pao_relative_stop_loss :: int
  pao_relative_take_profit :: int
  pao_guaranteed_stop_loss :: bool
  pao_trailing_stop_loss :: bool
  pao_stop_trigger_method :: int

record proto_oa_amend_position_sltp_req =
  pap_payload_type :: int
  pap_ctid_trader_account_id :: int
  pap_position_id :: int
  pap_stop_loss :: double
  pap_take_profit :: double
  pap_guaranteed_stop_loss :: bool
  pap_trailing_stop_loss :: bool
  pap_stop_loss_trigger_method :: int

record proto_oa_close_position_req =
  pcp_payload_type :: int
  pcp_ctid_trader_account_id :: int
  pcp_position_id :: int
  pcp_volume :: int

record proto_oa_spot_event =
  psp_ctid_trader_account_id :: int
  psp_symbol_id :: int
  psp_bid :: int
  psp_ask :: int
  psp_trendbar :: "proto_oa_trendbar list"
  psp_session_close :: int
  psp_timestamp :: int

record proto_oa_execution_event =
  pex_ctid_trader_account_id :: int
  pex_execution_type :: int
  pex_position :: "proto_oa_position option"
  pex_order :: "proto_oa_order option"
  pex_deal :: "proto_oa_deal option"
  pex_bonus_deposit_withdraw :: "proto_oa_bonus_deposit_withdraw option"
  pex_deposit_withdraw :: "proto_oa_deposit_withdraw option"
  pex_error_code :: string
  pex_is_server_event :: bool

record proto_oa_order_error_event =
  poe_ctid_trader_account_id :: int
  poe_error_code :: string
  poe_order_id :: int
  poe_position_id :: int
  poe_description :: string

record proto_oa_trailing_sl_changed_event =
  ptsl_ctid_trader_account_id :: int
  ptsl_position_id :: int
  ptsl_order_id :: int
  ptsl_stop_price :: double
  ptsl_utc_last_update_timestamp :: int

record proto_oa_get_trendbars_req =
  pgt_ctid_trader_account_id :: int
  pgt_from_timestamp :: int
  pgt_to_timestamp :: int
  pgt_period :: int
  pgt_symbol_id :: int
  pgt_count :: int

record proto_oa_get_trendbars_res =
  pgtr_ctid_trader_account_id :: int
  pgtr_period :: int
  pgtr_timestamp :: int
  pgtr_trendbar :: "proto_oa_trendbar list"
  pgtr_symbol_id :: int
  pgtr_has_more :: bool

record proto_oa_get_tick_data_req =
  pgk_ctid_trader_account_id :: int
  pgk_symbol_id :: int
  pgk_type :: int
  pgk_from_timestamp :: int
  pgk_to_timestamp :: int

record proto_oa_refresh_token_res =
  prt_access_token :: string
  prt_token_type :: string
  prt_expires_in :: int
  prt_refresh_token :: string

subsection \<open>The envelope\<close>

record proto_message =
  pm_payload_type :: int
  pm_payload :: bytes
  pm_client_msg_id :: string

subsection \<open>Default instances\<close>

text \<open>What \<open>proto.field\<close> reads when the sub-message was not on the wire.\<close>

definition default_trade_data :: proto_oa_trade_data where
  "default_trade_data =
     \<lparr>ptd_symbol_id = 0,
      ptd_volume = 0,
      ptd_trade_side = 0,
      ptd_open_timestamp = 0,
      ptd_label = [],
      ptd_guaranteed_stop_loss = False,
      ptd_comment = [],
      ptd_measurement_units = [],
      ptd_close_timestamp = 0\<rparr>"

definition default_order :: proto_oa_order where
  "default_order =
     \<lparr>pord_order_id = 0,
      pord_trade_data = None,
      pord_order_type = 0,
      pord_order_status = 0,
      pord_expiration_timestamp = 0,
      pord_execution_price = 0,
      pord_executed_volume = 0,
      pord_utc_last_update_timestamp = 0,
      pord_base_slippage_price = 0,
      pord_slippage_in_points = 0,
      pord_closing_order = False,
      pord_limit_price = 0,
      pord_stop_price = 0,
      pord_stop_loss = 0,
      pord_take_profit = 0,
      pord_client_order_id = [],
      pord_time_in_force = 0,
      pord_position_id = 0,
      pord_relative_stop_loss = 0,
      pord_relative_take_profit = 0,
      pord_is_stop_out = False,
      pord_trailing_stop_loss = False,
      pord_stop_trigger_method = 0\<rparr>"

definition default_position :: proto_oa_position where
  "default_position =
     \<lparr>ppos_position_id = 0,
      ppos_trade_data = None,
      ppos_position_status = 0,
      ppos_swap = 0,
      ppos_price = 0,
      ppos_stop_loss = 0,
      ppos_take_profit = 0,
      ppos_utc_last_update_timestamp = 0,
      ppos_commission = 0,
      ppos_margin_rate = 0,
      ppos_mirroring_commission = 0,
      ppos_guaranteed_stop_loss = False,
      ppos_used_margin = 0,
      ppos_stop_loss_trigger_method = 0,
      ppos_money_digits = 0,
      ppos_trailing_stop_loss = False\<rparr>"

definition default_close_position_detail :: proto_oa_close_position_detail where
  "default_close_position_detail =
     \<lparr>pcpd_entry_price = 0,
      pcpd_gross_profit = 0,
      pcpd_swap = 0,
      pcpd_commission = 0,
      pcpd_balance = 0,
      pcpd_quote_to_deposit_conversion_rate = 0,
      pcpd_closed_volume = 0,
      pcpd_balance_version = 0,
      pcpd_money_digits = 0,
      pcpd_pnl_conversion_fee = 0\<rparr>"

definition default_deal :: proto_oa_deal where
  "default_deal =
     \<lparr>pdeal_deal_id = 0,
      pdeal_order_id = 0,
      pdeal_position_id = 0,
      pdeal_volume = 0,
      pdeal_filled_volume = 0,
      pdeal_symbol_id = 0,
      pdeal_create_timestamp = 0,
      pdeal_execution_timestamp = 0,
      pdeal_utc_last_update_timestamp = 0,
      pdeal_execution_price = 0,
      pdeal_trade_side = 0,
      pdeal_deal_status = 0,
      pdeal_margin_rate = 0,
      pdeal_commission = 0,
      pdeal_base_to_usd_conversion_rate = 0,
      pdeal_close_position_detail = None,
      pdeal_money_digits = 0\<rparr>"

definition default_trader :: proto_oa_trader where
  "default_trader =
     \<lparr>ptr_ctid_trader_account_id = 0,
      ptr_balance = 0,
      ptr_balance_version = 0,
      ptr_manager_bonus = 0,
      ptr_ib_bonus = 0,
      ptr_non_withdrawable_bonus = 0,
      ptr_access_rights = 0,
      ptr_deposit_asset_id = 0,
      ptr_swap_free = False,
      ptr_leverage_in_cents = 0,
      ptr_total_margin_calculation_type = 0,
      ptr_max_leverage = 0,
      ptr_french_risk = False,
      ptr_trader_login = 0,
      ptr_account_type = 0,
      ptr_broker_name = [],
      ptr_registration_timestamp = 0,
      ptr_is_limited_risk = False,
      ptr_limited_risk_margin_calculation_strategy = 0,
      ptr_money_digits = 0,
      ptr_fair_stop_out = False,
      ptr_stop_out_strategy = 0\<rparr>"

definition default_margin_call :: proto_oa_margin_call where
  "default_margin_call =
     \<lparr>pmc_margin_call_type = 0,
      pmc_margin_level_threshold = 0,
      pmc_utc_last_update_timestamp = 0\<rparr>"

definition submsg :: "'a \<Rightarrow> 'a option \<Rightarrow> 'a" where
  "submsg d m = (case m of None \<Rightarrow> d | Some x \<Rightarrow> x)"

definition serialized_on_wire :: "'a option \<Rightarrow> bool" where
  "serialized_on_wire m \<longleftrightarrow> m \<noteq> None"

lemma submsg_simps [simp]:
  "submsg d None = d"
  "submsg d (Some x) = x"
  by (simp_all add: submsg_def)

lemma serialized_on_wire_simps [simp]:
  "\<not> serialized_on_wire None"
  "serialized_on_wire (Some x)"
  by (simp_all add: serialized_on_wire_def)

subsection \<open>Message classes\<close>

text \<open>The class of a message, as \<open>type(message)\<close> and \<open>isinstance\<close> see it: the requests the client sends; the replies it waits for, and the two error replies; the events the server pushes; the heartbeat goes both ways; registered classes whose fields no code of the client reads; classes outside the registry.\<close>

datatype (plugins only: code) request_class =
    Cls_ProtoOAApplicationAuthReq | Cls_ProtoOAAccountAuthReq | Cls_ProtoOATraderReq
  | Cls_ProtoOARefreshTokenReq | Cls_ProtoOASubscribeSpotsReq | Cls_ProtoOAUnsubscribeSpotsReq
  | Cls_ProtoOASubscribeLiveTrendbarReq | Cls_ProtoOAUnsubscribeLiveTrendbarReq
  | Cls_ProtoOASubscribeDepthQuotesReq | Cls_ProtoOAUnsubscribeDepthQuotesReq
  | Cls_ProtoOAGetTrendbarsReq | Cls_ProtoOAGetTickDataReq | Cls_ProtoOANewOrderReq
  | Cls_ProtoOAAmendOrderReq | Cls_ProtoOAAmendPositionSLTPReq | Cls_ProtoOAClosePositionReq
  | Cls_ProtoOACancelOrderReq | Cls_ProtoOAGetPositionUnrealizedPnLReq | Cls_ProtoOAReconcileReq
  | Cls_ProtoOAOrderListReq | Cls_ProtoOADealListReq | Cls_ProtoOADealListByPositionIdReq
  | Cls_ProtoOAGetAccountListByAccessTokenReq | Cls_ProtoOASymbolsListReq
  | Cls_ProtoOASymbolByIdReq

datatype (plugins only: code) reply_class =
    Cls_ProtoErrorRes | Cls_ProtoOAErrorRes | Cls_ProtoOAApplicationAuthRes
  | Cls_ProtoOAAccountAuthRes | Cls_ProtoOATraderRes | Cls_ProtoOARefreshTokenRes
  | Cls_ProtoOASubscribeSpotsRes | Cls_ProtoOAUnsubscribeSpotsRes
  | Cls_ProtoOASubscribeLiveTrendbarRes | Cls_ProtoOAUnsubscribeLiveTrendbarRes
  | Cls_ProtoOASubscribeDepthQuotesRes | Cls_ProtoOAUnsubscribeDepthQuotesRes
  | Cls_ProtoOAGetTrendbarsRes | Cls_ProtoOAGetTickDataRes
  | Cls_ProtoOAGetPositionUnrealizedPnLRes | Cls_ProtoOAReconcileRes | Cls_ProtoOAOrderListRes
  | Cls_ProtoOADealListRes | Cls_ProtoOADealListByPositionIdRes
  | Cls_ProtoOAGetAccountListByAccessTokenRes | Cls_ProtoOASymbolsListRes
  | Cls_ProtoOASymbolByIdRes

datatype (plugins only: code) push_class =
    Cls_ProtoHeartbeatEvent | Cls_ProtoOASpotEvent | Cls_ProtoOAExecutionEvent
  | Cls_ProtoOAOrderErrorEvent | Cls_ProtoOATraderUpdatedEvent | Cls_ProtoOAMarginChangedEvent
  | Cls_ProtoOADepthEvent | Cls_ProtoOAAccountsTokenInvalidatedEvent
  | Cls_ProtoOAClientDisconnectEvent | Cls_ProtoOAAccountDisconnectEvent
  | Cls_ProtoOASymbolChangedEvent | Cls_ProtoOATrailingSLChangedEvent
  | Cls_ProtoOAMarginCallTriggerEvent

datatype (plugins only: code) unread_class =
    Unread_ProtoOAVersionReq | Unread_ProtoOAVersionRes | Unread_ProtoOAAssetListReq
  | Unread_ProtoOAAssetListRes | Unread_ProtoOASymbolsForConversionReq
  | Unread_ProtoOASymbolsForConversionRes | Unread_ProtoOAExpectedMarginReq
  | Unread_ProtoOAExpectedMarginRes | Unread_ProtoOACashFlowHistoryListReq
  | Unread_ProtoOACashFlowHistoryListRes | Unread_ProtoOAGetCtidProfileByTokenReq
  | Unread_ProtoOAGetCtidProfileByTokenRes | Unread_ProtoOAAssetClassListReq
  | Unread_ProtoOAAssetClassListRes | Unread_ProtoOASymbolCategoryListReq
  | Unread_ProtoOASymbolCategoryListRes | Unread_ProtoOAAccountLogoutReq
  | Unread_ProtoOAAccountLogoutRes | Unread_ProtoOAMarginCallListReq
  | Unread_ProtoOAMarginCallListRes | Unread_ProtoOAMarginCallUpdateReq
  | Unread_ProtoOAMarginCallUpdateRes | Unread_ProtoOAMarginCallUpdateEvent
  | Unread_ProtoOAGetDynamicLeverageByIDReq | Unread_ProtoOAGetDynamicLeverageByIDRes
  | Unread_ProtoOAOrderDetailsReq | Unread_ProtoOAOrderDetailsRes
  | Unread_ProtoOAOrderListByPositionIdReq | Unread_ProtoOAOrderListByPositionIdRes
  | Unread_ProtoOADealOffsetListReq | Unread_ProtoOADealOffsetListRes

datatype (plugins only: code) message_class =
    ClsRequest request_class
  | ClsReply reply_class
  | ClsPush push_class
  | ClsUnread unread_class
  | ClsUnregistered string

datatype (plugins only: code) request =
    ProtoOAApplicationAuthReq string string
  | ProtoOAAccountAuthReq int string
  | ProtoOATraderReq int
  | ProtoOARefreshTokenReq string
  | ProtoOASubscribeSpotsReq int "int list" bool
  | ProtoOAUnsubscribeSpotsReq int "int list"
  | ProtoOASubscribeLiveTrendbarReq int int int
  | ProtoOAUnsubscribeLiveTrendbarReq int int int
  | ProtoOASubscribeDepthQuotesReq int "int list"
  | ProtoOAUnsubscribeDepthQuotesReq int "int list"
  | ProtoOAGetTrendbarsReq proto_oa_get_trendbars_req
  | ProtoOAGetTickDataReq proto_oa_get_tick_data_req
  | ProtoOANewOrderReq proto_oa_new_order_req
  | ProtoOAAmendOrderReq proto_oa_amend_order_req
  | ProtoOAAmendPositionSLTPReq proto_oa_amend_position_sltp_req
  | ProtoOAClosePositionReq proto_oa_close_position_req
  | ProtoOACancelOrderReq int int
  | ProtoOAGetPositionUnrealizedPnLReq int
  | ProtoOAReconcileReq int bool
  | ProtoOAOrderListReq int int int
  | ProtoOADealListReq int int int int
  | ProtoOADealListByPositionIdReq int int int int
  | ProtoOAGetAccountListByAccessTokenReq string
  | ProtoOASymbolsListReq int bool
  | ProtoOASymbolByIdReq int "int list"

datatype (plugins only: code) reply =
    ProtoErrorRes string string int
  | ProtoOAErrorRes proto_oa_error_res
  | ProtoOAApplicationAuthRes
  | ProtoOAAccountAuthRes int
  | ProtoOATraderRes int "proto_oa_trader option"
  | ProtoOARefreshTokenRes proto_oa_refresh_token_res
  | ProtoOASubscribeSpotsRes int
  | ProtoOAUnsubscribeSpotsRes int
  | ProtoOASubscribeLiveTrendbarRes int
  | ProtoOAUnsubscribeLiveTrendbarRes int
  | ProtoOASubscribeDepthQuotesRes int
  | ProtoOAUnsubscribeDepthQuotesRes int
  | ProtoOAGetTrendbarsRes proto_oa_get_trendbars_res
  | ProtoOAGetTickDataRes int "proto_oa_tick_data list" bool
  | ProtoOAGetPositionUnrealizedPnLRes int "proto_oa_position_unrealized_pnl list" int
  | ProtoOAReconcileRes int "proto_oa_position list" "proto_oa_order list"
  | ProtoOAOrderListRes int "proto_oa_order list" bool
  | ProtoOADealListRes int "proto_oa_deal list" bool
  | ProtoOADealListByPositionIdRes int "proto_oa_deal list" bool
  | ProtoOAGetAccountListByAccessTokenRes string int "proto_oa_ctid_trader_account list"
  | ProtoOASymbolsListRes int "proto_oa_light_symbol list" "proto_oa_archived_symbol list"
  | ProtoOASymbolByIdRes int "proto_oa_symbol list" "proto_oa_archived_symbol list"

datatype (plugins only: code) push =
    ProtoHeartbeatEvent
  | ProtoOASpotEvent proto_oa_spot_event
  | ProtoOAExecutionEvent proto_oa_execution_event
  | ProtoOAOrderErrorEvent proto_oa_order_error_event
  | ProtoOATraderUpdatedEvent int "proto_oa_trader option"
  | ProtoOAMarginChangedEvent int int int int
  | ProtoOADepthEvent int int "proto_oa_depth_quote list" "int list"
  | ProtoOAAccountsTokenInvalidatedEvent "int list" string
  | ProtoOAClientDisconnectEvent string
  | ProtoOAAccountDisconnectEvent int
  | ProtoOASymbolChangedEvent int "int list"
  | ProtoOATrailingSLChangedEvent proto_oa_trailing_sl_changed_event
  | ProtoOAMarginCallTriggerEvent int "proto_oa_margin_call option"

datatype (plugins only: code) message =
    Request request
  | Reply reply
  | Push push
  | UnreadMessage unread_class bytes
  | UnregisteredMessage string bytes

primrec request_class_of :: "request \<Rightarrow> request_class" where
  "request_class_of (ProtoOAApplicationAuthReq _ _) = Cls_ProtoOAApplicationAuthReq"
| "request_class_of (ProtoOAAccountAuthReq _ _) = Cls_ProtoOAAccountAuthReq"
| "request_class_of (ProtoOATraderReq _) = Cls_ProtoOATraderReq"
| "request_class_of (ProtoOARefreshTokenReq _) = Cls_ProtoOARefreshTokenReq"
| "request_class_of (ProtoOASubscribeSpotsReq _ _ _) = Cls_ProtoOASubscribeSpotsReq"
| "request_class_of (ProtoOAUnsubscribeSpotsReq _ _) = Cls_ProtoOAUnsubscribeSpotsReq"
| "request_class_of (ProtoOASubscribeLiveTrendbarReq _ _ _) = Cls_ProtoOASubscribeLiveTrendbarReq"
| "request_class_of (ProtoOAUnsubscribeLiveTrendbarReq _ _ _) = Cls_ProtoOAUnsubscribeLiveTrendbarReq"
| "request_class_of (ProtoOASubscribeDepthQuotesReq _ _) = Cls_ProtoOASubscribeDepthQuotesReq"
| "request_class_of (ProtoOAUnsubscribeDepthQuotesReq _ _) = Cls_ProtoOAUnsubscribeDepthQuotesReq"
| "request_class_of (ProtoOAGetTrendbarsReq _) = Cls_ProtoOAGetTrendbarsReq"
| "request_class_of (ProtoOAGetTickDataReq _) = Cls_ProtoOAGetTickDataReq"
| "request_class_of (ProtoOANewOrderReq _) = Cls_ProtoOANewOrderReq"
| "request_class_of (ProtoOAAmendOrderReq _) = Cls_ProtoOAAmendOrderReq"
| "request_class_of (ProtoOAAmendPositionSLTPReq _) = Cls_ProtoOAAmendPositionSLTPReq"
| "request_class_of (ProtoOAClosePositionReq _) = Cls_ProtoOAClosePositionReq"
| "request_class_of (ProtoOACancelOrderReq _ _) = Cls_ProtoOACancelOrderReq"
| "request_class_of (ProtoOAGetPositionUnrealizedPnLReq _) = Cls_ProtoOAGetPositionUnrealizedPnLReq"
| "request_class_of (ProtoOAReconcileReq _ _) = Cls_ProtoOAReconcileReq"
| "request_class_of (ProtoOAOrderListReq _ _ _) = Cls_ProtoOAOrderListReq"
| "request_class_of (ProtoOADealListReq _ _ _ _) = Cls_ProtoOADealListReq"
| "request_class_of (ProtoOADealListByPositionIdReq _ _ _ _) = Cls_ProtoOADealListByPositionIdReq"
| "request_class_of (ProtoOAGetAccountListByAccessTokenReq _) = Cls_ProtoOAGetAccountListByAccessTokenReq"
| "request_class_of (ProtoOASymbolsListReq _ _) = Cls_ProtoOASymbolsListReq"
| "request_class_of (ProtoOASymbolByIdReq _ _) = Cls_ProtoOASymbolByIdReq"

primrec reply_class_of :: "reply \<Rightarrow> reply_class" where
  "reply_class_of (ProtoErrorRes _ _ _) = Cls_ProtoErrorRes"
| "reply_class_of (ProtoOAErrorRes _) = Cls_ProtoOAErrorRes"
| "reply_class_of ProtoOAApplicationAuthRes = Cls_ProtoOAApplicationAuthRes"
| "reply_class_of (ProtoOAAccountAuthRes _) = Cls_ProtoOAAccountAuthRes"
| "reply_class_of (ProtoOATraderRes _ _) = Cls_ProtoOATraderRes"
| "reply_class_of (ProtoOARefreshTokenRes _) = Cls_ProtoOARefreshTokenRes"
| "reply_class_of (ProtoOASubscribeSpotsRes _) = Cls_ProtoOASubscribeSpotsRes"
| "reply_class_of (ProtoOAUnsubscribeSpotsRes _) = Cls_ProtoOAUnsubscribeSpotsRes"
| "reply_class_of (ProtoOASubscribeLiveTrendbarRes _) = Cls_ProtoOASubscribeLiveTrendbarRes"
| "reply_class_of (ProtoOAUnsubscribeLiveTrendbarRes _) = Cls_ProtoOAUnsubscribeLiveTrendbarRes"
| "reply_class_of (ProtoOASubscribeDepthQuotesRes _) = Cls_ProtoOASubscribeDepthQuotesRes"
| "reply_class_of (ProtoOAUnsubscribeDepthQuotesRes _) = Cls_ProtoOAUnsubscribeDepthQuotesRes"
| "reply_class_of (ProtoOAGetTrendbarsRes _) = Cls_ProtoOAGetTrendbarsRes"
| "reply_class_of (ProtoOAGetTickDataRes _ _ _) = Cls_ProtoOAGetTickDataRes"
| "reply_class_of (ProtoOAGetPositionUnrealizedPnLRes _ _ _) = Cls_ProtoOAGetPositionUnrealizedPnLRes"
| "reply_class_of (ProtoOAReconcileRes _ _ _) = Cls_ProtoOAReconcileRes"
| "reply_class_of (ProtoOAOrderListRes _ _ _) = Cls_ProtoOAOrderListRes"
| "reply_class_of (ProtoOADealListRes _ _ _) = Cls_ProtoOADealListRes"
| "reply_class_of (ProtoOADealListByPositionIdRes _ _ _) = Cls_ProtoOADealListByPositionIdRes"
| "reply_class_of (ProtoOAGetAccountListByAccessTokenRes _ _ _) = Cls_ProtoOAGetAccountListByAccessTokenRes"
| "reply_class_of (ProtoOASymbolsListRes _ _ _) = Cls_ProtoOASymbolsListRes"
| "reply_class_of (ProtoOASymbolByIdRes _ _ _) = Cls_ProtoOASymbolByIdRes"

primrec push_class_of :: "push \<Rightarrow> push_class" where
  "push_class_of ProtoHeartbeatEvent = Cls_ProtoHeartbeatEvent"
| "push_class_of (ProtoOASpotEvent _) = Cls_ProtoOASpotEvent"
| "push_class_of (ProtoOAExecutionEvent _) = Cls_ProtoOAExecutionEvent"
| "push_class_of (ProtoOAOrderErrorEvent _) = Cls_ProtoOAOrderErrorEvent"
| "push_class_of (ProtoOATraderUpdatedEvent _ _) = Cls_ProtoOATraderUpdatedEvent"
| "push_class_of (ProtoOAMarginChangedEvent _ _ _ _) = Cls_ProtoOAMarginChangedEvent"
| "push_class_of (ProtoOADepthEvent _ _ _ _) = Cls_ProtoOADepthEvent"
| "push_class_of (ProtoOAAccountsTokenInvalidatedEvent _ _) = Cls_ProtoOAAccountsTokenInvalidatedEvent"
| "push_class_of (ProtoOAClientDisconnectEvent _) = Cls_ProtoOAClientDisconnectEvent"
| "push_class_of (ProtoOAAccountDisconnectEvent _) = Cls_ProtoOAAccountDisconnectEvent"
| "push_class_of (ProtoOASymbolChangedEvent _ _) = Cls_ProtoOASymbolChangedEvent"
| "push_class_of (ProtoOATrailingSLChangedEvent _) = Cls_ProtoOATrailingSLChangedEvent"
| "push_class_of (ProtoOAMarginCallTriggerEvent _ _) = Cls_ProtoOAMarginCallTriggerEvent"

primrec msg_class :: "message \<Rightarrow> message_class" where
  "msg_class (Request m) = ClsRequest (request_class_of m)"
| "msg_class (Reply m) = ClsReply (reply_class_of m)"
| "msg_class (Push m) = ClsPush (push_class_of m)"
| "msg_class (UnreadMessage c _) = ClsUnread c"
| "msg_class (UnregisteredMessage n _) = ClsUnregistered n"

text \<open>\<open>__name__\<close> of the class, which the error descriptions quote.\<close>

primrec request_name :: "request_class \<Rightarrow> string" where
  "request_name Cls_ProtoOAApplicationAuthReq = ''ProtoOAApplicationAuthReq''"
| "request_name Cls_ProtoOAAccountAuthReq = ''ProtoOAAccountAuthReq''"
| "request_name Cls_ProtoOATraderReq = ''ProtoOATraderReq''"
| "request_name Cls_ProtoOARefreshTokenReq = ''ProtoOARefreshTokenReq''"
| "request_name Cls_ProtoOASubscribeSpotsReq = ''ProtoOASubscribeSpotsReq''"
| "request_name Cls_ProtoOAUnsubscribeSpotsReq = ''ProtoOAUnsubscribeSpotsReq''"
| "request_name Cls_ProtoOASubscribeLiveTrendbarReq = ''ProtoOASubscribeLiveTrendbarReq''"
| "request_name Cls_ProtoOAUnsubscribeLiveTrendbarReq = ''ProtoOAUnsubscribeLiveTrendbarReq''"
| "request_name Cls_ProtoOASubscribeDepthQuotesReq = ''ProtoOASubscribeDepthQuotesReq''"
| "request_name Cls_ProtoOAUnsubscribeDepthQuotesReq = ''ProtoOAUnsubscribeDepthQuotesReq''"
| "request_name Cls_ProtoOAGetTrendbarsReq = ''ProtoOAGetTrendbarsReq''"
| "request_name Cls_ProtoOAGetTickDataReq = ''ProtoOAGetTickDataReq''"
| "request_name Cls_ProtoOANewOrderReq = ''ProtoOANewOrderReq''"
| "request_name Cls_ProtoOAAmendOrderReq = ''ProtoOAAmendOrderReq''"
| "request_name Cls_ProtoOAAmendPositionSLTPReq = ''ProtoOAAmendPositionSLTPReq''"
| "request_name Cls_ProtoOAClosePositionReq = ''ProtoOAClosePositionReq''"
| "request_name Cls_ProtoOACancelOrderReq = ''ProtoOACancelOrderReq''"
| "request_name Cls_ProtoOAGetPositionUnrealizedPnLReq = ''ProtoOAGetPositionUnrealizedPnLReq''"
| "request_name Cls_ProtoOAReconcileReq = ''ProtoOAReconcileReq''"
| "request_name Cls_ProtoOAOrderListReq = ''ProtoOAOrderListReq''"
| "request_name Cls_ProtoOADealListReq = ''ProtoOADealListReq''"
| "request_name Cls_ProtoOADealListByPositionIdReq = ''ProtoOADealListByPositionIdReq''"
| "request_name Cls_ProtoOAGetAccountListByAccessTokenReq = ''ProtoOAGetAccountListByAccessTokenReq''"
| "request_name Cls_ProtoOASymbolsListReq = ''ProtoOASymbolsListReq''"
| "request_name Cls_ProtoOASymbolByIdReq = ''ProtoOASymbolByIdReq''"

primrec reply_name :: "reply_class \<Rightarrow> string" where
  "reply_name Cls_ProtoErrorRes = ''ProtoErrorRes''"
| "reply_name Cls_ProtoOAErrorRes = ''ProtoOAErrorRes''"
| "reply_name Cls_ProtoOAApplicationAuthRes = ''ProtoOAApplicationAuthRes''"
| "reply_name Cls_ProtoOAAccountAuthRes = ''ProtoOAAccountAuthRes''"
| "reply_name Cls_ProtoOATraderRes = ''ProtoOATraderRes''"
| "reply_name Cls_ProtoOARefreshTokenRes = ''ProtoOARefreshTokenRes''"
| "reply_name Cls_ProtoOASubscribeSpotsRes = ''ProtoOASubscribeSpotsRes''"
| "reply_name Cls_ProtoOAUnsubscribeSpotsRes = ''ProtoOAUnsubscribeSpotsRes''"
| "reply_name Cls_ProtoOASubscribeLiveTrendbarRes = ''ProtoOASubscribeLiveTrendbarRes''"
| "reply_name Cls_ProtoOAUnsubscribeLiveTrendbarRes = ''ProtoOAUnsubscribeLiveTrendbarRes''"
| "reply_name Cls_ProtoOASubscribeDepthQuotesRes = ''ProtoOASubscribeDepthQuotesRes''"
| "reply_name Cls_ProtoOAUnsubscribeDepthQuotesRes = ''ProtoOAUnsubscribeDepthQuotesRes''"
| "reply_name Cls_ProtoOAGetTrendbarsRes = ''ProtoOAGetTrendbarsRes''"
| "reply_name Cls_ProtoOAGetTickDataRes = ''ProtoOAGetTickDataRes''"
| "reply_name Cls_ProtoOAGetPositionUnrealizedPnLRes = ''ProtoOAGetPositionUnrealizedPnLRes''"
| "reply_name Cls_ProtoOAReconcileRes = ''ProtoOAReconcileRes''"
| "reply_name Cls_ProtoOAOrderListRes = ''ProtoOAOrderListRes''"
| "reply_name Cls_ProtoOADealListRes = ''ProtoOADealListRes''"
| "reply_name Cls_ProtoOADealListByPositionIdRes = ''ProtoOADealListByPositionIdRes''"
| "reply_name Cls_ProtoOAGetAccountListByAccessTokenRes = ''ProtoOAGetAccountListByAccessTokenRes''"
| "reply_name Cls_ProtoOASymbolsListRes = ''ProtoOASymbolsListRes''"
| "reply_name Cls_ProtoOASymbolByIdRes = ''ProtoOASymbolByIdRes''"

primrec push_name :: "push_class \<Rightarrow> string" where
  "push_name Cls_ProtoHeartbeatEvent = ''ProtoHeartbeatEvent''"
| "push_name Cls_ProtoOASpotEvent = ''ProtoOASpotEvent''"
| "push_name Cls_ProtoOAExecutionEvent = ''ProtoOAExecutionEvent''"
| "push_name Cls_ProtoOAOrderErrorEvent = ''ProtoOAOrderErrorEvent''"
| "push_name Cls_ProtoOATraderUpdatedEvent = ''ProtoOATraderUpdatedEvent''"
| "push_name Cls_ProtoOAMarginChangedEvent = ''ProtoOAMarginChangedEvent''"
| "push_name Cls_ProtoOADepthEvent = ''ProtoOADepthEvent''"
| "push_name Cls_ProtoOAAccountsTokenInvalidatedEvent = ''ProtoOAAccountsTokenInvalidatedEvent''"
| "push_name Cls_ProtoOAClientDisconnectEvent = ''ProtoOAClientDisconnectEvent''"
| "push_name Cls_ProtoOAAccountDisconnectEvent = ''ProtoOAAccountDisconnectEvent''"
| "push_name Cls_ProtoOASymbolChangedEvent = ''ProtoOASymbolChangedEvent''"
| "push_name Cls_ProtoOATrailingSLChangedEvent = ''ProtoOATrailingSLChangedEvent''"
| "push_name Cls_ProtoOAMarginCallTriggerEvent = ''ProtoOAMarginCallTriggerEvent''"

primrec unread_name :: "unread_class \<Rightarrow> string" where
  "unread_name Unread_ProtoOAVersionReq = ''ProtoOAVersionReq''"
| "unread_name Unread_ProtoOAVersionRes = ''ProtoOAVersionRes''"
| "unread_name Unread_ProtoOAAssetListReq = ''ProtoOAAssetListReq''"
| "unread_name Unread_ProtoOAAssetListRes = ''ProtoOAAssetListRes''"
| "unread_name Unread_ProtoOASymbolsForConversionReq = ''ProtoOASymbolsForConversionReq''"
| "unread_name Unread_ProtoOASymbolsForConversionRes = ''ProtoOASymbolsForConversionRes''"
| "unread_name Unread_ProtoOAExpectedMarginReq = ''ProtoOAExpectedMarginReq''"
| "unread_name Unread_ProtoOAExpectedMarginRes = ''ProtoOAExpectedMarginRes''"
| "unread_name Unread_ProtoOACashFlowHistoryListReq = ''ProtoOACashFlowHistoryListReq''"
| "unread_name Unread_ProtoOACashFlowHistoryListRes = ''ProtoOACashFlowHistoryListRes''"
| "unread_name Unread_ProtoOAGetCtidProfileByTokenReq = ''ProtoOAGetCtidProfileByTokenReq''"
| "unread_name Unread_ProtoOAGetCtidProfileByTokenRes = ''ProtoOAGetCtidProfileByTokenRes''"
| "unread_name Unread_ProtoOAAssetClassListReq = ''ProtoOAAssetClassListReq''"
| "unread_name Unread_ProtoOAAssetClassListRes = ''ProtoOAAssetClassListRes''"
| "unread_name Unread_ProtoOASymbolCategoryListReq = ''ProtoOASymbolCategoryListReq''"
| "unread_name Unread_ProtoOASymbolCategoryListRes = ''ProtoOASymbolCategoryListRes''"
| "unread_name Unread_ProtoOAAccountLogoutReq = ''ProtoOAAccountLogoutReq''"
| "unread_name Unread_ProtoOAAccountLogoutRes = ''ProtoOAAccountLogoutRes''"
| "unread_name Unread_ProtoOAMarginCallListReq = ''ProtoOAMarginCallListReq''"
| "unread_name Unread_ProtoOAMarginCallListRes = ''ProtoOAMarginCallListRes''"
| "unread_name Unread_ProtoOAMarginCallUpdateReq = ''ProtoOAMarginCallUpdateReq''"
| "unread_name Unread_ProtoOAMarginCallUpdateRes = ''ProtoOAMarginCallUpdateRes''"
| "unread_name Unread_ProtoOAMarginCallUpdateEvent = ''ProtoOAMarginCallUpdateEvent''"
| "unread_name Unread_ProtoOAGetDynamicLeverageByIDReq = ''ProtoOAGetDynamicLeverageByIDReq''"
| "unread_name Unread_ProtoOAGetDynamicLeverageByIDRes = ''ProtoOAGetDynamicLeverageByIDRes''"
| "unread_name Unread_ProtoOAOrderDetailsReq = ''ProtoOAOrderDetailsReq''"
| "unread_name Unread_ProtoOAOrderDetailsRes = ''ProtoOAOrderDetailsRes''"
| "unread_name Unread_ProtoOAOrderListByPositionIdReq = ''ProtoOAOrderListByPositionIdReq''"
| "unread_name Unread_ProtoOAOrderListByPositionIdRes = ''ProtoOAOrderListByPositionIdRes''"
| "unread_name Unread_ProtoOADealOffsetListReq = ''ProtoOADealOffsetListReq''"
| "unread_name Unread_ProtoOADealOffsetListRes = ''ProtoOADealOffsetListRes''"

primrec class_name :: "message_class \<Rightarrow> string" where
  "class_name (ClsRequest c) = request_name c"
| "class_name (ClsReply c) = reply_name c"
| "class_name (ClsPush c) = push_name c"
| "class_name (ClsUnread c) = unread_name c"
| "class_name (ClsUnregistered n) = n"

end
