(* ===== verification/Framing.thy ===== *)
theory Framing
  imports Exceptions
begin

text \<open>
  The wire framing of \<open>_internal/serialization.py\<close>: a message is sent as its serialized
  bytes behind a 4-byte big-endian length, and read back from a byte stream that hands
  out data in pieces of its own choosing. The serializer (betterproto) and the stream
  (anyio) are parameters: \<open>ser\<close> gives the bytes of a message, \<open>receive s n\<close> is
  \<open>await stream.receive(n)\<close> on a stream in state \<open>s\<close>.
\<close>

definition LENGTH_PREFIX_SIZE :: int where "LENGTH_PREFIX_SIZE = 4"
definition MAX_MESSAGE_SIZE :: int where "MAX_MESSAGE_SIZE = 1024 * 1024"

subsection \<open>\<open>struct\<close> with the format \<open>">I"\<close>\<close>

definition struct_pack_I :: "int \<Rightarrow> bytes res" where
  "struct_pack_I n =
     (if 0 \<le> n \<and> n < 2 ^ 32
      then Inr [word_of_int (n div 2 ^ 24), word_of_int (n div 2 ^ 16 mod 2 ^ 8),
                word_of_int (n div 2 ^ 8 mod 2 ^ 8), word_of_int (n mod 2 ^ 8)]
      else Inl StructError)"

fun struct_unpack_I :: "bytes \<Rightarrow> int res" where
  "struct_unpack_I [a, b, c, d] =
     Inr (uint a * 2 ^ 24 + uint b * 2 ^ 16 + uint c * 2 ^ 8 + uint d)"
| "struct_unpack_I _ = Inl StructError"

subsection \<open>Writing\<close>

definition encode_with_length_prefix :: "('m \<Rightarrow> bytes) \<Rightarrow> 'm \<Rightarrow> bytes res" where
  "encode_with_length_prefix ser message =
     (let payload = ser message in
      bind_res (struct_pack_I (int (length payload)))
        (\<lambda>length_prefix. Inr (length_prefix @ payload)))"

subsection \<open>Reading\<close>

type_synonym 's receive = "'s \<Rightarrow> int \<Rightarrow> bytes res \<times> 's"

text \<open>
  The loop of \<open>read_exact\<close>, with \<open>bytes_remaining\<close> an unbounded Python integer. It ends
  for every stream: a piece that is not empty lowers \<open>bytes_remaining\<close>.
\<close>

function read_exact_loop :: "'s receive \<Rightarrow> int \<Rightarrow> int \<Rightarrow> bytes list \<Rightarrow> 's \<Rightarrow> bytes res \<times> 's" where
  "read_exact_loop receive num_bytes remaining chunks s =
     (if 0 < remaining then
        (case receive s remaining of
           (Inl e, s') \<Rightarrow> (Inl e, s')
         | (Inr chunk, s') \<Rightarrow>
             if chunk = [] then (Inl (FramingError num_bytes (num_bytes - remaining)), s')
             else read_exact_loop receive num_bytes (remaining - int (length chunk)) (chunks @ [chunk]) s')
      else (Inr (concat chunks), s))"
  by pat_completeness auto
termination
  by (relation "measure (\<lambda>(receive, num_bytes, remaining, chunks, s). nat remaining)") auto

declare read_exact_loop.simps [simp del]

definition read_exact :: "'s receive \<Rightarrow> 's \<Rightarrow> int \<Rightarrow> bytes res \<times> 's" where
  "read_exact receive s num_bytes = read_exact_loop receive num_bytes num_bytes [] s"

definition read_framed_message :: "'s receive \<Rightarrow> 's \<Rightarrow> bytes res \<times> 's" where
  "read_framed_message receive s =
     (case read_exact receive s LENGTH_PREFIX_SIZE of
        (Inl e, s1) \<Rightarrow> (Inl e, s1)
      | (Inr length_bytes, s1) \<Rightarrow>
          (case struct_unpack_I length_bytes of
             Inl e \<Rightarrow> (Inl e, s1)
           | Inr len \<Rightarrow>
               if len > MAX_MESSAGE_SIZE then (Inl (FramingError MAX_MESSAGE_SIZE len), s1)
               else read_exact receive s1 len))"

text \<open>Reading \<open>n\<close> messages in a row, as the reader loop does.\<close>

fun read_messages :: "'s receive \<Rightarrow> nat \<Rightarrow> 's \<Rightarrow> bytes list res \<times> 's" where
  "read_messages receive 0 s = (Inr [], s)"
| "read_messages receive (Suc n) s =
     (case read_framed_message receive s of
        (Inl e, s1) \<Rightarrow> (Inl e, s1)
      | (Inr p, s1) \<Rightarrow>
          (case read_messages receive n s1 of
             (Inl e, s2) \<Rightarrow> (Inl e, s2)
           | (Inr ps, s2) \<Rightarrow> (Inr (p # ps), s2)))"

subsection \<open>What the stream promises\<close>

text \<open>
  The documented contract of a byte stream that will deliver \<open>content s\<close> and then end:
  \<open>receive\<close> with a positive bound returns between one byte and that many, from the front
  of what is left; with nothing left it signals the end, by an exception or by an empty
  result.
\<close>

definition stream_law :: "'s receive \<Rightarrow> ('s \<Rightarrow> bytes) \<Rightarrow> bool" where
  "stream_law receive content \<longleftrightarrow>
     (\<forall>s n. 0 < n \<longrightarrow>
        (if content s = []
         then (\<exists>s'. (receive s n = (Inl EndOfStream, s') \<or> receive s n = (Inr [], s')) \<and> content s' = [])
         else (\<exists>chunk s'. receive s n = (Inr chunk, s') \<and> chunk \<noteq> [] \<and> int (length chunk) \<le> n \<and>
                 content s = chunk @ content s')))"

text \<open>
  A stream that satisfies it: the pieces the network delivered, in order, of which
  \<open>receive\<close> hands out at most \<open>n\<close> bytes of the first.
\<close>

fun net_receive :: "bytes list receive" where
  "net_receive [] n = (Inl EndOfStream, [])"
| "net_receive (c # cs) n =
     (if c = [] then net_receive cs n
      else if int (length c) \<le> n then (Inr c, cs)
      else (Inr (take (nat n) c), drop (nat n) c # cs))"

subsection \<open>Lemmas\<close>

lemma struct_pack_I_length: "struct_pack_I n = Inr p \<Longrightarrow> length p = 4"
  by (auto simp: struct_pack_I_def split: if_splits)

lemma uint_byte: "uint (word_of_int k :: byte) = k mod 256"
  by (simp add: uint_word_of_int)

lemma be32_digits:
  fixes n :: int
  assumes "0 \<le> n" "n < 4294967296"
  shows "n div 16777216 mod 256 * 16777216 + n div 65536 mod 256 * 65536
    + n div 256 mod 256 * 256 + n mod 256 = n"
proof -
  have "n div 16777216 mod 256 = n div 16777216"
    using assms by (intro mod_pos_pos_trivial) auto
  moreover have "n div 65536 = 256 * (n div 16777216) + n div 65536 mod 256"
    using mult_div_mod_eq [of 256 "n div 65536"] zdiv_zmult2_eq [of 256 n 65536] by simp
  moreover have "n div 256 = 256 * (n div 65536) + n div 256 mod 256"
    using mult_div_mod_eq [of 256 "n div 256"] zdiv_zmult2_eq [of 256 n 256] by simp
  moreover have "n = 256 * (n div 256) + n mod 256"
    by simp
  ultimately show ?thesis by linarith
qed

lemma struct_unpack_pack:
  assumes "struct_pack_I n = Inr p"
  shows "struct_unpack_I p = Inr n"
proof -
  from assms have n: "0 \<le> n" "n < 4294967296"
    and p: "p = [word_of_int (n div 16777216), word_of_int (n div 65536 mod 256),
                word_of_int (n div 256 mod 256), word_of_int (n mod 256)]"
    by (auto simp: struct_pack_I_def split: if_splits)
  have "struct_unpack_I p = Inr (n div 16777216 mod 256 * 16777216 + n div 65536 mod 256 * 65536
    + n div 256 mod 256 * 256 + n mod 256)"
    unfolding p struct_unpack_I.simps uint_byte by simp
  then show ?thesis by (simp only: be32_digits [OF n])
qed

lemma struct_unpack_I_range: "struct_unpack_I p = Inr n \<Longrightarrow> 0 \<le> n \<and> n < 2 ^ 32"
proof (cases p rule: struct_unpack_I.cases)
  case (1 a b c d)
  moreover assume "struct_unpack_I p = Inr n"
  moreover have "uint x < 256" for x :: byte
    using uint_lt2p [of x] by simp
  then have "uint a < 256" "uint b < 256" "uint c < 256" "uint d < 256" by blast+
  ultimately show ?thesis by auto
qed simp_all

text \<open>
  The loop returns exactly what is asked for when the stream holds it, whatever the
  pieces; and when the stream holds less, it ends in an error that counts what came.
\<close>

lemma stream_law_step:
  assumes "stream_law receive content" "content s \<noteq> []" "0 < n"
  obtains chunk s' where "receive s n = (Inr chunk, s')" "chunk \<noteq> []"
    "int (length chunk) \<le> n" "content s = chunk @ content s'"
  using assms(1) [unfolded stream_law_def, rule_format, of n s] assms(2,3) by auto

lemma stream_law_end:
  assumes "stream_law receive content" "content s = []" "0 < n"
  obtains s' where "receive s n = (Inl EndOfStream, s') \<or> receive s n = (Inr [], s')" "content s' = []"
  using assms(1) [unfolded stream_law_def, rule_format, of n s] assms(2,3) by auto

lemma read_exact_loop_steps:
  "remaining \<le> 0 \<Longrightarrow> read_exact_loop receive num remaining chunks s = (Inr (concat chunks), s)"
  "0 < remaining \<Longrightarrow> receive s remaining = (Inl e, s') \<Longrightarrow>
    read_exact_loop receive num remaining chunks s = (Inl e, s')"
  "0 < remaining \<Longrightarrow> receive s remaining = (Inr [], s') \<Longrightarrow>
    read_exact_loop receive num remaining chunks s = (Inl (FramingError num (num - remaining)), s')"
  "0 < remaining \<Longrightarrow> receive s remaining = (Inr chunk, s') \<Longrightarrow> chunk \<noteq> [] \<Longrightarrow>
    read_exact_loop receive num remaining chunks s =
      read_exact_loop receive num (remaining - int (length chunk)) (chunks @ [chunk]) s'"
  by (simp_all add: read_exact_loop.simps [of receive num remaining chunks s])

lemma read_exact_loop_delivers:
  assumes law: "stream_law receive content"
  shows "content s = data @ rest \<Longrightarrow> int (length data) = remaining \<Longrightarrow>
    \<exists>s'. read_exact_loop receive num remaining chunks s = (Inr (concat chunks @ data), s') \<and> content s' = rest"
proof (induction "length data" arbitrary: data remaining chunks s rule: less_induct)
  case less
  show ?case
  proof (cases "data = []")
    case True
    with less.prems show ?thesis by (simp add: read_exact_loop_steps(1))
  next
    case False
    with less.prems have "content s \<noteq> []" "0 < remaining" by auto
    from stream_law_step [OF law this] obtain chunk s' where
      step: "receive s remaining = (Inr chunk, s')" "chunk \<noteq> []" "int (length chunk) \<le> remaining"
        "content s = chunk @ content s'" .
    with less.prems obtain data' where data': "data = chunk @ data'" "content s' = data' @ rest"
      by (auto simp: append_eq_append_conv2)
    with step(2) less.prems(2) have "length data' < length data"
      "int (length data') = remaining - int (length chunk)" by auto
    from less.hyps [OF this(1) data'(2) this(2), of "chunks @ [chunk]"] data'(1)
    show ?thesis
      unfolding read_exact_loop_steps(4) [where receive = receive, OF \<open>0 < remaining\<close> step(1,2)] by simp
  qed
qed

lemma read_exact_delivers:
  assumes "stream_law receive content" "content s = data @ rest"
  shows "\<exists>s'. read_exact receive s (int (length data)) = (Inr data, s') \<and> content s' = rest"
  using read_exact_loop_delivers [OF assms refl, of "int (length data)" "[]"]
  by (simp add: read_exact_def)

lemma read_exact_loop_truncated:
  assumes law: "stream_law receive content"
  shows "int (length (content s)) < remaining \<Longrightarrow>
    \<exists>s'. (read_exact_loop receive num remaining chunks s = (Inl EndOfStream, s') \<or>
         read_exact_loop receive num remaining chunks s =
           (Inl (FramingError num (num - remaining + int (length (content s)))), s')) \<and> content s' = []"
proof (induction "length (content s)" arbitrary: remaining chunks s rule: less_induct)
  case less
  then have pos: "0 < remaining" by linarith
  show ?case
  proof (cases "content s = []")
    case True
    from stream_law_end [OF law this pos] obtain s' where
      "receive s remaining = (Inl EndOfStream, s') \<or> receive s remaining = (Inr [], s')" "content s' = []" .
    with pos True show ?thesis by (auto simp: read_exact_loop_steps(2,3))
  next
    case False
    from stream_law_step [OF law this pos] obtain chunk s' where
      step: "receive s remaining = (Inr chunk, s')" "chunk \<noteq> []" "content s = chunk @ content s'" .
    with less.prems have "length (content s') < length (content s)"
      "int (length (content s')) < remaining - int (length chunk)" by auto
    from less.hyps [OF this, of "chunks @ [chunk]"] step(3)
    show ?thesis
      unfolding read_exact_loop_steps(4) [where receive = receive, OF pos step(1,2)] by (simp add: algebra_simps)
  qed
qed

lemma read_exact_truncated:
  assumes "stream_law receive content" "int (length (content s)) < n"
  shows "\<exists>s'. (read_exact receive s n = (Inl EndOfStream, s') \<or>
    read_exact receive s n = (Inl (FramingError n (int (length (content s)))), s')) \<and> content s' = []"
  using read_exact_loop_truncated [OF assms, of n "[]"] by (simp add: read_exact_def)

lemma net_receive_law: "stream_law net_receive concat"
proof -
  have "if concat cs = [] then net_receive cs n = (Inl EndOfStream, [])
    else (\<exists>chunk cs'. net_receive cs n = (Inr chunk, cs') \<and> chunk \<noteq> [] \<and> int (length chunk) \<le> n \<and>
      concat cs = chunk @ concat cs')" if "0 < n" for cs :: "bytes list" and n
  proof (induction cs)
    case (Cons c cs)
    then show ?case using that by (auto simp del: append_assoc simp: append_assoc [symmetric])
  qed simp
  then show ?thesis unfolding stream_law_def by (metis concat.simps(1))
qed

text \<open>A prefix announcing \<open>len\<close> bytes in front of \<open>rest\<close>, read up to the size check.\<close>

lemma read_framed_prefix:
  assumes "stream_law receive content" "content s = prefix @ rest" "struct_pack_I len = Inr prefix"
  shows "\<exists>s1. content s1 = rest \<and> read_framed_message receive s =
    (if len > MAX_MESSAGE_SIZE then (Inl (FramingError MAX_MESSAGE_SIZE len), s1)
     else read_exact receive s1 len)"
proof -
  have "int (length prefix) = LENGTH_PREFIX_SIZE"
    using struct_pack_I_length [OF assms(3)] by (simp add: LENGTH_PREFIX_SIZE_def)
  with read_exact_delivers [OF assms(1,2)] obtain s1
    where "read_exact receive s LENGTH_PREFIX_SIZE = (Inr prefix, s1)" "content s1 = rest" by auto
  then show ?thesis
    using struct_unpack_pack [OF assms(3)] by (auto simp: read_framed_message_def)
qed

lemma encode_conv:
  "encode_with_length_prefix ser m = Inr frame \<longleftrightarrow>
     (\<exists>prefix. struct_pack_I (int (length (ser m))) = Inr prefix \<and> frame = prefix @ ser m)"
  by (auto simp: encode_with_length_prefix_def Let_def bind_res_Inr_conv)

lemma encode_read_one:
  assumes "stream_law receive content" "encode_with_length_prefix ser m = Inr frame"
    "int (length (ser m)) \<le> MAX_MESSAGE_SIZE" "content s = frame @ rest"
  shows "\<exists>s'. read_framed_message receive s = (Inr (ser m), s') \<and> content s' = rest"
proof -
  from assms(2) obtain prefix where p: "struct_pack_I (int (length (ser m))) = Inr prefix"
    "frame = prefix @ ser m" by (auto simp: encode_conv)
  with assms(4) have "content s = prefix @ (ser m @ rest)" by simp
  from read_framed_prefix [OF assms(1) this p(1)] obtain s1 where
    "content s1 = ser m @ rest" "read_framed_message receive s = read_exact receive s1 (int (length (ser m)))"
    using assms(3) by auto
  with read_exact_delivers [OF assms(1) this(1)] show ?thesis by simp
qed

subsection \<open>Properties\<close>

text \<open>
  C3: framing round trip. However the network cuts the bytes into pieces, a run of
  encoded messages that respect the size limit is read back message by message, in
  order, and the stream is left exactly behind the last frame.
\<close>

theorem framing_roundtrip:
  assumes "stream_law receive content"
    and "list_all2 (\<lambda>m frame. encode_with_length_prefix ser m = Inr frame) ms frames"
    and "\<forall>m \<in> set ms. int (length (ser m)) \<le> MAX_MESSAGE_SIZE"
    and "content s = concat frames @ rest"
  shows "\<exists>s'. read_messages receive (length ms) s = (Inr (map ser ms), s') \<and> content s' = rest"
  using assms(2-4)
proof (induction ms frames arbitrary: s rule: list_all2_induct)
  case (Cons m ms frame frames)
  from encode_read_one [OF assms(1) Cons.hyps(1), of s "concat frames @ rest"] Cons.prems
  obtain s1 where "read_framed_message receive s = (Inr (ser m), s1)" "content s1 = concat frames @ rest"
    by auto
  with Cons.IH [of s1] Cons.prems show ?case by auto
qed simp

theorem framing_roundtrip_witness:
  "\<exists>s'. read_messages net_receive 2 [[0, 0], [0, 1, 7, 0, 0], [0, 2, 8], [9, 5]] = (Inr [[7], [8, 9]], s') \<and>
     concat s' = [5]"
  using framing_roundtrip [of net_receive concat "\<lambda>m. m" "[[7], [8, 9]]" "[[0, 0, 0, 1, 7], [0, 0, 0, 2, 8, 9]]"
      "[[0, 0], [0, 1, 7, 0, 0], [0, 2, 8], [9, 5]]" "[5]"]
  by (simp add: net_receive_law encode_with_length_prefix_def struct_pack_I_def MAX_MESSAGE_SIZE_def numeral_2_eq_2)

text \<open>
  The memory guard. A prefix that announces more than the limit is refused before a
  single byte of the payload is requested: the stream stands right behind the prefix, and
  the error carries the limit and the announced size.
\<close>

theorem oversize_refused:
  assumes "stream_law receive content" "struct_pack_I len = Inr prefix"
    "content s = prefix @ rest" "len > MAX_MESSAGE_SIZE"
  shows "\<exists>s'. read_framed_message receive s = (Inl (FramingError MAX_MESSAGE_SIZE len), s') \<and>
    content s' = rest"
  using read_framed_prefix [OF assms(1,3,2)] assms(4) by auto

theorem oversize_refused_witness:
  "\<exists>s'. read_framed_message net_receive [[0], [16, 0, 1, 3]] =
     (Inl (FramingError MAX_MESSAGE_SIZE 1048577), s') \<and> concat s' = [3]"
  using oversize_refused [of net_receive concat 1048577 "[0, 16, 0, 1]" "[[0], [16, 0, 1, 3]]" "[3]"]
  by (simp add: net_receive_law struct_pack_I_def MAX_MESSAGE_SIZE_def)

text \<open>
  A stream that ends inside a payload never yields a message: the read fails with
  the stream's end-of-stream exception or with a \<open>FramingError\<close> that names the announced
  size and how many payload bytes had come.
\<close>

theorem truncated_payload_fails:
  assumes "stream_law receive content" "struct_pack_I len = Inr prefix"
    "content s = prefix @ part" "int (length part) < len"
  shows "\<exists>s' e. read_framed_message receive s = (Inl e, s') \<and>
    (e = EndOfStream \<or> e = FramingError len (int (length part)) \<or>
     len > MAX_MESSAGE_SIZE \<and> e = FramingError MAX_MESSAGE_SIZE len)"
proof -
  from read_framed_prefix [OF assms(1,3,2)] obtain s1 where s1: "content s1 = part"
    "read_framed_message receive s =
      (if len > MAX_MESSAGE_SIZE then (Inl (FramingError MAX_MESSAGE_SIZE len), s1)
       else read_exact receive s1 len)" by blast
  with read_exact_truncated [OF assms(1), of s1 len] assms(4) show ?thesis by auto
qed

theorem truncated_payload_fails_witness:
  "\<exists>s' e. read_framed_message net_receive [[0, 0, 0, 3], [1, 2]] = (Inl e, s') \<and>
    (e = EndOfStream \<or> e = FramingError 3 2 \<or> 3 > MAX_MESSAGE_SIZE \<and> e = FramingError MAX_MESSAGE_SIZE 3)"
  using truncated_payload_fails [of net_receive concat 3 "[0, 0, 0, 3]" "[[0, 0, 0, 3], [1, 2]]" "[1, 2]"]
  by (simp add: net_receive_law struct_pack_I_def)

end
