(* ===== verification/Messages.thy ===== *)
theory Messages
  imports Proto_Types Framing
begin

text \<open>
  \<open>_internal/messages.py\<close>: the registry that ties payload types to message classes, its
  inverse, the generator of correlation ids, and wrapping a message into its envelope and
  back. The protobuf codec (betterproto) is a parameter: \<open>ser\<close> and \<open>parse\<close> are
  \<open>bytes(message)\<close> and \<open>cls().parse(data)\<close> of an inner message, \<open>ser_env\<close> and \<open>parse_env\<close>
  those of the envelope.
\<close>

definition payload_type_to_class :: "(int, message_class) dict" where
  "payload_type_to_class =
     [(50, ClsReply Cls_ProtoErrorRes),
      (51, ClsPush Cls_ProtoHeartbeatEvent),
      (2100, ClsRequest Cls_ProtoOAApplicationAuthReq),
      (2101, ClsReply Cls_ProtoOAApplicationAuthRes),
      (2102, ClsRequest Cls_ProtoOAAccountAuthReq),
      (2103, ClsReply Cls_ProtoOAAccountAuthRes),
      (2104, ClsUnread Unread_ProtoOAVersionReq),
      (2105, ClsUnread Unread_ProtoOAVersionRes),
      (2106, ClsRequest Cls_ProtoOANewOrderReq),
      (2107, ClsPush Cls_ProtoOATrailingSLChangedEvent),
      (2108, ClsRequest Cls_ProtoOACancelOrderReq),
      (2109, ClsRequest Cls_ProtoOAAmendOrderReq),
      (2110, ClsRequest Cls_ProtoOAAmendPositionSLTPReq),
      (2111, ClsRequest Cls_ProtoOAClosePositionReq),
      (2112, ClsUnread Unread_ProtoOAAssetListReq),
      (2113, ClsUnread Unread_ProtoOAAssetListRes),
      (2114, ClsRequest Cls_ProtoOASymbolsListReq),
      (2115, ClsReply Cls_ProtoOASymbolsListRes),
      (2116, ClsRequest Cls_ProtoOASymbolByIdReq),
      (2117, ClsReply Cls_ProtoOASymbolByIdRes),
      (2118, ClsUnread Unread_ProtoOASymbolsForConversionReq),
      (2119, ClsUnread Unread_ProtoOASymbolsForConversionRes),
      (2120, ClsPush Cls_ProtoOASymbolChangedEvent),
      (2121, ClsRequest Cls_ProtoOATraderReq),
      (2122, ClsReply Cls_ProtoOATraderRes),
      (2123, ClsPush Cls_ProtoOATraderUpdatedEvent),
      (2124, ClsRequest Cls_ProtoOAReconcileReq),
      (2125, ClsReply Cls_ProtoOAReconcileRes),
      (2126, ClsPush Cls_ProtoOAExecutionEvent),
      (2127, ClsRequest Cls_ProtoOASubscribeSpotsReq),
      (2128, ClsReply Cls_ProtoOASubscribeSpotsRes),
      (2129, ClsRequest Cls_ProtoOAUnsubscribeSpotsReq),
      (2130, ClsReply Cls_ProtoOAUnsubscribeSpotsRes),
      (2131, ClsPush Cls_ProtoOASpotEvent),
      (2132, ClsPush Cls_ProtoOAOrderErrorEvent),
      (2133, ClsRequest Cls_ProtoOADealListReq),
      (2134, ClsReply Cls_ProtoOADealListRes),
      (2135, ClsRequest Cls_ProtoOASubscribeLiveTrendbarReq),
      (2136, ClsRequest Cls_ProtoOAUnsubscribeLiveTrendbarReq),
      (2137, ClsRequest Cls_ProtoOAGetTrendbarsReq),
      (2138, ClsReply Cls_ProtoOAGetTrendbarsRes),
      (2139, ClsUnread Unread_ProtoOAExpectedMarginReq),
      (2140, ClsUnread Unread_ProtoOAExpectedMarginRes),
      (2141, ClsPush Cls_ProtoOAMarginChangedEvent),
      (2142, ClsReply Cls_ProtoOAErrorRes),
      (2143, ClsUnread Unread_ProtoOACashFlowHistoryListReq),
      (2144, ClsUnread Unread_ProtoOACashFlowHistoryListRes),
      (2145, ClsRequest Cls_ProtoOAGetTickDataReq),
      (2146, ClsReply Cls_ProtoOAGetTickDataRes),
      (2147, ClsPush Cls_ProtoOAAccountsTokenInvalidatedEvent),
      (2148, ClsPush Cls_ProtoOAClientDisconnectEvent),
      (2149, ClsRequest Cls_ProtoOAGetAccountListByAccessTokenReq),
      (2150, ClsReply Cls_ProtoOAGetAccountListByAccessTokenRes),
      (2151, ClsUnread Unread_ProtoOAGetCtidProfileByTokenReq),
      (2152, ClsUnread Unread_ProtoOAGetCtidProfileByTokenRes),
      (2153, ClsUnread Unread_ProtoOAAssetClassListReq),
      (2154, ClsUnread Unread_ProtoOAAssetClassListRes),
      (2155, ClsPush Cls_ProtoOADepthEvent),
      (2156, ClsRequest Cls_ProtoOASubscribeDepthQuotesReq),
      (2157, ClsReply Cls_ProtoOASubscribeDepthQuotesRes),
      (2158, ClsRequest Cls_ProtoOAUnsubscribeDepthQuotesReq),
      (2159, ClsReply Cls_ProtoOAUnsubscribeDepthQuotesRes),
      (2160, ClsUnread Unread_ProtoOASymbolCategoryListReq),
      (2161, ClsUnread Unread_ProtoOASymbolCategoryListRes),
      (2162, ClsUnread Unread_ProtoOAAccountLogoutReq),
      (2163, ClsUnread Unread_ProtoOAAccountLogoutRes),
      (2164, ClsPush Cls_ProtoOAAccountDisconnectEvent),
      (2165, ClsReply Cls_ProtoOASubscribeLiveTrendbarRes),
      (2166, ClsReply Cls_ProtoOAUnsubscribeLiveTrendbarRes),
      (2167, ClsUnread Unread_ProtoOAMarginCallListReq),
      (2168, ClsUnread Unread_ProtoOAMarginCallListRes),
      (2169, ClsUnread Unread_ProtoOAMarginCallUpdateReq),
      (2170, ClsUnread Unread_ProtoOAMarginCallUpdateRes),
      (2171, ClsUnread Unread_ProtoOAMarginCallUpdateEvent),
      (2172, ClsPush Cls_ProtoOAMarginCallTriggerEvent),
      (2173, ClsRequest Cls_ProtoOARefreshTokenReq),
      (2174, ClsReply Cls_ProtoOARefreshTokenRes),
      (2175, ClsRequest Cls_ProtoOAOrderListReq),
      (2176, ClsReply Cls_ProtoOAOrderListRes),
      (2177, ClsUnread Unread_ProtoOAGetDynamicLeverageByIDReq),
      (2178, ClsUnread Unread_ProtoOAGetDynamicLeverageByIDRes),
      (2179, ClsRequest Cls_ProtoOADealListByPositionIdReq),
      (2180, ClsReply Cls_ProtoOADealListByPositionIdRes),
      (2181, ClsUnread Unread_ProtoOAOrderDetailsReq),
      (2182, ClsUnread Unread_ProtoOAOrderDetailsRes),
      (2183, ClsUnread Unread_ProtoOAOrderListByPositionIdReq),
      (2184, ClsUnread Unread_ProtoOAOrderListByPositionIdRes),
      (2185, ClsUnread Unread_ProtoOADealOffsetListReq),
      (2186, ClsUnread Unread_ProtoOADealOffsetListRes),
      (2187, ClsRequest Cls_ProtoOAGetPositionUnrealizedPnLReq),
      (2188, ClsReply Cls_ProtoOAGetPositionUnrealizedPnLRes)]"

text \<open>The comprehension \<open>{cls: payload_type for payload_type, cls in ...items()}\<close>.\<close>

definition class_to_payload_type :: "(message_class, int) dict" where
  "class_to_payload_type = foldl (\<lambda>d (pt, cls). dict_set cls pt d) [] payload_type_to_class"

definition get_class :: "int \<Rightarrow> message_class option" where
  "get_class payload_type = dict_get payload_type_to_class payload_type"

definition get_payload_type :: "message_class \<Rightarrow> int option" where
  "get_payload_type cls = dict_get class_to_payload_type cls"

subsection \<open>Correlation ids\<close>

text \<open>\<open>ClientMessageIdGenerator\<close>: its state is the counter; the lock makes a call atomic.\<close>

definition next_id :: "nat \<Rightarrow> string \<times> nat" where
  "next_id counter = (let counter' = counter + 1 in (nat_str counter', counter'))"

text \<open>The ids handed out by \<open>n\<close> calls in a row.\<close>

primrec next_ids :: "nat \<Rightarrow> nat \<Rightarrow> string list" where
  "next_ids 0 counter = []"
| "next_ids (Suc n) counter = (let (i, counter') = next_id counter in i # next_ids n counter')"

subsection \<open>Wrapping\<close>

definition wrap_message :: "(message \<Rightarrow> bytes) \<Rightarrow> message \<Rightarrow> string option \<Rightarrow> proto_message res" where
  "wrap_message ser inner client_msg_id =
     (case get_payload_type (msg_class inner) of
        None \<Rightarrow> Inl (UnknownPayloadTypeError (- 1))
      | Some payload_type \<Rightarrow>
          Inr \<lparr>pm_payload_type = payload_type, pm_payload = ser inner,
               pm_client_msg_id = (case client_msg_id of None \<Rightarrow> [] | Some i \<Rightarrow> or_str i [])\<rparr>)"

definition unwrap_message :: "(message_class \<Rightarrow> bytes \<Rightarrow> message res) \<Rightarrow> proto_message \<Rightarrow> message res" where
  "unwrap_message parse proto_message =
     (case get_class (pm_payload_type proto_message) of
        None \<Rightarrow> Inl (UnknownPayloadTypeError (pm_payload_type proto_message))
      | Some cls \<Rightarrow>
          (case parse cls (pm_payload proto_message) of
             Inl e \<Rightarrow> Inl (DeserializationError (pm_payload_type proto_message) (pm_payload proto_message))
           | Inr inner \<Rightarrow> Inr inner))"

definition deserialize_proto_message :: "(bytes \<Rightarrow> proto_message res) \<Rightarrow> bytes \<Rightarrow> proto_message res" where
  "deserialize_proto_message parse_env data =
     (case parse_env data of Inl e \<Rightarrow> Inl (DeserializationError (- 1) data) | Inr pm \<Rightarrow> Inr pm)"

subsection \<open>Lemmas\<close>

lemma wf_payload_type_to_class: "wf_dict payload_type_to_class"
  unfolding wf_dict_def payload_type_to_class_def by simp

lemma distinct_registered_classes: "distinct (map snd payload_type_to_class)"
  unfolding payload_type_to_class_def by simp

lemma dict_get_comprehension:
  "distinct (map snd xs) \<Longrightarrow>
    dict_get (foldl (\<lambda>d (k, v). dict_set v k d) d0 xs) v =
      (case dict_get (map prod.swap xs) v of None \<Rightarrow> dict_get d0 v | Some k \<Rightarrow> Some k)"
proof (induction xs arbitrary: d0)
  case (Cons x xs)
  obtain a b where x: "x = (a, b)" by force
  from Cons.prems x have "b \<notin> snd ` set xs" "distinct (map snd xs)" by auto
  then have "dict_get (map prod.swap xs) b = None"
    by (force simp: map_of_eq_None_iff)
  with Cons.IH [OF \<open>distinct (map snd xs)\<close>, of "dict_set b a d0"] x show ?case
    by (auto simp: dict.get_assign split: option.splits)
qed simp

lemma dict_get_swap:
  assumes "distinct (map fst xs)" "distinct (map snd xs)"
  shows "dict_get (map prod.swap xs) v = Some k \<longleftrightarrow> dict_get xs k = Some v"
proof -
  have "map fst (map prod.swap xs) = map snd xs" by simp
  with assms have "distinct (map fst (map prod.swap xs))" by (simp only:)
  from map_of_eq_Some_iff [OF this] map_of_eq_Some_iff [OF assms(1)] show ?thesis by force
qed

lemma get_payload_type_iff: "get_payload_type cls = Some pt \<longleftrightarrow> get_class pt = Some cls"
  using dict_get_comprehension [OF distinct_registered_classes, of "[]" cls]
    dict_get_swap [OF wf_payload_type_to_class [unfolded wf_dict_def] distinct_registered_classes, of cls pt]
  by (auto simp: get_payload_type_def get_class_def class_to_payload_type_def split: option.splits)

lemma next_ids_conv: "next_ids n c = map (\<lambda>i. nat_str (c + i)) [1..<Suc n]"
proof (induction n arbitrary: c)
  case (Suc n)
  have "[1..<Suc (Suc n)] = 1 # map Suc [1..<Suc n]"
    by (subst upt_conv_Cons) (simp_all add: map_Suc_upt del: upt_Suc)
  with Suc [of "Suc c"] show ?case by (simp add: next_id_def Let_def comp_def del: upt_Suc)
qed simp

lemma next_id_nonempty [simp]: "fst (next_id c) \<noteq> []"
  by (simp add: next_id_def Let_def)

lemma wrap_message_conv:
  "wrap_message ser m cid = Inr env \<longleftrightarrow>
     get_class (pm_payload_type env) = Some (msg_class m) \<and> pm_payload env = ser m \<and>
     pm_client_msg_id env = (case cid of None \<Rightarrow> [] | Some i \<Rightarrow> i)"
proof -
  have "or_str i [] = i" for i :: string by (cases i) simp_all
  moreover have "proto_message.more env = ()" by simp
  ultimately show ?thesis
    by (cases env; auto simp: wrap_message_def get_payload_type_iff [symmetric] split: option.splits)
qed

lemma unwrap_wrap:
  assumes "wrap_message ser m cid = Inr env" "parse (msg_class m) (ser m) = Inr m"
  shows "unwrap_message parse env = Inr m"
  using assms by (simp add: wrap_message_conv unwrap_message_def)

subsection \<open>Properties\<close>

text \<open>
  The registry is a bijection between its 91 payload types and their classes, so
  inverting it loses nothing: looking a class up by payload type and a payload type up by
  class are inverse to each other, on exactly the registered ones.
\<close>

theorem registry_bijective:
  "(get_payload_type cls = Some pt \<longleftrightarrow> get_class pt = Some cls) \<and>
   length payload_type_to_class = 91 \<and>
   card (dom get_class) = 91 \<and> card (dom get_payload_type) = 91"
proof -
  have "dom get_payload_type = set (map snd payload_type_to_class)"
    by (force simp: dom_def get_payload_type_iff get_class_def
        map_of_eq_Some_iff [OF wf_payload_type_to_class [unfolded wf_dict_def]])
  moreover have "dom get_class = set (map fst payload_type_to_class)"
    by (simp add: get_class_def [abs_def] dom_map_of_conv_image_fst)
  moreover have "length payload_type_to_class = 91"
    by (simp add: payload_type_to_class_def)
  ultimately show ?thesis
    using distinct_card [OF distinct_registered_classes]
      distinct_card [OF wf_payload_type_to_class [unfolded wf_dict_def]]
    by (simp add: get_payload_type_iff)
qed

text \<open>
  Correlation ids never repeat and are never the empty id that marks an event: the
  ids of any number of calls are pairwise different, non-empty, and the decimal numerals
  of the counter's next values in order.
\<close>

theorem correlation_ids_unique:
  "distinct (next_ids n counter) \<and> [] \<notin> set (next_ids n counter) \<and>
   map parse_digits (next_ids n counter) = [counter + 1..<counter + 1 + n]"
proof -
  have "map parse_digits (next_ids n counter) = map ((+) counter) [1..<Suc n]"
    by (simp add: next_ids_conv comp_def del: upt_Suc)
  also have "\<dots> = [counter + 1..<counter + 1 + n]"
    by (rule nth_equalityI) (simp_all del: upt_Suc)
  finally show ?thesis
    by (auto simp: next_ids_conv distinct_map inj_on_def nat_str_nonempty [symmetric] simp del: upt_Suc nat_str_nonempty)
qed

text \<open>
  C11: what goes on the wire comes back. A message wrapped under a correlation id, framed,
  cut into pieces by the network and read by the other end is deserialized and unwrapped
  to the same message under the same id, and the stream stands behind its frame.
\<close>

theorem wire_roundtrip:
  assumes "stream_law receive content"
    and "wrap_message ser m (Some client_msg_id) = Inr env"
    and "encode_with_length_prefix ser_env env = Inr frame"
    and "int (length (ser_env env)) \<le> MAX_MESSAGE_SIZE"
    and "parse (msg_class m) (ser m) = Inr m" "parse_env (ser_env env) = Inr env"
    and "content s = frame @ rest"
  shows "\<exists>raw s'. read_framed_message receive s = (Inr raw, s') \<and> content s' = rest \<and>
    deserialize_proto_message parse_env raw = Inr env \<and> unwrap_message parse env = Inr m \<and>
    pm_client_msg_id env = client_msg_id"
  using encode_read_one [OF assms(1,3,4,7)] unwrap_wrap [where parse = parse, OF assms(2,5)] assms(2,6)
  by (auto simp: deserialize_proto_message_def wrap_message_conv)

theorem wire_roundtrip_witness:
  "let env = \<lparr>pm_payload_type = 2121, pm_payload = [8, 7], pm_client_msg_id = ''3''\<rparr>;
       m = Request (ProtoOATraderReq 7);
       parse = (\<lambda>c b. if b = [8, 7] then Inr m else Inl (OtherException ''bad wire type''));
       parse_env = (\<lambda>b. if b = [1, 2, 3] then Inr env else Inl (OtherException ''bad wire type''))
   in \<exists>raw s'. read_framed_message net_receive [[0, 0, 0], [3, 1], [2, 3, 9]] = (Inr raw, s') \<and> concat s' = [9] \<and>
        deserialize_proto_message parse_env raw = Inr env \<and> unwrap_message parse env = Inr m \<and>
        pm_client_msg_id env = ''3''"
  unfolding Let_def
  by (rule wire_roundtrip [where content = concat and ser = "\<lambda>_. [8, 7]" and ser_env = "\<lambda>_. [1, 2, 3]"
        and frame = "[0, 0, 0, 3, 1, 2, 3]"])
    (simp_all add: net_receive_law wrap_message_conv get_class_def payload_type_to_class_def
      encode_with_length_prefix_def struct_pack_I_def MAX_MESSAGE_SIZE_def)

text \<open>
  An unregistered payload type or an unparsable payload is an error that says which
  one it was, and a class outside the registry can not be sent.
\<close>

theorem message_errors:
  "(get_class (pm_payload_type pm) = None \<longrightarrow>
      unwrap_message parse pm = Inl (UnknownPayloadTypeError (pm_payload_type pm))) \<and>
   (get_class (pm_payload_type pm) = Some cls \<and> parse cls (pm_payload pm) = Inl e \<longrightarrow>
      unwrap_message parse pm = Inl (DeserializationError (pm_payload_type pm) (pm_payload pm))) \<and>
   wrap_message ser (UnregisteredMessage n b) cid = Inl (UnknownPayloadTypeError (- 1))"
proof -
  have "ClsUnregistered n \<notin> set (map snd payload_type_to_class)"
    by (simp add: payload_type_to_class_def)
  then have "get_payload_type (ClsUnregistered n) = None"
    by (metis get_payload_type_iff get_class_def map_of_SomeD in_set_zipE zip_map_fst_snd option.exhaust)
  then show ?thesis
    by (simp add: unwrap_message_def wrap_message_def)
qed

theorem message_errors_witness:
  "unwrap_message (\<lambda>c b. Inl EndOfStream) \<lparr>pm_payload_type = 9, pm_payload = [], pm_client_msg_id = []\<rparr> =
     Inl (UnknownPayloadTypeError 9) \<and>
   unwrap_message (\<lambda>c b. Inl EndOfStream) \<lparr>pm_payload_type = 50, pm_payload = [255], pm_client_msg_id = []\<rparr> =
     Inl (DeserializationError 50 [255])"
  using message_errors [of "\<lparr>pm_payload_type = 9, pm_payload = [], pm_client_msg_id = []\<rparr>" "\<lambda>c b. Inl EndOfStream"]
    message_errors [of "\<lparr>pm_payload_type = 50, pm_payload = [255], pm_client_msg_id = []\<rparr>" "\<lambda>c b. Inl EndOfStream"]
  by (simp add: get_class_def payload_type_to_class_def)

end
