(* ===== verification/Transport.thy ===== *)
theory Transport
  imports Messages
begin

text \<open>
  \<open>connection/transport.py\<close>: the TCP/TLS link. The stream objects are anyio's; what a call
  on one gives is an argument of the operation that makes it: \<open>dial timeout host port ssl\<close>
  is the outcome of \<open>connect_tcp\<close> inside \<open>fail_after(timeout)\<close>, \<open>aclose\<close> the exception a
  graceful close raises (\<open>None\<close> when it returns or its 5 seconds run out), \<open>stream_send\<close>
  and \<open>stream_receive\<close> the outcomes on an open stream.
\<close>

record 's transport =
  tp_host :: string
  tp_port :: int
  tp_ssl :: bool
  tp_connect_timeout :: rat
  tp_stream :: "'s option"

definition transport_init :: "string \<Rightarrow> int \<Rightarrow> bool \<Rightarrow> rat \<Rightarrow> 's transport" where
  "transport_init host port use_ssl connect_timeout =
     \<lparr>tp_host = host, tp_port = port, tp_ssl = use_ssl, tp_connect_timeout = connect_timeout, tp_stream = None\<rparr>"

definition transport_is_connected :: "'s transport \<Rightarrow> bool" where
  "transport_is_connected tp \<longleftrightarrow> tp_stream tp \<noteq> None"

definition transport_stream :: "'s transport \<Rightarrow> 's res" where
  "transport_stream tp = (case tp_stream tp of None \<Rightarrow> Inl (ClosedError ''Not connected'') | Some s \<Rightarrow> Inr s)"

definition transport_connect :: "(rat \<Rightarrow> string \<Rightarrow> int \<Rightarrow> bool \<Rightarrow> 's res) \<Rightarrow> 's transport \<Rightarrow> unit res \<times> 's transport" where
  "transport_connect dial tp =
     (case tp_stream tp of
        Some _ \<Rightarrow> (Inr (), tp)
      | None \<Rightarrow>
          (case dial (tp_connect_timeout tp) (tp_host tp) (tp_port tp) (tp_ssl tp) of
             Inl e \<Rightarrow> (Inl (CTraderConnectionFailedError (tp_host tp) (tp_port tp) (Some e)), tp)
           | Inr s \<Rightarrow> (Inr (), tp\<lparr>tp_stream := Some s\<rparr>)))"

text \<open>The reference is cleared before the stream is closed.\<close>

definition close_ignores :: "exn \<Rightarrow> bool" where
  "close_ignores e \<longleftrightarrow> is_os_error e \<or> e = ClosedResourceError \<or> e = BrokenResourceError"

definition transport_close :: "('s \<Rightarrow> exn option) \<Rightarrow> 's transport \<Rightarrow> unit res \<times> 's transport" where
  "transport_close aclose tp =
     (case tp_stream tp of
        None \<Rightarrow> (Inr (), tp)
      | Some s \<Rightarrow>
          (case aclose s of
             None \<Rightarrow> Inr ()
           | Some e \<Rightarrow> if close_ignores e then Inr () else Inl e,
           tp\<lparr>tp_stream := None\<rparr>))"

definition transport_send :: "('s \<Rightarrow> bytes \<Rightarrow> unit res) \<Rightarrow> 's transport \<Rightarrow> bytes \<Rightarrow> unit res" where
  "transport_send stream_send tp data =
     (case tp_stream tp of None \<Rightarrow> Inl (ClosedError ''Not connected'') | Some s \<Rightarrow> stream_send s data)"

definition transport_receive :: "('s \<Rightarrow> int \<Rightarrow> bytes res) \<Rightarrow> 's transport \<Rightarrow> int \<Rightarrow> bytes res" where
  "transport_receive stream_receive tp max_bytes =
     (case tp_stream tp of None \<Rightarrow> Inl (ClosedError ''Not connected'') | Some s \<Rightarrow> stream_receive s max_bytes)"

subsection \<open>Properties\<close>

text \<open>
  Connecting has two outcomes and no third: it returns with a usable stream, or it
  raises \<open>CTraderConnectionFailedError\<close> naming the endpoint, whatever went wrong underneath,
  and leaves the transport as it was. On a connected transport it does not dial again.
\<close>

theorem connect_two_outcomes:
  "case transport_connect dial tp of
     (Inr u, tp') \<Rightarrow> transport_is_connected tp' \<and>
       (if transport_is_connected tp then tp' = tp
        else \<exists>s. dial (tp_connect_timeout tp) (tp_host tp) (tp_port tp) (tp_ssl tp) = Inr s \<and>
               tp' = tp\<lparr>tp_stream := Some s\<rparr>)
   | (Inl e, tp') \<Rightarrow> tp' = tp \<and> \<not> transport_is_connected tp \<and>
       (\<exists>c. e = CTraderConnectionFailedError (tp_host tp) (tp_port tp) (Some c))"
  by (auto simp: transport_connect_def transport_is_connected_def split: option.splits sum.splits)

text \<open>
  Closing always leaves the transport disconnected, even when tearing the stream down
  fails, is idempotent, and after it nothing can be sent, received or read until the next
  connect: every attempt raises the closed-connection error and never touches the stream.
\<close>

theorem close_disconnects:
  "case transport_close aclose tp of (r, tp') \<Rightarrow>
     \<not> transport_is_connected tp' \<and>
     transport_close aclose' tp' = (Inr (), tp') \<and>
     (case r of Inr u \<Rightarrow> True | Inl e \<Rightarrow> \<not> close_ignores e) \<and>
     transport_send snd_op tp' data = Inl (ClosedError ''Not connected'') \<and>
     transport_receive rcv_op tp' n = Inl (ClosedError ''Not connected'') \<and>
     transport_stream tp' = Inl (ClosedError ''Not connected'')"
  by (auto simp: transport_close_def transport_is_connected_def transport_send_def
      transport_receive_def transport_stream_def split: option.splits)

end
