(* ===== verification/Protocol.thy ===== *)
theory Protocol
  imports Transport
begin

text \<open>
  \<open>connection/protocol.py\<close>, the operations of the \<open>Protocol\<close> class. Its attributes are the
  record \<open>protocol\<close>; a coroutine that suspends is split at its \<open>await\<close>s into segments, each
  a function on that record, because a segment runs without interruption on the event
  loop. Correlation ids are never reused, so the \<open>_PendingRequest\<close> object a waiting
  request holds is the dictionary entry under its id. Handlers are values of a type
  \<open>'h\<close> with equality. A cancel scope is the number of the reader that opened it.
\<close>

definition READ_ERROR_BACKOFF :: rat where "READ_ERROR_BACKOFF = 5 / 100"
definition MAX_CONSECUTIVE_READ_ERRORS :: nat where "MAX_CONSECUTIVE_READ_ERRORS = 10"

subsection \<open>State\<close>

record pending_request =
  pd_event :: bool
  pd_outcome :: "message res option"

text \<open>The classes of \<open>type(message).__mro__\<close>, under which handlers are registered.\<close>

datatype handler_key =
    KeyMessage message_class
  | KeyBetterprotoMessage
  | KeyABC
  | KeyObject

record 'h protocol =
  pr_counter :: nat
  pr_pending :: "(string, pending_request) dict"
  pr_event_handlers :: "(handler_key, 'h list) dict"
  pr_reader_scope :: "nat option"
  pr_task_group :: bool
  pr_running :: bool
  pr_reconnect_attempts :: "int option"
  pr_reconnect_min_wait :: rat
  pr_reconnect_max_wait :: rat
  pr_reconnecting :: bool
  pr_redo_requested :: bool
  pr_listener :: bool

definition protocol_init :: "int option \<Rightarrow> rat \<Rightarrow> rat \<Rightarrow> 'h protocol" where
  "protocol_init reconnect_attempts min_wait max_wait =
     \<lparr>pr_counter = 0, pr_pending = [], pr_event_handlers = [], pr_reader_scope = None,
      pr_task_group = False, pr_running = False, pr_reconnect_attempts = reconnect_attempts,
      pr_reconnect_min_wait = min_wait, pr_reconnect_max_wait = max_wait,
      pr_reconnecting = False, pr_redo_requested = False, pr_listener = False\<rparr>"

definition set_listener :: "'h protocol \<Rightarrow> 'h protocol" where
  "set_listener pr = pr\<lparr>pr_listener := True\<rparr>"

definition protocol_is_connected :: "'s transport \<Rightarrow> 'h protocol \<Rightarrow> bool" where
  "protocol_is_connected tp pr \<longleftrightarrow> transport_is_connected tp \<and> pr_running pr"

subsection \<open>Waking the callers\<close>

definition fail_pending :: "string \<Rightarrow> 'h protocol \<Rightarrow> 'h protocol" where
  "fail_pending reason pr =
     pr\<lparr>pr_pending := map (\<lambda>(i, p). (i, p\<lparr>pd_outcome := Some (Inl (ClosedError reason)), pd_event := True\<rparr>)) (pr_pending pr)\<rparr>"

subsection \<open>Serving and stopping\<close>

text \<open>\<open>serve\<close> up to the suspension in its task group (it also spawns a reader), and its \<open>finally\<close>.\<close>

definition serve_enter :: "'h protocol \<Rightarrow> unit res \<times> 'h protocol" where
  "serve_enter pr =
     (if pr_running pr then (Inl (RuntimeError ''Protocol is already running''), pr)
      else (Inr (), pr\<lparr>pr_running := True, pr_task_group := True\<rparr>))"

definition serve_exit :: "'h protocol \<Rightarrow> 'h protocol" where
  "serve_exit pr =
     fail_pending ''Connection closed''
       (pr\<lparr>pr_running := False, pr_task_group := False, pr_reader_scope := None\<rparr>)"

text \<open>\<open>stop\<close>: what it cancels is the scope of the reader and, if there is one, the task group.\<close>

definition stop_protocol :: "'h protocol \<Rightarrow> nat option \<times> bool \<times> 'h protocol" where
  "stop_protocol pr = (pr_reader_scope pr, pr_task_group pr, pr\<lparr>pr_running := False\<rparr>)"

subsection \<open>Requests\<close>

text \<open>
  \<open>send_request\<close> up to the registration of its slot; the write under the lock; and the
  rest, from the moment the wait is over: the write raised, the deadline passed, or the
  event was set.
\<close>

definition send_request_start ::
  "(message \<Rightarrow> bytes) \<Rightarrow> message \<Rightarrow> 'h protocol \<Rightarrow> (string \<times> proto_message) res \<times> 'h protocol" where
  "send_request_start ser message pr =
     (if \<not> pr_running pr then (Inl (ClosedError ''Protocol not running''), pr)
      else
        (let (msg_id, counter') = next_id (pr_counter pr);
             pr1 = pr\<lparr>pr_counter := counter'\<rparr>
         in case wrap_message ser message (Some msg_id) of
              Inl e \<Rightarrow> (Inl e, pr1)
            | Inr wrapped \<Rightarrow>
                (Inr (msg_id, wrapped),
                 pr1\<lparr>pr_pending := dict_set msg_id \<lparr>pd_event = False, pd_outcome = None\<rparr> (pr_pending pr1)\<rparr>)))"

definition write_message ::
  "(proto_message \<Rightarrow> bytes) \<Rightarrow> ('s \<Rightarrow> bytes \<Rightarrow> unit res) \<Rightarrow> 's transport \<Rightarrow> proto_message \<Rightarrow> unit res" where
  "write_message ser_env stream_send tp wrapped =
     bind_res (encode_with_length_prefix ser_env wrapped) (transport_send stream_send tp)"

datatype wait_end = WriteRaised exn | DeadlinePassed | EventSet

fun request_outcome :: "bool \<Rightarrow> pending_request option \<Rightarrow> wait_end \<Rightarrow> message res" where
  "request_outcome running slot (WriteRaised e) = Inl e"
| "request_outcome running slot DeadlinePassed = Inl TimeoutError"
| "request_outcome running slot EventSet =
     (if \<not> running then Inl (ClosedError ''Protocol stopped while waiting for response'')
      else case Option.bind slot pd_outcome of
             None \<Rightarrow> Inl (ClosedError ''Protocol stopped while waiting for response'')
           | Some (Inl e) \<Rightarrow> Inl e
           | Some (Inr m) \<Rightarrow> Inr m)"

definition send_request_finish ::
  "rat \<Rightarrow> string \<Rightarrow> wait_end \<Rightarrow> 'h protocol \<Rightarrow> message res \<times> 'h protocol" where
  "send_request_finish timeout msg_id w pr =
     (let r = request_outcome (pr_running pr) (dict_get (pr_pending pr) msg_id) w in
      (case r of Inl TimeoutError \<Rightarrow> Inl (CTraderConnectionTimeoutError timeout ''request'') | _ \<Rightarrow> r,
       pr\<lparr>pr_pending := dict_pop msg_id (pr_pending pr)\<rparr>))"

text \<open>\<open>request\<close>: the result of \<open>send_request\<close> narrowed to the class that is expected.\<close>

definition UNEXPECTED_RESPONSE :: string where "UNEXPECTED_RESPONSE = ''UNEXPECTED_RESPONSE''"

definition narrow :: "message_class \<Rightarrow> message res \<Rightarrow> message res" where
  "narrow response_type r =
     bind_res r (\<lambda>response.
       if msg_class response \<noteq> response_type
       then Inl (APIError (api_error_new UNEXPECTED_RESPONSE
              (Some (''Expected '' @ class_name response_type @ '', got '' @ class_name (msg_class response)))))
       else Inr response)"

definition send_event ::
  "(message \<Rightarrow> bytes) \<Rightarrow> (proto_message \<Rightarrow> bytes) \<Rightarrow> ('s \<Rightarrow> bytes \<Rightarrow> unit res) \<Rightarrow> 's transport \<Rightarrow> 'h protocol \<Rightarrow>
   message \<Rightarrow> unit res" where
  "send_event ser ser_env stream_send tp pr message =
     (if \<not> pr_running pr then Inl (ClosedError ''Protocol not running'')
      else bind_res (wrap_message ser message None) (write_message ser_env stream_send tp))"

subsection \<open>Event handlers\<close>

definition on_event :: "handler_key \<Rightarrow> 'h \<Rightarrow> 'h protocol \<Rightarrow> 'h protocol" where
  "on_event message_type handler pr =
     (let hs = (case dict_get (pr_event_handlers pr) message_type of None \<Rightarrow> [] | Some hs \<Rightarrow> hs) in
      pr\<lparr>pr_event_handlers := dict_set message_type (hs @ [handler]) (pr_event_handlers pr)\<rparr>)"

definition remove_handler :: "handler_key \<Rightarrow> 'h \<Rightarrow> 'h protocol \<Rightarrow> 'h protocol" where
  "remove_handler message_type handler pr =
     (case dict_get (pr_event_handlers pr) message_type of
        None \<Rightarrow> pr
      | Some hs \<Rightarrow> pr\<lparr>pr_event_handlers := dict_set message_type (remove1 handler hs) (pr_event_handlers pr)\<rparr>)"

definition mro :: "message \<Rightarrow> handler_key list" where
  "mro message = [KeyMessage (msg_class message), KeyBetterprotoMessage, KeyABC, KeyObject]"

definition handlers_for :: "'h protocol \<Rightarrow> handler_key \<Rightarrow> 'h list" where
  "handlers_for pr cls = (case dict_get (pr_event_handlers pr) cls of None \<Rightarrow> [] | Some hs \<Rightarrow> hs)"

text \<open>The handler calls \<open>_dispatch_event\<close> spawns on the task group (or, without one, awaits), in order.\<close>

definition dispatch_event :: "'h protocol \<Rightarrow> message \<Rightarrow> ('h \<times> message) list" where
  "dispatch_event pr message =
     concat (map (\<lambda>cls. map (\<lambda>handler. (handler, message)) (handlers_for pr cls)) (mro message))"

text \<open>\<open>_call_handler_safe\<close>: whatever the handler raised is logged, not passed on.\<close>

definition call_handler_safe :: "('h \<Rightarrow> message \<Rightarrow> unit res) \<Rightarrow> 'h \<Rightarrow> message \<Rightarrow> unit res" where
  "call_handler_safe call handler message = (case call handler message of Inl e \<Rightarrow> Inr () | Inr u \<Rightarrow> Inr u)"

subsection \<open>Dispatch\<close>

definition api_error_from_proto :: "proto_oa_error_res \<Rightarrow> api_error" where
  "api_error_from_proto error_res =
     \<lparr>ae_error_code = perr_error_code error_res,
      ae_description = nonempty (perr_description error_res),
      ae_ctid_trader_account_id = nonzero (perr_ctid_trader_account_id error_res),
      ae_maintenance_end_timestamp = nonzero (perr_maintenance_end_timestamp error_res),
      ae_retry_after = nonzero (perr_retry_after error_res)\<rparr>"

fun response_outcome :: "message \<Rightarrow> message res" where
  "response_outcome (Reply (ProtoOAErrorRes err)) = Inl (APIError (api_error_from_proto err))"
| "response_outcome inner = Inr inner"

definition dispatch_message :: "proto_message \<Rightarrow> message \<Rightarrow> 'h protocol \<Rightarrow> ('h \<times> message) list \<times> 'h protocol" where
  "dispatch_message proto_msg inner pr =
     (let msg_id = pm_client_msg_id proto_msg;
          pending = (if msg_id \<noteq> [] then dict_get (pr_pending pr) msg_id else None)
      in case pending of
           Some p \<Rightarrow>
             ([], pr\<lparr>pr_pending := dict_set msg_id
                       (p\<lparr>pd_outcome := Some (response_outcome inner), pd_event := True\<rparr>) (pr_pending pr)\<rparr>)
         | None \<Rightarrow> (dispatch_event pr inner, pr))"

subsection \<open>The reader loop\<close>

text \<open>
  One pass of \<open>_reader_loop\<close>: \<open>reader_receive\<close> is the body of its \<open>try\<close> on the outcome of
  \<open>read_framed_message\<close>, \<open>reader_verdict\<close> the \<open>except\<close> clauses, on the consecutive-error
  count so far. \<open>ReadOn n\<close> goes round again at once, \<open>BackOff n\<close> after the pause,
  \<open>ReportDrop\<close> calls \<open>handle_disconnect\<close> (if running) and leaves, \<open>LeaveQuietly\<close> leaves.
\<close>

datatype reader_next = ReadOn nat | BackOff nat | ReportDrop | LeaveQuietly

definition reader_receive ::
  "(bytes \<Rightarrow> proto_message res) \<Rightarrow> (message_class \<Rightarrow> bytes \<Rightarrow> message res) \<Rightarrow> bytes res \<Rightarrow> 'h protocol \<Rightarrow>
   ('h \<times> message) list res \<times> 'h protocol" where
  "reader_receive parse_env parse raw_result pr =
     (case bind_res raw_result (\<lambda>raw. bind_res (deserialize_proto_message parse_env raw)
             (\<lambda>proto_msg. bind_res (unwrap_message parse proto_msg) (\<lambda>inner. Inr (proto_msg, inner)))) of
        Inl e \<Rightarrow> (Inl e, pr)
      | Inr (proto_msg, inner) \<Rightarrow>
          (let (calls, pr') = dispatch_message proto_msg inner pr in (Inr calls, pr')))"

fun reader_verdict :: "nat \<Rightarrow> 'a res \<Rightarrow> reader_next" where
  "reader_verdict consecutive_errors (Inr _) = ReadOn 0"
| "reader_verdict consecutive_errors (Inl (FramingError _ _)) = ReportDrop"
| "reader_verdict consecutive_errors (Inl ClosedResourceError) = ReportDrop"
| "reader_verdict consecutive_errors (Inl EndOfStream) = ReportDrop"
| "reader_verdict consecutive_errors (Inl BrokenResourceError) = ReportDrop"
| "reader_verdict consecutive_errors (Inl (CTraderConnectionClosedError _ _)) = LeaveQuietly"
| "reader_verdict consecutive_errors (Inl _) =
     (if consecutive_errors + 1 \<ge> MAX_CONSECUTIVE_READ_ERRORS then ReportDrop
      else BackOff (consecutive_errors + 1))"

text \<open>The passes over a list of outcomes, ending with what the reader does next and the pauses it took.\<close>

fun reader_passes :: "nat \<Rightarrow> nat \<Rightarrow> 'a res list \<Rightarrow> nat \<times> reader_next" where
  "reader_passes n pauses [] = (pauses, ReadOn n)"
| "reader_passes n pauses (r # rs) =
     (case reader_verdict n r of
        ReadOn m \<Rightarrow> reader_passes m pauses rs
      | BackOff m \<Rightarrow> reader_passes m (pauses + 1) rs
      | v \<Rightarrow> (pauses, v))"

subsection \<open>Reconnection\<close>

text \<open>
  \<open>handle_disconnect\<close> up to the notification of the listener: the result says whether
  the caller goes on to notify and then to spawn the reconnection task.
\<close>

definition handle_disconnect :: "'h protocol \<Rightarrow> bool \<times> 'h protocol" where
  "handle_disconnect pr =
     (if \<not> pr_running pr then (False, pr)
      else if pr_reconnecting pr then (False, pr\<lparr>pr_redo_requested := True\<rparr>)
      else if \<not> pr_task_group pr then (False, pr)
      else (True, pr\<lparr>pr_reconnecting := True\<rparr>))"

text \<open>\<open>_notify_connection_lost\<close>: the listener, if there is one, and never its failure.\<close>

definition notify_connection_lost :: "'h protocol \<Rightarrow> unit res \<Rightarrow> unit res" where
  "notify_connection_lost pr on_connection_lost =
     (if \<not> pr_listener pr then Inr () else case on_connection_lost of Inl e \<Rightarrow> Inr () | Inr u \<Rightarrow> Inr u)"

text \<open>The head of the \<open>while True\<close> of \<open>_reconnect_task\<close>: the scope it cancels and the state it leaves.\<close>

definition reconnect_round :: "'h protocol \<Rightarrow> nat option \<times> 'h protocol" where
  "reconnect_round pr =
     (let pr1 = pr\<lparr>pr_redo_requested := False\<rparr> in
      (pr_reader_scope pr1, pr1\<lparr>pr_reader_scope := None\<rparr>))"

text \<open>The guard of \<open>_reconnect\<close>, and whether the retry strategy gives up after attempt \<open>n\<close>.\<close>

definition reconnect_guard :: "'h protocol \<Rightarrow> unit res" where
  "reconnect_guard pr =
     (if pr_reconnect_attempts pr = Some 0
      then Inl (ClosedError ''Connection lost and reconnection disabled'') else Inr ())"

definition retry_stop :: "(nat \<Rightarrow> bool) \<Rightarrow> (int \<Rightarrow> nat \<Rightarrow> bool) \<Rightarrow> 'h protocol \<Rightarrow> nat \<Rightarrow> bool" where
  "retry_stop stop_never stop_after_attempt pr =
     (case pr_reconnect_attempts pr of None \<Rightarrow> stop_never | Some n \<Rightarrow> stop_after_attempt n)"

definition abandon :: "string \<Rightarrow> exn \<Rightarrow> 'h protocol \<Rightarrow> unit res \<times> 'h protocol" where
  "abandon reason cause pr =
     (let pr1 = fail_pending reason (pr\<lparr>pr_running := False\<rparr>) in
      if pr_reconnect_attempts pr1 = Some 0 then (Inr (), pr1)
      else (Inl (CTraderReconnectAbandonedError reason (Some cause)), pr1))"

text \<open>The \<open>except\<close> clauses of \<open>_reconnect_task\<close> followed by its \<open>finally\<close>; and its normal end.\<close>

definition reconnect_finally :: "'h protocol \<Rightarrow> 'h protocol" where
  "reconnect_finally pr = pr\<lparr>pr_reconnecting := False, pr_redo_requested := False\<rparr>"

fun gives_up_reason :: "exn \<Rightarrow> string" where
  "gives_up_reason (CTraderConnectionFailedError _ _ _) = ''connection lost and reconnection failed''"
| "gives_up_reason (CTraderConnectionClosedError _ _) = ''connection lost and reconnection failed''"
| "gives_up_reason _ = ''unexpected error while reconnecting''"

definition reconnect_failed :: "exn \<Rightarrow> 'h protocol \<Rightarrow> unit res \<times> 'h protocol" where
  "reconnect_failed e pr =
     (let (r, pr1) = abandon (gives_up_reason e) e pr in (r, reconnect_finally pr1))"

text \<open>After a successful \<open>_reconnect\<close>: whether the task goes round again.\<close>

definition reconnect_again :: "'h protocol \<Rightarrow> bool \<times> 'h protocol" where
  "reconnect_again pr = (if pr_redo_requested pr then (True, pr) else (False, reconnect_finally pr))"

end
