(* ===== verification/Correlation.thy ===== *)
theory Correlation
  imports Protocol
begin

text \<open>
  Request/response correlation under interleaving: any number of callers run
  \<open>send_request\<close> concurrently while the reader dispatches what arrives, requests time
  out, writes fail and the protocol stops. A step is one segment of \<open>Protocol\<close>; its
  label records what the segment did, and a run is a list of labels, oldest first.
\<close>

datatype label =
    Started string message
  | Refused message exn
  | Dispatched proto_message message
  | Finished string "message res"
  | FailedAll string
  | RunningSet bool

inductive corr_step :: "(message \<Rightarrow> bytes) \<Rightarrow> 'h protocol \<Rightarrow> label \<Rightarrow> 'h protocol \<Rightarrow> bool"
  for ser :: "message \<Rightarrow> bytes" where
  start: "send_request_start ser m pr = (Inr (i, wrapped), pr') \<Longrightarrow> corr_step ser pr (Started i m) pr'"
| refuse: "send_request_start ser m pr = (Inl e, pr') \<Longrightarrow> corr_step ser pr (Refused m e) pr'"
| dispatch: "dispatch_message pm m pr = (calls, pr') \<Longrightarrow> corr_step ser pr (Dispatched pm m) pr'"
| finish: "dict_get (pr_pending pr) i = Some p \<Longrightarrow> (w = EventSet \<Longrightarrow> pd_event p) \<Longrightarrow>
    send_request_finish timeout i w pr = (r, pr') \<Longrightarrow> corr_step ser pr (Finished i r) pr'"
| fail_all: "corr_step ser pr (FailedAll reason) (fail_pending reason pr)"
| set_running: "corr_step ser pr (RunningSet b) (pr\<lparr>pr_running := b\<rparr>)"

inductive corr_run :: "(message \<Rightarrow> bytes) \<Rightarrow> 'h protocol \<Rightarrow> label list \<Rightarrow> 'h protocol \<Rightarrow> bool"
  for ser :: "message \<Rightarrow> bytes" where
  empty: "pr_pending pr = [] \<Longrightarrow> corr_run ser pr [] pr"
| step: "corr_run ser pr0 tr pr \<Longrightarrow> corr_step ser pr l pr' \<Longrightarrow> corr_run ser pr0 (tr @ [l]) pr'"

inductive_cases corr_run_snocE: "corr_run ser pr0 (tr @ [l]) pr"

fun started_id :: "label \<Rightarrow> string list" where
  "started_id (Started i m) = [i]"
| "started_id _ = []"

fun finished_id :: "label \<Rightarrow> string list" where
  "finished_id (Finished i r) = [i]"
| "finished_id _ = []"

definition started_ids :: "label list \<Rightarrow> string list" where
  "started_ids tr = concat (map started_id tr)"

definition finished_ids :: "label list \<Rightarrow> string list" where
  "finished_ids tr = concat (map finished_id tr)"

lemma started_ids_snoc [simp]: "started_ids [] = []" "started_ids (tr @ [l]) = started_ids tr @ started_id l"
  by (simp_all add: started_ids_def)

lemma finished_ids_snoc [simp]: "finished_ids [] = []" "finished_ids (tr @ [l]) = finished_ids tr @ finished_id l"
  by (simp_all add: finished_ids_def)

text \<open>A message \<open>m\<close> that answers the request \<open>i\<close> in a run: dispatched under that id, after it started.\<close>

definition answered :: "label list \<Rightarrow> string \<Rightarrow> message \<Rightarrow> bool" where
  "answered tr i out \<longleftrightarrow>
     (\<exists>before req between pm after.
        tr = before @ Started i req # between @ Dispatched pm out # after \<and> pm_client_msg_id pm = i)"

lemma answered_snoc: "answered tr i m \<Longrightarrow> answered (tr @ [l]) i m"
  unfolding answered_def by (metis append.assoc append_Cons)

lemma answered_dispatch:
  assumes "i \<in> set (started_ids tr)" "pm_client_msg_id pm = i"
  shows "answered (tr @ [Dispatched pm m]) i m"
proof -
  from assms(1) obtain l where "l \<in> set tr" "i \<in> set (started_id l)" by (auto simp: started_ids_def)
  moreover from this(2) obtain req where "l = Started i req" by (cases l) simp_all
  ultimately have "Started i req \<in> set tr" by simp
  then obtain before between where "tr = before @ Started i req # between" by (meson split_list)
  with assms(2) show ?thesis unfolding answered_def by fastforce
qed

subsection \<open>What one segment does to the slots\<close>

lemma start_conv:
  "send_request_start ser m pr = (Inr (i, wrapped), pr') \<longleftrightarrow>
     pr_running pr \<and> i = nat_str (pr_counter pr + 1) \<and> wrap_message ser m (Some i) = Inr wrapped \<and>
     pr' = pr\<lparr>pr_counter := pr_counter pr + 1,
              pr_pending := dict_set i \<lparr>pd_event = False, pd_outcome = None\<rparr> (pr_pending pr)\<rparr>"
  by (auto simp: send_request_start_def next_id_def Let_def split: sum.splits)

lemma refuse_conv:
  "send_request_start ser m pr = (Inl e, pr') \<longleftrightarrow>
     \<not> pr_running pr \<and> e = ClosedError ''Protocol not running'' \<and> pr' = pr \<or>
     pr_running pr \<and> wrap_message ser m (Some (nat_str (pr_counter pr + 1))) = Inl e \<and>
     pr' = pr\<lparr>pr_counter := pr_counter pr + 1\<rparr>"
  by (auto simp: send_request_start_def next_id_def Let_def split: sum.splits)

lemma dispatch_pending:
  assumes "dispatch_message pm m pr = (calls, pr')"
  shows "pr_counter pr' = pr_counter pr" "dict_keys (pr_pending pr') = dict_keys (pr_pending pr)"
    "dict_get (pr_pending pr') i =
       (if i = pm_client_msg_id pm \<and> i \<noteq> [] then
          map_option (\<lambda>p. p\<lparr>pd_outcome := Some (response_outcome m), pd_event := True\<rparr>) (dict_get (pr_pending pr) i)
        else dict_get (pr_pending pr) i)"
  using assms dict.keys_assign_present [of "pr_pending pr" "pm_client_msg_id pm"]
  by (auto simp: dispatch_message_def Let_def dict.get_assign split: option.splits if_splits)

lemma finish_pending:
  assumes "send_request_finish timeout i w pr = (r, pr')"
  shows "pr_counter pr' = pr_counter pr" "pr_pending pr' = dict_pop i (pr_pending pr)"
  using assms by (auto simp: send_request_finish_def Let_def)

lemma finish_returns:
  assumes "send_request_finish timeout i w pr = (Inr m, pr')" "dict_get (pr_pending pr) i = Some p"
  shows "pd_outcome p = Some (Inr m)" "pr_running pr" "w = EventSet"
  using assms by (cases w; auto simp: send_request_finish_def Let_def split: if_splits option.splits sum.splits exn.splits)+

lemma fail_pending_get [simp]:
  "dict_get (pr_pending (fail_pending reason pr)) i =
     map_option (\<lambda>p. p\<lparr>pd_outcome := Some (Inl (ClosedError reason)), pd_event := True\<rparr>) (dict_get (pr_pending pr) i)"
  by (simp add: fail_pending_def)

lemma fail_pending_simps [simp]:
  "dict_keys (pr_pending (fail_pending reason pr)) = dict_keys (pr_pending pr)"
  "pr_counter (fail_pending reason pr) = pr_counter pr"
  "pr_running (fail_pending reason pr) = pr_running pr"
  by (simp_all add: fail_pending_def case_prod_unfold)

lemma response_outcome_Inr: "response_outcome m = Inr m' \<Longrightarrow> m' = m \<and> (\<forall>err. m \<noteq> Reply (ProtoOAErrorRes err))"
  by (cases m rule: response_outcome.cases) auto

lemma dispatch_slot:
  assumes "wrap_message ser m (Some i) = Inr env" "i \<noteq> []" "dict_get (pr_pending pr) i = Some p"
  shows "dispatch_message env m pr =
    ([], pr\<lparr>pr_pending := dict_set i (p\<lparr>pd_outcome := Some (response_outcome m), pd_event := True\<rparr>) (pr_pending pr)\<rparr>)"
  using assms by (simp add: dispatch_message_def wrap_message_conv)

lemma dispatch_event_conv:
  "dispatch_event pr m = map (\<lambda>h. (h, m)) (handlers_for pr (KeyMessage (msg_class m)) @
     handlers_for pr KeyBetterprotoMessage @ handlers_for pr KeyABC @ handlers_for pr KeyObject)"
  by (simp add: dispatch_event_def mro_def)

lemma finish_resolved:
  assumes "pr_running pr" "dict_get (pr_pending pr) i = Some p" "pd_outcome p = Some (response_outcome m)"
  shows "fst (send_request_finish t i EventSet pr) = response_outcome m"
  using assms by (cases m rule: response_outcome.cases) (simp_all add: send_request_finish_def)

lemma response_outcome_value: "(\<nexists>err. m = Reply (ProtoOAErrorRes err)) \<Longrightarrow> response_outcome m = Inr m"
  by (cases m rule: response_outcome.cases) auto

subsection \<open>The invariant\<close>

text \<open>
  The slots are the started and unfinished requests, under distinct ids drawn from the
  counter; an event is set exactly when its outcome is known; an outcome that is a
  message answers its own request.
\<close>

definition ids_inv :: "nat \<Rightarrow> label list \<Rightarrow> nat \<Rightarrow> string list \<Rightarrow> bool" where
  "ids_inv c0 tr counter ids \<longleftrightarrow>
     c0 \<le> counter \<and> distinct ids \<and> distinct (started_ids tr) \<and> distinct (finished_ids tr) \<and>
     set (finished_ids tr) \<subseteq> set (started_ids tr) \<and>
     set ids = set (started_ids tr) - set (finished_ids tr) \<and>
     (\<forall>i \<in> set (started_ids tr). \<exists>k. i = nat_str k \<and> c0 < k \<and> k \<le> counter)"

definition slot_inv :: "label list \<Rightarrow> string \<Rightarrow> pending_request \<Rightarrow> bool" where
  "slot_inv tr i p \<longleftrightarrow>
     (pd_event p \<longleftrightarrow> pd_outcome p \<noteq> None) \<and>
     (\<forall>m. pd_outcome p = Some (Inr m) \<longrightarrow> answered tr i m \<and> (\<forall>err. m \<noteq> Reply (ProtoOAErrorRes err)))"

definition corr_inv :: "nat \<Rightarrow> label list \<Rightarrow> 'h protocol \<Rightarrow> bool" where
  "corr_inv c0 tr pr \<longleftrightarrow>
     ids_inv c0 tr (pr_counter pr) (dict_keys (pr_pending pr)) \<and>
     (\<forall>i p. dict_get (pr_pending pr) i = Some p \<longrightarrow> slot_inv tr i p)"

lemma corr_invD:
  assumes "corr_inv c0 tr pr"
  shows "ids_inv c0 tr (pr_counter pr) (dict_keys (pr_pending pr))"
    and "dict_get (pr_pending pr) i = Some p \<Longrightarrow> slot_inv tr i p"
  using assms by (simp_all add: corr_inv_def)

lemma slot_inv_snoc: "slot_inv tr i p \<Longrightarrow> slot_inv (tr @ [l]) i p"
  by (simp add: slot_inv_def answered_snoc)

lemma ids_inv_fresh:
  assumes "ids_inv c0 tr c ids"
  shows "nat_str (Suc c) \<notin> set (started_ids tr)" "nat_str (Suc c) \<notin> set ids"
  using assms by (force simp: ids_inv_def)+

lemma ids_inv_start:
  assumes "ids_inv c0 tr c ids"
  shows "ids_inv c0 (tr @ [Started (nat_str (Suc c)) m]) (Suc c) (ids @ [nat_str (Suc c)])"
  using ids_inv_fresh [OF assms] assms unfolding ids_inv_def by fastforce

lemma ids_inv_finish:
  assumes "ids_inv c0 tr c ids" "i \<in> set ids"
  shows "ids_inv c0 (tr @ [Finished i r]) c (removeAll i ids)"
  using assms unfolding ids_inv_def by (auto simp: distinct_removeAll)

lemma ids_inv_other:
  assumes "ids_inv c0 tr c ids" "c \<le> c'" "started_id l = []" "finished_id l = []"
  shows "ids_inv c0 (tr @ [l]) c' ids"
  using assms unfolding ids_inv_def by fastforce

lemma corr_inv_step:
  assumes inv: "corr_inv c0 tr pr" and "corr_step ser pr l pr'"
  shows "corr_inv c0 (tr @ [l]) pr'"
  using assms(2)
proof (cases rule: corr_step.cases)
  case (start m i wrapped)
  then have i: "i = nat_str (Suc (pr_counter pr))" and pr': "pr' = pr\<lparr>pr_counter := Suc (pr_counter pr),
      pr_pending := dict_set i \<lparr>pd_event = False, pd_outcome = None\<rparr> (pr_pending pr)\<rparr>"
    by (simp_all add: start_conv)
  have "dict_keys (pr_pending pr') = dict_keys (pr_pending pr) @ [i]"
    using ids_inv_fresh(2) [OF corr_invD(1) [OF inv]] i by (simp add: pr' update_keys)
  with ids_inv_start [OF corr_invD(1) [OF inv], of m] i start(1)
  have "ids_inv c0 (tr @ [l]) (pr_counter pr') (dict_keys (pr_pending pr'))" by (simp add: pr')
  moreover have "slot_inv (tr @ [l]) j p" if "dict_get (pr_pending pr') j = Some p" for j p
    using that slot_inv_snoc [OF corr_invD(2) [OF inv]]
    by (auto simp: pr' dict.get_assign slot_inv_def split: if_splits)
  ultimately show ?thesis by (simp add: corr_inv_def)
next
  case (refuse m e)
  then have "pr_pending pr' = pr_pending pr" "pr_counter pr \<le> pr_counter pr'" by (auto simp: refuse_conv)
  with corr_invD [OF inv] refuse(1) show ?thesis
    by (auto simp: corr_inv_def intro: ids_inv_other slot_inv_snoc)
next
  case (dispatch pm m calls)
  note same = dispatch_pending [OF dispatch(2)]
  have "slot_inv (tr @ [l]) i p" if "dict_get (pr_pending pr') i = Some p" for i p
  proof (cases "i = pm_client_msg_id pm \<and> i \<noteq> []")
    case True
    have "map_option (\<lambda>p. p\<lparr>pd_outcome := Some (response_outcome m), pd_event := True\<rparr>)
      (dict_get (pr_pending pr) i) = Some p"
      using that unfolding same(3) [of i] if_P [OF True] .
    then obtain q where q: "dict_get (pr_pending pr) i = Some q"
      "p = q\<lparr>pd_outcome := Some (response_outcome m), pd_event := True\<rparr>" by auto
    then have "i \<in> set (started_ids tr)"
      using corr_invD(1) [OF inv] dict.keys_get [of i "pr_pending pr"] by (auto simp: ids_inv_def)
    from answered_dispatch [OF this, of pm m] True q(2) dispatch(1) show ?thesis
      by (auto simp: slot_inv_def dest: response_outcome_Inr)
  next
    case False
    with that same(3) [of i] show ?thesis using slot_inv_snoc [OF corr_invD(2) [OF inv]] by simp
  qed
  moreover have "ids_inv c0 (tr @ [l]) (pr_counter pr') (dict_keys (pr_pending pr'))"
    unfolding same(1,2) using corr_invD(1) [OF inv] dispatch(1) by (auto intro: ids_inv_other)
  ultimately show ?thesis by (simp add: corr_inv_def)
next
  case (finish i p w timeout r)
  have "i \<in> set (dict_keys (pr_pending pr))"
    using finish(2) dict.keys_get [of i "pr_pending pr"] by simp
  with ids_inv_finish [OF corr_invD(1) [OF inv] this] finish(1) finish_pending [OF finish(4)]
  have "ids_inv c0 (tr @ [l]) (pr_counter pr') (dict_keys (pr_pending pr'))" by (simp add: delete_keys)
  moreover have "slot_inv (tr @ [l]) j q" if "dict_get (pr_pending pr') j = Some q" for j q
    using that slot_inv_snoc [OF corr_invD(2) [OF inv]]
    by (auto simp: finish_pending(2) [OF finish(4)] dict.get_pop split: if_splits)
  ultimately show ?thesis by (simp add: corr_inv_def)
next
  case (fail_all reason)
  then show ?thesis
    using corr_invD(1) [OF inv] by (auto simp: corr_inv_def slot_inv_def intro!: ids_inv_other)
next
  case (set_running b)
  then show ?thesis
    using corr_invD [OF inv] by (auto simp: corr_inv_def intro: ids_inv_other slot_inv_snoc)
qed

lemma corr_run_inv: "corr_run ser pr0 tr pr \<Longrightarrow> corr_inv (pr_counter pr0) tr pr"
proof (induction rule: corr_run.induct)
  case (empty pr)
  then show ?case by (simp add: corr_inv_def ids_inv_def)
qed (rule corr_inv_step)

lemma corr_run_last:
  assumes "corr_run ser pr0 (tr @ [l]) pr"
  obtains pr1 where "corr_run ser pr0 tr pr1" "corr_step ser pr1 l pr"
  using assms by (auto elim: corr_run_snocE)

subsection \<open>Executing a schedule\<close>

text \<open>A schedule fixes the interleaving; executing it gives the labels and the final state.\<close>

datatype command =
    DoStart message
  | DoDispatch proto_message message
  | DoFinish string wait_end rat
  | DoFailAll string
  | DoSetRunning bool

fun execute :: "(message \<Rightarrow> bytes) \<Rightarrow> command \<Rightarrow> 'h protocol \<Rightarrow> (label \<times> 'h protocol) option" where
  "execute ser (DoStart m) pr =
     (case send_request_start ser m pr of
        (Inr (i, wrapped), pr') \<Rightarrow> Some (Started i m, pr')
      | (Inl e, pr') \<Rightarrow> Some (Refused m e, pr'))"
| "execute ser (DoDispatch pm m) pr = Some (Dispatched pm m, snd (dispatch_message pm m pr))"
| "execute ser (DoFinish i w timeout) pr =
     (case dict_get (pr_pending pr) i of
        None \<Rightarrow> None
      | Some p \<Rightarrow>
          if w = EventSet \<and> \<not> pd_event p then None
          else (let (r, pr') = send_request_finish timeout i w pr in Some (Finished i r, pr')))"
| "execute ser (DoFailAll reason) pr = Some (FailedAll reason, fail_pending reason pr)"
| "execute ser (DoSetRunning b) pr = Some (RunningSet b, pr\<lparr>pr_running := b\<rparr>)"

fun execute_all :: "(message \<Rightarrow> bytes) \<Rightarrow> command list \<Rightarrow> label list \<Rightarrow> 'h protocol \<Rightarrow> (label list \<times> 'h protocol) option" where
  "execute_all ser [] tr pr = Some (tr, pr)"
| "execute_all ser (c # cs) tr pr =
     (case execute ser c pr of None \<Rightarrow> None | Some (l, pr') \<Rightarrow> execute_all ser cs (tr @ [l]) pr')"

lemma execute_step: "execute ser c pr = Some (l, pr') \<Longrightarrow> corr_step ser pr l pr'"
proof (cases c)
  case (DoDispatch pm m)
  moreover assume "execute ser c pr = Some (l, pr')"
  ultimately show ?thesis using corr_step.dispatch [of pm m pr "fst (dispatch_message pm m pr)"] by auto
next
  case (DoFinish i w timeout)
  moreover assume "execute ser c pr = Some (l, pr')"
  ultimately show ?thesis
    using corr_step.finish [of pr i _ w timeout]
    by (auto simp: Let_def split: option.splits if_splits prod.splits)
qed (auto intro: corr_step.intros split: sum.splits prod.splits)

lemma execute_all_run:
  "corr_run ser pr0 tr pr \<Longrightarrow> execute_all ser cs tr pr = Some (tr', pr') \<Longrightarrow> corr_run ser pr0 tr' pr'"
proof (induction cs arbitrary: tr pr)
  case (Cons c cs)
  then obtain l pr1 where "execute ser c pr = Some (l, pr1)" "execute_all ser cs (tr @ [l]) pr1 = Some (tr', pr')"
    by (auto split: option.splits)
  with Cons.IH [OF corr_run.step [OF Cons.prems(1) execute_step]] show ?case by blast
qed simp

definition sample_protocol :: "nat protocol" where
  "sample_protocol = (protocol_init None 1 60)\<lparr>pr_running := True\<rparr>"

text \<open>Two requests answered in the opposite order, the second one resumed first.\<close>

definition sample_envelope :: "string \<Rightarrow> proto_message" where
  "sample_envelope i = \<lparr>pm_payload_type = 2122, pm_payload = [], pm_client_msg_id = i\<rparr>"

definition sample_schedule :: "command list" where
  "sample_schedule =
     [DoStart (Request (ProtoOATraderReq 7)), DoStart (Request (ProtoOATraderReq 8)),
      DoDispatch (sample_envelope ''2'') (Reply (ProtoOATraderRes 8 None)),
      DoDispatch (sample_envelope ''1'') (Reply (ProtoOATraderRes 7 None)),
      DoFinish ''2'' EventSet 30]"

definition sample_trace :: "label list" where
  "sample_trace =
     [Started ''1'' (Request (ProtoOATraderReq 7)), Started ''2'' (Request (ProtoOATraderReq 8)),
      Dispatched (sample_envelope ''2'') (Reply (ProtoOATraderRes 8 None)),
      Dispatched (sample_envelope ''1'') (Reply (ProtoOATraderRes 7 None)),
      Finished ''2'' (Inr (Reply (ProtoOATraderRes 8 None)))]"

lemma trader_req_payload_type: "get_payload_type (ClsRequest Cls_ProtoOATraderReq) = Some 2121"
  by (simp add: get_payload_type_iff get_class_def payload_type_to_class_def)

lemma nat_str_1: "nat_str (Suc 0) = ''1''"
  by code_simp

lemma nat_str_2: "nat_str (Suc (Suc 0)) = ''2''"
  by code_simp

lemmas sample_simps =
  sample_schedule_def sample_trace_def sample_envelope_def sample_protocol_def protocol_init_def
  trader_req_payload_type nat_str_1 nat_str_2 send_request_start_def next_id_def wrap_message_def
  dispatch_message_def send_request_finish_def

lemma sample_runs:
  "\<exists>pr. corr_run (\<lambda>_. []) sample_protocol
     (sample_trace @ [Finished ''1'' (Inr (Reply (ProtoOATraderRes 7 None)))]) pr"
proof -
  have start: "corr_run (\<lambda>_. []) sample_protocol [] sample_protocol"
    by (rule corr_run.empty) (simp add: sample_protocol_def protocol_init_def)
  have "\<exists>pr. execute_all (\<lambda>_. []) (sample_schedule @ [DoFinish ''1'' EventSet 30]) [] sample_protocol =
    Some (sample_trace @ [Finished ''1'' (Inr (Reply (ProtoOATraderRes 7 None)))], pr)"
    by (simp add: sample_simps)
  then show ?thesis using execute_all_run [OF start] by blast
qed

subsection \<open>The reader's error budget\<close>

fun recoverable :: "exn \<Rightarrow> bool" where
  "recoverable (FramingError _ _) = False"
| "recoverable ClosedResourceError = False"
| "recoverable EndOfStream = False"
| "recoverable BrokenResourceError = False"
| "recoverable (CTraderConnectionClosedError _ _) = False"
| "recoverable _ = True"

lemma reader_verdict_recoverable:
  "recoverable e \<Longrightarrow> reader_verdict n (Inl e :: 'a res) =
     (if n + 1 \<ge> MAX_CONSECUTIVE_READ_ERRORS then ReportDrop else BackOff (n + 1))"
  by (cases e rule: recoverable.cases) simp_all

lemma reader_passes_errors:
  "\<forall>e \<in> set es. recoverable e \<Longrightarrow> n + length es < MAX_CONSECUTIVE_READ_ERRORS \<Longrightarrow>
    reader_passes n p (map Inl es @ rs :: 'a res list) = reader_passes (n + length es) (p + length es) rs"
  by (induction es arbitrary: n p) (simp_all add: reader_verdict_recoverable)

subsection \<open>Properties\<close>

text \<open>
  C2: correlation is sound under every interleaving. When \<open>send_request\<close> returns a message
  under the id \<open>i\<close>, that message was dispatched to the id \<open>i\<close> after the request had been
  registered, is not an error reply, and no request returns twice; so no caller ever sees
  the answer to somebody else's request or one that predates its own.
\<close>

theorem correlation_sound:
  assumes "corr_run ser pr0 (tr @ [Finished i (Inr m)]) pr"
  shows "answered tr i m \<and> (\<forall>err. m \<noteq> Reply (ProtoOAErrorRes err)) \<and>
    i \<notin> set (finished_ids tr) \<and> distinct (started_ids tr)"
proof -
  from assms obtain pr1 where run: "corr_run ser pr0 tr pr1" and "corr_step ser pr1 (Finished i (Inr m)) pr"
    by (rule corr_run_last)
  then obtain p w timeout where slot: "dict_get (pr_pending pr1) i = Some p"
    and fin: "send_request_finish timeout i w pr1 = (Inr m, pr)"
    by (auto elim: corr_step.cases)
  have "slot_inv tr i p" "ids_inv (pr_counter pr0) tr (pr_counter pr1) (dict_keys (pr_pending pr1))"
    using corr_invD [OF corr_run_inv [OF run]] slot by auto
  moreover have "i \<in> set (dict_keys (pr_pending pr1))"
    using slot dict.keys_get [of i "pr_pending pr1"] by simp
  ultimately show ?thesis
    using finish_returns(1) [OF fin slot] by (auto simp: slot_inv_def ids_inv_def)
qed

theorem correlation_sound_witness:
  "answered sample_trace ''1'' (Reply (ProtoOATraderRes 7 None)) \<and> ''1'' \<notin> set (finished_ids sample_trace)"
proof -
  from sample_runs obtain pr where
    "corr_run (\<lambda>_. []) sample_protocol (sample_trace @ [Finished ''1'' (Inr (Reply (ProtoOATraderRes 7 None)))]) pr" ..
  from correlation_sound [OF this] show ?thesis by blast
qed

text \<open>
  C23: no slot leaks and none is lost: in every reachable state the correlation table has
  one entry for each request that was started and has not finished, whether it was
  answered, timed out, failed to be written or was woken by a stop, and none besides.
\<close>

theorem pending_exact:
  assumes "corr_run ser pr0 tr pr"
  shows "wf_dict (pr_pending pr) \<and>
    set (dict_keys (pr_pending pr)) = set (started_ids tr) - set (finished_ids tr) \<and>
    (set (started_ids tr) = set (finished_ids tr) \<longrightarrow> pr_pending pr = [])"
  using corr_invD(1) [OF corr_run_inv [OF assms]] by (auto simp: ids_inv_def wf_dict_def)

theorem pending_exact_witness:
  "\<exists>pr. corr_run (\<lambda>_. []) sample_protocol
     (sample_trace @ [Finished ''1'' (Inr (Reply (ProtoOATraderRes 7 None)))]) pr \<and> pr_pending pr = []"
proof -
  from sample_runs obtain pr where run:
    "corr_run (\<lambda>_. []) sample_protocol (sample_trace @ [Finished ''1'' (Inr (Reply (ProtoOATraderRes 7 None)))]) pr" ..
  with pending_exact [OF run] show ?thesis
    by (auto simp: sample_trace_def started_ids_def finished_ids_def)
qed

text \<open>
  C24: nobody hangs when the link is given up on or the protocol winds down: after the
  \<open>finally\<close> of \<open>serve\<close>, and after \<open>_abandon\<close>, the event of every waiting request is set, and
  resuming it raises the closed-connection error, even if its answer had come in just
  before.
\<close>

theorem shutdown_wakes_all:
  assumes "dict_get (pr_pending pr) i = Some p"
    and "pr' = serve_exit pr \<or> pr' = snd (abandon reason cause pr)"
  shows "\<exists>p'. dict_get (pr_pending pr') i = Some p' \<and> pd_event p' \<and>
    fst (send_request_finish timeout i EventSet pr') =
      Inl (ClosedError ''Protocol stopped while waiting for response'')"
  using assms
  by (auto simp: serve_exit_def abandon_def Let_def send_request_finish_def fail_pending_def split: if_splits)

theorem shutdown_wakes_all_witness:
  "let pr = sample_protocol\<lparr>pr_pending := [(''1'', \<lparr>pd_event = True, pd_outcome = Some (Inr (Push ProtoHeartbeatEvent))\<rparr>)]\<rparr>
   in fst (send_request_finish 30 ''1'' EventSet (serve_exit pr)) =
        Inl (ClosedError ''Protocol stopped while waiting for response'')"
  using shutdown_wakes_all [of "sample_protocol\<lparr>pr_pending :=
      [(''1'', \<lparr>pd_event = True, pd_outcome = Some (Inr (Push ProtoHeartbeatEvent))\<rparr>)]\<rparr>" "''1''"
      "\<lparr>pd_event = True, pd_outcome = Some (Inr (Push ProtoHeartbeatEvent))\<rparr>"
      "serve_exit (sample_protocol\<lparr>pr_pending :=
      [(''1'', \<lparr>pd_event = True, pd_outcome = Some (Inr (Push ProtoHeartbeatEvent))\<rparr>)]\<rparr>)" _ _ 30]
  by (auto simp: Let_def)

text \<open>
  C25: a message that arrives goes to exactly one place. Take any message the server frames and
  sends under an id, however the network cuts it, and any state of a running protocol. The reader
  reads it off the stream and, if a request waits under that id, wakes that request and calls no
  handler: the request then returns the message itself, or raises the \<open>APIError\<close> an error reply
  describes, field by field, and the slot of no other request has changed. If none waits, or the id
  is empty, the message is handed to the handlers of its class, then to those of the base classes,
  in registration order, and the protocol is as before.
\<close>

theorem reply_delivered:
  assumes "stream_law receive content" "content s = frame @ rest"
    and "wrap_message ser m (Some i) = Inr env" "encode_with_length_prefix ser_env env = Inr frame"
    and "int (length (ser_env env)) \<le> MAX_MESSAGE_SIZE"
    and "parse (msg_class m) (ser m) = Inr m" "parse_env (ser_env env) = Inr env" "pr_running pr"
  shows "\<exists>raw s' calls pr'. read_framed_message receive s = (Inr raw, s') \<and> content s' = rest \<and>
    reader_receive parse_env parse (Inr raw) pr = (Inr calls, pr') \<and>
    (if i \<noteq> [] \<and> dict_get (pr_pending pr) i \<noteq> None
     then calls = [] \<and> (\<exists>p. dict_get (pr_pending pr') i = Some p \<and> pd_event p) \<and>
       (\<forall>t err. m = Reply (ProtoOAErrorRes err) \<longrightarrow>
          fst (send_request_finish t i EventSet pr') =
            Inl (APIError \<lparr>ae_error_code = perr_error_code err, ae_description = nonempty (perr_description err),
              ae_ctid_trader_account_id = nonzero (perr_ctid_trader_account_id err),
              ae_maintenance_end_timestamp = nonzero (perr_maintenance_end_timestamp err),
              ae_retry_after = nonzero (perr_retry_after err)\<rparr>)) \<and>
       (\<forall>t. (\<nexists>err. m = Reply (ProtoOAErrorRes err)) \<longrightarrow> fst (send_request_finish t i EventSet pr') = Inr m) \<and>
       (\<forall>j. j \<noteq> i \<longrightarrow> dict_get (pr_pending pr') j = dict_get (pr_pending pr) j)
     else pr' = pr \<and>
       calls = map (\<lambda>h. (h, m)) (handlers_for pr (KeyMessage (msg_class m)) @
         handlers_for pr KeyBetterprotoMessage @ handlers_for pr KeyABC @ handlers_for pr KeyObject))"
proof -
  obtain raw s' where raw: "read_framed_message receive s = (Inr raw, s')" "content s' = rest"
    "deserialize_proto_message parse_env raw = Inr env" "unwrap_message parse env = Inr m"
    using encode_read_one [OF assms(1,4,5,2)] unwrap_wrap [where parse = parse, OF assms(3,6)] assms(7)
    by (auto simp: deserialize_proto_message_def)
  obtain calls pr' where out: "dispatch_message env m pr = (calls, pr')" by force
  with raw(3,4) have recv: "reader_receive parse_env parse (Inr raw) pr = (Inr calls, pr')" by (simp add: reader_receive_def)
  show ?thesis
  proof (cases "i \<noteq> [] \<and> dict_get (pr_pending pr) i \<noteq> None")
    case True
    then obtain p where p: "dict_get (pr_pending pr) i = Some p" by blast
    define p' where "p' = p\<lparr>pd_outcome := Some (response_outcome m), pd_event := True\<rparr>"
    have pr': "calls = []" "pr' = pr\<lparr>pr_pending := dict_set i p' (pr_pending pr)\<rparr>"
      using out dispatch_slot [OF assms(3) _ p] True by (simp_all add: p'_def)
    have slots: "dict_get (pr_pending pr') i = Some p'" "pd_event p'" "\<forall>j. j \<noteq> i \<longrightarrow> dict_get (pr_pending pr') j = dict_get (pr_pending pr) j"
      by (simp_all add: pr' dict.get_assign) (simp add: p'_def)
    have out: "fst (send_request_finish t i EventSet pr') = response_outcome m" for t
      by (rule finish_resolved [OF _ slots(1)]) (use assms(8) in \<open>simp_all add: pr'(2) p'_def\<close>)
    have err: "fst (send_request_finish t i EventSet pr') = Inl (APIError (api_error_from_proto err))"
      if "m = Reply (ProtoOAErrorRes err)" for t err using out that by simp
    have val: "fst (send_request_finish t i EventSet pr') = Inr m" if "\<nexists>err. m = Reply (ProtoOAErrorRes err)" for t
      using out response_outcome_value [OF that] by simp
    show ?thesis
      by (rule exI [of _ raw], rule exI [of _ s'], rule exI [of _ calls], rule exI [of _ pr'])
        (intro conjI raw(1,2) recv, subst if_P [OF True],
         intro conjI allI impI exI [of _ p'] pr'(1) slots(1,2) err [unfolded api_error_from_proto_def] val slots(3) [rule_format])
  next
    case False
    then have "calls = dispatch_event pr m" "pr' = pr"
      using out assms(3) by (auto simp: dispatch_message_def wrap_message_conv split: if_splits)
    with False raw recv show ?thesis
      by (intro exI [of _ raw] exI [of _ s'] exI [of _ calls] exI [of _ pr']) (auto simp: dispatch_event_conv)
  qed
qed

theorem reply_delivered_witness:
  "\<exists>raw s' pr'. read_framed_message net_receive [[0, 0, 0], [3, 1], [2, 3, 9]] = (Inr raw, s') \<and> concat s' = [9] \<and>
    reader_receive (\<lambda>_. Inr (sample_envelope ''1'')) (\<lambda>_ _. Inr (Reply (ProtoOATraderRes 7 None))) (Inr raw)
      (sample_protocol\<lparr>pr_pending := [(''1'', \<lparr>pd_event = False, pd_outcome = None\<rparr>)]\<rparr>) = (Inr [], pr') \<and>
    fst (send_request_finish 30 ''1'' EventSet pr') = Inr (Reply (ProtoOATraderRes 7 None))"
proof -
  let ?m = "Reply (ProtoOATraderRes 7 None)" and ?pr = "sample_protocol\<lparr>pr_pending := [(''1'', \<lparr>pd_event = False, pd_outcome = None\<rparr>)]\<rparr>"
  have "wrap_message (\<lambda>_. []) ?m (Some ''1'') = Inr (sample_envelope ''1'')"
    by (simp add: wrap_message_conv sample_envelope_def get_class_def payload_type_to_class_def)
  moreover have "encode_with_length_prefix (\<lambda>_. [1, 2, 3]) (sample_envelope ''1'') = Inr [0, 0, 0, 3, 1, 2, 3]"
    by (simp add: encode_with_length_prefix_def struct_pack_I_def)
  moreover have "int (length ((\<lambda>_. [1, 2, 3]) (sample_envelope ''1'') :: bytes)) \<le> MAX_MESSAGE_SIZE" by (simp add: MAX_MESSAGE_SIZE_def)
  ultimately show ?thesis
    using reply_delivered [where receive = net_receive and content = concat and s = "[[0, 0, 0], [3, 1], [2, 3, 9]]" and rest = "[9]" and m = ?m and i = "''1''"
        and frame = "[0, 0, 0, 3, 1, 2, 3]" and ser = "\<lambda>_. []" and ser_env = "\<lambda>_. [1, 2, 3]" and env = "sample_envelope ''1''"
        and parse = "\<lambda>_ _. Inr ?m" and parse_env = "\<lambda>_. Inr (sample_envelope ''1'')" and pr = ?pr, OF net_receive_law]
    by (simp add: sample_protocol_def) blast
qed

text \<open>
  Registering a handler and disposing of the registration leaves what the others see
  unchanged, and between the two it is called exactly once more per matching message.
\<close>

theorem register_dispose:
  "handlers_for (on_event k h pr) k = handlers_for pr k @ [h] \<and>
   (h \<notin> set (handlers_for pr k) \<longrightarrow>
      (\<forall>k'. handlers_for (remove_handler k h (on_event k h pr)) k' = handlers_for pr k'))"
  by (auto simp: handlers_for_def on_event_def remove_handler_def Let_def dict.get_assign remove1_append
      split: option.splits)

theorem register_dispose_witness:
  "handlers_for (remove_handler KeyBetterprotoMessage 3 (on_event KeyBetterprotoMessage 3 sample_protocol)) KeyObject = []"
  using register_dispose [of KeyBetterprotoMessage 3 sample_protocol]
  by (simp add: handlers_for_def sample_protocol_def protocol_init_def)

text \<open>
  A failure that repeats on every read is not retried forever: ten failures in a row,
  of any kinds the loop treats as recoverable, end in a reported drop after nine pauses,
  and a single success in between starts the count afresh.
\<close>

theorem reader_escalates:
  assumes "\<forall>e \<in> set es. recoverable e"
  shows "(length es = 10 \<longrightarrow> reader_passes 0 0 (map Inl es @ rs :: 'a res list) = (9, ReportDrop)) \<and>
    (length es < 10 \<longrightarrow> reader_passes 0 p (map Inl es @ Inr x # rs) = reader_passes 0 (p + length es) rs)"
proof (intro conjI impI)
  assume "length es = 10"
  then obtain es' e where es: "es = es' @ [e]" "length es' = 9"
    by (cases es rule: rev_cases) auto
  with assms reader_passes_errors [of es' 0 0 "Inl e # rs"] show "reader_passes 0 0 (map Inl es @ rs) = (9, ReportDrop)"
    by (simp add: MAX_CONSECUTIVE_READ_ERRORS_def reader_verdict_recoverable)
next
  assume "length es < 10"
  with reader_passes_errors [OF assms, of 0 p "Inr x # rs"]
  show "reader_passes 0 p (map Inl es @ Inr x # rs) = reader_passes 0 (p + length es) rs"
    by (simp add: MAX_CONSECUTIVE_READ_ERRORS_def)
qed

theorem reader_escalates_witness:
  "reader_passes 0 0 (map Inl (replicate 10 (UnknownPayloadTypeError 9)) :: unit res list) = (9, ReportDrop)"
  using reader_escalates [of "replicate 10 (UnknownPayloadTypeError 9)" "[]"] by simp

end
