(* ===== verification/Reconnection.thy ===== *)
theory Reconnection
  imports Protocol
begin

text \<open>
  The life of the link: reader loops, heartbeat loops and the reconnection task of
  \<open>connection/protocol.py\<close>, \<open>connection/heartbeat.py\<close> and \<open>connection/supervisor.py\<close>,
  interleaved in every order the event loop allows. A step runs one task from one
  suspension to the next, through the segments of \<open>Protocol\<close>.

  Two facts about the event loop are built into the rules. A task that was spawned starts,
  and a cancellation that was requested is delivered, before an I/O operation begun later
  completes (\<open>settled\<close>): so no task from before is left over when a connection attempt
  succeeds or the listeners have talked to the server again. A cancelled task may still
  finish the operation it is suspended in, once, if that was already done.
\<close>

subsection \<open>Tasks\<close>

datatype phase = Fresh | Busy nat | Pausing nat | Notifying

text \<open>Spawned but not started; suspended in its work; pausing after an error; telling the listener.\<close>

text \<open>A task has a number (its cancel scope), whether that scope is cancelled, and its phase.\<close>

type_synonym task = "nat \<times> bool \<times> phase"

datatype rec_phase =
    RHead
  | RClosing
  | RConnecting nat
  | RBackoff nat
  | RRestoring
  | RRenotify

record 'h link =
  lk_protocol :: "'h protocol"
  lk_connected :: bool
  lk_readers :: "task list"
  lk_heartbeats :: "task list"
  lk_heartbeat_scope :: "nat option"
  lk_next :: nat
  lk_reconnect_task :: "rec_phase option"
  lk_raised :: "exn option"

text \<open>Cancelling a scope reaches the task that opened it; a task that has not started has none.\<close>

definition cancel_scope :: "nat option \<Rightarrow> task list \<Rightarrow> task list" where
  "cancel_scope scope ts = map (\<lambda>(i, c, p). (i, c \<or> scope = Some i \<and> p \<noteq> Fresh, p)) ts"

definition active :: "task list \<Rightarrow> task list" where
  "active ts = filter (\<lambda>(i, c, p). \<not> c) ts"

definition notifying :: "task list \<Rightarrow> task list" where
  "notifying ts = filter (\<lambda>(i, c, p). p = Notifying) ts"

definition settled_tasks :: "task list \<Rightarrow> bool" where
  "settled_tasks ts \<longleftrightarrow> list_all (\<lambda>(i, c, p). \<not> c \<and> p \<noteq> Fresh) ts"

definition settled :: "'h link \<Rightarrow> bool" where
  "settled lk \<longleftrightarrow> settled_tasks (lk_readers lk) \<and> settled_tasks (lk_heartbeats lk)"

subsection \<open>Segments\<close>

text \<open>The head of the reader's loop: \<open>while self._running\<close>, then \<open>self._transport.stream\<close>.\<close>

definition reader_head :: "'h link \<Rightarrow> nat \<Rightarrow> bool \<Rightarrow> nat \<Rightarrow> task list" where
  "reader_head lk i c n =
     (if c \<or> \<not> pr_running (lk_protocol lk) \<or> \<not> lk_connected lk then [] else [(i, False, Busy n)])"

text \<open>A detector reports the drop; it stays alive only while it notifies the listener.\<close>

definition report_drop :: "nat \<Rightarrow> bool \<Rightarrow> 'h protocol \<Rightarrow> task list \<times> 'h protocol" where
  "report_drop i c pr =
     (let (notify, pr') = handle_disconnect pr in (if notify then [(i, c, Notifying)] else [], pr'))"

text \<open>
  What follows a read: the next pass, the pause, the report (guarded by \<open>if self._running\<close>)
  or the end. A cancelled reader does not get past its next suspension.
\<close>

definition reader_after_read :: "'h link \<Rightarrow> nat \<Rightarrow> bool \<Rightarrow> nat \<Rightarrow> unit res \<Rightarrow> task list \<times> 'h protocol" where
  "reader_after_read lk i c n r =
     (let pr = lk_protocol lk in
      case reader_verdict n r of
        ReadOn m \<Rightarrow> (reader_head lk i c m, pr)
      | BackOff m \<Rightarrow> (if c then [] else [(i, c, Pausing m)], pr)
      | ReportDrop \<Rightarrow> if pr_running pr then report_drop i c pr else ([], pr)
      | LeaveQuietly \<Rightarrow> ([], pr))"

text \<open>\<open>_heartbeat_loop\<close> after its sleep and its write: nothing wrong, or a timeout or a failed write.\<close>

definition heartbeat_after_wait :: "'h link \<Rightarrow> nat \<Rightarrow> bool \<Rightarrow> bool \<Rightarrow> task list \<times> 'h protocol" where
  "heartbeat_after_wait lk i c failed =
     (if failed then report_drop i c (lk_protocol lk)
      else (if c then [] else [(i, c, Busy 0)], lk_protocol lk))"

text \<open>The first pass of \<open>_reconnect_task\<close>'s loop body: drop the reader, clear the stream.\<close>

definition begin_round :: "'h link \<Rightarrow> 'h link" where
  "begin_round lk =
     (let (scope, pr') = reconnect_round (lk_protocol lk) in
      lk\<lparr>lk_protocol := pr', lk_readers := cancel_scope scope (lk_readers lk),
         lk_connected := False, lk_reconnect_task := Some RClosing\<rparr>)"

text \<open>\<open>_reconnect_task\<close> ends in one of its \<open>except\<close> clauses.\<close>

definition give_up :: "exn \<Rightarrow> 'h link \<Rightarrow> 'h link" where
  "give_up e lk =
     (let (r, pr') = reconnect_failed e (lk_protocol lk) in
      lk\<lparr>lk_protocol := pr', lk_reconnect_task := None,
         lk_raised := (case r of Inl x \<Rightarrow> Some x | Inr u \<Rightarrow> lk_raised lk)\<rparr>)"

text \<open>
  A connection attempt succeeded: \<open>_reconnect\<close> spawns a reader and calls the listener,
  whose first act, \<open>HeartbeatManager.restart\<close>, cancels the old heartbeat loop and spawns
  one; only then does it suspend.
\<close>

definition link_restored :: "'h link \<Rightarrow> 'h link" where
  "link_restored lk =
     (let n = lk_next lk in
      lk\<lparr>lk_connected := True,
         lk_readers := lk_readers lk @ [(n, False, Fresh)],
         lk_heartbeats :=
           (if pr_listener (lk_protocol lk)
            then cancel_scope (lk_heartbeat_scope lk) (lk_heartbeats lk) @ [(n + 1, False, Fresh)]
            else lk_heartbeats lk),
         lk_next := n + 2, lk_reconnect_task := Some RRestoring\<rparr>)"

text \<open>After the listener returned: done, or once more round on behalf of a drop seen meanwhile.\<close>

definition round_done :: "'h link \<Rightarrow> 'h link" where
  "round_done lk =
     (let (again, pr') = reconnect_again (lk_protocol lk) in
      lk\<lparr>lk_protocol := pr', lk_reconnect_task := (if again then Some RRenotify else None)\<rparr>)"

text \<open>What the requests and handlers do to the protocol meanwhile leaves the link fields alone.\<close>

definition same_link_fields :: "'h protocol \<Rightarrow> 'h protocol \<Rightarrow> bool" where
  "same_link_fields pr pr' \<longleftrightarrow>
     pr' = pr\<lparr>pr_counter := pr_counter pr', pr_pending := pr_pending pr', pr_event_handlers := pr_event_handlers pr'\<rparr>"

subsection \<open>The step relation\<close>

inductive link_step :: "(nat \<Rightarrow> bool) \<Rightarrow> (int \<Rightarrow> nat \<Rightarrow> bool) \<Rightarrow> 'h link \<Rightarrow> 'h link \<Rightarrow> bool"
  for stop_never :: "nat \<Rightarrow> bool" and stop_after_attempt :: "int \<Rightarrow> nat \<Rightarrow> bool" where
  other_work: "same_link_fields (lk_protocol lk) pr' \<Longrightarrow>
    link_step stop_never stop_after_attempt lk (lk\<lparr>lk_protocol := pr'\<rparr>)"
| reader_starts: "lk_readers lk = xs @ (i, c, Fresh) # ys \<Longrightarrow>
    link_step stop_never stop_after_attempt lk
      (lk\<lparr>lk_protocol := (lk_protocol lk)\<lparr>pr_reader_scope := Some i\<rparr>,
          lk_readers := xs @ reader_head lk i c 0 @ ys\<rparr>)"
| reader_reads: "lk_readers lk = xs @ (i, c, Busy n) # ys \<Longrightarrow> reader_verdict n r \<noteq> LeaveQuietly \<Longrightarrow>
    reader_after_read lk i c n r = (t, pr') \<Longrightarrow>
    link_step stop_never stop_after_attempt lk (lk\<lparr>lk_protocol := pr', lk_readers := xs @ t @ ys\<rparr>)"
| reader_resumes: "lk_readers lk = xs @ (i, c, Pausing n) # ys \<Longrightarrow>
    link_step stop_never stop_after_attempt lk (lk\<lparr>lk_readers := xs @ reader_head lk i c n @ ys\<rparr>)"
| reader_notified: "lk_readers lk = xs @ (i, False, Notifying) # ys \<Longrightarrow>
    link_step stop_never stop_after_attempt lk (lk\<lparr>lk_readers := xs @ ys, lk_reconnect_task := Some RHead\<rparr>)"
| reader_cancelled: "lk_readers lk = xs @ (i, True, p) # ys \<Longrightarrow>
    link_step stop_never stop_after_attempt lk (lk\<lparr>lk_readers := xs @ ys\<rparr>)"
| heartbeat_starts: "lk_heartbeats lk = xs @ (i, c, Fresh) # ys \<Longrightarrow>
    link_step stop_never stop_after_attempt lk
      (lk\<lparr>lk_heartbeat_scope := Some i, lk_heartbeats := xs @ (i, c, Busy 0) # ys\<rparr>)"
| heartbeat_waits: "lk_heartbeats lk = xs @ (i, c, Busy n) # ys \<Longrightarrow>
    heartbeat_after_wait lk i c failed = (t, pr') \<Longrightarrow>
    link_step stop_never stop_after_attempt lk (lk\<lparr>lk_protocol := pr', lk_heartbeats := xs @ t @ ys\<rparr>)"
| heartbeat_notified: "lk_heartbeats lk = xs @ (i, False, Notifying) # ys \<Longrightarrow>
    link_step stop_never stop_after_attempt lk (lk\<lparr>lk_heartbeats := xs @ ys, lk_reconnect_task := Some RHead\<rparr>)"
| heartbeat_cancelled: "lk_heartbeats lk = xs @ (i, True, p) # ys \<Longrightarrow>
    link_step stop_never stop_after_attempt lk (lk\<lparr>lk_heartbeats := xs @ ys\<rparr>)"
| round_begins: "lk_reconnect_task lk = Some RHead \<Longrightarrow>
    link_step stop_never stop_after_attempt lk (begin_round lk)"
| closed: "lk_reconnect_task lk = Some RClosing \<Longrightarrow>
    link_step stop_never stop_after_attempt lk
      (case reconnect_guard (lk_protocol lk) of
         Inl e \<Rightarrow> give_up e lk
       | Inr u \<Rightarrow> lk\<lparr>lk_reconnect_task := Some (RConnecting 1)\<rparr>)"
| attempt_succeeds: "lk_reconnect_task lk = Some (RConnecting k) \<Longrightarrow> settled lk \<Longrightarrow>
    link_step stop_never stop_after_attempt lk (link_restored lk)"
| attempt_fails: "lk_reconnect_task lk = Some (RConnecting k) \<Longrightarrow>
    link_step stop_never stop_after_attempt lk
      (if retry_stop stop_never stop_after_attempt (lk_protocol lk) k
       then give_up (CTraderConnectionFailedError host port cause) lk
       else lk\<lparr>lk_reconnect_task := Some (RBackoff k)\<rparr>)"
| backoff_over: "lk_reconnect_task lk = Some (RBackoff k) \<Longrightarrow>
    link_step stop_never stop_after_attempt lk (lk\<lparr>lk_reconnect_task := Some (RConnecting (k + 1))\<rparr>)"
| restored: "lk_reconnect_task lk = Some RRestoring \<Longrightarrow> settled lk \<Longrightarrow>
    link_step stop_never stop_after_attempt lk (round_done lk)"
| renotified: "lk_reconnect_task lk = Some RRenotify \<Longrightarrow>
    link_step stop_never stop_after_attempt lk (lk\<lparr>lk_reconnect_task := Some RHead\<rparr>)"
| stopped: "stop_protocol (lk_protocol lk) = (scope, grp, pr') \<Longrightarrow>
    link_step stop_never stop_after_attempt lk
      (lk\<lparr>lk_protocol := pr', lk_readers := map (\<lambda>(i, c, p). (i, True, p)) (lk_readers lk)\<rparr>)"

inductive link_reachable :: "(nat \<Rightarrow> bool) \<Rightarrow> (int \<Rightarrow> nat \<Rightarrow> bool) \<Rightarrow> 'h link \<Rightarrow> 'h link \<Rightarrow> bool"
  for stop_never :: "nat \<Rightarrow> bool" and stop_after_attempt :: "int \<Rightarrow> nat \<Rightarrow> bool" and lk0 :: "'h link" where
  start: "link_reachable stop_never stop_after_attempt lk0 lk0"
| step: "link_reachable stop_never stop_after_attempt lk0 lk \<Longrightarrow>
    link_step stop_never stop_after_attempt lk lk' \<Longrightarrow> link_reachable stop_never stop_after_attempt lk0 lk'"

text \<open>The link as \<open>ConnectionSupervisor.serving\<close> brings it up: connected, one reader, one heartbeat.\<close>

definition link_up :: "'h protocol \<Rightarrow> 'h link" where
  "link_up pr =
     \<lparr>lk_protocol = snd (serve_enter (set_listener pr)), lk_connected = True, lk_readers = [(0, False, Fresh)],
      lk_heartbeats = [(1, False, Fresh)], lk_heartbeat_scope = None, lk_next = 2,
      lk_reconnect_task = None, lk_raised = None\<rparr>"

subsection \<open>Task lists\<close>

fun task_ok :: "nat option \<Rightarrow> task \<Rightarrow> bool" where
  "task_ok scope (i, c, p) \<longleftrightarrow> (if p = Fresh then \<not> c else c \<or> scope = Some i)"

definition tasks_ok :: "nat option \<Rightarrow> task list \<Rightarrow> bool" where
  "tasks_ok scope ts \<longleftrightarrow> length (active ts) \<le> 1 \<and> list_all (task_ok scope) ts"

definition all_fresh :: "task list \<Rightarrow> bool" where
  "all_fresh ts \<longleftrightarrow> list_all (\<lambda>(i, c, p). p = Fresh) ts"

lemma active_simps [simp]:
  "active [] = []"
  "active (xs @ ys) = active xs @ active ys"
  "active ((i, c, p) # ts) = (if c then active ts else (i, c, p) # active ts)"
  by (simp_all add: active_def)

lemma notifying_simps [simp]:
  "notifying [] = []"
  "notifying (xs @ ys) = notifying xs @ notifying ys"
  "notifying ((i, c, p) # ts) = (if p = Notifying then (i, c, p) # notifying ts else notifying ts)"
  by (simp_all add: notifying_def)

lemma notifying_cancel [simp]: "length (notifying (cancel_scope scope ts)) = length (notifying ts)"
  by (induction ts) (auto simp: cancel_scope_def notifying_def)

lemma notifying_cancel_Nil [simp]: "notifying (cancel_scope scope ts) = [] \<longleftrightarrow> notifying ts = []"
  using notifying_cancel [of scope ts] by (metis length_0_conv)

lemma list_all_task_ok_cancelled:
  "active ts = [] \<Longrightarrow> list_all (task_ok scope) ts \<Longrightarrow> list_all (task_ok scope') ts"
  by (induction ts) (auto split: if_splits)

lemma tasks_ok_replace:
  assumes "tasks_ok scope (xs @ (i, c, p) # ys)" "p \<noteq> Fresh" "q \<noteq> Fresh"
  shows "tasks_ok scope (xs @ (i, c, q) # ys)" "tasks_ok scope (xs @ ys)"
  using assms by (auto simp: tasks_ok_def split: if_splits)

lemma tasks_ok_start:
  assumes "tasks_ok scope (xs @ (i, c, Fresh) # ys)"
  shows "\<not> c" "active xs = []" "active ys = []" "tasks_ok (Some i) (xs @ (i, False, Busy n) # ys)"
    "tasks_ok (Some i) (xs @ ys)"
  using assms list_all_task_ok_cancelled [of xs scope "Some i"] list_all_task_ok_cancelled [of ys scope "Some i"]
  by (auto simp: tasks_ok_def split: if_splits)

lemma tasks_ok_cancel:
  assumes "tasks_ok scope ts"
  shows "tasks_ok None (cancel_scope scope ts)" "all_fresh (active (cancel_scope scope ts))"
proof -
  have "length (active (cancel_scope scope ts)) \<le> length (active ts)"
    by (induction ts) (auto simp: cancel_scope_def)
  moreover have "list_all (task_ok scope) ts \<Longrightarrow> list_all (task_ok None) (cancel_scope scope ts)"
    by (induction ts) (auto simp: cancel_scope_def split: if_splits)
  ultimately show "tasks_ok None (cancel_scope scope ts)" using assms by (simp add: tasks_ok_def)
  have "list_all (task_ok scope) ts \<Longrightarrow> all_fresh (active (cancel_scope scope ts))"
    by (induction ts) (auto simp: cancel_scope_def all_fresh_def split: if_splits)
  then show "all_fresh (active (cancel_scope scope ts))" using assms by (simp add: tasks_ok_def)
qed

lemma settled_fresh: "settled_tasks ts \<Longrightarrow> all_fresh (active ts) \<Longrightarrow> ts = []"
  by (cases ts) (auto simp: settled_tasks_def all_fresh_def)

lemma settled_cancel:
  assumes "tasks_ok scope ts" "settled_tasks ts"
  shows "active (cancel_scope scope ts) = []"
proof -
  have "list_all (task_ok scope) ts \<Longrightarrow> settled_tasks ts \<Longrightarrow> active (cancel_scope scope ts) = []"
    by (induction ts) (auto simp: cancel_scope_def settled_tasks_def split: if_splits)
  with assms show ?thesis by (simp add: tasks_ok_def)
qed

lemma tasks_ok_spawn: "tasks_ok scope ts \<Longrightarrow> active ts = [] \<Longrightarrow> tasks_ok scope (ts @ [(i, False, Fresh)])"
  by (auto simp: tasks_ok_def)

subsection \<open>The invariant\<close>

text \<open>
  While the protocol runs: at most one reader and one heartbeat loop are active; a
  cancelled task is left over only while a reconnection is in flight; \<open>_reconnecting\<close> is
  set exactly when one, and only one, party is on it: the reconnection task or a detector
  about to spawn it; a link no reconnection is working on is connected and has its reader;
  while a connection is being made there is no reader that could race the new one.
\<close>

definition working_on_it :: "'h link \<Rightarrow> nat" where
  "working_on_it lk = length (notifying (lk_readers lk)) + length (notifying (lk_heartbeats lk)) +
     (if lk_reconnect_task lk = None then 0 else 1)"

definition dialling :: "rec_phase option \<Rightarrow> bool" where
  "dialling r \<longleftrightarrow> (case r of Some RClosing \<Rightarrow> True | Some (RConnecting k) \<Rightarrow> True | Some (RBackoff k) \<Rightarrow> True | _ \<Rightarrow> False)"

definition within_budget :: "int option \<Rightarrow> rec_phase option \<Rightarrow> bool" where
  "within_budget attempts r \<longleftrightarrow>
     (case (attempts, r) of
        (Some n, Some (RConnecting k)) \<Rightarrow> 1 \<le> k \<and> int k \<le> max 1 n
      | (Some n, Some (RBackoff k)) \<Rightarrow> 1 \<le> k \<and> int k < n
      | _ \<Rightarrow> True)"

definition uncancelled :: "task list \<Rightarrow> bool" where
  "uncancelled ts \<longleftrightarrow> list_all (\<lambda>(i, c, p). \<not> c) ts"

definition serviced :: "'h link \<Rightarrow> bool" where
  "serviced lk \<longleftrightarrow> lk_connected lk \<and> active (lk_readers lk) \<noteq> []"

definition running_inv :: "'h link \<Rightarrow> bool" where
  "running_inv lk \<longleftrightarrow>
     tasks_ok (pr_reader_scope (lk_protocol lk)) (lk_readers lk) \<and>
     tasks_ok (lk_heartbeat_scope lk) (lk_heartbeats lk) \<and>
     (lk_reconnect_task lk = None \<longrightarrow> uncancelled (lk_readers lk) \<and> uncancelled (lk_heartbeats lk)) \<and>
     working_on_it lk = (if pr_reconnecting (lk_protocol lk) then 1 else 0) \<and>
     (\<not> pr_reconnecting (lk_protocol lk) \<longrightarrow> serviced lk) \<and>
     (lk_reconnect_task lk = Some RRestoring \<and> \<not> pr_redo_requested (lk_protocol lk) \<longrightarrow> serviced lk) \<and>
     (dialling (lk_reconnect_task lk) \<longrightarrow>
        \<not> lk_connected lk \<and> all_fresh (active (lk_readers lk))) \<and>
     within_budget (pr_reconnect_attempts (lk_protocol lk)) (lk_reconnect_task lk)"

definition link_inv :: "'h link \<Rightarrow> bool" where
  "link_inv lk \<longleftrightarrow> pr_task_group (lk_protocol lk) \<and>
     (pr_redo_requested (lk_protocol lk) \<longrightarrow> pr_reconnecting (lk_protocol lk)) \<and>
     (pr_running (lk_protocol lk) \<longrightarrow> running_inv lk)"

lemmas link_inv_defs = link_inv_def running_inv_def working_on_it_def serviced_def

lemma running_invD:
  assumes "running_inv lk"
  shows "tasks_ok (pr_reader_scope (lk_protocol lk)) (lk_readers lk)"
    and "tasks_ok (lk_heartbeat_scope lk) (lk_heartbeats lk)"
    and "lk_reconnect_task lk = None \<Longrightarrow> uncancelled (lk_readers lk) \<and> uncancelled (lk_heartbeats lk)"
    and "working_on_it lk = (if pr_reconnecting (lk_protocol lk) then 1 else 0)"
    and "\<not> pr_reconnecting (lk_protocol lk) \<Longrightarrow> serviced lk"
    and "lk_reconnect_task lk = Some RRestoring \<Longrightarrow> \<not> pr_redo_requested (lk_protocol lk) \<Longrightarrow> serviced lk"
    and "dialling (lk_reconnect_task lk) \<Longrightarrow>
        \<not> lk_connected lk \<and> all_fresh (active (lk_readers lk))"
    and "within_budget (pr_reconnect_attempts (lk_protocol lk)) (lk_reconnect_task lk)"
  using assms by (simp_all add: running_inv_def)

text \<open>A reconnection task in flight: nobody is notifying, and \<open>_reconnecting\<close> is set.\<close>

lemma task_in_flight:
  assumes "running_inv lk" "lk_reconnect_task lk = Some r"
  shows "pr_reconnecting (lk_protocol lk)" "notifying (lk_readers lk) = []" "notifying (lk_heartbeats lk) = []"
  using running_invD(4) [OF assms(1)] assms(2) by (auto simp: working_on_it_def split: if_splits)

lemma notifier_alone:
  assumes "running_inv lk" "lk_readers lk = xs @ (i, c, Notifying) # ys \<or> lk_heartbeats lk = xs @ (i, c, Notifying) # ys"
  shows "lk_reconnect_task lk = None" "pr_reconnecting (lk_protocol lk)"
  using running_invD(4) [OF assms(1)] assms(2) by (auto simp: working_on_it_def split: if_splits)

lemma handle_disconnect_running:
  assumes "pr_running pr" "pr_task_group pr"
  shows "handle_disconnect pr =
    (if pr_reconnecting pr then (False, pr\<lparr>pr_redo_requested := True\<rparr>) else (True, pr\<lparr>pr_reconnecting := True\<rparr>))"
  using assms by (simp add: handle_disconnect_def)

lemma uncancelled_simps [simp]:
  "uncancelled []"
  "uncancelled (xs @ ys) \<longleftrightarrow> uncancelled xs \<and> uncancelled ys"
  "uncancelled ((i, c, p) # ts) \<longleftrightarrow> \<not> c \<and> uncancelled ts"
  by (auto simp: uncancelled_def)

lemma all_fresh_simps [simp]:
  "all_fresh []"
  "all_fresh (xs @ ys) \<longleftrightarrow> all_fresh xs \<and> all_fresh ys"
  "all_fresh ((i, c, p) # ts) \<longleftrightarrow> p = Fresh \<and> all_fresh ts"
  by (auto simp: all_fresh_def)

lemma dialling_simps [simp]:
  "\<not> dialling None" "\<not> dialling (Some RHead)" "dialling (Some RClosing)" "dialling (Some (RConnecting k))"
  "dialling (Some (RBackoff k))" "\<not> dialling (Some RRestoring)" "\<not> dialling (Some RRenotify)"
  by (simp_all add: dialling_def)

lemma within_budget_simps [simp]:
  "within_budget a None" "within_budget a (Some RHead)" "within_budget a (Some RClosing)"
  "within_budget a (Some RRestoring)" "within_budget a (Some RRenotify)" "within_budget None r"
  "within_budget (Some n) (Some (RConnecting k)) \<longleftrightarrow> 1 \<le> k \<and> int k \<le> max 1 n"
  "within_budget (Some n) (Some (RBackoff k)) \<longleftrightarrow> 1 \<le> k \<and> int k < n"
  by (simp_all add: within_budget_def split: option.splits)

lemma inv_reader_starts:
  assumes "link_inv lk" "lk_readers lk = xs @ (i, c, Fresh) # ys"
  shows "link_inv (lk\<lparr>lk_protocol := (lk_protocol lk)\<lparr>pr_reader_scope := Some i\<rparr>,
          lk_readers := xs @ reader_head lk i c 0 @ ys\<rparr>)"
proof (cases "pr_running (lk_protocol lk)")
  case True
  then have inv: "running_inv lk" using assms(1) by (simp add: link_inv_def)
  note ok = tasks_ok_start [OF running_invD(1) [OF inv, unfolded assms(2)]]
  from assms True ok inv show ?thesis
    by (auto simp: link_inv_defs reader_head_def)
qed (use assms(1) in \<open>simp add: link_inv_def\<close>)

lemma inv_reader_head:
  assumes "link_inv lk" "lk_readers lk = xs @ (i, c, p) # ys" "p \<noteq> Fresh" "p \<noteq> Notifying"
  shows "link_inv (lk\<lparr>lk_readers := xs @ reader_head lk i c n @ ys\<rparr>)"
proof (cases "pr_running (lk_protocol lk)")
  case True
  then have inv: "running_inv lk" using assms(1) by (simp add: link_inv_def)
  from tasks_ok_replace [OF running_invD(1) [OF inv, unfolded assms(2)] assms(3), of "Busy n"]
  show ?thesis using assms True inv
    by (auto simp: link_inv_defs reader_head_def split: if_splits)
qed (use assms(1) in \<open>simp add: link_inv_def\<close>)

lemma inv_reader_report:
  assumes "link_inv lk" "lk_readers lk = xs @ (i, c, Busy n) # ys" "report_drop i c (lk_protocol lk) = (t, pr')"
    "pr_running (lk_protocol lk)"
  shows "link_inv (lk\<lparr>lk_protocol := pr', lk_readers := xs @ t @ ys\<rparr>)"
proof -
  have inv: "running_inv lk" "pr_task_group (lk_protocol lk)" using assms(1,4) by (simp_all add: link_inv_def)
  note ok = tasks_ok_replace [OF running_invD(1) [OF inv(1), unfolded assms(2)], of Notifying]
  show ?thesis using assms inv ok
    by (auto simp: link_inv_defs report_drop_def Let_def handle_disconnect_running split: if_splits)
qed

lemma inv_heartbeat_report:
  assumes "link_inv lk" "lk_heartbeats lk = xs @ (i, c, Busy n) # ys" "report_drop i c (lk_protocol lk) = (t, pr')"
  shows "link_inv (lk\<lparr>lk_protocol := pr', lk_heartbeats := xs @ t @ ys\<rparr>)"
proof (cases "pr_running (lk_protocol lk)")
  case True
  have inv: "running_inv lk" "pr_task_group (lk_protocol lk)" using assms(1) True by (simp_all add: link_inv_def)
  note ok = tasks_ok_replace [OF running_invD(2) [OF inv(1), unfolded assms(2)], of Notifying]
  show ?thesis using assms inv ok True
    by (auto simp: link_inv_defs report_drop_def Let_def handle_disconnect_running split: if_splits)
next
  case False
  with assms show ?thesis by (auto simp: link_inv_def report_drop_def handle_disconnect_def)
qed

lemma inv_reader_reads:
  assumes "link_inv lk" "lk_readers lk = xs @ (i, c, Busy n) # ys" "reader_verdict n r \<noteq> LeaveQuietly"
    "reader_after_read lk i c n r = (t, pr')"
  shows "link_inv (lk\<lparr>lk_protocol := pr', lk_readers := xs @ t @ ys\<rparr>)"
proof (cases "pr_running (lk_protocol lk)")
  case True
  show ?thesis
  proof (cases "reader_verdict n r")
    case (ReadOn m)
    with assms inv_reader_head [OF assms(1,2), of m] show ?thesis by (auto simp: reader_after_read_def)
  next
    case (BackOff m)
    have "running_inv lk" using assms(1) True by (simp add: link_inv_def)
    from tasks_ok_replace [OF running_invD(1) [OF this, unfolded assms(2)], of "Pausing m"]
    show ?thesis using assms BackOff True
      by (auto simp: link_inv_defs reader_after_read_def split: if_splits)
  next
    case ReportDrop
    with assms True inv_reader_report [OF assms(1,2)] show ?thesis by (auto simp: reader_after_read_def)
  qed (use assms(3) in simp)
next
  case False
  with assms show ?thesis
    by (auto simp: link_inv_def reader_after_read_def Let_def split: reader_next.splits)
qed

lemma inv_reader_notified:
  assumes "link_inv lk" "lk_readers lk = xs @ (i, False, Notifying) # ys"
  shows "link_inv (lk\<lparr>lk_readers := xs @ ys, lk_reconnect_task := Some RHead\<rparr>)"
proof (cases "pr_running (lk_protocol lk)")
  case True
  then have inv: "running_inv lk" using assms(1) by (simp add: link_inv_def)
  have "tasks_ok (pr_reader_scope (lk_protocol lk)) (xs @ ys)"
    using tasks_ok_replace(2) [OF running_invD(1) [OF inv, unfolded assms(2)], of "Busy 0"] by simp
  moreover have "lk_reconnect_task lk = None" "pr_reconnecting (lk_protocol lk)"
    using notifier_alone [OF inv, of xs i False ys] assms(2) by simp_all
  ultimately show ?thesis using assms True by (simp add: link_inv_defs)
qed (use assms(1) in \<open>simp add: link_inv_def\<close>)

lemma inv_heartbeat_notified:
  assumes "link_inv lk" "lk_heartbeats lk = xs @ (i, False, Notifying) # ys"
  shows "link_inv (lk\<lparr>lk_heartbeats := xs @ ys, lk_reconnect_task := Some RHead\<rparr>)"
proof (cases "pr_running (lk_protocol lk)")
  case True
  then have inv: "running_inv lk" using assms(1) by (simp add: link_inv_def)
  have "tasks_ok (lk_heartbeat_scope lk) (xs @ ys)"
    using tasks_ok_replace(2) [OF running_invD(2) [OF inv, unfolded assms(2)], of "Busy 0"] by simp
  moreover have "lk_reconnect_task lk = None" "pr_reconnecting (lk_protocol lk)"
    using notifier_alone [OF inv, of xs i False ys] assms(2) by simp_all
  ultimately show ?thesis using assms True by (simp add: link_inv_defs)
qed (use assms(1) in \<open>simp add: link_inv_def\<close>)

lemma inv_cancelled:
  assumes "link_inv lk"
  shows "lk_readers lk = xs @ (i, True, p) # ys \<Longrightarrow> link_inv (lk\<lparr>lk_readers := xs @ ys\<rparr>)"
    and "lk_heartbeats lk = xs @ (i, True, p) # ys \<Longrightarrow> link_inv (lk\<lparr>lk_heartbeats := xs @ ys\<rparr>)"
  using assms by (auto simp: link_inv_defs tasks_ok_def split: if_splits)

lemma inv_heartbeat_starts:
  assumes "link_inv lk" "lk_heartbeats lk = xs @ (i, c, Fresh) # ys"
  shows "link_inv (lk\<lparr>lk_heartbeat_scope := Some i, lk_heartbeats := xs @ (i, c, Busy 0) # ys\<rparr>)"
proof (cases "pr_running (lk_protocol lk)")
  case True
  then have inv: "running_inv lk" using assms(1) by (simp add: link_inv_def)
  from tasks_ok_start [OF running_invD(2) [OF inv, unfolded assms(2)]] assms True
  show ?thesis by (simp add: link_inv_defs)
qed (use assms(1) in \<open>simp add: link_inv_def\<close>)

lemma inv_heartbeat_waits:
  assumes "link_inv lk" "lk_heartbeats lk = xs @ (i, c, Busy n) # ys" "heartbeat_after_wait lk i c failed = (t, pr')"
  shows "link_inv (lk\<lparr>lk_protocol := pr', lk_heartbeats := xs @ t @ ys\<rparr>)"
proof (cases failed)
  case True
  with assms(3) show ?thesis by (intro inv_heartbeat_report [OF assms(1,2)]) (simp add: heartbeat_after_wait_def)
next
  case False
  show ?thesis
  proof (cases "pr_running (lk_protocol lk)")
    case True
    then have inv: "running_inv lk" using assms(1) by (simp add: link_inv_def)
    from tasks_ok_replace [OF running_invD(2) [OF inv, unfolded assms(2)], of "Busy 0"] assms True False
    show ?thesis by (auto simp: link_inv_defs heartbeat_after_wait_def split: if_splits)
  qed (use assms False in \<open>auto simp: link_inv_def heartbeat_after_wait_def\<close>)
qed

lemma same_link_fieldsD:
  assumes "same_link_fields pr pr'"
  shows "pr_running pr' = pr_running pr" "pr_task_group pr' = pr_task_group pr"
    "pr_reconnecting pr' = pr_reconnecting pr" "pr_redo_requested pr' = pr_redo_requested pr"
    "pr_reader_scope pr' = pr_reader_scope pr" "pr_reconnect_attempts pr' = pr_reconnect_attempts pr"
  using assms unfolding same_link_fields_def by (cases pr; cases pr'; simp)+

lemma inv_begin_round:
  assumes "link_inv lk" "lk_reconnect_task lk = Some RHead"
  shows "link_inv (begin_round lk)"
  using assms tasks_ok_cancel [of "pr_reader_scope (lk_protocol lk)" "lk_readers lk"]
  by (auto simp: link_inv_defs begin_round_def reconnect_round_def Let_def split: if_splits)

lemma reconnect_failed_simps [simp]:
  "pr_running (snd (reconnect_failed e pr)) = False"
  "pr_reconnecting (snd (reconnect_failed e pr)) = False"
  "pr_redo_requested (snd (reconnect_failed e pr)) = False"
  "pr_task_group (snd (reconnect_failed e pr)) = pr_task_group pr"
  by (simp_all add: reconnect_failed_def abandon_def reconnect_finally_def fail_pending_def Let_def)

lemma inv_give_up: "link_inv lk \<Longrightarrow> link_inv (give_up e lk)"
  by (simp add: link_inv_def give_up_def case_prod_unfold Let_def)

lemma inv_closed:
  assumes "link_inv lk" "lk_reconnect_task lk = Some RClosing"
  shows "link_inv (lk\<lparr>lk_reconnect_task := Some (RConnecting 1)\<rparr>)"
  using assms by (cases "pr_reconnect_attempts (lk_protocol lk)") (auto simp: link_inv_defs)

lemma inv_attempt_succeeds:
  assumes "link_inv lk" "lk_reconnect_task lk = Some (RConnecting k)" "settled lk"
  shows "link_inv (link_restored lk)"
proof (cases "pr_running (lk_protocol lk)")
  case True
  then have inv: "running_inv lk" using assms(1) by (simp add: link_inv_def)
  have hb: "settled_tasks (lk_heartbeats lk)" using assms(3) by (simp add: settled_def)
  have rd: "lk_readers lk = []"
    using running_invD(7) [OF inv] assms(2,3) settled_fresh [of "lk_readers lk"] by (simp add: settled_def)
  have new_rd: "tasks_ok s [(m, False, Fresh)]" for s m by (simp add: tasks_ok_def)
  have new_hb: "tasks_ok (lk_heartbeat_scope lk)
      (cancel_scope (lk_heartbeat_scope lk) (lk_heartbeats lk) @ [(m, False, Fresh)])" for m
    using running_invD(2) [OF inv] tasks_ok_cancel(1) [OF running_invD(2) [OF inv]]
      settled_cancel [OF running_invD(2) [OF inv] hb] list_all_task_ok_cancelled
    by (auto simp: tasks_ok_def)
  show ?thesis using assms True inv new_rd new_hb
    by (auto simp: link_inv_defs link_restored_def Let_def rd)
next
  case False
  with assms(1) show ?thesis by (simp add: link_inv_def link_restored_def Let_def)
qed

lemma inv_attempt_fails:
  assumes "link_inv lk" "lk_reconnect_task lk = Some (RConnecting k)"
    "\<not> retry_stop stop_never stop_after_attempt (lk_protocol lk) k"
    "\<And>n k. stop_after_attempt n k \<longleftrightarrow> n \<le> int k"
  shows "link_inv (lk\<lparr>lk_reconnect_task := Some (RBackoff k)\<rparr>)"
  using assms by (cases "pr_reconnect_attempts (lk_protocol lk)") (auto simp: link_inv_defs retry_stop_def)

lemma inv_backoff_over:
  assumes "link_inv lk" "lk_reconnect_task lk = Some (RBackoff k)"
  shows "link_inv (lk\<lparr>lk_reconnect_task := Some (RConnecting (k + 1))\<rparr>)"
  using assms by (cases "pr_reconnect_attempts (lk_protocol lk)") (auto simp: link_inv_defs)

lemma settled_uncancelled: "settled_tasks ts \<Longrightarrow> uncancelled ts"
  by (auto simp: settled_tasks_def uncancelled_def list_all_iff)

lemma inv_restored:
  assumes "link_inv lk" "lk_reconnect_task lk = Some RRestoring" "settled lk"
  shows "link_inv (round_done lk)"
  using assms settled_uncancelled
  by (auto simp: link_inv_defs round_done_def reconnect_again_def reconnect_finally_def settled_def split: if_splits)

lemma inv_step:
  assumes "link_inv lk" "link_step stop_never stop_after_attempt lk lk'"
    "\<And>n k. stop_after_attempt n k \<longleftrightarrow> n \<le> int k"
  shows "link_inv lk'"
  using assms(2)
proof (cases rule: link_step.cases)
  case (other_work pr')
  then show ?thesis using assms(1) same_link_fieldsD [OF other_work(2)] by (simp add: link_inv_defs)
next
  case (heartbeat_waits xs i c n ys failed t pr')
  then show ?thesis using inv_heartbeat_waits [OF assms(1)] by simp
next
  case (reader_reads xs i c n ys r t pr')
  then show ?thesis using inv_reader_reads [OF assms(1)] by simp
next
  case (closed)
  then show ?thesis using inv_give_up [OF assms(1)] inv_closed [OF assms(1)] by (auto split: sum.splits)
next
  case (attempt_fails k host port cause)
  then show ?thesis using inv_give_up [OF assms(1)] inv_attempt_fails [OF assms(1) _ _ assms(3)] by auto
next
  case renotified
  then show ?thesis using assms(1) by (auto simp: link_inv_defs)
next
  case (stopped scope grp pr')
  then show ?thesis using assms(1) by (auto simp: link_inv_def stop_protocol_def)
qed (use inv_reader_starts [OF assms(1)] inv_reader_head [OF assms(1)]
    inv_reader_notified [OF assms(1)] inv_heartbeat_notified [OF assms(1)] inv_cancelled [OF assms(1)] inv_heartbeat_starts [OF assms(1)]
    inv_begin_round [OF assms(1)] inv_attempt_succeeds [OF assms(1)] inv_backoff_over [OF assms(1)]
    inv_restored [OF assms(1)] in simp_all)

lemma link_up_inv:
  "\<not> pr_running pr \<Longrightarrow> \<not> pr_reconnecting pr \<Longrightarrow> \<not> pr_redo_requested pr \<Longrightarrow> link_inv (link_up pr)"
  by (simp add: link_inv_defs link_up_def serve_enter_def set_listener_def tasks_ok_def)

text \<open>What the retry library documents of its two stop strategies.\<close>

definition stop_law :: "(nat \<Rightarrow> bool) \<Rightarrow> (int \<Rightarrow> nat \<Rightarrow> bool) \<Rightarrow> bool" where
  "stop_law stop_never stop_after_attempt \<longleftrightarrow>
     (\<forall>k. \<not> stop_never k) \<and> (\<forall>n k. stop_after_attempt n k \<longleftrightarrow> n \<le> int k)"

text \<open>A protocol that is not being served yet.\<close>

definition idle :: "'h protocol \<Rightarrow> bool" where
  "idle pr \<longleftrightarrow> \<not> pr_running pr \<and> \<not> pr_reconnecting pr \<and> \<not> pr_redo_requested pr"

lemma reachable_inv:
  assumes "link_reachable stop_never stop_after_attempt (link_up pr) lk" "idle pr"
    "stop_law stop_never stop_after_attempt"
  shows "link_inv lk"
  using assms(1)
proof (induction rule: link_reachable.induct)
  case start
  then show ?case using assms(2) by (simp add: idle_def link_up_inv)
next
  case (step lk lk')
  then show ?case using inv_step assms(3) by (metis stop_law_def)
qed

lemma idle_init [simp]: "idle (protocol_init a mn mx)"
  by (simp add: idle_def protocol_init_def)

subsection \<open>Giving up\<close>

text \<open>What a raised failure says: the protocol stopped, out of a finite, non-zero budget.\<close>

fun gave_up_properly :: "int option \<Rightarrow> bool \<Rightarrow> exn option \<Rightarrow> bool" where
  "gave_up_properly attempts running None = True"
| "gave_up_properly attempts running (Some e) =
     (\<not> running \<and> attempts \<noteq> None \<and> attempts \<noteq> Some 0 \<and>
      (\<exists>host port cause. e = CTraderReconnectAbandonedError ''connection lost and reconnection failed''
         (Some (CTraderConnectionFailedError host port cause))))"

fun past_the_guard :: "rec_phase option \<Rightarrow> bool" where
  "past_the_guard None = False"
| "past_the_guard (Some RHead) = False"
| "past_the_guard (Some RClosing) = False"
| "past_the_guard (Some _) = True"

definition raise_inv :: "int option \<Rightarrow> 'h link \<Rightarrow> bool" where
  "raise_inv attempts lk \<longleftrightarrow>
     pr_reconnect_attempts (lk_protocol lk) = attempts \<and>
     gave_up_properly attempts (pr_running (lk_protocol lk)) (lk_raised lk) \<and>
     (attempts = Some 0 \<longrightarrow> \<not> past_the_guard (lk_reconnect_task lk))"

lemma attempts_unchanged [simp]:
  "pr_reconnect_attempts (snd (report_drop i c pr)) = pr_reconnect_attempts pr"
  "pr_reconnect_attempts (snd (reader_after_read lk i c n r)) = pr_reconnect_attempts (lk_protocol lk)"
  "pr_reconnect_attempts (snd (heartbeat_after_wait lk i c f)) = pr_reconnect_attempts (lk_protocol lk)"
  "pr_reconnect_attempts (snd (reconnect_failed e pr)) = pr_reconnect_attempts pr"
  "pr_running (snd (report_drop i c pr)) = pr_running pr"
  "pr_running (snd (reader_after_read lk i c n r)) = pr_running (lk_protocol lk)"
  "pr_running (snd (heartbeat_after_wait lk i c f)) = pr_running (lk_protocol lk)"
  by (auto simp: report_drop_def handle_disconnect_def reader_after_read_def heartbeat_after_wait_def Let_def
      reconnect_failed_def abandon_def reconnect_finally_def fail_pending_def split: reader_next.splits)

lemma fst_reconnect_failed:
  "fst (reconnect_failed e pr) =
    (if pr_reconnect_attempts pr = Some 0 then Inr ()
     else Inl (CTraderReconnectAbandonedError (gives_up_reason e) (Some e)))"
  by (simp add: reconnect_failed_def abandon_def fail_pending_def Let_def)

lemma gave_up_properly_stop: "gave_up_properly attempts r e \<Longrightarrow> gave_up_properly attempts False e"
  by (cases e) simp_all

lemma raise_inv_give_up:
  assumes "raise_inv attempts lk" "attempts = Some 0 \<or> attempts \<noteq> None \<and> e = CTraderConnectionFailedError host port cause"
  shows "raise_inv attempts (give_up e lk)"
  using assms gave_up_properly_stop [of attempts "pr_running (lk_protocol lk)" "lk_raised lk"]
  by (auto simp: raise_inv_def give_up_def case_prod_unfold Let_def fst_reconnect_failed)

lemma raise_inv_step:
  assumes "raise_inv attempts lk" "link_step stop_never stop_after_attempt lk lk'" "stop_law stop_never stop_after_attempt"
  shows "raise_inv attempts lk'"
  using assms(2)
proof (cases rule: link_step.cases)
  case (other_work pr')
  then show ?thesis using assms(1) same_link_fieldsD [OF other_work(2)] by (simp add: raise_inv_def)
next
  case (reader_reads xs i c n ys r t pr')
  have "pr_reconnect_attempts pr' = pr_reconnect_attempts (lk_protocol lk)" "pr_running pr' = pr_running (lk_protocol lk)"
    using attempts_unchanged(2,6) [of lk i c n r] reader_reads(4) by simp_all
  with reader_reads(1) assms(1) show ?thesis by (simp add: raise_inv_def)
next
  case (heartbeat_waits xs i c n ys failed t pr')
  have "pr_reconnect_attempts pr' = pr_reconnect_attempts (lk_protocol lk)" "pr_running pr' = pr_running (lk_protocol lk)"
    using attempts_unchanged(3,7) [of lk i c failed] heartbeat_waits(3) by simp_all
  with heartbeat_waits(1) assms(1) show ?thesis by (simp add: raise_inv_def)
next
  case closed
  show ?thesis
  proof (cases "attempts = Some 0")
    case True
    with closed assms(1) raise_inv_give_up [OF assms(1)] show ?thesis
      by (simp add: reconnect_guard_def raise_inv_def)
  next
    case False
    with closed assms(1) show ?thesis by (simp add: reconnect_guard_def raise_inv_def)
  qed
next
  case (attempt_fails k host port cause)
  then have "attempts \<noteq> Some 0" using assms(1) by (auto simp: raise_inv_def)
  with attempt_fails assms(1,3) raise_inv_give_up [OF assms(1)] show ?thesis
    by (auto simp: raise_inv_def retry_stop_def stop_law_def split: option.splits)
next
  case (stopped scope grp pr')
  then have "pr' = (lk_protocol lk)\<lparr>pr_running := False\<rparr>" by (simp add: stop_protocol_def)
  with stopped(1) assms(1) gave_up_properly_stop show ?thesis by (auto simp: raise_inv_def)
next
  case restored
  then show ?thesis using assms(1)
    by (auto simp: raise_inv_def round_done_def reconnect_again_def reconnect_finally_def split: if_splits)
qed (use assms(1) in \<open>simp_all add: raise_inv_def begin_round_def reconnect_round_def link_restored_def Let_def\<close>)

lemma reachable_raise_inv:
  assumes "link_reachable stop_never stop_after_attempt (link_up pr) lk" "stop_law stop_never stop_after_attempt"
  shows "raise_inv (pr_reconnect_attempts pr) lk"
  using assms(1)
proof (induction rule: link_reachable.induct)
  case start
  then show ?case by (simp add: raise_inv_def link_up_def serve_enter_def set_listener_def)
next
  case (step lk lk')
  then show ?case using raise_inv_step assms(2) by blast
qed

subsection \<open>A run\<close>

text \<open>
  The reader sees the link end and reports it; while the reconnection task is dialling, the
  heartbeat loop of the old link wakes, fails to write to the closed transport and reports
  that too; the new connection is up and its reader and heartbeat are running.
\<close>

abbreviation tenacity_never :: "nat \<Rightarrow> bool" where
  "tenacity_never \<equiv> \<lambda>k. False"

abbreviation tenacity_after :: "int \<Rightarrow> nat \<Rightarrow> bool" where
  "tenacity_after \<equiv> \<lambda>n k. n \<le> int k"

lemma tenacity_stop_law: "stop_law tenacity_never tenacity_after"
  by (simp add: stop_law_def)

definition sample_pr :: "bool \<Rightarrow> bool \<Rightarrow> nat option \<Rightarrow> nat protocol" where
  "sample_pr reconnecting redo scope = (protocol_init None 1 60)\<lparr>pr_running := True, pr_task_group := True,
     pr_listener := True, pr_reconnecting := reconnecting, pr_redo_requested := redo, pr_reader_scope := scope\<rparr>"

definition sample_link :: "nat protocol \<Rightarrow> bool \<Rightarrow> task list \<Rightarrow> task list \<Rightarrow> nat option \<Rightarrow> nat \<Rightarrow> rec_phase option \<Rightarrow> nat link" where
  "sample_link pr conn rds hbs scope nxt r =
     \<lparr>lk_protocol = pr, lk_connected = conn, lk_readers = rds, lk_heartbeats = hbs, lk_heartbeat_scope = scope,
      lk_next = nxt, lk_reconnect_task = r, lk_raised = None\<rparr>"

lemma sample_start: "link_up (protocol_init None 1 60) =
    sample_link (sample_pr False False None) True [(0, False, Fresh)] [(1, False, Fresh)] None 2 None"
  by (simp add: link_up_def sample_link_def sample_pr_def serve_enter_def set_listener_def protocol_init_def)

lemmas sample_link_simps = sample_link_def sample_pr_def reader_head_def reader_after_read_def report_drop_def
  handle_disconnect_def heartbeat_after_wait_def begin_round_def reconnect_round_def cancel_scope_def
  reconnect_guard_def protocol_init_def link_restored_def settled_def settled_tasks_def round_done_def
  reconnect_again_def retry_stop_def

abbreviation sample_reach :: "nat link \<Rightarrow> bool" where
  "sample_reach \<equiv> link_reachable tenacity_never tenacity_after (link_up (protocol_init None 1 60))"

lemma sample_step: "sample_reach lk \<Longrightarrow> link_step tenacity_never tenacity_after lk lk'' \<Longrightarrow> lk'' = lk' \<Longrightarrow> sample_reach lk'"
  using link_reachable.step by metis

lemma sample_drop_reported:
  "sample_reach (sample_link (sample_pr True False None) False [] [(1, False, Busy 0)] (Some 1) 2 (Some (RConnecting 1)))"
proof -
  have "sample_reach (sample_link (sample_pr False False None) True [(0, False, Fresh)] [(1, False, Fresh)] None 2 None)"
    unfolding sample_start [symmetric] by (rule link_reachable.start)
  then have "sample_reach (sample_link (sample_pr False False (Some 0)) True [(0, False, Busy 0)] [(1, False, Fresh)] None 2 None)"
    by (rule sample_step [OF _ link_step.reader_starts [where xs = "[]" and i = 0 and c = False and ys = "[]"]])
      (simp_all add: sample_link_simps)
  then have "sample_reach (sample_link (sample_pr False False (Some 0)) True [(0, False, Busy 0)] [(1, False, Busy 0)] (Some 1) 2 None)"
    by (rule sample_step [OF _ link_step.heartbeat_starts [where xs = "[]" and i = 1 and c = False and ys = "[]"]])
      (simp_all add: sample_link_simps)
  then have "sample_reach (sample_link (sample_pr True False (Some 0)) True [(0, False, Notifying)] [(1, False, Busy 0)] (Some 1) 2 None)"
    by (rule sample_step [OF _ link_step.reader_reads [where xs = "[]" and i = 0 and c = False and ys = "[]"
            and n = 0 and r = "Inl EndOfStream" and t = "[(0, False, Notifying)]" and pr' = "sample_pr True False (Some 0)"]])
      (simp_all add: sample_link_simps)
  then have "sample_reach (sample_link (sample_pr True False (Some 0)) True [] [(1, False, Busy 0)] (Some 1) 2 (Some RHead))"
    by (rule sample_step [OF _ link_step.reader_notified [where xs = "[]" and i = 0 and ys = "[]"]])
      (simp_all add: sample_link_simps)
  then have "sample_reach (sample_link (sample_pr True False None) False [] [(1, False, Busy 0)] (Some 1) 2 (Some RClosing))"
    by (rule sample_step [OF _ link_step.round_begins]) (simp_all add: sample_link_simps)
  then show ?thesis
    by (rule sample_step [OF _ link_step.closed]) (simp_all add: sample_link_simps)
qed

lemma sample_back_up:
  "sample_reach (sample_link (sample_pr True True (Some 2)) True [(2, False, Busy 0)] [(3, False, Busy 0)] (Some 3) 4 (Some RHead))"
proof -
  have "sample_reach (sample_link (sample_pr True True None) False [] [] (Some 1) 2 (Some (RConnecting 1)))"
    by (rule sample_step [OF sample_drop_reported link_step.heartbeat_waits [where xs = "[]" and i = 1 and c = False
            and ys = "[]" and n = 0 and failed = True and t = "[]" and pr' = "sample_pr True True None"]])
      (simp_all add: sample_link_simps)
  then have "sample_reach (sample_link (sample_pr True True None) True [(2, False, Fresh)] [(3, False, Fresh)] (Some 1) 4 (Some RRestoring))"
    by (rule sample_step [OF _ link_step.attempt_succeeds]) (simp_all add: sample_link_simps)
  then have "sample_reach (sample_link (sample_pr True True (Some 2)) True [(2, False, Busy 0)] [(3, False, Fresh)] (Some 1) 4 (Some RRestoring))"
    by (rule sample_step [OF _ link_step.reader_starts [where xs = "[]" and i = 2 and c = False and ys = "[]"]])
      (simp_all add: sample_link_simps)
  then have "sample_reach (sample_link (sample_pr True True (Some 2)) True [(2, False, Busy 0)] [(3, False, Busy 0)] (Some 3) 4 (Some RRestoring))"
    by (rule sample_step [OF _ link_step.heartbeat_starts [where xs = "[]" and i = 3 and c = False and ys = "[]"]])
      (simp_all add: sample_link_simps)
  then have "sample_reach (sample_link (sample_pr True True (Some 2)) True [(2, False, Busy 0)] [(3, False, Busy 0)] (Some 3) 4 (Some RRenotify))"
    by (rule sample_step [OF _ link_step.restored]) (simp_all add: sample_link_simps)
  then show ?thesis
    by (rule sample_step [OF _ link_step.renotified]) (simp_all add: sample_link_simps)
qed

subsection \<open>Properties\<close>

text \<open>
  C1: the client is never stranded. In every state the interleaving of readers, heartbeats,
  the reconnection task, requests and shutdown can reach, as long as the protocol runs:
  either no reconnection is in flight and the link is connected with an active reader on
  it, or exactly one party is working on it, the reconnection task or the one detector
  that is about to spawn it; and a drop noted for a further round is never left behind
  without a reconnection to act on it.
\<close>

theorem never_stranded:
  assumes "link_reachable stop_never stop_after_attempt (link_up pr) lk" "idle pr"
    "stop_law stop_never stop_after_attempt" "pr_running (lk_protocol lk)"
  shows "(if pr_reconnecting (lk_protocol lk) then working_on_it lk = 1
      else lk_reconnect_task lk = None \<and> working_on_it lk = 0 \<and> lk_connected lk \<and> active (lk_readers lk) \<noteq> []) \<and>
    (pr_redo_requested (lk_protocol lk) \<longrightarrow> pr_reconnecting (lk_protocol lk))"
  using reachable_inv [OF assms(1-3)] assms(4)
  by (auto simp: link_inv_defs split: if_splits)

theorem never_stranded_witness:
  "working_on_it (sample_link (sample_pr True True (Some 2)) True [(2, False, Busy 0)] [(3, False, Busy 0)] (Some 3) 4 (Some RHead)) = 1"
  using never_stranded [OF sample_back_up idle_init tenacity_stop_law]
  by (simp add: sample_link_def sample_pr_def)

lemma uncancelled_active: "uncancelled ts \<Longrightarrow> active ts = ts"
  by (induction ts) auto

lemma active_fresh: "all_fresh (active ts) \<Longrightarrow> \<forall>(i, cancelled, p) \<in> set ts. cancelled \<or> p = Fresh"
  by (induction ts) (auto split: if_splits)

text \<open>
  C9: one of each. While the protocol runs, at most one uncancelled reader and at most one
  uncancelled heartbeat loop exist, however many reconnections there were; when no
  reconnection is in flight no cancelled one is left over either, so there is one task of each
  kind at most; and from the moment the old stream is closed until a new one is up, every reader
  that has started is cancelled, so none can race the reader of the new link. (The heartbeat
  loop of the old link may still be active then: it is cancelled when the new link is up.)
\<close>

theorem one_of_each:
  assumes "link_reachable stop_never stop_after_attempt (link_up pr) lk" "idle pr"
    "stop_law stop_never stop_after_attempt" "pr_running (lk_protocol lk)"
  shows "length (active (lk_readers lk)) \<le> 1 \<and> length (active (lk_heartbeats lk)) \<le> 1 \<and>
    (lk_reconnect_task lk = None \<longrightarrow> length (lk_readers lk) \<le> 1 \<and> length (lk_heartbeats lk) \<le> 1) \<and>
    (dialling (lk_reconnect_task lk) \<longrightarrow> \<not> lk_connected lk \<and> (\<forall>(i, cancelled, p) \<in> set (lk_readers lk). cancelled \<or> p = Fresh))"
proof -
  have inv: "running_inv lk" using reachable_inv [OF assms(1-3)] assms(4) by (simp add: link_inv_def)
  note ok = running_invD(1,2,3,7) [OF inv]
  show ?thesis
  proof (intro conjI impI)
    show "length (active (lk_readers lk)) \<le> 1" "length (active (lk_heartbeats lk)) \<le> 1"
      using ok(1,2) by (simp_all add: tasks_ok_def)
  next
    assume "lk_reconnect_task lk = None"
    then have "active (lk_readers lk) = lk_readers lk" "active (lk_heartbeats lk) = lk_heartbeats lk"
      using ok(3) by (simp_all add: uncancelled_active)
    then show "length (lk_readers lk) \<le> 1" "length (lk_heartbeats lk) \<le> 1"
      using ok(1,2) by (simp_all add: tasks_ok_def)
  next
    assume "dialling (lk_reconnect_task lk)"
    then show "\<not> lk_connected lk" "\<forall>(i, cancelled, p) \<in> set (lk_readers lk). cancelled \<or> p = Fresh"
      using ok(4) active_fresh [of "lk_readers lk"] by blast+
  qed
qed

theorem one_of_each_witness:
  "let lk = sample_link (sample_pr True False None) False [] [(1, False, Busy 0)] (Some 1) 2 (Some (RConnecting 1)) in
   length (active (lk_readers lk)) \<le> 1 \<and> length (active (lk_heartbeats lk)) \<le> 1 \<and> \<not> lk_connected lk"
  using one_of_each [OF sample_drop_reported idle_init tenacity_stop_law]
  by (simp add: sample_link_def sample_pr_def)

text \<open>
  C10: giving up is governed by the configured budget. No attempt beyond it is made; the
  abandonment is raised only with a finite, non-zero budget, then always with the protocol
  stopped; an unlimited budget never raises; and a budget of 0 neither dials nor raises.
\<close>

theorem budget_respected:
  assumes "link_reachable stop_never stop_after_attempt (link_up pr) lk" "idle pr"
    "stop_law stop_never stop_after_attempt"
  shows "(pr_running (lk_protocol lk) \<and> lk_reconnect_task lk = Some (RConnecting k) \<and> pr_reconnect_attempts pr = Some n \<and> 0 < n
      \<longrightarrow> 1 \<le> k \<and> int k \<le> n) \<and>
    gave_up_properly (pr_reconnect_attempts pr) (pr_running (lk_protocol lk)) (lk_raised lk) \<and>
    (pr_reconnect_attempts pr = None \<longrightarrow> lk_raised lk = None) \<and>
    (pr_reconnect_attempts pr = Some 0 \<longrightarrow> lk_raised lk = None \<and> \<not> past_the_guard (lk_reconnect_task lk))"
proof -
  have *: "raise_inv (pr_reconnect_attempts pr) lk" by (rule reachable_raise_inv [OF assms(1,3)])
  then have "lk_raised lk = None" if "pr_reconnect_attempts pr = None \<or> pr_reconnect_attempts pr = Some 0"
    using that by (cases "lk_raised lk") (auto simp: raise_inv_def)
  with * reachable_inv [OF assms] show ?thesis
    by (auto simp: raise_inv_def link_inv_def running_inv_def)
qed

theorem budget_respected_witness:
  "lk_raised (sample_link (sample_pr True False None) False [] [(1, False, Busy 0)] (Some 1) 2 (Some (RConnecting 1))) = None"
  using budget_respected [OF sample_drop_reported idle_init tenacity_stop_law] by (simp add: protocol_init_def)

text \<open>
  A stale report costs a healthy link. There is a run in which the heartbeat loop of
  the old link, failing to write while the transport is closed for the reconnection, marks
  the reconnection for another round; the new link comes up, its own reader and heartbeat
  run and report nothing, and the reconnection task nevertheless tears it down.
\<close>

theorem stale_heartbeat_redo:
  "\<exists>lk. link_reachable tenacity_never tenacity_after (link_up (protocol_init None 1 60 :: nat protocol)) lk \<and>
     lk_reconnect_task lk = Some RHead \<and> lk_connected lk \<and>
     lk_readers lk = [(2, False, Busy 0)] \<and> lk_heartbeats lk = [(3, False, Busy 0)] \<and>
     link_step tenacity_never tenacity_after lk (begin_round lk) \<and> \<not> lk_connected (begin_round lk)"
proof -
  let ?lk = "sample_link (sample_pr True True (Some 2)) True [(2, False, Busy 0)] [(3, False, Busy 0)] (Some 3) 4 (Some RHead)"
  have "lk_reconnect_task ?lk = Some RHead" "lk_connected ?lk" "lk_readers ?lk = [(2, False, Busy 0)]"
    "lk_heartbeats ?lk = [(3, False, Busy 0)]" "\<not> lk_connected (begin_round ?lk)"
    by (simp_all add: sample_link_def begin_round_def reconnect_round_def)
  with sample_back_up link_step.round_begins [of ?lk] show ?thesis by blast
qed

end
