(* ===== verification/Py_Num.thy ===== *)
theory Py_Num
  imports Exceptions
begin

text \<open>
  The numeric types of Python's standard library the models and requests compute with,
  and \<open>_internal/conversions.py\<close>. A \<open>Decimal\<close> is the rational it denotes; an operation of
  the default context rounds to 28 significant digits, ties to even. A \<open>float\<close> is the
  rational it denotes, an operation rounding to 53 bits (finite results). \<open>str\<close> of a float is
  the shortest decimal that reads back as the same float. A \<open>datetime\<close> in UTC is its number
  of microseconds since 1970.
\<close>

type_synonym decimal = rat
type_synonym datetime = int

subsection \<open>Significant digits\<close>

function ilog :: "int \<Rightarrow> int \<Rightarrow> int" where
  "ilog b n = (if b < 2 \<or> n < b then 0 else 1 + ilog b (n div b))"
  by pat_completeness auto
termination
  by (relation "measure (\<lambda>(b, n). nat n)") (auto intro!: int_div_less_self)

declare ilog.simps [simp del]

text \<open>The exponent of the leading digit: \<open>b\<close> to the \<open>e\<close> is the largest such power below \<open>x\<close>.\<close>

definition exponent_of :: "int \<Rightarrow> rat \<Rightarrow> int" where
  "exponent_of b x =
     (if x \<ge> 1 then ilog b \<lfloor>x\<rfloor>
      else (let m = \<lceil>1 / x\<rceil>; l = ilog b m in if b ^ nat l = m then - l else - l - 1))"

definition round_half_even :: "rat \<Rightarrow> int" where
  "round_half_even x =
     (let f = \<lfloor>x\<rfloor>; d = x - of_int f in
      if d < 1 / 2 then f else if d > 1 / 2 then f + 1 else if even f then f else f + 1)"

definition round_at :: "int \<Rightarrow> int \<Rightarrow> rat \<Rightarrow> rat" where
  "round_at b k x = of_int (round_half_even (x * of_int b powi k)) * of_int b powi (- k)"

definition round_sig :: "int \<Rightarrow> nat \<Rightarrow> rat \<Rightarrow> rat" where
  "round_sig b p x =
     (if x = 0 then 0
      else sgn x * round_at b (int p - 1 - exponent_of b \<bar>x\<bar>) \<bar>x\<bar>)"

subsection \<open>Decimal\<close>

text \<open>Dividing by zero traps: 0 / 0 is an invalid operation, anything else a division by zero.\<close>

definition dec_div :: "decimal \<Rightarrow> decimal \<Rightarrow> decimal res" where
  "dec_div a b =
     (if b = 0
      then Inl (OtherException (if a = 0 then ''decimal.InvalidOperation'' else ''decimal.DivisionByZero''))
      else Inr (round_sig 10 28 (a / b)))"

definition dec_mul :: "decimal \<Rightarrow> decimal \<Rightarrow> decimal" where
  "dec_mul a b = round_sig 10 28 (a * b)"

text \<open>\<open>int(d)\<close> truncates towards zero.\<close>

definition dec_int :: "decimal \<Rightarrow> int" where
  "dec_int d = (if d \<ge> 0 then \<lfloor>d\<rfloor> else \<lceil>d\<rceil>)"

text \<open>\<open>d.quantize(Decimal(10) ** -digits)\<close>: an error when the result needs more than 28 digits.\<close>

definition dec_quantize :: "decimal \<Rightarrow> int \<Rightarrow> decimal res" where
  "dec_quantize d digits =
     (let n = round_half_even (\<bar>d\<bar> * 10 powi digits) in
      if n < 10 ^ 28 then Inr (sgn d * (of_int n * 10 powi (- digits)))
      else Inl (OtherException ''decimal.InvalidOperation''))"

subsection \<open>Floats\<close>

text \<open>Rounding to the nearest double: 53 bits, and multiples of \<open>2 ^ -1074\<close> below the normal range.\<close>

definition float_round :: "rat \<Rightarrow> rat" where
  "float_round x = (if x = 0 then 0
     else sgn x * round_at 2 (min (52 - exponent_of 2 \<bar>x\<bar>) 1074) \<bar>x\<bar>)"

text \<open>
  The digits \<open>str\<close> prints: the smallest number of digits for which a neighbouring decimal of
  that length reads back as \<open>x\<close>, and of the two neighbours that do, the nearer one. Seventeen
  digits are always enough.
\<close>

definition repr_neighbours :: "nat \<Rightarrow> rat \<Rightarrow> rat list" where
  "repr_neighbours n x =
     (let k = int n - 1 - exponent_of 10 x; f = \<lfloor>x * 10 powi k\<rfloor> in
      filter (\<lambda>c. float_round c = x) [of_int f * 10 powi (- k), of_int (f + 1) * 10 powi (- k)])"

primrec repr_search :: "nat \<Rightarrow> nat \<Rightarrow> rat \<Rightarrow> rat" where
  "repr_search 0 n x = x"
| "repr_search (Suc m) n x =
     (case repr_neighbours n x of
        [] \<Rightarrow> repr_search m (n + 1) x
      | [c] \<Rightarrow> c
      | c # d # _ \<Rightarrow> if \<bar>x - c\<bar> \<le> \<bar>d - x\<bar> then c else d)"

text \<open>\<open>Decimal(str(x))\<close> for a float, and \<open>float(d)\<close> for a Decimal.\<close>

definition decimal_of_float :: "rat \<Rightarrow> decimal" where
  "decimal_of_float x = (if x = 0 then 0 else sgn x * repr_search 17 1 \<bar>x\<bar>)"

definition float_of_decimal :: "decimal \<Rightarrow> rat" where
  "float_of_decimal d = float_round d"

subsection \<open>Dates\<close>

text \<open>\<open>datetime.fromtimestamp(t, tz=UTC)\<close>: whole seconds and the fraction rounded to a microsecond.\<close>

definition datetime_fromtimestamp :: "rat \<Rightarrow> datetime res" where
  "datetime_fromtimestamp t =
     (let s = dec_int t;
          us = s * 1000000 + round_half_even (float_round ((t - of_int s) * 1000000))
      in if - 62135596800000000 \<le> us \<and> us < 253402300800000000 then Inr us
         else Inl (ValueError ''year is out of range''))"

text \<open>\<open>dt.timestamp()\<close>, and the milliseconds \<open>int(dt.timestamp() * 1000)\<close> the requests send.\<close>

definition datetime_timestamp :: "datetime \<Rightarrow> rat" where
  "datetime_timestamp dt = float_round (of_int dt / 1000000)"

definition datetime_to_ms :: "datetime \<Rightarrow> int" where
  "datetime_to_ms dt = dec_int (float_round (datetime_timestamp dt * 1000))"

subsection \<open>\<open>conversions.py\<close>\<close>

definition DEFAULT_MONEY_DIGITS :: int where "DEFAULT_MONEY_DIGITS = 2"

text \<open>The exponent is an unsigned integer on the wire.\<close>

definition money_divisor :: "int \<Rightarrow> int" where
  "money_divisor money_digits = 10 ^ nat (or_default money_digits DEFAULT_MONEY_DIGITS)"

definition timestamp_to_datetime :: "int \<Rightarrow> datetime res" where
  "timestamp_to_datetime timestamp_ms = datetime_fromtimestamp (float_round (of_int timestamp_ms / 1000))"

text \<open>\<open>Decimal(amount) / divisor\<close> with \<open>divisor = money_divisor(digits)\<close>.\<close>

definition money :: "int \<Rightarrow> int \<Rightarrow> decimal" where
  "money amount divisor = round_sig 10 28 (of_int amount / of_int divisor)"

subsection \<open>Lemmas\<close>

lemma ilog_spec: "2 \<le> b \<Longrightarrow> 1 \<le> n \<Longrightarrow> 0 \<le> ilog b n \<and> b ^ nat (ilog b n) \<le> n \<and> n < b ^ Suc (nat (ilog b n))"
proof (induction b n rule: ilog.induct)
  case (1 b n)
  show ?case
  proof (cases "n < b")
    case True
    with "1.prems" show ?thesis by (simp add: ilog.simps [of b n])
  next
    case False
    then have "1 \<le> n div b" using "1.prems" by (simp add: int_one_le_iff_zero_less pos_imp_zdiv_pos_iff)
    with "1.IH" "1.prems" False have IH: "0 \<le> ilog b (n div b)" "b ^ nat (ilog b (n div b)) \<le> n div b"
      "n div b + 1 \<le> b ^ Suc (nat (ilog b (n div b)))"
      by auto
    have "b * (n div b) \<le> n" "n < b * (n div b + 1)"
      using "1.prems" mult_div_mod_eq [of b n] pos_mod_bound [of b n] pos_mod_sign [of b n]
      unfolding distrib_left by linarith+
    moreover have "b * b ^ nat (ilog b (n div b)) \<le> b * (n div b)"
      "b * (n div b + 1) \<le> b * b ^ Suc (nat (ilog b (n div b)))"
      using IH(2,3) "1.prems"(1) by (simp_all only: mult_left_mono)
    ultimately have "b * b ^ nat (ilog b (n div b)) \<le> n" "n < b * b ^ Suc (nat (ilog b (n div b)))" by linarith+
    moreover have "nat (1 + ilog b (n div b)) = Suc (nat (ilog b (n div b)))" using IH(1) by simp
    ultimately show ?thesis using False "1.prems" IH(1) by (simp add: ilog.simps [of b n])
  qed
qed

lemma exponent_of_spec:
  assumes "2 \<le> b" "0 < x"
  shows "of_int b powi exponent_of b x \<le> x" "x < of_int b powi (exponent_of b x + 1)"
proof -
  have pow: "of_int b powi (- int l) = 1 / (of_int (b ^ l) :: rat)" for l
    by (simp add: power_int_minus divide_inverse)
  have pow_int: "of_int b powi int l = (of_int (b ^ l) :: rat)" for l by simp
  have "of_int b powi exponent_of b x \<le> x \<and> x < of_int b powi (exponent_of b x + 1)"
  proof (cases "1 \<le> x")
    case True
    define n l where "n = \<lfloor>x\<rfloor>" and "l = nat (ilog b n)"
    have "1 \<le> n" using True by (simp add: n_def)
    then have "0 \<le> ilog b n" "b ^ l \<le> n" "n + 1 \<le> b ^ Suc l" using ilog_spec [OF assms(1), of n] by (simp_all add: l_def)
    then have "(of_int (b ^ l) :: rat) \<le> of_int n" "(of_int (n + 1) :: rat) \<le> of_int (b ^ Suc l)"
      "exponent_of b x = int l" "exponent_of b x + 1 = int (Suc l)"
      using True by (simp_all only: of_int_le_iff) (simp_all add: exponent_of_def n_def l_def)
    moreover have "of_int n \<le> x" "x < of_int (n + 1)" unfolding n_def using floor_correct [of x] by blast+
    ultimately have "of_int (b ^ l) \<le> x" "x < of_int (b ^ Suc l)" by linarith+
    with \<open>exponent_of b x = int l\<close> \<open>exponent_of b x + 1 = int (Suc l)\<close> show ?thesis by (simp only: pow_int)
  next
    case False
    define y m l where "y = 1 / x" and "m = \<lceil>y\<rceil>" and "l = nat (ilog b m)"
    have x: "x = 1 / y" "1 < y" using False assms(2) by (simp_all add: y_def)
    then have m: "2 \<le> m" "y \<le> of_int m" "of_int m < y + 1"
      by (simp_all add: m_def) linarith+
    have l: "ilog b m = int l" "b ^ l \<le> m" "m < b ^ Suc l"
      using ilog_spec [OF assms(1), of m] m(1) by (simp_all add: l_def)
    show ?thesis
    proof (cases "b ^ l = m")
      case True
      with m(1) have "l \<noteq> 0" by (cases l) auto
      then obtain k where k: "l = Suc k" by (cases l) auto
      have "1 \<le> b ^ k" using assms(1) by simp
      then have "b ^ k + 1 \<le> b ^ l"
        using assms(1) mult_right_mono [OF assms(1), of "b ^ k"] unfolding k power_Suc by linarith
      then have "(of_int (b ^ k + 1) :: rat) \<le> of_int (b ^ l)" by (simp only: of_int_le_iff)
      with m(3) True have "of_int (b ^ k) < y" by simp
      moreover have "y \<le> of_int (b ^ l)" using m(2) True by simp
      moreover have e: "exponent_of b x = - int l"
        using False True l(1) by (simp add: exponent_of_def y_def [symmetric] m_def [symmetric] Let_def)
      moreover have "exponent_of b x + 1 = - int k" using e k by simp
      moreover have "0 < (of_int (b ^ k) :: rat)" using assms(1) by simp
      ultimately show ?thesis using x by (simp only: pow) (simp add: frac_le divide_strict_left_mono)
    next
      case neq: False
      with l have "b ^ l + 1 \<le> m" "m \<le> b ^ Suc l" by simp_all
      then have "(of_int (b ^ l + 1) :: rat) \<le> of_int m" "(of_int m :: rat) \<le> of_int (b ^ Suc l)"
        by (simp_all only: of_int_le_iff)
      with m(2,3) have "of_int (b ^ l) < y" "y \<le> of_int (b ^ Suc l)" by simp_all
      moreover have "exponent_of b x = - int (Suc l)" "exponent_of b x + 1 = - int l"
        using False neq l(1) by (simp_all add: exponent_of_def y_def [symmetric] m_def [symmetric] Let_def)
      moreover have "0 < (of_int (b ^ l) :: rat)" using assms(1) by simp
      ultimately show ?thesis using x by (simp only: pow) (simp add: frac_le divide_strict_left_mono)
    qed
  qed
  then show "of_int b powi exponent_of b x \<le> x" "x < of_int b powi (exponent_of b x + 1)" by simp_all
qed

lemma round_half_even_of_int [simp]: "round_half_even (of_int n) = n"
  by (simp add: round_half_even_def)

lemma round_at_exact:
  assumes "x * of_int b powi k = of_int n" "0 < b"
  shows "round_at b k x = x"
proof -
  have "round_at b k x = x * (of_int b powi k * of_int b powi (- k))"
    by (simp add: round_at_def assms(1) flip: mult.assoc)
  also have "of_int b powi k * of_int b powi (- k) = (1 :: rat)"
    using assms(2) by (simp add: power_int_minus)
  finally show ?thesis by simp
qed

text \<open>A decimal with at most \<open>p\<close> digits is not changed by rounding to \<open>p\<close> digits.\<close>

lemma round_sig_exact:
  assumes "2 \<le> b" "x = of_int v * of_int b powi (- int k)" "\<bar>v\<bar> < b ^ p"
  shows "round_sig b p x = x"
proof (cases "v = 0")
  case False
  define e where "e = exponent_of b \<bar>x\<bar>"
  have b0: "(of_int b :: rat) \<noteq> 0" using assms(1) by simp
  have x0: "x \<noteq> 0" using False b0 by (simp add: assms(2))
  have absx: "\<bar>x\<bar> = of_int \<bar>v\<bar> * of_int b powi (- int k)"
    using assms(1) by (simp add: assms(2) abs_mult power_int_minus)
  have "of_int b powi e \<le> \<bar>x\<bar>" using exponent_of_spec(1) [OF assms(1)] x0 by (simp add: e_def)
  then have "of_int b powi e * of_int b powi int k \<le> \<bar>x\<bar> * of_int b powi int k"
    using assms(1) by (intro mult_right_mono) simp_all
  also have "\<bar>x\<bar> * of_int b powi int k = of_int \<bar>v\<bar> * (of_int b powi (- int k) * of_int b powi int k)"
    by (simp only: absx mult.assoc)
  also have "\<dots> = of_int \<bar>v\<bar>" using b0 by (simp add: power_int_minus)
  finally have "of_int b powi (e + int k) \<le> (of_int \<bar>v\<bar> :: rat)" using b0 by (simp add: power_int_add)
  also have "(of_int \<bar>v\<bar> :: rat) < of_int (b ^ p)" using assms(3) by (simp only: of_int_less_iff)
  also have "\<dots> = of_int b powi int p" by simp
  finally have "e + int k < int p"
    using assms(1) by (metis linorder_not_less power_int_increasing of_int_1 of_int_le_iff order_trans one_le_numeral)
  then obtain j where j: "int p - 1 - e = int k + int j"
    by (metis zle_iff_zadd zless_iff_Suc_zadd add_diff_eq diff_add_cancel add.commute zle_diff1_eq)
  have "\<bar>x\<bar> * of_int b powi (int p - 1 - e) = of_int \<bar>v\<bar> * (of_int b powi (- int k) * of_int b powi int k) * of_int b powi int j"
    unfolding j absx using power_int_add [of "of_int b :: rat" "int k" "int j"] b0 by (simp add: mult.assoc)
  also have "\<dots> = of_int (\<bar>v\<bar> * b ^ j)" using b0 by (simp add: power_int_minus)
  finally have "round_at b (int p - 1 - e) \<bar>x\<bar> = \<bar>x\<bar>"
    by (rule round_at_exact) (use assms(1) in simp)
  then show ?thesis using x0 by (simp add: round_sig_def e_def [symmetric] sgn_mult_abs)
qed (simp add: round_sig_def assms(2))

lemma money_exact:
  assumes "\<bar>amount\<bar> < 10 ^ 28"
  shows "money amount (10 ^ k) = of_int amount / 10 ^ k"
  unfolding money_def
  by (subst round_sig_exact [where v = amount and k = k and b = 10])
    (use assms in \<open>simp_all add: power_int_minus divide_inverse\<close>)

end
