(* ===== verification/Models.thy ===== *)
theory Models
  imports Py_Num Proto_Types
begin

text \<open>
  \<open>enums.py\<close> and \<open>models/\<close>: the immutable values the client hands to its caller, and their
  \<open>from_proto\<close> constructors. A constructor may raise (a timestamp outside the range of
  \<open>datetime\<close>), so it gives a result; \<open>now\<close> is what \<open>datetime.now(UTC)\<close> reads. A field that is
  \<open>x if x else None\<close> in the source is \<open>nonzero\<close> or \<open>opt_price\<close> of the wire value.
\<close>

subsection \<open>Enumerations\<close>

datatype auth_trigger = INITIAL | RECONNECT | TOKEN_REFRESH | ACCOUNT_REAUTH

datatype execution_type =
    EX_ORDER_ACCEPTED | EX_ORDER_FILLED | EX_ORDER_REPLACED | EX_ORDER_CANCELLED | EX_ORDER_EXPIRED
  | EX_ORDER_REJECTED | EX_ORDER_CANCEL_REJECTED | EX_ORDER_PARTIAL_FILL | EX_SWAP | EX_DEPOSIT_WITHDRAW
  | EX_BONUS_DEPOSIT_WITHDRAW

datatype order_side = BUY | SELL

datatype order_type = OT_MARKET | OT_LIMIT | OT_STOP | OT_STOP_LIMIT | OT_MARKET_RANGE | OT_STOP_LOSS_TAKE_PROFIT

datatype order_status = OS_ACCEPTED | OS_FILLED | OS_REJECTED | OS_EXPIRED | OS_CANCELLED

datatype position_status = PS_OPEN | PS_CLOSED | PS_CREATED | PS_ERROR

datatype time_in_force = GOOD_TILL_CANCEL | GOOD_TILL_DATE | IMMEDIATE_OR_CANCEL | FILL_OR_KILL | MARKET_ON_OPEN

datatype deal_status = DS_FILLED | DS_PARTIALLY_FILLED | DS_REJECTED | DS_INTERNALLY_REJECTED | DS_ERROR | DS_MISSED

datatype access_rights = FULL_ACCESS | CLOSE_ONLY | NO_TRADING | NO_LOGIN

datatype account_type = HEDGED | NETTED | SPREAD_BETTING

datatype trading_mode =
    TM_ENABLED | TM_DISABLED_WITHOUT_PENDINGS_EXECUTION | TM_DISABLED_WITH_PENDINGS_EXECUTION | TM_CLOSE_ONLY

datatype trendbar_period = M1 | M2 | M3 | M4 | M5 | M10 | M15 | M30 | H1 | H4 | H12 | D1 | W1 | MN1

datatype stop_trigger_method = TRADE | OPPOSITE | DOUBLE_TRADE | DOUBLE_OPPOSITE

subsection \<open>Wire values of the enumerations\<close>

definition ORDER_TYPE_MAP :: "(int, order_type) dict" where
  "ORDER_TYPE_MAP = [(1, OT_MARKET), (2, OT_LIMIT), (3, OT_STOP), (4, OT_STOP_LOSS_TAKE_PROFIT),
     (5, OT_MARKET_RANGE), (6, OT_STOP_LIMIT)]"

definition ORDER_STATUS_MAP :: "(int, order_status) dict" where
  "ORDER_STATUS_MAP = [(1, OS_ACCEPTED), (2, OS_FILLED), (3, OS_REJECTED), (4, OS_EXPIRED), (5, OS_CANCELLED)]"

definition TIME_IN_FORCE_MAP :: "(int, time_in_force) dict" where
  "TIME_IN_FORCE_MAP = [(1, GOOD_TILL_DATE), (2, GOOD_TILL_CANCEL), (3, IMMEDIATE_OR_CANCEL), (4, FILL_OR_KILL),
     (5, MARKET_ON_OPEN)]"

definition TRIGGER_METHOD_MAP :: "(int, stop_trigger_method) dict" where
  "TRIGGER_METHOD_MAP = [(1, TRADE), (2, OPPOSITE), (3, DOUBLE_TRADE), (4, DOUBLE_OPPOSITE)]"

definition POSITION_STATUS_MAP :: "(int, position_status) dict" where
  "POSITION_STATUS_MAP = [(1, PS_OPEN), (2, PS_CLOSED), (3, PS_CREATED), (4, PS_ERROR)]"

text \<open>\<open>position.py\<close> has a table of its own for the trigger methods.\<close>

definition POSITION_TRIGGER_METHOD_MAP :: "(int, stop_trigger_method) dict" where
  "POSITION_TRIGGER_METHOD_MAP = [(1, TRADE), (2, OPPOSITE), (3, DOUBLE_TRADE), (4, DOUBLE_OPPOSITE)]"

definition DEAL_STATUS_MAP :: "(int, deal_status) dict" where
  "DEAL_STATUS_MAP = [(2, DS_FILLED), (3, DS_PARTIALLY_FILLED), (4, DS_REJECTED), (5, DS_INTERNALLY_REJECTED),
     (6, DS_ERROR), (7, DS_MISSED)]"

definition TRADING_MODE_MAP :: "(int, trading_mode) dict" where
  "TRADING_MODE_MAP = [(0, TM_ENABLED), (1, TM_DISABLED_WITHOUT_PENDINGS_EXECUTION),
     (2, TM_DISABLED_WITH_PENDINGS_EXECUTION), (3, TM_CLOSE_ONLY)]"

definition ACCOUNT_TYPE_MAP :: "(int, account_type) dict" where
  "ACCOUNT_TYPE_MAP = [(0, HEDGED), (1, NETTED), (2, SPREAD_BETTING)]"

definition ACCESS_RIGHTS_MAP :: "(int, access_rights) dict" where
  "ACCESS_RIGHTS_MAP = [(0, FULL_ACCESS), (1, CLOSE_ONLY), (2, NO_TRADING), (3, NO_LOGIN)]"

definition PERIOD_MAP :: "(int, trendbar_period) dict" where
  "PERIOD_MAP = [(1, M1), (2, M2), (3, M3), (4, M4), (5, M5), (6, M10), (7, M15), (8, M30), (9, H1), (10, H4),
     (11, H12), (12, D1), (13, W1), (14, MN1)]"

text \<open>\<open>m.get(k, default)\<close>.\<close>

definition get_or :: "('k, 'v) dict \<Rightarrow> 'k \<Rightarrow> 'v \<Rightarrow> 'v" where
  "get_or m k d = (case dict_get m k of None \<Rightarrow> d | Some v \<Rightarrow> v)"

text \<open>\<open>Decimal(str(x)) if x else None\<close> and \<open>timestamp_to_datetime(t) if t else None\<close>.\<close>

definition opt_price :: "double \<Rightarrow> decimal option" where
  "opt_price x = (if x = 0 then None else Some (decimal_of_float x))"

definition opt_time :: "int \<Rightarrow> datetime option res" where
  "opt_time t = (if t = 0 then Inr None else bind_res (timestamp_to_datetime t) (\<lambda>d. Inr (Some d)))"

subsection \<open>Orders\<close>

record model_order =
  o_order_id :: int
  o_symbol_id :: int
  o_side :: order_side
  o_order_type :: order_type
  o_status :: order_status
  o_volume :: int
  o_time_in_force :: time_in_force
  o_open_timestamp :: datetime
  o_limit_price :: "decimal option"
  o_stop_price :: "decimal option"
  o_stop_loss :: "decimal option"
  o_take_profit :: "decimal option"
  o_execution_price :: "decimal option"
  o_executed_volume :: int
  o_expiration_timestamp :: "datetime option"
  o_position_id :: "int option"
  o_base_slippage_price :: "decimal option"
  o_slippage_in_points :: "int option"
  o_relative_stop_loss :: "int option"
  o_relative_take_profit :: "int option"
  o_is_closing_order :: bool
  o_is_stop_out :: bool
  o_trailing_stop_loss :: bool
  o_guaranteed_stop_loss :: bool
  o_stop_trigger_method :: stop_trigger_method
  o_client_order_id :: string
  o_label :: string
  o_comment :: string
  o_last_update_timestamp :: "datetime option"

definition order_is_pending :: "model_order \<Rightarrow> bool" where
  "order_is_pending o1 \<longleftrightarrow> o_status o1 = OS_ACCEPTED"

definition order_is_filled :: "model_order \<Rightarrow> bool" where
  "order_is_filled o1 \<longleftrightarrow> o_status o1 = OS_FILLED"

text \<open>The side and opening time of an order or a position, from its trade data.\<close>

definition trade_side :: "proto_oa_trade_data option \<Rightarrow> order_side" where
  "trade_side td = (if serialized_on_wire td \<and> ptd_trade_side (submsg default_trade_data td) = 2 then SELL else BUY)"

definition open_time :: "datetime \<Rightarrow> proto_oa_trade_data option \<Rightarrow> datetime res" where
  "open_time now td =
     (if serialized_on_wire td \<and> ptd_open_timestamp (submsg default_trade_data td) \<noteq> 0
      then timestamp_to_datetime (ptd_open_timestamp (submsg default_trade_data td)) else Inr now)"

definition order_from_proto :: "datetime \<Rightarrow> proto_oa_order \<Rightarrow> model_order res" where
  "order_from_proto now proto =
     (let trade_data = submsg default_trade_data (pord_trade_data proto);
          has_trade_data = serialized_on_wire (pord_trade_data proto)
      in bind_res (open_time now (pord_trade_data proto)) (\<lambda>open_ts.
         bind_res (opt_time (pord_expiration_timestamp proto)) (\<lambda>expiration.
         bind_res (opt_time (pord_utc_last_update_timestamp proto)) (\<lambda>last_update.
         Inr \<lparr>o_order_id = pord_order_id proto,
              o_symbol_id = (if has_trade_data then ptd_symbol_id trade_data else 0),
              o_side = trade_side (pord_trade_data proto),
              o_order_type = get_or ORDER_TYPE_MAP (pord_order_type proto) OT_MARKET,
              o_status = get_or ORDER_STATUS_MAP (pord_order_status proto) OS_ACCEPTED,
              o_volume = (if has_trade_data then ptd_volume trade_data else 0),
              o_time_in_force = get_or TIME_IN_FORCE_MAP (pord_time_in_force proto) GOOD_TILL_CANCEL,
              o_open_timestamp = open_ts,
              o_limit_price = opt_price (pord_limit_price proto),
              o_stop_price = opt_price (pord_stop_price proto),
              o_stop_loss = opt_price (pord_stop_loss proto),
              o_take_profit = opt_price (pord_take_profit proto),
              o_execution_price = opt_price (pord_execution_price proto),
              o_executed_volume = or_default (pord_executed_volume proto) 0,
              o_expiration_timestamp = expiration,
              o_position_id = nonzero (pord_position_id proto),
              o_base_slippage_price = opt_price (pord_base_slippage_price proto),
              o_slippage_in_points = nonzero (pord_slippage_in_points proto),
              o_relative_stop_loss = nonzero (pord_relative_stop_loss proto),
              o_relative_take_profit = nonzero (pord_relative_take_profit proto),
              o_is_closing_order = pord_closing_order proto,
              o_is_stop_out = pord_is_stop_out proto,
              o_trailing_stop_loss = pord_trailing_stop_loss proto,
              o_guaranteed_stop_loss = (if has_trade_data then ptd_guaranteed_stop_loss trade_data else False),
              o_stop_trigger_method = get_or TRIGGER_METHOD_MAP (pord_stop_trigger_method proto) TRADE,
              o_client_order_id = or_str (pord_client_order_id proto) [],
              o_label = (if has_trade_data then ptd_label trade_data else []),
              o_comment = (if has_trade_data then ptd_comment trade_data else []),
              o_last_update_timestamp = last_update\<rparr>))))"

subsection \<open>Positions\<close>

record model_position =
  p_position_id :: int
  p_symbol_id :: int
  p_side :: order_side
  p_volume :: int
  p_entry_price :: decimal
  p_status :: position_status
  p_open_timestamp :: datetime
  p_money_digits :: int
  p_stop_loss :: "decimal option"
  p_take_profit :: "decimal option"
  p_trailing_stop_loss :: bool
  p_guaranteed_stop_loss :: bool
  p_stop_loss_trigger_method :: stop_trigger_method
  p_swap :: decimal
  p_commission :: decimal
  p_used_margin :: decimal
  p_margin_rate :: "decimal option"
  p_label :: string
  p_comment :: string
  p_last_update_timestamp :: "datetime option"
  p_close_timestamp :: "datetime option"

text \<open>\<open>Decimal(v) / divisor if v else Decimal(0)\<close>.\<close>

definition money_or_zero :: "int \<Rightarrow> int \<Rightarrow> decimal" where
  "money_or_zero v divisor = (if v = 0 then 0 else money v divisor)"

definition position_from_proto :: "datetime \<Rightarrow> proto_oa_position \<Rightarrow> model_position res" where
  "position_from_proto now proto =
     (let trade_data = submsg default_trade_data (ppos_trade_data proto);
          has_trade_data = serialized_on_wire (ppos_trade_data proto);
          money_digits = or_default (ppos_money_digits proto) DEFAULT_MONEY_DIGITS;
          divisor = money_divisor money_digits
      in bind_res (open_time now (ppos_trade_data proto)) (\<lambda>open_ts.
         bind_res (opt_time (ppos_utc_last_update_timestamp proto)) (\<lambda>last_update.
         bind_res (opt_time (if has_trade_data then ptd_close_timestamp trade_data else 0)) (\<lambda>close_ts.
         Inr \<lparr>p_position_id = ppos_position_id proto,
              p_symbol_id = (if has_trade_data then ptd_symbol_id trade_data else 0),
              p_side = trade_side (ppos_trade_data proto),
              p_volume = (if has_trade_data then ptd_volume trade_data else 0),
              p_entry_price = (if ppos_price proto = 0 then 0 else decimal_of_float (ppos_price proto)),
              p_status = get_or POSITION_STATUS_MAP (ppos_position_status proto) PS_OPEN,
              p_open_timestamp = open_ts,
              p_money_digits = money_digits,
              p_stop_loss = opt_price (ppos_stop_loss proto),
              p_take_profit = opt_price (ppos_take_profit proto),
              p_trailing_stop_loss = ppos_trailing_stop_loss proto,
              p_guaranteed_stop_loss = ppos_guaranteed_stop_loss proto,
              p_stop_loss_trigger_method =
                get_or POSITION_TRIGGER_METHOD_MAP (ppos_stop_loss_trigger_method proto) TRADE,
              p_swap = money_or_zero (ppos_swap proto) divisor,
              p_commission = money_or_zero (ppos_commission proto) divisor,
              p_used_margin = money_or_zero (ppos_used_margin proto) divisor,
              p_margin_rate = opt_price (ppos_margin_rate proto),
              p_label = (if has_trade_data then ptd_label trade_data else []),
              p_comment = (if has_trade_data then ptd_comment trade_data else []),
              p_last_update_timestamp = last_update,
              p_close_timestamp = close_ts\<rparr>))))"

record position_unrealized_pnl =
  up_position_id :: int
  up_gross_unrealized_pnl :: decimal
  up_net_unrealized_pnl :: decimal

subsection \<open>Deals\<close>

record close_detail =
  cd_entry_price :: decimal
  cd_closed_volume :: int
  cd_gross_profit :: decimal
  cd_swap :: decimal
  cd_commission :: decimal
  cd_balance :: decimal
  cd_pnl_conversion_fee :: decimal
  cd_quote_to_deposit_rate :: "decimal option"
  cd_balance_version :: "int option"

definition close_detail_from_proto :: "proto_oa_close_position_detail \<Rightarrow> close_detail" where
  "close_detail_from_proto proto =
     (let divisor = money_divisor (pcpd_money_digits proto) in
      \<lparr>cd_entry_price = decimal_of_float (pcpd_entry_price proto),
       cd_closed_volume = pcpd_closed_volume proto,
       cd_gross_profit = money (pcpd_gross_profit proto) divisor,
       cd_swap = money (pcpd_swap proto) divisor,
       cd_commission = money (pcpd_commission proto) divisor,
       cd_balance = money (pcpd_balance proto) divisor,
       cd_pnl_conversion_fee = money_or_zero (pcpd_pnl_conversion_fee proto) divisor,
       cd_quote_to_deposit_rate = opt_price (pcpd_quote_to_deposit_conversion_rate proto),
       cd_balance_version = nonzero (pcpd_balance_version proto)\<rparr>)"

record model_deal =
  d_deal_id :: int
  d_order_id :: int
  d_position_id :: int
  d_symbol_id :: int
  d_side :: order_side
  d_volume :: int
  d_filled_volume :: int
  d_execution_price :: decimal
  d_execution_timestamp :: datetime
  d_status :: deal_status
  d_commission :: decimal
  d_create_timestamp :: "datetime option"
  d_last_update_timestamp :: "datetime option"
  d_margin_rate :: "decimal option"
  d_base_to_usd_rate :: "decimal option"
  d_close_detail :: "close_detail option"

definition is_closing_deal :: "model_deal \<Rightarrow> bool" where
  "is_closing_deal d = (case d_close_detail d of Some cd \<Rightarrow> cd_balance cd > 0 | None \<Rightarrow> False)"

text \<open>The close detail is read through the default instance when it was not on the wire.\<close>

definition deal_from_proto :: "proto_oa_deal \<Rightarrow> model_deal res" where
  "deal_from_proto proto =
     (let detail = submsg default_close_position_detail (pdeal_close_position_detail proto);
          close = (if pcpd_balance detail > 0 then Some (close_detail_from_proto detail) else None);
          side = (if pdeal_trade_side proto = 1 then BUY else SELL);
          divisor = money_divisor (pdeal_money_digits proto)
      in bind_res (timestamp_to_datetime (pdeal_execution_timestamp proto)) (\<lambda>execution.
         bind_res (opt_time (pdeal_create_timestamp proto)) (\<lambda>create.
         bind_res (opt_time (pdeal_utc_last_update_timestamp proto)) (\<lambda>last_update.
         Inr \<lparr>d_deal_id = pdeal_deal_id proto,
              d_order_id = pdeal_order_id proto,
              d_position_id = pdeal_position_id proto,
              d_symbol_id = pdeal_symbol_id proto,
              d_side = side,
              d_volume = pdeal_volume proto,
              d_filled_volume = pdeal_filled_volume proto,
              d_execution_price = decimal_of_float (pdeal_execution_price proto),
              d_execution_timestamp = execution,
              d_status = get_or DEAL_STATUS_MAP (pdeal_deal_status proto) DS_FILLED,
              d_commission = money_or_zero (pdeal_commission proto) divisor,
              d_create_timestamp = create,
              d_last_update_timestamp = last_update,
              d_margin_rate = opt_price (pdeal_margin_rate proto),
              d_base_to_usd_rate = opt_price (pdeal_base_to_usd_conversion_rate proto),
              d_close_detail = close\<rparr>))))"

end
