(* ===== verification/Instruments.thy ===== *)
theory Instruments
  imports Models
begin

text \<open>
  The rest of \<open>models/\<close>: symbols with their volume and price conversions (\<open>symbol.py\<close>),
  accounts (\<open>account.py\<close>), trend bars and ticks (\<open>market_data.py\<close>), and what the conversions of
  all models keep of the wire values.
\<close>

subsection \<open>Symbols\<close>

record symbol_info =
  si_symbol_id :: int
  si_name :: string
  si_enabled :: bool
  si_base_asset_id :: int
  si_quote_asset_id :: int
  si_category_id :: "int option"
  si_description :: string

definition symbol_info_from_proto :: "proto_oa_light_symbol \<Rightarrow> symbol_info" where
  "symbol_info_from_proto proto =
     \<lparr>si_symbol_id = plsym_symbol_id proto,
      si_name = plsym_symbol_name proto,
      si_enabled = plsym_enabled proto,
      si_base_asset_id = plsym_base_asset_id proto,
      si_quote_asset_id = plsym_quote_asset_id proto,
      si_category_id = nonzero (plsym_symbol_category_id proto),
      si_description = or_str (plsym_description proto) []\<rparr>"

record symbol =
  sy_symbol_id :: int
  sy_digits :: int
  sy_pip_position :: int
  sy_lot_size :: int
  sy_min_volume :: int
  sy_max_volume :: int
  sy_step_volume :: int
  sy_trading_mode :: trading_mode
  sy_swap_long :: decimal
  sy_swap_short :: decimal
  sy_commission :: int
  sy_max_exposure :: "int option"
  sy_leverage_id :: "int option"
  sy_enable_short_selling :: bool
  sy_guaranteed_stop_loss :: bool
  sy_sl_distance :: int
  sy_tp_distance :: int
  sy_schedule_timezone :: string
  sy_measurement_units :: string

definition volume_to_lots :: "symbol \<Rightarrow> int \<Rightarrow> decimal res" where
  "volume_to_lots sy volume_cents = dec_div (of_int volume_cents) (of_int (sy_lot_size sy))"

definition lots_to_volume :: "symbol \<Rightarrow> decimal \<Rightarrow> int" where
  "lots_to_volume sy lots = dec_int (dec_mul lots (of_int (sy_lot_size sy)))"

definition quantize_price :: "symbol \<Rightarrow> decimal \<Rightarrow> decimal res" where
  "quantize_price sy price = dec_quantize price (sy_digits sy)"

definition symbol_from_proto :: "proto_oa_symbol \<Rightarrow> symbol" where
  "symbol_from_proto proto =
     \<lparr>sy_symbol_id = psym_symbol_id proto,
      sy_digits = psym_digits proto,
      sy_pip_position = psym_pip_position proto,
      sy_lot_size = psym_lot_size proto,
      sy_min_volume = psym_min_volume proto,
      sy_max_volume = psym_max_volume proto,
      sy_step_volume = psym_step_volume proto,
      sy_trading_mode = get_or TRADING_MODE_MAP (psym_trading_mode proto) TM_ENABLED,
      sy_swap_long = decimal_of_float (psym_swap_long proto),
      sy_swap_short = decimal_of_float (psym_swap_short proto),
      sy_commission = or_default (psym_commission proto) 0,
      sy_max_exposure = nonzero (psym_max_exposure proto),
      sy_leverage_id = nonzero (psym_leverage_id proto),
      sy_enable_short_selling = psym_enable_short_selling proto,
      sy_guaranteed_stop_loss = psym_guaranteed_stop_loss proto,
      sy_sl_distance = or_default (psym_sl_distance proto) 0,
      sy_tp_distance = or_default (psym_tp_distance proto) 0,
      sy_schedule_timezone = or_str (psym_schedule_time_zone proto) [],
      sy_measurement_units = or_str (psym_measurement_units proto) []\<rparr>"

subsection \<open>Accounts\<close>

record account_summary =
  as_account_id :: int
  as_is_live :: bool
  as_trader_login :: int
  as_broker_name :: string
  as_last_closing_deal_timestamp :: "datetime option"
  as_last_balance_update_timestamp :: "datetime option"

definition account_summary_from_proto :: "proto_oa_ctid_trader_account \<Rightarrow> account_summary res" where
  "account_summary_from_proto proto =
     bind_res (opt_time (pcta_last_closing_deal_timestamp proto)) (\<lambda>closing.
     bind_res (opt_time (pcta_last_balance_update_timestamp proto)) (\<lambda>update.
     Inr \<lparr>as_account_id = pcta_ctid_trader_account_id proto,
          as_is_live = pcta_is_live proto,
          as_trader_login = pcta_trader_login proto,
          as_broker_name = or_str (pcta_broker_title_short proto) [],
          as_last_closing_deal_timestamp = closing,
          as_last_balance_update_timestamp = update\<rparr>))"

record account =
  ac_account_id :: int
  ac_trader_login :: int
  ac_balance :: decimal
  ac_leverage_in_cents :: int
  ac_account_type :: account_type
  ac_access_rights :: access_rights
  ac_broker_name :: string
  ac_deposit_asset_id :: int
  ac_swap_free :: bool
  ac_is_limited_risk :: bool
  ac_registration_timestamp :: "datetime option"
  ac_max_leverage :: "int option"
  ac_balance_version :: "int option"
  ac_manager_bonus :: "decimal option"
  ac_ib_bonus :: "decimal option"
  ac_non_withdrawable_bonus :: "decimal option"

definition get_leverage :: "account \<Rightarrow> string" where
  "get_leverage a = ''1:'' @ int_str (ac_leverage_in_cents a div 100)"

definition opt_money :: "int \<Rightarrow> int \<Rightarrow> decimal option" where
  "opt_money v divisor = (if v = 0 then None else Some (money v divisor))"

definition account_from_proto :: "proto_oa_trader \<Rightarrow> account res" where
  "account_from_proto proto =
     (let divisor = money_divisor (ptr_money_digits proto) in
      bind_res (opt_time (ptr_registration_timestamp proto)) (\<lambda>registration.
      Inr \<lparr>ac_account_id = ptr_ctid_trader_account_id proto,
           ac_trader_login = ptr_trader_login proto,
           ac_balance = money (ptr_balance proto) divisor,
           ac_leverage_in_cents = ptr_leverage_in_cents proto,
           ac_account_type = get_or ACCOUNT_TYPE_MAP (ptr_account_type proto) HEDGED,
           ac_access_rights = get_or ACCESS_RIGHTS_MAP (ptr_access_rights proto) FULL_ACCESS,
           ac_broker_name = or_str (ptr_broker_name proto) [],
           ac_deposit_asset_id = ptr_deposit_asset_id proto,
           ac_swap_free = ptr_swap_free proto,
           ac_is_limited_risk = ptr_is_limited_risk proto,
           ac_registration_timestamp = registration,
           ac_max_leverage = nonzero (ptr_max_leverage proto),
           ac_balance_version = nonzero (ptr_balance_version proto),
           ac_manager_bonus = opt_money (ptr_manager_bonus proto) divisor,
           ac_ib_bonus = opt_money (ptr_ib_bonus proto) divisor,
           ac_non_withdrawable_bonus = opt_money (ptr_non_withdrawable_bonus proto) divisor\<rparr>))"

subsection \<open>Trend bars and ticks\<close>

record trendbar =
  tb_timestamp :: datetime
  tb_period :: trendbar_period
  tb_open :: decimal
  tb_high :: decimal
  tb_low :: decimal
  tb_close :: decimal
  tb_volume :: int

text \<open>\<open>Decimal(v) / Decimal(100000)\<close>, on an integer or on the Decimal of a bid.\<close>

definition price_scale :: "decimal \<Rightarrow> decimal" where
  "price_scale v = round_sig 10 28 (v / 100000)"

definition DELTA_CLOSE_MISSING :: string where
  "DELTA_CLOSE_MISSING =
     ''delta_close missing from Trendbar proto and no bid_price was provided to use as fallback.'' @
     '' Returning error as this is safer than silently returning an incorrect close price of low + 0.''"

definition trendbar_from_proto ::
  "datetime \<Rightarrow> proto_oa_trendbar \<Rightarrow> decimal option \<Rightarrow> bool \<Rightarrow> trendbar res" where
  "trendbar_from_proto now proto bid_price historical =
     bind_res (if ptb_utc_timestamp_in_minutes proto \<noteq> 0
               then datetime_fromtimestamp (of_int (ptb_utc_timestamp_in_minutes proto * 60)) else Inr now) (\<lambda>ts.
     (let low = ptb_low proto; open_price = low + ptb_delta_open proto; high = low + ptb_delta_high proto in
      bind_res (case bid_price of
                  Some bid \<Rightarrow> Inr bid
                | None \<Rightarrow>
                    if \<not> historical \<and> ptb_delta_close proto = 0
                    then Inl (RuntimeError DELTA_CLOSE_MISSING)
                    else Inr (of_int (low + ptb_delta_close proto))) (\<lambda>close.
      Inr \<lparr>tb_timestamp = ts,
           tb_period = get_or PERIOD_MAP (ptb_period proto) M1,
           tb_open = price_scale (of_int open_price),
           tb_high = price_scale (of_int high),
           tb_low = price_scale (of_int low),
           tb_close = price_scale close,
           tb_volume = ptb_volume proto\<rparr>)))"

record tick_data =
  td_timestamp :: datetime
  td_price :: decimal

definition tick_from_proto :: "proto_oa_tick_data \<Rightarrow> tick_data res" where
  "tick_from_proto proto =
     bind_res (datetime_fromtimestamp (float_round (of_int (ptick_timestamp proto) / 1000))) (\<lambda>ts.
     Inr \<lparr>td_timestamp = ts, td_price = price_scale (of_int (ptick_tick proto))\<rparr>)"

text \<open>The loop of \<open>from_proto_list\<close>, over the running timestamp and price.\<close>

fun ticks_loop :: "int \<Rightarrow> int \<Rightarrow> proto_oa_tick_data list \<Rightarrow> tick_data list res" where
  "ticks_loop ts price [] = Inr []"
| "ticks_loop ts price (proto # protos) =
     (let ts' = ts + ptick_timestamp proto; price' = price + ptick_tick proto in
      bind_res (datetime_fromtimestamp (float_round (of_int ts' / 1000))) (\<lambda>d.
      bind_res (ticks_loop ts' price' protos) (\<lambda>ticks.
      Inr (\<lparr>td_timestamp = d, td_price = price_scale (of_int price')\<rparr> # ticks))))"

definition ticks_from_proto_list :: "proto_oa_tick_data list \<Rightarrow> tick_data list res" where
  "ticks_from_proto_list protos = (if protos = [] then Inr [] else ticks_loop 0 0 protos)"

subsection \<open>Lemmas\<close>

definition effective_money_digits :: "int \<Rightarrow> nat" where
  "effective_money_digits d = (if d = 0 then 2 else nat d)"

lemma money_divisor_conv: "money_divisor d = 10 ^ effective_money_digits d"
  by (simp add: money_divisor_def effective_money_digits_def or_default_def DEFAULT_MONEY_DIGITS_def)

lemma money_divisor_exact: "\<bar>v\<bar> < 10 ^ 28 \<Longrightarrow> money v (money_divisor d) = of_int v / 10 ^ effective_money_digits d"
  by (simp add: money_divisor_conv money_exact)

lemma money_or_zero_exact:
  "\<bar>v\<bar> < 10 ^ 28 \<Longrightarrow> money_or_zero v (money_divisor d) = of_int v / 10 ^ effective_money_digits d"
  by (simp add: money_or_zero_def money_divisor_exact)

lemma position_divisor: "money_divisor (or_default d DEFAULT_MONEY_DIGITS) = money_divisor d"
  by (simp add: money_divisor_def or_default_def DEFAULT_MONEY_DIGITS_def)

lemma price_scale_exact: "\<bar>v\<bar> < 10 ^ 28 \<Longrightarrow> price_scale (of_int v) = of_int v / 100000"
  using money_exact [of v 5] by (simp add: price_scale_def money_def)

lemma ticks_loop_nth:
  "ticks_loop ts price protos = Inr ticks \<Longrightarrow> length ticks = length protos \<and>
     (\<forall>i < length protos.
        td_price (ticks ! i) = price_scale (of_int (price + (\<Sum>q \<leftarrow> take (Suc i) protos. ptick_tick q))) \<and>
        datetime_fromtimestamp (float_round (of_int (ts + (\<Sum>q \<leftarrow> take (Suc i) protos. ptick_timestamp q)) / 1000)) =
          Inr (td_timestamp (ticks ! i)))"
proof (induction protos arbitrary: ts price ticks)
  case (Cons p protos)
  then obtain d ticks' where
    d: "datetime_fromtimestamp (float_round (of_int (ts + ptick_timestamp p) / 1000)) = Inr d" and
    rest: "ticks_loop (ts + ptick_timestamp p) (price + ptick_tick p) protos = Inr ticks'" and
    ticks: "ticks = \<lparr>td_timestamp = d, td_price = price_scale (of_int (price + ptick_tick p))\<rparr> # ticks'"
    by (auto simp: Let_def bind_res_Inr_conv)
  note IH = Cons.IH [OF rest]
  show ?case
  proof (intro conjI allI impI)
    show "length ticks = length (p # protos)" using IH ticks by simp
    fix i assume "i < length (p # protos)"
    then show "td_price (ticks ! i) = price_scale (of_int (price + (\<Sum>q \<leftarrow> take (Suc i) (p # protos). ptick_tick q)))"
      "datetime_fromtimestamp (float_round (of_int (ts + (\<Sum>q \<leftarrow> take (Suc i) (p # protos). ptick_timestamp q)) / 1000)) =
        Inr (td_timestamp (ticks ! i))"
      using IH ticks d by (cases i; simp add: add.assoc)+
  qed
qed simp

lemma round_half_even_close: "\<bar>of_int (round_half_even x) - x\<bar> \<le> 1 / 2"
proof -
  have "\<bar>of_int (if x - of_int f < 1 / 2 then f else if x - of_int f > 1 / 2 then f + 1
      else if even f then f else f + 1) - x\<bar> \<le> 1 / 2" if "of_int f \<le> x" "x < of_int f + 1" for f :: int
    using that by auto
  from this [of "\<lfloor>x\<rfloor>"] show ?thesis
    using floor_correct [of x] by (simp add: round_half_even_def Let_def)
qed

subsection \<open>Properties\<close>

text \<open>
  C34: converting a volume to lots and back gives the volume itself, and the lots are exact, for
  every lot size with no prime factor but 2 and 5 (one that divides a power of ten) and every
  volume whose lots fit the 28 digits of the decimal context.
\<close>

theorem volume_lots_roundtrip:
  assumes "0 < sy_lot_size sy" "sy_lot_size sy dvd 10 ^ k" "\<bar>v\<bar> * (10 ^ k div sy_lot_size sy) < 10 ^ 28"
  shows "\<exists>lots. volume_to_lots sy v = Inr lots \<and> lots * of_int (sy_lot_size sy) = of_int v \<and> lots_to_volume sy lots = v"
proof -
  let ?lot = "sy_lot_size sy"
  define c where "c = 10 ^ k div ?lot"
  have c: "?lot * c = 10 ^ k" using assms(2) by (simp add: c_def)
  then have "0 < ?lot * c" by simp
  then have "0 < c" using assms(1) by (simp add: zero_less_mult_iff)
  have digits: "\<bar>v * c\<bar> < 10 ^ 28" using assms(3) \<open>0 < c\<close> by (simp add: abs_mult c_def)
  have ten: "(10 :: rat) ^ k = of_int ?lot * of_int c" using arg_cong [OF c, of "of_int :: int \<Rightarrow> rat"] by simp
  have quot: "(of_int v :: rat) / of_int ?lot = of_int (v * c) / 10 ^ k" unfolding ten using \<open>0 < c\<close> by simp
  have lots: "volume_to_lots sy v = Inr (of_int v / of_int ?lot)"
    using money_exact [OF digits, of k] assms(1) by (simp add: volume_to_lots_def dec_div_def money_def quot)
  have "\<bar>v\<bar> * 1 \<le> \<bar>v\<bar> * c" using \<open>0 < c\<close> by (intro mult_left_mono) simp_all
  then have "\<bar>v\<bar> < 10 ^ 28" using assms(3) by (simp add: c_def)
  then have "round_sig 10 28 (of_int v) = of_int v" using money_exact [of v 0] by (simp add: money_def)
  then have "lots_to_volume sy (of_int v / of_int ?lot) = v"
    using assms(1) by (simp add: lots_to_volume_def dec_mul_def dec_int_def)
  with lots assms(1) show ?thesis by simp
qed

definition sample_symbol :: "int \<Rightarrow> symbol" where
  "sample_symbol lot =
     \<lparr>sy_symbol_id = 1, sy_digits = 5, sy_pip_position = 4, sy_lot_size = lot, sy_min_volume = 1, sy_max_volume = 10,
      sy_step_volume = 1, sy_trading_mode = TM_ENABLED, sy_swap_long = 0, sy_swap_short = 0, sy_commission = 0,
      sy_max_exposure = None, sy_leverage_id = None, sy_enable_short_selling = True, sy_guaranteed_stop_loss = False,
      sy_sl_distance = 0, sy_tp_distance = 0, sy_schedule_timezone = [], sy_measurement_units = []\<rparr>"

theorem volume_lots_roundtrip_witness:
  "\<exists>lots. volume_to_lots (sample_symbol 5000) 123456789 = Inr lots \<and> lots_to_volume (sample_symbol 5000) lots = 123456789"
  using volume_lots_roundtrip [of "sample_symbol 5000" 4 123456789] by (auto simp: sample_symbol_def)

text \<open>
  With a lot size that does not divide a power of ten the same round trip can lose
  volume: one third of a lot times a lot size of three is truncated to a volume of 0, because
  the quotient is rounded down to 28 digits before the product is truncated.
\<close>

theorem volume_lots_lossy:
  "case volume_to_lots (sample_symbol 3) 1 of
     Inr lots \<Rightarrow> lots_to_volume (sample_symbol 3) lots = 0
   | Inl e \<Rightarrow> False"
  by code_simp

text \<open>
  C35: the tick history is decoded by running sums: the \<open>i\<close>-th tick has the sum of the first
  \<open>i + 1\<close> price deltas over 100000 as its price, exactly, and the sum of the time deltas as its
  time; no tick is lost or reordered.
\<close>

theorem ticks_decoded:
  assumes "ticks_from_proto_list protos = Inr ticks" "i < length protos"
    and "\<bar>\<Sum>q \<leftarrow> take (Suc i) protos. ptick_tick q\<bar> < 10 ^ 28"
  shows "length ticks = length protos \<and>
    td_price (ticks ! i) = of_int (\<Sum>q \<leftarrow> take (Suc i) protos. ptick_tick q) / 100000 \<and>
    datetime_fromtimestamp (float_round (of_int (\<Sum>q \<leftarrow> take (Suc i) protos. ptick_timestamp q) / 1000)) =
      Inr (td_timestamp (ticks ! i))"
  using ticks_loop_nth [of 0 0 protos ticks] assms
  by (auto simp: ticks_from_proto_list_def price_scale_exact split: if_splits)

theorem ticks_decoded_witness:
  "\<exists>ticks. ticks_from_proto_list
      [\<lparr>ptick_timestamp = 1700000000123, ptick_tick = 108630\<rparr>, \<lparr>ptick_timestamp = - 500, ptick_tick = - 5\<rparr>] = Inr ticks \<and>
     td_price (ticks ! 1) = 108625 / 100000"
proof -
  have "ticks_from_proto_list
      [\<lparr>ptick_timestamp = 1700000000123, ptick_tick = 108630\<rparr>, \<lparr>ptick_timestamp = - 500, ptick_tick = - 5\<rparr>] =
    Inr [\<lparr>td_timestamp = 1700000000123000, td_price = 10863 / 10000\<rparr>, \<lparr>td_timestamp = 1699999999623000, td_price = 869 / 800\<rparr>]"
    by code_simp
  from ticks_decoded [OF this, of 1] this show ?thesis by (simp add: numeral_2_eq_2)
qed

text \<open>
  A historical bar is decoded exactly from its low and the deltas, and keeps their
  order: its low is at most its open and close, which are at most its high; a live bar with
  neither a bid nor a close delta is refused.
\<close>

theorem trendbar_decoded:
  assumes "\<bar>ptb_low b\<bar> < 10 ^ 27" "0 \<le> ptb_delta_open b" "ptb_delta_open b \<le> ptb_delta_high b"
    "0 \<le> ptb_delta_close b" "ptb_delta_close b \<le> ptb_delta_high b" "ptb_delta_high b < 10 ^ 27"
  shows "(\<forall>bar. trendbar_from_proto now b None True = Inr bar \<longrightarrow>
      tb_low bar = of_int (ptb_low b) / 100000 \<and>
      tb_open bar = of_int (ptb_low b + ptb_delta_open b) / 100000 \<and>
      tb_high bar = of_int (ptb_low b + ptb_delta_high b) / 100000 \<and>
      tb_close bar = of_int (ptb_low b + ptb_delta_close b) / 100000 \<and>
      tb_low bar \<le> tb_open bar \<and> tb_low bar \<le> tb_close bar \<and> tb_open bar \<le> tb_high bar \<and> tb_close bar \<le> tb_high bar) \<and>
    (ptb_delta_close b = 0 \<and> ptb_utc_timestamp_in_minutes b = 0 \<longrightarrow>
      trendbar_from_proto now b None False = Inl (RuntimeError DELTA_CLOSE_MISSING))"
proof -
  have ten: "(10 :: int) ^ 28 = 10 * 10 ^ 27" by simp
  have bounds: "\<bar>ptb_low b\<bar> < 10 ^ 28" "\<bar>ptb_low b + ptb_delta_open b\<bar> < 10 ^ 28"
    "\<bar>ptb_low b + ptb_delta_high b\<bar> < 10 ^ 28" "\<bar>ptb_low b + ptb_delta_close b\<bar> < 10 ^ 28"
    unfolding ten using assms by linarith+
  show ?thesis
    using assms bounds [THEN price_scale_exact]
    by (auto simp: trendbar_from_proto_def Let_def bind_res_Inr_conv split: if_splits)
qed

theorem trendbar_decoded_witness:
  "\<exists>bar. trendbar_from_proto 0 \<lparr>ptb_volume = 3, ptb_period = 9, ptb_low = 108000, ptb_delta_open = 20, ptb_delta_close = 0,
      ptb_delta_high = 50, ptb_utc_timestamp_in_minutes = 28333333\<rparr> None True = Inr bar \<and>
     tb_close bar = 108000 / 100000 \<and> tb_low bar \<le> tb_open bar"
proof -
  let ?b = "\<lparr>ptb_volume = 3, ptb_period = 9, ptb_low = 108000, ptb_delta_open = 20, ptb_delta_close = 0,
      ptb_delta_high = 50, ptb_utc_timestamp_in_minutes = 28333333\<rparr>"
  have "\<exists>bar. trendbar_from_proto 0 ?b None True = Inr bar"
    by (simp add: trendbar_from_proto_def datetime_fromtimestamp_def dec_int_def float_round_def
        round_half_even_def Let_def)
  then obtain bar where "trendbar_from_proto 0 ?b None True = Inr bar" ..
  with trendbar_decoded [of ?b 0] show ?thesis by auto
qed

text \<open>
  Quantizing a price gives a multiple of the symbol's tick, at most half a tick away from
  the price.
\<close>

theorem quantize_price_nearest:
  assumes "quantize_price sy price = Inr q"
  shows "(\<exists>n :: int. q = of_int n * 10 powi (- sy_digits sy)) \<and>
    \<bar>q - price\<bar> \<le> 1 / 2 * 10 powi (- sy_digits sy)"
proof -
  define u :: rat where "u = 10 powi (- sy_digits sy)"
  define n where "n = round_half_even (\<bar>price\<bar> * 10 powi sy_digits sy)"
  have u: "0 < u" "10 powi sy_digits sy * u = 1" by (simp_all add: u_def power_int_minus)
  have q: "q = sgn price * (of_int n * u)"
    using assms by (auto simp: quantize_price_def dec_quantize_def Let_def n_def u_def split: if_splits)
  have "\<bar>of_int n - \<bar>price\<bar> * 10 powi sy_digits sy\<bar> \<le> 1 / 2" unfolding n_def by (rule round_half_even_close)
  then have "\<bar>of_int n - \<bar>price\<bar> * 10 powi sy_digits sy\<bar> * u \<le> 1 / 2 * u" using u(1) by (simp add: mult_right_mono)
  moreover have "\<bar>of_int n - \<bar>price\<bar> * 10 powi sy_digits sy\<bar> * u = \<bar>of_int n * u - \<bar>price\<bar>\<bar>"
    using u by (simp add: abs_mult_pos left_diff_distrib mult.assoc)
  ultimately have near: "\<bar>of_int n * u - \<bar>price\<bar>\<bar> \<le> 1 / 2 * u" by simp
  consider "price = 0" | "0 < price" | "price < 0" by linarith
  then show ?thesis
  proof cases
    case 1
    with q u(1) show ?thesis by (auto simp: u_def [symmetric] intro: exI [of _ 0])
  next
    case 2
    with q near show ?thesis by (auto simp: u_def [symmetric])
  next
    case 3
    with q have "q = of_int (- n) * u" "q - price = - (of_int n * u - \<bar>price\<bar>)" by simp_all
    moreover from this(2) near have "\<bar>q - price\<bar> \<le> 1 / 2 * u" by (simp only: abs_minus_cancel)
    ultimately show ?thesis unfolding u_def [symmetric] by blast
  qed
qed

theorem quantize_price_nearest_witness:
  "\<exists>q. quantize_price (sample_symbol 1) (1086349 / 1000000) = Inr q \<and> \<bar>q - 1086349 / 1000000\<bar> \<le> 1 / 2 * 10 powi (- 5)"
proof -
  have "quantize_price (sample_symbol 1) (1086349 / 1000000) = Inr (21727 / 20000)" by code_simp
  moreover have "sy_digits (sample_symbol 1) = 5" by (simp add: sample_symbol_def)
  ultimately show ?thesis using quantize_price_nearest [of "sample_symbol 1"] by metis
qed

end
