(* ===== verification/Events.thy ===== *)
theory Events
  imports Instruments Protocol
begin

text \<open>
  \<open>events/types.py\<close> and \<open>events/_execution.py\<close>: the typed events of the client's bus, and the
  conversion of an execution message that the trading calls and the router share.
\<close>

subsection \<open>Event values\<close>

record spot_event =
  se_account_id :: int
  se_symbol_id :: int
  se_bid :: "decimal option"
  se_ask :: "decimal option"
  se_trendbar :: "trendbar list"
  se_timestamp :: datetime

record execution_event =
  ee_account_id :: int
  ee_execution_type :: execution_type
  ee_order_id :: int
  ee_position_id :: "int option"
  ee_symbol_id :: int
  ee_side :: order_side
  ee_filled_volume :: "int option"
  ee_fill_price :: "decimal option"
  ee_timestamp :: datetime
  ee_is_server_event :: bool
  ee_error_code :: "string option"

record depth_quote =
  dq_quote_id :: int
  dq_price :: int
  dq_size :: int
  dq_is_bid :: bool

text \<open>The fields of the smaller events stand in the order of the dataclass.\<close>

datatype event =
    SpotEvent spot_event
  | ExecutionEvent execution_event
  | OrderErrorEvent int "int option" "int option" string string
  | TraderUpdateEvent int int "int option" int
  | MarginChangeEvent int int int int
  | DepthEvent int int "depth_quote list" "int list"
  | TokenInvalidatedEvent "int list" string
  | TokenRefreshFailedEvent int exn
  | SubscriptionRestoreFailedEvent int exn
  | ClientDisconnectEvent string
  | AccountDisconnectEvent int
  | SymbolChangedEvent int "int list"
  | TrailingStopChangedEvent int int int decimal datetime
  | MarginCallTriggerEvent int int decimal
  | ReconnectedEvent bool "int list" "(int \<times> string) list"
  | ReadyEvent int auth_trigger

definition is_reconnect :: "auth_trigger \<Rightarrow> bool" where
  "is_reconnect trigger \<longleftrightarrow> trigger \<noteq> INITIAL"

subsection \<open>Event classes\<close>

datatype event_type =
    T_SpotEvent | T_ExecutionEvent | T_OrderErrorEvent | T_TraderUpdateEvent | T_MarginChangeEvent | T_DepthEvent
  | T_TokenInvalidatedEvent | T_TokenRefreshFailedEvent | T_SubscriptionRestoreFailedEvent | T_ClientDisconnectEvent
  | T_AccountDisconnectEvent | T_SymbolChangedEvent | T_TrailingStopChangedEvent | T_MarginCallTriggerEvent
  | T_ReconnectedEvent | T_ReadyEvent

primrec event_type_of :: "event \<Rightarrow> event_type" where
  "event_type_of (SpotEvent _) = T_SpotEvent"
| "event_type_of (ExecutionEvent _) = T_ExecutionEvent"
| "event_type_of (OrderErrorEvent _ _ _ _ _) = T_OrderErrorEvent"
| "event_type_of (TraderUpdateEvent _ _ _ _) = T_TraderUpdateEvent"
| "event_type_of (MarginChangeEvent _ _ _ _) = T_MarginChangeEvent"
| "event_type_of (DepthEvent _ _ _ _) = T_DepthEvent"
| "event_type_of (TokenInvalidatedEvent _ _) = T_TokenInvalidatedEvent"
| "event_type_of (TokenRefreshFailedEvent _ _) = T_TokenRefreshFailedEvent"
| "event_type_of (SubscriptionRestoreFailedEvent _ _) = T_SubscriptionRestoreFailedEvent"
| "event_type_of (ClientDisconnectEvent _) = T_ClientDisconnectEvent"
| "event_type_of (AccountDisconnectEvent _) = T_AccountDisconnectEvent"
| "event_type_of (SymbolChangedEvent _ _) = T_SymbolChangedEvent"
| "event_type_of (TrailingStopChangedEvent _ _ _ _ _) = T_TrailingStopChangedEvent"
| "event_type_of (MarginCallTriggerEvent _ _ _) = T_MarginCallTriggerEvent"
| "event_type_of (ReconnectedEvent _ _ _) = T_ReconnectedEvent"
| "event_type_of (ReadyEvent _ _) = T_ReadyEvent"

text \<open>\<open>getattr(event, "account_id", None)\<close> and \<open>getattr(event, "symbol_id", None)\<close>.\<close>

primrec event_account_id :: "event \<Rightarrow> int option" where
  "event_account_id (SpotEvent e) = Some (se_account_id e)"
| "event_account_id (ExecutionEvent e) = Some (ee_account_id e)"
| "event_account_id (OrderErrorEvent a _ _ _ _) = Some a"
| "event_account_id (TraderUpdateEvent a _ _ _) = Some a"
| "event_account_id (MarginChangeEvent a _ _ _) = Some a"
| "event_account_id (DepthEvent a _ _ _) = Some a"
| "event_account_id (TokenInvalidatedEvent _ _) = None"
| "event_account_id (TokenRefreshFailedEvent a _) = Some a"
| "event_account_id (SubscriptionRestoreFailedEvent a _) = Some a"
| "event_account_id (ClientDisconnectEvent _) = None"
| "event_account_id (AccountDisconnectEvent a) = Some a"
| "event_account_id (SymbolChangedEvent a _) = Some a"
| "event_account_id (TrailingStopChangedEvent a _ _ _ _) = Some a"
| "event_account_id (MarginCallTriggerEvent a _ _) = Some a"
| "event_account_id (ReconnectedEvent _ _ _) = None"
| "event_account_id (ReadyEvent a _) = Some a"

fun event_symbol_id :: "event \<Rightarrow> int option" where
  "event_symbol_id (SpotEvent e) = Some (se_symbol_id e)"
| "event_symbol_id (ExecutionEvent e) = Some (ee_symbol_id e)"
| "event_symbol_id (DepthEvent _ s _ _) = Some s"
| "event_symbol_id _ = None"

text \<open>Whether \<open>__dataclass_fields__\<close> of the class has the field.\<close>

definition has_account_id :: "event_type \<Rightarrow> bool" where
  "has_account_id t \<longleftrightarrow> t \<notin> {T_TokenInvalidatedEvent, T_ClientDisconnectEvent, T_ReconnectedEvent}"

definition has_symbol_id :: "event_type \<Rightarrow> bool" where
  "has_symbol_id t \<longleftrightarrow> t \<in> {T_SpotEvent, T_ExecutionEvent, T_DepthEvent}"

lemma has_account_id_iff: "has_account_id (event_type_of e) \<longleftrightarrow> event_account_id e \<noteq> None"
  by (cases e) (simp_all add: has_account_id_def)

lemma has_symbol_id_iff: "has_symbol_id (event_type_of e) \<longleftrightarrow> event_symbol_id e \<noteq> None"
  by (cases e) (simp_all add: has_symbol_id_def)

subsection \<open>Executions\<close>

definition EXECUTION_TYPE_MAP :: "(int, execution_type) dict" where
  "EXECUTION_TYPE_MAP =
     [(2, EX_ORDER_ACCEPTED), (3, EX_ORDER_FILLED), (4, EX_ORDER_REPLACED), (5, EX_ORDER_CANCELLED), (6, EX_ORDER_EXPIRED),
      (7, EX_ORDER_REJECTED), (8, EX_ORDER_CANCEL_REJECTED), (9, EX_SWAP), (10, EX_DEPOSIT_WITHDRAW),
      (11, EX_ORDER_PARTIAL_FILL), (12, EX_BONUS_DEPOSIT_WITHDRAW)]"

definition execution_event_from_proto :: "datetime \<Rightarrow> proto_oa_execution_event \<Rightarrow> execution_event option res" where
  "execution_event_from_proto now proto =
     (case dict_get EXECUTION_TYPE_MAP (pex_execution_type proto) of
        None \<Rightarrow> Inr None
      | Some exec_type \<Rightarrow>
          (let has_order = serialized_on_wire (pex_order proto);
               has_position = serialized_on_wire (pex_position proto);
               has_deal = serialized_on_wire (pex_deal proto);
               order = submsg default_order (pex_order proto);
               trade_data = submsg default_trade_data (pord_trade_data order);
               position = submsg default_position (pex_position proto);
               deal = submsg default_deal (pex_deal proto)
           in bind_res (if has_deal \<and> pdeal_execution_timestamp deal \<noteq> 0
                        then timestamp_to_datetime (pdeal_execution_timestamp deal) else Inr now) (\<lambda>timestamp.
              Inr (Some \<lparr>ee_account_id = pex_ctid_trader_account_id proto,
                         ee_execution_type = exec_type,
                         ee_order_id = (if has_order then pord_order_id order else 0),
                         ee_position_id = (if has_position then Some (ppos_position_id position) else None),
                         ee_symbol_id = (if has_order then ptd_symbol_id trade_data else 0),
                         ee_side = (if has_order \<and> ptd_trade_side trade_data = 2 then SELL else BUY),
                         ee_filled_volume = (if has_deal then nonzero (pdeal_filled_volume deal) else None),
                         ee_fill_price = (if has_deal then opt_price (pdeal_execution_price deal) else None),
                         ee_timestamp = timestamp,
                         ee_is_server_event = pex_is_server_event proto,
                         ee_error_code = nonempty (pex_error_code proto)\<rparr>))))"

end
