(* ===== verification/Emitter.thy ===== *)
theory Emitter
  imports Events
begin

text \<open>
  \<open>events/emitter.py\<close>: the event bus. Handlers are values of a type \<open>'h\<close> compared by identity.
  \<open>emit\<close> gives the handlers it starts, in order: they run concurrently, \<open>_deliver\<close> contains
  whatever one of them raises, and \<open>emit\<close> returns when all are done.
\<close>

record 'h subscription =
  sb_handler :: 'h
  sb_account_id :: "int option"
  sb_symbol_id :: "int option"

type_synonym 'h emitter = "(event_type, 'h subscription list) dict"

definition validate_filter :: "bool \<Rightarrow> unit res" where
  "validate_filter has_field =
     (if has_field then Inr () else Inl (ValueError ''event type does not have this field and cannot be filtered by it''))"

definition subscriptions_for :: "'h emitter \<Rightarrow> event_type \<Rightarrow> 'h subscription list" where
  "subscriptions_for em t = (case dict_get em t of None \<Rightarrow> [] | Some subs \<Rightarrow> subs)"

definition subscribe :: "event_type \<Rightarrow> 'h \<Rightarrow> int option \<Rightarrow> int option \<Rightarrow> 'h emitter \<Rightarrow> unit res \<times> 'h emitter" where
  "subscribe t handler account_id symbol_id em =
     (case bind_res (if account_id \<noteq> None then validate_filter (has_account_id t) else Inr ()) (\<lambda>_.
             if symbol_id \<noteq> None then validate_filter (has_symbol_id t) else Inr ()) of
        Inl e \<Rightarrow> (Inl e, em)
      | Inr u \<Rightarrow>
          (Inr (), dict_set t (subscriptions_for em t @
             [\<lparr>sb_handler = handler, sb_account_id = account_id, sb_symbol_id = symbol_id\<rparr>]) em))"

text \<open>The first subscription of the handler, by \<open>sub.handler is handler\<close>.\<close>

fun remove_first :: "'h \<Rightarrow> 'h subscription list \<Rightarrow> 'h subscription list option" where
  "remove_first handler [] = None"
| "remove_first handler (sub # subs) =
     (if sb_handler sub = handler then Some subs else map_option ((#) sub) (remove_first handler subs))"

definition unsubscribe :: "event_type \<Rightarrow> 'h \<Rightarrow> 'h emitter \<Rightarrow> bool \<times> 'h emitter" where
  "unsubscribe t handler em =
     (case dict_get em t of
        None \<Rightarrow> (False, em)
      | Some subs \<Rightarrow>
          (case remove_first handler subs of None \<Rightarrow> (False, em) | Some subs' \<Rightarrow> (True, dict_set t subs' em)))"

definition unsubscribe_all :: "event_type option \<Rightarrow> 'h emitter \<Rightarrow> nat \<times> 'h emitter" where
  "unsubscribe_all event_type em =
     (case event_type of
        Some t \<Rightarrow> (length (subscriptions_for em t), dict_set t [] em)
      | None \<Rightarrow> (sum_list (map (length \<circ> snd) em), []))"

definition subscription_count :: "event_type option \<Rightarrow> 'h emitter \<Rightarrow> nat" where
  "subscription_count event_type em =
     (case event_type of
        Some t \<Rightarrow> length (subscriptions_for em t)
      | None \<Rightarrow> sum_list (map (length \<circ> snd) em))"

definition matches_filter :: "event \<Rightarrow> 'h subscription \<Rightarrow> bool" where
  "matches_filter e sub \<longleftrightarrow>
     \<not> (sb_account_id sub \<noteq> None \<and> event_account_id e \<noteq> sb_account_id sub) \<and>
     \<not> (sb_symbol_id sub \<noteq> None \<and> event_symbol_id e \<noteq> sb_symbol_id sub)"

definition emit :: "event \<Rightarrow> 'h emitter \<Rightarrow> 'h list" where
  "emit e em = map sb_handler (filter (matches_filter e) (subscriptions_for em (event_type_of e)))"

definition deliver :: "('h \<Rightarrow> event \<Rightarrow> unit res) \<Rightarrow> 'h \<Rightarrow> event \<Rightarrow> unit res" where
  "deliver call handler e = (case call handler e of Inl x \<Rightarrow> Inr () | Inr u \<Rightarrow> Inr u)"

text \<open>The whole \<open>emit\<close>: every started handler runs, whatever the others raise.\<close>

definition emit_all :: "('h \<Rightarrow> event \<Rightarrow> unit res) \<Rightarrow> event \<Rightarrow> 'h emitter \<Rightarrow> unit res list" where
  "emit_all call e em = map (\<lambda>h. deliver call h e) (emit e em)"

subsection \<open>Lemmas\<close>

lemma subscriptions_for_set [simp]:
  "subscriptions_for (dict_set t subs em) t' = (if t' = t then subs else subscriptions_for em t')"
  by (simp add: subscriptions_for_def dict.get_assign)

lemma remove_first_append:
  "handler \<notin> sb_handler ` set subs \<Longrightarrow> sb_handler sub = handler \<Longrightarrow> remove_first handler (subs @ [sub]) = Some subs"
  by (induction subs) auto

lemma subscribe_ok:
  "subscribe t h a s em = (Inr (), em') \<longleftrightarrow>
     (a \<noteq> None \<longrightarrow> has_account_id t) \<and> (s \<noteq> None \<longrightarrow> has_symbol_id t) \<and>
     em' = dict_set t (subscriptions_for em t @ [\<lparr>sb_handler = h, sb_account_id = a, sb_symbol_id = s\<rparr>]) em"
  by (auto simp: subscribe_def validate_filter_def)

subsection \<open>Properties\<close>

text \<open>
  C36: delivery follows the subscription. After an accepted subscription, an event of its type
  starts the handlers it started before, and then the new one exactly when the account and
  symbol of the event agree with the filters given; events of other types are unaffected. A
  filter is accepted only on an event class that has the field, so a filtered subscription is
  never dead for lack of it.
\<close>

theorem subscribe_delivers:
  assumes "subscribe t h a s em = (Inr (), em')"
  shows "emit e em' =
      (if event_type_of e = t \<and> (a = None \<or> event_account_id e = a) \<and> (s = None \<or> event_symbol_id e = s)
       then emit e em @ [h] else emit e em) \<and>
    (event_type_of e = t \<longrightarrow> (a \<noteq> None \<longrightarrow> event_account_id e \<noteq> None) \<and> (s \<noteq> None \<longrightarrow> event_symbol_id e \<noteq> None))"
  using assms has_account_id_iff [of e] has_symbol_id_iff [of e]
  by (auto simp: subscribe_ok emit_def matches_filter_def)

theorem subscribe_delivers_witness:
  "\<exists>em'. subscribe T_AccountDisconnectEvent (1 :: nat) (Some 7) None [] = (Inr (), em') \<and>
     emit (AccountDisconnectEvent 7) em' = [1] \<and> emit (AccountDisconnectEvent 8) em' = []"
proof -
  have "subscribe T_AccountDisconnectEvent (1 :: nat) (Some 7) None [] =
      (Inr (), [(T_AccountDisconnectEvent, [\<lparr>sb_handler = 1, sb_account_id = Some 7, sb_symbol_id = None\<rparr>])])"
    by (simp add: subscribe_def validate_filter_def has_account_id_def subscriptions_for_def)
  with subscribe_delivers [OF this, of "AccountDisconnectEvent 7"] subscribe_delivers [OF this, of "AccountDisconnectEvent 8"]
  show ?thesis by (auto simp: emit_def subscriptions_for_def)
qed

text \<open>
  Unsubscribing undoes the subscription of a handler that was not subscribed before, says
  so, and lowers the count by one; unsubscribing a handler that is not there changes nothing;
  and a failing handler neither stops \<open>emit\<close> nor the other handlers.
\<close>

theorem unsubscribe_undoes:
  "(h \<notin> sb_handler ` set (subscriptions_for em t) \<and> subscribe t h a s em = (Inr (), em') \<longrightarrow>
      (\<exists>em''. unsubscribe t h em' = (True, em'') \<and> (\<forall>e. emit e em'' = emit e em) \<and>
        subscription_count (Some t) em' = Suc (subscription_count (Some t) em''))) \<and>
   (h \<notin> sb_handler ` set (subscriptions_for em t) \<longrightarrow> unsubscribe t h em = (False, em)) \<and>
   emit_all call e em = map (\<lambda>_. Inr ()) (emit e em)"
proof (intro conjI impI)
  assume "h \<notin> sb_handler ` set (subscriptions_for em t) \<and> subscribe t h a s em = (Inr (), em')"
  then show "\<exists>em''. unsubscribe t h em' = (True, em'') \<and> (\<forall>e. emit e em'' = emit e em) \<and>
        subscription_count (Some t) em' = Suc (subscription_count (Some t) em'')"
    by (auto simp: subscribe_ok unsubscribe_def remove_first_append dict.get_assign emit_def subscription_count_def)
next
  assume "h \<notin> sb_handler ` set (subscriptions_for em t)"
  moreover have "remove_first h subs = None" if "h \<notin> sb_handler ` set subs" for subs
    using that by (induction subs) auto
  ultimately show "unsubscribe t h em = (False, em)"
    by (auto simp: unsubscribe_def subscriptions_for_def split: option.splits)
next
  show "emit_all call e em = map (\<lambda>_. Inr ()) (emit e em)"
    by (auto simp: emit_all_def deliver_def split: sum.splits)
qed

theorem unsubscribe_undoes_witness:
  "\<exists>em''. unsubscribe T_ReadyEvent 5 [(T_ReadyEvent, [\<lparr>sb_handler = 5 :: nat, sb_account_id = None, sb_symbol_id = None\<rparr>])] = (True, em'') \<and>
     emit (ReadyEvent 7 INITIAL) em'' = []"
proof -
  let ?em = "[(T_ReadyEvent, [\<lparr>sb_handler = 5 :: nat, sb_account_id = None, sb_symbol_id = None\<rparr>])]"
  have "subscribe T_ReadyEvent 5 None None [] = (Inr (), ?em)" by (simp add: subscribe_ok subscriptions_for_def)
  then obtain em'' where "unsubscribe T_ReadyEvent 5 ?em = (True, em'')" "\<forall>e. emit e em'' = emit e []"
    using unsubscribe_undoes [where h = "5 :: nat" and em = "[]" and t = T_ReadyEvent and a = None and s = None and em' = ?em
        and call = "\<lambda>_ _. Inr ()" and e = "ReadyEvent 7 INITIAL"]
    by (auto simp: subscriptions_for_def)
  moreover have "emit (ReadyEvent 7 INITIAL) ([] :: nat emitter) = []" by (simp add: emit_def subscriptions_for_def)
  ultimately show ?thesis by metis
qed

end
