(* ===== verification/Router.thy ===== *)
theory Router
  imports Emitter
begin

text \<open>
  \<open>events/router.py\<close>, and the handlers \<open>connection/heartbeat.py\<close> registers beside it: which
  handlers stand on the protocol between \<open>start\<close> and \<open>stop\<close>, and what each does with a message.
  A handler publishes one event, drops the message, or hands an account to session recovery.
\<close>

subsection \<open>Registration\<close>

datatype component_handler =
    Handle_spot | Handle_execution | Handle_order_error | Handle_trader_update | Handle_margin_change | Handle_depth
  | Handle_token_invalidated | Handle_client_disconnect | Handle_account_disconnect | Handle_symbol_changed
  | Handle_trailing_stop_changed | Handle_margin_call_trigger | Record_activity | On_heartbeat

abbreviation push_key :: "push_class \<Rightarrow> handler_key" where
  "push_key c \<equiv> KeyMessage (ClsPush c)"

definition router_registrations :: "(handler_key \<times> component_handler) list" where
  "router_registrations =
     [(push_key Cls_ProtoOASpotEvent, Handle_spot),
      (push_key Cls_ProtoOAExecutionEvent, Handle_execution),
      (push_key Cls_ProtoOAOrderErrorEvent, Handle_order_error),
      (push_key Cls_ProtoOATraderUpdatedEvent, Handle_trader_update),
      (push_key Cls_ProtoOAMarginChangedEvent, Handle_margin_change),
      (push_key Cls_ProtoOADepthEvent, Handle_depth),
      (push_key Cls_ProtoOAAccountsTokenInvalidatedEvent, Handle_token_invalidated),
      (push_key Cls_ProtoOAClientDisconnectEvent, Handle_client_disconnect),
      (push_key Cls_ProtoOAAccountDisconnectEvent, Handle_account_disconnect),
      (push_key Cls_ProtoOASymbolChangedEvent, Handle_symbol_changed),
      (push_key Cls_ProtoOATrailingSLChangedEvent, Handle_trailing_stop_changed),
      (push_key Cls_ProtoOAMarginCallTriggerEvent, Handle_margin_call_trigger)]"

text \<open>The disposers a component holds are the registrations they undo.\<close>

definition register_all :: "(handler_key \<times> 'h) list \<Rightarrow> 'h protocol \<Rightarrow> 'h protocol" where
  "register_all regs pr = fold (\<lambda>(k, h). on_event k h) regs pr"

definition dispose_all :: "(handler_key \<times> 'h) list \<Rightarrow> 'h protocol \<Rightarrow> 'h protocol" where
  "dispose_all regs pr = fold (\<lambda>(k, h). remove_handler k h) regs pr"

record router =
  ro_disposers :: "(handler_key \<times> component_handler) list"

definition router_is_started :: "router \<Rightarrow> bool" where
  "router_is_started ro \<longleftrightarrow> ro_disposers ro \<noteq> []"

definition router_start :: "router \<Rightarrow> component_handler protocol \<Rightarrow> router \<times> component_handler protocol" where
  "router_start ro pr =
     (if ro_disposers ro \<noteq> [] then (ro, pr)
      else (ro\<lparr>ro_disposers := router_registrations\<rparr>, register_all router_registrations pr))"

definition router_stop :: "router \<Rightarrow> component_handler protocol \<Rightarrow> router \<times> component_handler protocol" where
  "router_stop ro pr =
     (if ro_disposers ro = [] then (ro, pr)
      else (ro\<lparr>ro_disposers := []\<rparr>, dispose_all (ro_disposers ro) pr))"

subsection \<open>Conversions\<close>

datatype router_action = Publish event | Ignore | Recover int

definition opt_spot_price :: "int \<Rightarrow> decimal option" where
  "opt_spot_price p = (if p = 0 then None else Some (price_scale (of_int p)))"

definition handle_spot :: "datetime \<Rightarrow> proto_oa_spot_event \<Rightarrow> router_action res" where
  "handle_spot now proto =
     bind_res (map_res (\<lambda>tb. trendbar_from_proto now tb (Some (of_int (psp_bid proto))) False) (psp_trendbar proto)) (\<lambda>trendbars.
     bind_res (if psp_timestamp proto \<noteq> 0 then timestamp_to_datetime (psp_timestamp proto) else Inr now) (\<lambda>timestamp.
     Inr (Publish (SpotEvent
       \<lparr>se_account_id = psp_ctid_trader_account_id proto,
        se_symbol_id = psp_symbol_id proto,
        se_bid = opt_spot_price (psp_bid proto),
        se_ask = opt_spot_price (psp_ask proto),
        se_trendbar = trendbars,
        se_timestamp = timestamp\<rparr>))))"

definition handle_execution :: "datetime \<Rightarrow> proto_oa_execution_event \<Rightarrow> router_action res" where
  "handle_execution now proto =
     bind_res (execution_event_from_proto now proto) (\<lambda>ev.
       case ev of None \<Rightarrow> Inr Ignore | Some e \<Rightarrow> Inr (Publish (ExecutionEvent e)))"

definition handle_order_error :: "proto_oa_order_error_event \<Rightarrow> router_action" where
  "handle_order_error proto =
     Publish (OrderErrorEvent (poe_ctid_trader_account_id proto) (nonzero (poe_order_id proto))
       (nonzero (poe_position_id proto)) (poe_error_code proto) (or_str (poe_description proto) []))"

definition handle_trader_update :: "int \<Rightarrow> proto_oa_trader option \<Rightarrow> router_action" where
  "handle_trader_update account_id trader =
     (if \<not> serialized_on_wire trader then Ignore
      else (let t = submsg default_trader trader in
        Publish (TraderUpdateEvent account_id (ptr_balance t) (nonzero (ptr_leverage_in_cents t))
          (or_default (ptr_money_digits t) DEFAULT_MONEY_DIGITS))))"

definition handle_margin_change :: "int \<Rightarrow> int \<Rightarrow> int \<Rightarrow> int \<Rightarrow> router_action" where
  "handle_margin_change account_id position_id used_margin money_digits =
     Publish (MarginChangeEvent account_id position_id used_margin (or_default money_digits DEFAULT_MONEY_DIGITS))"

definition depth_quotes :: "proto_oa_depth_quote list \<Rightarrow> depth_quote list" where
  "depth_quotes qs = concat (map (\<lambda>q.
     if pdq_bid q \<noteq> 0 then [\<lparr>dq_quote_id = pdq_id q, dq_price = pdq_bid q, dq_size = pdq_size q, dq_is_bid = True\<rparr>]
     else if pdq_ask q \<noteq> 0 then [\<lparr>dq_quote_id = pdq_id q, dq_price = pdq_ask q, dq_size = pdq_size q, dq_is_bid = False\<rparr>]
     else []) qs)"

definition handle_depth :: "int \<Rightarrow> int \<Rightarrow> proto_oa_depth_quote list \<Rightarrow> int list \<Rightarrow> router_action" where
  "handle_depth account_id symbol_id new_quotes deleted_quotes =
     Publish (DepthEvent account_id symbol_id (depth_quotes new_quotes) deleted_quotes)"

definition handle_token_invalidated :: "int list \<Rightarrow> string \<Rightarrow> router_action" where
  "handle_token_invalidated account_ids reason = Publish (TokenInvalidatedEvent account_ids (or_str reason ''Unknown''))"

definition handle_client_disconnect :: "string \<Rightarrow> router_action" where
  "handle_client_disconnect reason = Publish (ClientDisconnectEvent (or_str reason ''Unknown''))"

definition handle_account_disconnect_report :: "int \<Rightarrow> router_action" where
  "handle_account_disconnect_report account_id = Recover account_id"

definition handle_symbol_changed :: "int \<Rightarrow> int list \<Rightarrow> router_action" where
  "handle_symbol_changed account_id symbol_ids = Publish (SymbolChangedEvent account_id symbol_ids)"

definition handle_trailing_stop_changed :: "proto_oa_trailing_sl_changed_event \<Rightarrow> router_action res" where
  "handle_trailing_stop_changed proto =
     bind_res (timestamp_to_datetime (ptsl_utc_last_update_timestamp proto)) (\<lambda>timestamp.
     Inr (Publish (TrailingStopChangedEvent (ptsl_ctid_trader_account_id proto) (ptsl_position_id proto)
       (ptsl_order_id proto) (decimal_of_float (ptsl_stop_price proto)) timestamp)))"

definition handle_margin_call_trigger :: "int \<Rightarrow> proto_oa_margin_call option \<Rightarrow> router_action" where
  "handle_margin_call_trigger account_id margin_call =
     (let mc = submsg default_margin_call margin_call in
      Publish (MarginCallTriggerEvent account_id (pmc_margin_call_type mc) (decimal_of_float (pmc_margin_level_threshold mc))))"

text \<open>The handler that is registered for a pushed message, and what it does with it.\<close>

primrec push_handler :: "push \<Rightarrow> component_handler" where
  "push_handler ProtoHeartbeatEvent = On_heartbeat"
| "push_handler (ProtoOASpotEvent _) = Handle_spot"
| "push_handler (ProtoOAExecutionEvent _) = Handle_execution"
| "push_handler (ProtoOAOrderErrorEvent _) = Handle_order_error"
| "push_handler (ProtoOATraderUpdatedEvent _ _) = Handle_trader_update"
| "push_handler (ProtoOAMarginChangedEvent _ _ _ _) = Handle_margin_change"
| "push_handler (ProtoOADepthEvent _ _ _ _) = Handle_depth"
| "push_handler (ProtoOAAccountsTokenInvalidatedEvent _ _) = Handle_token_invalidated"
| "push_handler (ProtoOAClientDisconnectEvent _) = Handle_client_disconnect"
| "push_handler (ProtoOAAccountDisconnectEvent _) = Handle_account_disconnect"
| "push_handler (ProtoOASymbolChangedEvent _ _) = Handle_symbol_changed"
| "push_handler (ProtoOATrailingSLChangedEvent _) = Handle_trailing_stop_changed"
| "push_handler (ProtoOAMarginCallTriggerEvent _ _) = Handle_margin_call_trigger"

primrec handle_push :: "datetime \<Rightarrow> push \<Rightarrow> router_action res" where
  "handle_push now ProtoHeartbeatEvent = Inr Ignore"
| "handle_push now (ProtoOASpotEvent p) = handle_spot now p"
| "handle_push now (ProtoOAExecutionEvent p) = handle_execution now p"
| "handle_push now (ProtoOAOrderErrorEvent p) = Inr (handle_order_error p)"
| "handle_push now (ProtoOATraderUpdatedEvent a t) = Inr (handle_trader_update a t)"
| "handle_push now (ProtoOAMarginChangedEvent a p u d) = Inr (handle_margin_change a p u d)"
| "handle_push now (ProtoOADepthEvent a s q d) = Inr (handle_depth a s q d)"
| "handle_push now (ProtoOAAccountsTokenInvalidatedEvent a r) = Inr (handle_token_invalidated a r)"
| "handle_push now (ProtoOAClientDisconnectEvent r) = Inr (handle_client_disconnect r)"
| "handle_push now (ProtoOAAccountDisconnectEvent a) = Inr (handle_account_disconnect_report a)"
| "handle_push now (ProtoOASymbolChangedEvent a s) = Inr (handle_symbol_changed a s)"
| "handle_push now (ProtoOATrailingSLChangedEvent p) = handle_trailing_stop_changed p"
| "handle_push now (ProtoOAMarginCallTriggerEvent a m) = Inr (handle_margin_call_trigger a m)"

text \<open>The account a pushed message names.\<close>

primrec push_account :: "push \<Rightarrow> int option" where
  "push_account ProtoHeartbeatEvent = None"
| "push_account (ProtoOASpotEvent p) = Some (psp_ctid_trader_account_id p)"
| "push_account (ProtoOAExecutionEvent p) = Some (pex_ctid_trader_account_id p)"
| "push_account (ProtoOAOrderErrorEvent p) = Some (poe_ctid_trader_account_id p)"
| "push_account (ProtoOATraderUpdatedEvent a _) = Some a"
| "push_account (ProtoOAMarginChangedEvent a _ _ _) = Some a"
| "push_account (ProtoOADepthEvent a _ _ _) = Some a"
| "push_account (ProtoOAAccountsTokenInvalidatedEvent _ _) = None"
| "push_account (ProtoOAClientDisconnectEvent _) = None"
| "push_account (ProtoOAAccountDisconnectEvent a) = Some a"
| "push_account (ProtoOASymbolChangedEvent a _) = Some a"
| "push_account (ProtoOATrailingSLChangedEvent p) = Some (ptsl_ctid_trader_account_id p)"
| "push_account (ProtoOAMarginCallTriggerEvent a _) = Some a"

subsection \<open>Lemmas\<close>

lemma handlers_on_event [simp]:
  "handlers_for (on_event k h pr) k' = (if k' = k then handlers_for pr k @ [h] else handlers_for pr k')"
  by (auto simp: handlers_for_def on_event_def Let_def dict.get_assign split: option.splits)

lemma handlers_remove_handler [simp]:
  "handlers_for (remove_handler k h pr) k' = (if k' = k then remove1 h (handlers_for pr k) else handlers_for pr k')"
  by (auto simp: handlers_for_def remove_handler_def dict.get_assign split: option.splits)

definition regs_for :: "handler_key \<Rightarrow> (handler_key \<times> 'h) list \<Rightarrow> 'h list" where
  "regs_for k regs = map snd (filter (\<lambda>(k', h). k' = k) regs)"

lemma regs_for_Cons [simp]: "regs_for k ((k', h) # regs) = (if k' = k then h # regs_for k regs else regs_for k regs)"
  by (simp add: regs_for_def)

lemma regs_for_Nil [simp]: "regs_for k [] = []"
  by (simp add: regs_for_def)

lemma register_all_handlers: "handlers_for (register_all regs pr) k = handlers_for pr k @ regs_for k regs"
proof (induction regs arbitrary: pr)
  case (Cons r regs)
  obtain k' h where "r = (k', h)" by force
  with Cons [of "on_event k' h pr"] show ?case by (simp add: register_all_def)
qed (simp add: register_all_def)

lemma dispose_all_handlers: "handlers_for (dispose_all regs pr) k = fold remove1 (regs_for k regs) (handlers_for pr k)"
proof (induction regs arbitrary: pr)
  case (Cons r regs)
  obtain k' h where "r = (k', h)" by force
  with Cons [of "remove_handler k' h pr"] show ?case by (simp add: dispose_all_def)
qed (simp add: dispose_all_def)

lemma fold_remove1_append: "set hs \<inter> set xs = {} \<Longrightarrow> fold remove1 hs (xs @ hs) = xs"
proof (induction hs arbitrary: xs)
  case (Cons h hs)
  then have "remove1 h (xs @ h # hs) = xs @ hs" by (auto simp: remove1_append)
  with Cons show ?case by simp
qed simp

lemma register_dispose_all:
  "set (regs_for k regs) \<inter> set (handlers_for pr k) = {} \<Longrightarrow>
    handlers_for (dispose_all regs (register_all regs pr)) k = handlers_for pr k"
  by (simp add: dispose_all_handlers register_all_handlers fold_remove1_append)

lemma router_regs_for_push: "regs_for (push_key (push_class_of p)) router_registrations = (if p = ProtoHeartbeatEvent then [] else [push_handler p])"
  by (cases p) (simp_all add: router_registrations_def)

subsection \<open>Properties\<close>

text \<open>
  Starting the router puts exactly one router handler on each of its twelve message
  classes, starting again changes nothing, and stopping takes every one of them off again,
  leaving the handlers of everybody else in place.
\<close>

theorem router_start_stop:
  assumes "\<not> router_is_started ro" "router_start ro pr = (ro1, pr1)" "router_stop ro1 pr1 = (ro2, pr2)"
    and "\<forall>k. set (regs_for k router_registrations) \<inter> set (handlers_for pr k) = {}"
  shows "router_is_started ro1 \<and> router_start ro1 pr1 = (ro1, pr1) \<and>
    handlers_for pr1 (push_key (push_class_of p)) =
      handlers_for pr (push_key (push_class_of p)) @ (if p = ProtoHeartbeatEvent then [] else [push_handler p]) \<and>
    \<not> router_is_started ro2 \<and> (\<forall>k. handlers_for pr2 k = handlers_for pr k)"
proof -
  have ro1: "ro_disposers ro1 = router_registrations" "pr1 = register_all router_registrations pr"
    using assms(1,2) by (auto simp: router_start_def router_is_started_def)
  moreover have "router_registrations \<noteq> []" by (simp add: router_registrations_def)
  ultimately have "pr2 = dispose_all router_registrations pr1" "ro_disposers ro2 = []"
    using assms(3) by (auto simp: router_stop_def)
  with ro1 \<open>router_registrations \<noteq> []\<close> assms(4) show ?thesis
    by (auto simp: router_is_started_def router_start_def register_all_handlers router_regs_for_push register_dispose_all)
qed

theorem router_start_stop_witness:
  "let (ro1, pr1) = router_start \<lparr>ro_disposers = []\<rparr> (protocol_init None 1 60);
       (ro2, pr2) = router_stop ro1 pr1
   in handlers_for pr1 (push_key Cls_ProtoOASpotEvent) = [Handle_spot] \<and>
      (\<forall>k. handlers_for pr2 k = handlers_for (protocol_init None 1 60) k)"
proof -
  let ?pr = "protocol_init None 1 60 :: component_handler protocol"
  obtain ro1 pr1 ro2 pr2 where s: "router_start \<lparr>ro_disposers = []\<rparr> ?pr = (ro1, pr1)" "router_stop ro1 pr1 = (ro2, pr2)"
    by force
  have "handlers_for ?pr k = []" for k by (simp add: handlers_for_def protocol_init_def)
  with router_start_stop [OF _ s, of "ProtoOASpotEvent undefined"] s show ?thesis
    by (simp add: router_is_started_def)
qed

text \<open>The messages the router drops: an execution of an unknown type and an update without its trader.\<close>

primrec dropped :: "push \<Rightarrow> bool" where
  "dropped ProtoHeartbeatEvent \<longleftrightarrow> True"
| "dropped (ProtoOASpotEvent _) \<longleftrightarrow> False"
| "dropped (ProtoOAExecutionEvent p) \<longleftrightarrow> dict_get EXECUTION_TYPE_MAP (pex_execution_type p) = None"
| "dropped (ProtoOAOrderErrorEvent _) \<longleftrightarrow> False"
| "dropped (ProtoOATraderUpdatedEvent _ t) \<longleftrightarrow> \<not> serialized_on_wire t"
| "dropped (ProtoOAMarginChangedEvent _ _ _ _) \<longleftrightarrow> False"
| "dropped (ProtoOADepthEvent _ _ _ _) \<longleftrightarrow> False"
| "dropped (ProtoOAAccountsTokenInvalidatedEvent _ _) \<longleftrightarrow> False"
| "dropped (ProtoOAClientDisconnectEvent _) \<longleftrightarrow> False"
| "dropped (ProtoOAAccountDisconnectEvent _) \<longleftrightarrow> False"
| "dropped (ProtoOASymbolChangedEvent _ _) \<longleftrightarrow> False"
| "dropped (ProtoOATrailingSLChangedEvent _) \<longleftrightarrow> False"
| "dropped (ProtoOAMarginCallTriggerEvent _ _) \<longleftrightarrow> False"

text \<open>The type of the event a message is announced by.\<close>

primrec announced :: "push \<Rightarrow> event_type option" where
  "announced ProtoHeartbeatEvent = None"
| "announced (ProtoOASpotEvent _) = Some T_SpotEvent"
| "announced (ProtoOAExecutionEvent _) = Some T_ExecutionEvent"
| "announced (ProtoOAOrderErrorEvent _) = Some T_OrderErrorEvent"
| "announced (ProtoOATraderUpdatedEvent _ _) = Some T_TraderUpdateEvent"
| "announced (ProtoOAMarginChangedEvent _ _ _ _) = Some T_MarginChangeEvent"
| "announced (ProtoOADepthEvent _ _ _ _) = Some T_DepthEvent"
| "announced (ProtoOAAccountsTokenInvalidatedEvent _ _) = Some T_TokenInvalidatedEvent"
| "announced (ProtoOAClientDisconnectEvent _) = Some T_ClientDisconnectEvent"
| "announced (ProtoOAAccountDisconnectEvent _) = None"
| "announced (ProtoOASymbolChangedEvent _ _) = Some T_SymbolChangedEvent"
| "announced (ProtoOATrailingSLChangedEvent _) = Some T_TrailingStopChangedEvent"
| "announced (ProtoOAMarginCallTriggerEvent _ _) = Some T_MarginCallTriggerEvent"

lemma count_handler: "count_list (map (\<lambda>h. (h, m)) hs) (h, m) = count_list hs h"
  by (induction hs) auto

lemma timestamp_error: "datetime_fromtimestamp t = Inl e \<Longrightarrow> e = ValueError ''year is out of range''"
  by (simp add: datetime_fromtimestamp_def Let_def split: if_splits)

lemma map_res_error: "map_res f xs = Inl e \<Longrightarrow> \<exists>x \<in> set xs. f x = Inl e"
  by (induction xs) (auto simp: bind_res_def split: sum.splits)

lemma handle_spot_error:
  assumes "handle_spot now p = Inl e"
  shows "e = ValueError ''year is out of range''"
proof -
  have "e' = ValueError ''year is out of range''" if "trendbar_from_proto now tb (Some bid) h = Inl e'" for tb bid h e'
    using that by (auto simp: trendbar_from_proto_def Let_def bind_res_def dest: timestamp_error split: sum.splits if_splits)
  with assms show ?thesis
    by (auto simp: handle_spot_def bind_res_def timestamp_to_datetime_def dest!: map_res_error dest: timestamp_error split: sum.splits if_splits)
qed

lemmas handler_defs = handle_spot_def handle_execution_def execution_event_from_proto_def handle_order_error_def
  handle_trader_update_def handle_margin_change_def handle_depth_def handle_token_invalidated_def
  handle_client_disconnect_def handle_account_disconnect_report_def handle_symbol_changed_def
  handle_trailing_stop_changed_def handle_margin_call_trigger_def

text \<open>
  C37: the router passes on what it is sent. Once it is started, a pushed message reaches the
  handler for its class, once. That handler publishes one event, of the type that stands for the
  message and of the account the message names, unless the message is one of two kinds it drops (an
  execution of an unknown type, an update without its trader) or the report of an account
  disconnect, which alone is handed to session recovery, with its account, and is never published.
  The only thing that can go wrong is a time stamp outside the calendar, in a message that carries
  one: a spot, an execution or a moved trailing stop.
\<close>

theorem router_publishes:
  "(p \<noteq> ProtoHeartbeatEvent \<longrightarrow>
      count_list (dispatch_event (snd (router_start \<lparr>ro_disposers = []\<rparr> pr)) (Push p)) (push_handler p, Push p) =
        Suc (count_list (dispatch_event pr (Push p)) (push_handler p, Push p))) \<and>
   (case handle_push now p of
      Inr (Publish ev) \<Rightarrow> \<not> dropped p \<and> announced p = Some (event_type_of ev) \<and> event_account_id ev = push_account p
    | Inr Ignore \<Rightarrow> dropped p
    | Inr (Recover a) \<Rightarrow> p = ProtoOAAccountDisconnectEvent a
    | Inl e \<Rightarrow> e = ValueError ''year is out of range'' \<and> announced p \<in> {Some T_SpotEvent, Some T_ExecutionEvent, Some T_TrailingStopChangedEvent})"
proof (intro conjI impI)
  assume "p \<noteq> ProtoHeartbeatEvent"
  then have regs: "regs_for (push_key (push_class_of p)) router_registrations = [push_handler p]" by (simp add: router_regs_for_push)
  have "regs_for k router_registrations = []" if "k \<in> {KeyBetterprotoMessage, KeyABC, KeyObject}" for k
    using that by (auto simp: router_registrations_def)
  with regs show "count_list (dispatch_event (snd (router_start \<lparr>ro_disposers = []\<rparr> pr)) (Push p)) (push_handler p, Push p) =
      Suc (count_list (dispatch_event pr (Push p)) (push_handler p, Push p))"
    by (simp add: router_start_def dispatch_event_def mro_def register_all_handlers count_handler)
next
  have exec: "handle_execution now x = Inl e \<Longrightarrow> e = ValueError ''year is out of range''"
    "handle_trailing_stop_changed y = Inl e \<Longrightarrow> e = ValueError ''year is out of range''" for x y e
    by (auto simp: handler_defs bind_res_def timestamp_to_datetime_def Let_def dest: timestamp_error split: sum.splits option.splits if_splits)
  show "case handle_push now p of
      Inr (Publish ev) \<Rightarrow> \<not> dropped p \<and> announced p = Some (event_type_of ev) \<and> event_account_id ev = push_account p
    | Inr Ignore \<Rightarrow> dropped p
    | Inr (Recover a) \<Rightarrow> p = ProtoOAAccountDisconnectEvent a
    | Inl e \<Rightarrow> e = ValueError ''year is out of range'' \<and> announced p \<in> {Some T_SpotEvent, Some T_ExecutionEvent, Some T_TrailingStopChangedEvent}"
  proof (cases "handle_push now p")
    case (Inl e)
    then show ?thesis by (cases p) (auto dest: handle_spot_error exec)
  next
    case (Inr r)
    then show ?thesis
      by (cases p) (auto simp: handler_defs bind_res_Inr_conv Let_def split: option.splits if_splits)
  qed
qed

theorem router_publishes_witness:
  "handle_push 0 (ProtoOADepthEvent 7 1 [] [4]) = Inr (Publish (DepthEvent 7 1 [] [4])) \<and>
   event_account_id (DepthEvent 7 1 [] [4]) = Some 7 \<and>
   count_list (dispatch_event (snd (router_start \<lparr>ro_disposers = []\<rparr> (protocol_init None 1 60))) (Push (ProtoOADepthEvent 7 1 [] [4])))
     (Handle_depth, Push (ProtoOADepthEvent 7 1 [] [4])) = 1"
proof -
  have "dispatch_event (protocol_init None 1 60 :: component_handler protocol) m = []" for m
    by (simp add: dispatch_event_def mro_def handlers_for_def protocol_init_def)
  moreover have "handle_push 0 (ProtoOADepthEvent 7 1 [] [4]) = Inr (Publish (DepthEvent 7 1 [] [4]))"
    by (simp add: handle_depth_def depth_quotes_def)
  ultimately show ?thesis using router_publishes [of "ProtoOADepthEvent 7 1 [] [4]" "protocol_init None 1 60" 0] by simp
qed

text \<open>
  A spot message without a bid (0 on the wire) but with live bars is published with every
  bar closing at a price of 0: the bid is always passed on as the close, so the check that
  refuses a bar without a close price never applies.
\<close>

theorem spot_without_bid_closes_at_zero:
  assumes "handle_spot now p = Inr (Publish (SpotEvent e))" "psp_bid p = 0"
  shows "se_bid e = None \<and> length (se_trendbar e) = length (psp_trendbar p) \<and>
    (\<forall>i < length (psp_trendbar p). tb_close (se_trendbar e ! i) = 0 \<and>
       (ptb_delta_close (psp_trendbar p ! i) = 0 \<and> ptb_utc_timestamp_in_minutes (psp_trendbar p ! i) = 0 \<longrightarrow>
          trendbar_from_proto now (psp_trendbar p ! i) None False = Inl (RuntimeError DELTA_CLOSE_MISSING)))"
proof -
  from assms obtain bars where
    bars: "map_res (\<lambda>tb. trendbar_from_proto now tb (Some (of_int (psp_bid p))) False) (psp_trendbar p) = Inr bars"
    and e: "se_trendbar e = bars" "se_bid e = opt_spot_price (psp_bid p)"
    by (auto simp: handle_spot_def bind_res_Inr_conv split: if_splits)
  from bars have all: "list_all2 (\<lambda>tb bar. trendbar_from_proto now tb (Some (of_int (psp_bid p))) False = Inr bar) (psp_trendbar p) bars"
    by (simp add: map_res_Inr_iff)
  moreover have "tb_close bar = 0" if "trendbar_from_proto now tb (Some (of_int (psp_bid p))) False = Inr bar" for tb bar
    using that assms(2) by (auto simp: trendbar_from_proto_def Let_def bind_res_Inr_conv price_scale_def round_sig_def split: if_splits)
  ultimately show ?thesis
    using e assms(2)
    by (auto simp: list_all2_conv_all_nth opt_spot_price_def trendbar_from_proto_def Let_def)
qed

theorem spot_without_bid_closes_at_zero_witness:
  "let p = \<lparr>psp_ctid_trader_account_id = 7, psp_symbol_id = 1, psp_bid = 0, psp_ask = 108650,
        psp_trendbar = [\<lparr>ptb_volume = 3, ptb_period = 1, ptb_low = 108600, ptb_delta_open = 20, ptb_delta_close = 30,
          ptb_delta_high = 50, ptb_utc_timestamp_in_minutes = 0\<rparr>], psp_session_close = 0, psp_timestamp = 0\<rparr>
   in \<exists>e. handle_spot 5 p = Inr (Publish (SpotEvent e)) \<and> tb_close (se_trendbar e ! 0) = 0"
proof -
  let ?p = "\<lparr>psp_ctid_trader_account_id = 7, psp_symbol_id = 1, psp_bid = 0, psp_ask = 108650,
        psp_trendbar = [\<lparr>ptb_volume = 3, ptb_period = 1, ptb_low = 108600, ptb_delta_open = 20, ptb_delta_close = 30,
          ptb_delta_high = 50, ptb_utc_timestamp_in_minutes = 0\<rparr>], psp_session_close = 0, psp_timestamp = 0\<rparr>"
  have "\<exists>e. handle_spot 5 ?p = Inr (Publish (SpotEvent e))" by (simp add: handle_spot_def trendbar_from_proto_def Let_def)
  then obtain e where e: "handle_spot 5 ?p = Inr (Publish (SpotEvent e))" ..
  from spot_without_bid_closes_at_zero [OF e] e show ?thesis by auto
qed

end
