(* ===== verification/Heartbeat.thy ===== *)
theory Heartbeat
  imports Router
begin

text \<open>
  \<open>connection/heartbeat.py\<close> and \<open>connection/supervisor.py\<close>: the inactivity timer with its two
  handlers, and the supervisor that orders transport, protocol and heartbeat and fans link
  transitions out to its listeners. Clock readings are arguments. The interleaving of the
  heartbeat loop with everything else is in \<open>Reconnection\<close>.
\<close>

record heartbeat =
  hb_interval :: rat
  hb_timeout :: rat
  hb_last_received :: rat
  hb_task_scope :: "nat option"
  hb_task_group :: bool
  hb_disposers :: "(handler_key \<times> component_handler) list"

definition heartbeat_init :: "rat \<Rightarrow> rat \<Rightarrow> heartbeat" where
  "heartbeat_init interval timeout =
     \<lparr>hb_interval = interval, hb_timeout = timeout, hb_last_received = 0, hb_task_scope = None, hb_task_group = False,
      hb_disposers = []\<rparr>"

definition heartbeat_registrations :: "(handler_key \<times> component_handler) list" where
  "heartbeat_registrations =
     [(KeyBetterprotoMessage, Record_activity), (push_key Cls_ProtoHeartbeatEvent, On_heartbeat)]"

text \<open>\<open>serve\<close> up to its task group, in which it spawns the loop, and its \<open>finally\<close>.\<close>

definition heartbeat_serve_enter ::
  "rat \<Rightarrow> heartbeat \<Rightarrow> component_handler protocol \<Rightarrow> unit res \<times> heartbeat \<times> component_handler protocol" where
  "heartbeat_serve_enter now hb pr =
     (if hb_disposers hb \<noteq> [] then (Inl (RuntimeError ''Heartbeat monitor is already running''), hb, pr)
      else (Inr (), hb\<lparr>hb_disposers := heartbeat_registrations, hb_last_received := now, hb_task_group := True\<rparr>,
            register_all heartbeat_registrations pr))"

definition heartbeat_serve_exit :: "heartbeat \<Rightarrow> component_handler protocol \<Rightarrow> heartbeat \<times> component_handler protocol" where
  "heartbeat_serve_exit hb pr =
     (hb\<lparr>hb_task_group := False, hb_task_scope := None, hb_disposers := []\<rparr>, dispose_all (hb_disposers hb) pr)"

text \<open>\<open>stop\<close> and \<open>restart\<close>: the scope they cancel, whether the group is cancelled or a loop spawned.\<close>

definition heartbeat_stop :: "heartbeat \<Rightarrow> nat option \<times> bool" where
  "heartbeat_stop hb = (hb_task_scope hb, hb_task_group hb)"

definition heartbeat_restart :: "rat \<Rightarrow> heartbeat \<Rightarrow> nat option \<times> bool \<times> heartbeat" where
  "heartbeat_restart now hb = (hb_task_scope hb, hb_task_group hb, hb\<lparr>hb_last_received := now\<rparr>)"






subsection \<open>The supervisor\<close>

record 'l supervisor =
  sv_listeners :: "'l list"
  sv_serving :: bool

definition add_listener :: "'l \<Rightarrow> 'l supervisor \<Rightarrow> 'l supervisor" where
  "add_listener l sv = sv\<lparr>sv_listeners := sv_listeners sv @ [l]\<rparr>"

definition supervisor_is_connected :: "'s transport \<Rightarrow> 'l supervisor \<Rightarrow> bool" where
  "supervisor_is_connected tp sv \<longleftrightarrow> sv_serving sv \<and> transport_is_connected tp"

text \<open>
  Telling every listener in turn, on a state they share: a call gives what the listener raised
  or returned and the new state, and a listener that raises is logged and skipped.
\<close>

fun tell_listeners :: "('l \<Rightarrow> 'w \<Rightarrow> unit res \<times> 'w) \<Rightarrow> 'l list \<Rightarrow> 'w \<Rightarrow> 'w" where
  "tell_listeners call [] w = w"
| "tell_listeners call (l # ls) w =
     (case call l w of (Inl e, w') \<Rightarrow> tell_listeners call ls w' | (Inr u, w') \<Rightarrow> tell_listeners call ls w')"

definition supervisor_connection_lost :: "('l \<Rightarrow> 'w \<Rightarrow> unit res \<times> 'w) \<Rightarrow> 'l supervisor \<Rightarrow> 'w \<Rightarrow> 'w" where
  "supervisor_connection_lost on_lost sv w = tell_listeners on_lost (sv_listeners sv) w"

definition supervisor_connection_restored ::
  "('w \<Rightarrow> 'w) \<Rightarrow> ('l \<Rightarrow> 'w \<Rightarrow> unit res \<times> 'w) \<Rightarrow> 'l supervisor \<Rightarrow> 'w \<Rightarrow> 'w" where
  "supervisor_connection_restored restart_heartbeat on_restored sv w =
     tell_listeners on_restored (sv_listeners sv) (restart_heartbeat w)"

subsection \<open>Lemmas\<close>

lemma tell_listeners_fold: "tell_listeners call ls w = fold (\<lambda>l w. snd (call l w)) ls w"
  by (induction ls arbitrary: w) (auto split: sum.splits prod.splits)














lemma heartbeat_regs_for:
  "regs_for KeyBetterprotoMessage heartbeat_registrations = [Record_activity]"
  "regs_for (push_key (push_class_of p)) heartbeat_registrations = (if p = ProtoHeartbeatEvent then [On_heartbeat] else [])"
  by (simp add: heartbeat_registrations_def, cases p, simp_all add: heartbeat_registrations_def)

subsection \<open>Properties\<close>




text \<open>
  Every listener hears about a transition, in registration order, even if the ones before
  it raised; and after a reconnection the heartbeat is restarted before any of them.
\<close>

theorem listeners_all_told:
  "supervisor_connection_lost call (add_listener l sv) w = snd (call l (supervisor_connection_lost call sv w)) \<and>
   supervisor_connection_restored hb call (add_listener l sv) w =
     snd (call l (supervisor_connection_restored hb call sv w)) \<and>
   supervisor_connection_restored hb call \<lparr>sv_listeners = [], sv_serving = b\<rparr> w = hb w"
  by (simp add: supervisor_connection_lost_def supervisor_connection_restored_def tell_listeners_fold add_listener_def)

text \<open>
  While it is served, the monitor is told of every message that no request was waiting
  for, and once it has stopped, of none: the handlers of the protocol are what they were.
  A reply that resolves a waiting request reaches no handler, so it does not reset the timer.
\<close>

theorem heartbeat_hears_uncorrelated:
  assumes "heartbeat_serve_enter now hb pr = (Inr (), hb1, pr1)" "heartbeat_serve_exit hb1 pr2 = (hb2, pr3)"
    and "\<forall>k. handlers_for pr2 k = handlers_for pr1 k"
    and "\<forall>k. set (regs_for k heartbeat_registrations) \<inter> set (handlers_for pr k) = {}"
  shows "(Record_activity, m) \<in> set (dispatch_event pr1 m) \<and>
    (\<forall>k. handlers_for pr3 k = handlers_for pr k) \<and>
    (pm_client_msg_id pm \<noteq> [] \<and> dict_get (pr_pending pr1) (pm_client_msg_id pm) \<noteq> None \<longrightarrow>
       fst (dispatch_message pm m pr1) = [])"
proof -
  from assms(1) have pr1: "pr1 = register_all heartbeat_registrations pr" "hb_disposers hb1 = heartbeat_registrations"
    by (auto simp: heartbeat_serve_enter_def split: if_splits)
  have "Record_activity \<in> set (handlers_for pr1 KeyBetterprotoMessage)"
    by (simp add: pr1 register_all_handlers heartbeat_regs_for)
  then have "(Record_activity, m) \<in> set (dispatch_event pr1 m)" by (auto simp: dispatch_event_def mro_def)
  moreover have "pr3 = dispose_all heartbeat_registrations pr2"
    using assms(2) pr1 by (simp add: heartbeat_serve_exit_def)
  then have "handlers_for pr3 k = handlers_for pr k" for k
    using register_dispose_all [of k heartbeat_registrations pr] assms(3,4)
    by (simp add: dispose_all_handlers pr1)
  ultimately show ?thesis by (auto simp: dispatch_message_def Let_def)
qed

theorem heartbeat_hears_uncorrelated_witness:
  "\<exists>hb1 pr1. heartbeat_serve_enter 0 (heartbeat_init 10 60) (protocol_init None 1 60) = (Inr (), hb1, pr1) \<and>
     (Record_activity, Push ProtoHeartbeatEvent) \<in> set (dispatch_event pr1 (Push ProtoHeartbeatEvent))"
proof -
  let ?pr = "protocol_init None 1 60 :: component_handler protocol"
  obtain hb1 pr1 where enter: "heartbeat_serve_enter 0 (heartbeat_init 10 60) ?pr = (Inr (), hb1, pr1)"
    by (simp add: heartbeat_serve_enter_def heartbeat_init_def)
  obtain hb2 pr3 where leave: "heartbeat_serve_exit hb1 pr1 = (hb2, pr3)" by force
  have "handlers_for ?pr k = []" for k by (simp add: handlers_for_def protocol_init_def)
  with heartbeat_hears_uncorrelated [OF enter leave, of "Push ProtoHeartbeatEvent"] enter show ?thesis by auto
qed

end
