(* ===== verification/Session.thy ===== *)
theory Session
  imports Models
begin

text \<open>
  \<open>auth/_session.py\<close>, \<open>auth/credentials.py\<close> and \<open>auth/policy.py\<close>: the accounts the client knows,
  their credentials and the state of their sessions. The wall clock (\<open>time.time()\<close>) is an
  argument of the methods that read it. A refresh in flight is the key of its event in
  \<open>st_refreshing\<close>.
\<close>

subsection \<open>Credentials and policies\<close>

record credentials =
  cr_account_id :: int
  cr_access_token :: string
  cr_refresh_token :: string
  cr_expires_at :: rat

definition expires_soon :: "rat \<Rightarrow> rat \<Rightarrow> credentials \<Rightarrow> bool" where
  "expires_soon time buffer_seconds cr \<longleftrightarrow> time \<ge> cr_expires_at cr - buffer_seconds"

definition is_expired :: "rat \<Rightarrow> credentials \<Rightarrow> bool" where
  "is_expired time cr \<longleftrightarrow> time \<ge> cr_expires_at cr"

definition time_until_expiry :: "rat \<Rightarrow> credentials \<Rightarrow> rat" where
  "time_until_expiry time cr = cr_expires_at cr - time"

definition with_refreshed_tokens :: "rat \<Rightarrow> string \<Rightarrow> string \<Rightarrow> int \<Rightarrow> credentials \<Rightarrow> credentials" where
  "with_refreshed_tokens time access_token refresh_token expires_in cr =
     \<lparr>cr_account_id = cr_account_id cr, cr_access_token = access_token, cr_refresh_token = refresh_token,
      cr_expires_at = time + of_int expires_in\<rparr>"

record refresh_policy =
  rp_buffer_seconds :: rat
  rp_check_interval :: rat
  rp_retry_attempts :: int
  rp_retry_min_wait :: rat
  rp_retry_max_wait :: rat

record reauth_policy =
  ra_min_wait :: rat
  ra_max_wait :: rat

subsection \<open>Session state\<close>

record awaiting_recovery =
  aw_attempts :: int
  aw_next_attempt_at :: rat

datatype session = Authorized | AwaitingRecovery awaiting_recovery

record tracked_account =
  ta_credentials :: credentials
  ta_session :: "session option"

record session_store =
  st_accounts :: "(int, tracked_account) dict"
  st_refreshing :: "int list"

definition store_init :: session_store where
  "store_init = \<lparr>st_accounts = [], st_refreshing = []\<rparr>"

definition begin_refresh :: "int \<Rightarrow> session_store \<Rightarrow> session_store" where
  "begin_refresh account_id st =
     (if account_id \<notin> set (st_refreshing st) then st\<lparr>st_refreshing := st_refreshing st @ [account_id]\<rparr> else st)"

text \<open>The result says whether an event was set, waking whoever waits for the refresh.\<close>

definition end_refresh :: "int \<Rightarrow> session_store \<Rightarrow> bool \<times> session_store" where
  "end_refresh account_id st =
     (account_id \<in> set (st_refreshing st), st\<lparr>st_refreshing := removeAll account_id (st_refreshing st)\<rparr>)"

definition is_refreshing :: "int \<Rightarrow> session_store \<Rightarrow> bool" where
  "is_refreshing account_id st \<longleftrightarrow> account_id \<in> set (st_refreshing st)"

definition account_ids :: "session_store \<Rightarrow> int list" where
  "account_ids st = dict_keys (st_accounts st)"

definition authorized_ids :: "session_store \<Rightarrow> int list" where
  "authorized_ids st = map fst (filter (\<lambda>(a, t). ta_session t = Some Authorized) (st_accounts st))"

definition is_authorized :: "int \<Rightarrow> session_store \<Rightarrow> bool" where
  "is_authorized account_id st =
     (case dict_get (st_accounts st) account_id of None \<Rightarrow> False | Some t \<Rightarrow> ta_session t = Some Authorized)"

definition credentials_of :: "int \<Rightarrow> session_store \<Rightarrow> credentials option" where
  "credentials_of account_id st = map_option ta_credentials (dict_get (st_accounts st) account_id)"

definition all_credentials :: "session_store \<Rightarrow> credentials list" where
  "all_credentials st = map (ta_credentials \<circ> snd) (st_accounts st)"

definition store_items :: "session_store \<Rightarrow> (int \<times> credentials) list" where
  "store_items st = map (\<lambda>(a, t). (a, ta_credentials t)) (st_accounts st)"

definition authorize :: "credentials \<Rightarrow> session_store \<Rightarrow> session_store" where
  "authorize cr st =
     st\<lparr>st_accounts := dict_set (cr_account_id cr) \<lparr>ta_credentials = cr, ta_session = Some Authorized\<rparr> (st_accounts st)\<rparr>"

definition replace_credentials :: "credentials \<Rightarrow> session_store \<Rightarrow> session_store" where
  "replace_credentials cr st =
     (let current = dict_get (st_accounts st) (cr_account_id cr) in
      st\<lparr>st_accounts := dict_set (cr_account_id cr)
           \<lparr>ta_credentials = cr, ta_session = (case current of None \<Rightarrow> None | Some t \<Rightarrow> ta_session t)\<rparr> (st_accounts st)\<rparr>)"

definition remove_account_entry :: "int \<Rightarrow> session_store \<Rightarrow> bool \<times> session_store" where
  "remove_account_entry account_id st =
     (dict_get (st_accounts st) account_id \<noteq> None, st\<lparr>st_accounts := dict_pop account_id (st_accounts st)\<rparr>)"

definition invalidate_all :: "session_store \<Rightarrow> session_store" where
  "invalidate_all st =
     st\<lparr>st_accounts := map (\<lambda>(a, t). (a, \<lparr>ta_credentials = ta_credentials t, ta_session = None\<rparr>)) (st_accounts st)\<rparr>"

fun is_awaiting :: "session option \<Rightarrow> bool" where
  "is_awaiting (Some (AwaitingRecovery _)) = True"
| "is_awaiting _ = False"

definition flag_for_recovery :: "int \<Rightarrow> session_store \<Rightarrow> bool \<times> session_store" where
  "flag_for_recovery account_id st =
     (case dict_get (st_accounts st) account_id of
        None \<Rightarrow> (False, st)
      | Some t \<Rightarrow>
          if is_awaiting (ta_session t) then (False, st)
          else (True, st\<lparr>st_accounts := dict_set account_id
                  \<lparr>ta_credentials = ta_credentials t,
                   ta_session = Some (AwaitingRecovery \<lparr>aw_attempts = 0, aw_next_attempt_at = 0\<rparr>)\<rparr> (st_accounts st)\<rparr>))"

definition reschedule_recovery :: "int \<Rightarrow> awaiting_recovery \<Rightarrow> session_store \<Rightarrow> session_store" where
  "reschedule_recovery account_id state st =
     (case dict_get (st_accounts st) account_id of
        None \<Rightarrow> st
      | Some t \<Rightarrow>
          if \<not> is_awaiting (ta_session t) then st
          else st\<lparr>st_accounts := dict_set account_id
                  \<lparr>ta_credentials = ta_credentials t, ta_session = Some (AwaitingRecovery state)\<rparr> (st_accounts st)\<rparr>)"

fun awaiting_entry :: "int \<times> tracked_account \<Rightarrow> (int \<times> credentials \<times> awaiting_recovery) list" where
  "awaiting_entry (a, t) =
     (case ta_session t of Some (AwaitingRecovery s) \<Rightarrow> [(a, ta_credentials t, s)] | _ \<Rightarrow> [])"

definition awaiting_recovery_queue :: "session_store \<Rightarrow> (int \<times> credentials \<times> awaiting_recovery) list" where
  "awaiting_recovery_queue st = concat (map awaiting_entry (st_accounts st))"

subsection \<open>Well-formed stores\<close>

text \<open>Every account is held once, under its own id.\<close>

definition wf_store :: "session_store \<Rightarrow> bool" where
  "wf_store st \<longleftrightarrow> wf_dict (st_accounts st) \<and> distinct (st_refreshing st) \<and>
     (\<forall>a t. dict_get (st_accounts st) a = Some t \<longrightarrow> cr_account_id (ta_credentials t) = a)"

definition session_of :: "int \<Rightarrow> session_store \<Rightarrow> session option" where
  "session_of a st = Option.bind (dict_get (st_accounts st) a) ta_session"

subsection \<open>The contract of the store\<close>

text \<open>
  What the authentication code relies on: what each operation does to the credentials held
  and to the session state of every account. The lemmas are the rules its proofs use.
\<close>

locale session_contract =
  fixes creds :: "'s \<Rightarrow> int \<Rightarrow> credentials option"
    and sess :: "'s \<Rightarrow> int \<Rightarrow> session option"
    and auth :: "credentials \<Rightarrow> 's \<Rightarrow> 's"
    and replace :: "credentials \<Rightarrow> 's \<Rightarrow> 's"
    and remove :: "int \<Rightarrow> 's \<Rightarrow> 's"
    and invalidate :: "'s \<Rightarrow> 's"
    and flag :: "int \<Rightarrow> 's \<Rightarrow> 's"
    and resched :: "int \<Rightarrow> awaiting_recovery \<Rightarrow> 's \<Rightarrow> 's"
  assumes creds_auth: "creds (auth c s) a = (if a = cr_account_id c then Some c else creds s a)"
    and sess_auth: "sess (auth c s) a = (if a = cr_account_id c then Some Authorized else sess s a)"
    and creds_replace: "creds (replace c s) a = (if a = cr_account_id c then Some c else creds s a)"
    and sess_replace: "sess (replace c s) a = sess s a"
    and creds_remove: "creds (remove b s) a = (if a = b then None else creds s a)"
    and sess_remove: "sess (remove b s) a = (if a = b then None else sess s a)"
    and creds_invalidate: "creds (invalidate s) a = creds s a"
    and sess_invalidate: "sess (invalidate s) a = None"
    and creds_flag: "creds (flag b s) a = creds s a"
    and sess_flag: "sess (flag b s) a =
      (if a = b \<and> creds s b \<noteq> None \<and> \<not> is_awaiting (sess s b)
       then Some (AwaitingRecovery \<lparr>aw_attempts = 0, aw_next_attempt_at = 0\<rparr>) else sess s a)"
    and creds_resched: "creds (resched b w s) a = creds s a"
    and sess_resched: "sess (resched b w s) a =
      (if a = b \<and> is_awaiting (sess s b) then Some (AwaitingRecovery w) else sess s a)"
    and sess_held: "sess s a \<noteq> None \<Longrightarrow> creds s a \<noteq> None"
begin

text \<open>A late failure can not undo a recovery that happened meanwhile, nor bring a removed account back.\<close>

lemma resched_after_auth: "cr_account_id c = a \<Longrightarrow> sess (resched a w (auth c s)) a = Some Authorized"
  by (simp add: sess_resched sess_auth)

lemma resched_after_remove: "sess (resched a w (remove a s)) a = None" "creds (resched a w (remove a s)) a = None"
  by (simp_all add: sess_resched sess_remove creds_resched creds_remove)

lemma flag_after_remove: "creds (flag a (remove a s)) a = None" "sess (flag a (remove a s)) a = None"
  by (simp_all add: creds_flag sess_flag creds_remove sess_remove)

text \<open>Flagging keeps the backoff of a recovery that is already pending.\<close>

lemma flag_keeps_backoff: "sess s a = Some (AwaitingRecovery w) \<Longrightarrow> sess (flag b s) a = Some (AwaitingRecovery w)"
  by (auto simp: sess_flag)

lemma flag_arms: "creds s a \<noteq> None \<Longrightarrow> is_awaiting (sess (flag a s) a)"
  by (simp add: sess_flag)

text \<open>Authorizing from a snapshot of the credentials holds the account again after it was removed.\<close>

lemma auth_after_remove: "cr_account_id c = a \<Longrightarrow> creds (auth c (remove a s)) a = Some c \<and> sess (auth c (remove a s)) a = Some Authorized"
  by (simp add: creds_auth sess_auth)

end

lemma is_awaiting_iff [simp]: "is_awaiting s \<longleftrightarrow> (\<exists>w. s = Some (AwaitingRecovery w))"
  by (cases s rule: is_awaiting.cases) auto

interpretation ss: session_contract "\<lambda>st a. credentials_of a st" "\<lambda>st a. session_of a st" authorize replace_credentials
    "\<lambda>a st. snd (remove_account_entry a st)" invalidate_all "\<lambda>a st. snd (flag_for_recovery a st)" reschedule_recovery
proof
  fix st :: session_store and a b :: int and c :: credentials and w :: awaiting_recovery
  show "credentials_of a (authorize c st) = (if a = cr_account_id c then Some c else credentials_of a st)"
    "session_of a (authorize c st) = (if a = cr_account_id c then Some Authorized else session_of a st)"
    by (simp_all add: credentials_of_def session_of_def authorize_def dict.get_assign)
  show "credentials_of a (replace_credentials c st) = (if a = cr_account_id c then Some c else credentials_of a st)"
    "session_of a (replace_credentials c st) = session_of a st"
    by (auto simp: credentials_of_def session_of_def replace_credentials_def dict.get_assign Let_def split: option.splits)
  show "credentials_of a (snd (remove_account_entry b st)) = (if a = b then None else credentials_of a st)"
    "session_of a (snd (remove_account_entry b st)) = (if a = b then None else session_of a st)"
    by (simp_all add: credentials_of_def session_of_def remove_account_entry_def dict.get_pop)
  show "credentials_of a (invalidate_all st) = credentials_of a st" "session_of a (invalidate_all st) = None"
    by (cases "dict_get (st_accounts st) a"; simp add: credentials_of_def session_of_def invalidate_all_def)+
  show "credentials_of a (snd (flag_for_recovery b st)) = credentials_of a st"
    "session_of a (snd (flag_for_recovery b st)) =
      (if a = b \<and> credentials_of b st \<noteq> None \<and> \<not> is_awaiting (session_of b st)
       then Some (AwaitingRecovery \<lparr>aw_attempts = 0, aw_next_attempt_at = 0\<rparr>) else session_of a st)"
    by (auto simp: credentials_of_def session_of_def flag_for_recovery_def dict.get_assign split: option.splits)
  show "credentials_of a (reschedule_recovery b w st) = credentials_of a st"
    "session_of a (reschedule_recovery b w st) =
      (if a = b \<and> is_awaiting (session_of b st) then Some (AwaitingRecovery w) else session_of a st)"
    by (auto simp: credentials_of_def session_of_def reschedule_recovery_def dict.get_assign split: option.splits)
  show "session_of a st \<noteq> None \<Longrightarrow> credentials_of a st \<noteq> None"
    by (cases "dict_get (st_accounts st) a") (simp_all add: credentials_of_def session_of_def)
qed

lemmas store_simps =
  ss.creds_auth ss.sess_auth ss.creds_replace ss.sess_replace ss.creds_remove ss.sess_remove
  ss.creds_invalidate ss.sess_invalidate ss.creds_flag ss.sess_flag ss.creds_resched ss.sess_resched

lemma is_authorized_iff: "is_authorized a st \<longleftrightarrow> session_of a st = Some Authorized"
  by (simp add: is_authorized_def session_of_def split: option.splits)

lemma wf_store_iff:
  "wf_store st \<longleftrightarrow> wf_dict (st_accounts st) \<and> distinct (st_refreshing st) \<and>
     (\<forall>a c. credentials_of a st = Some c \<longrightarrow> cr_account_id c = a)"
  by (auto simp: wf_store_def credentials_of_def)

lemma wf_store_ops:
  assumes "wf_store st"
  shows "wf_store (authorize c st)" "wf_store (replace_credentials c st)" "wf_store (snd (remove_account_entry a st))"
    "wf_store (invalidate_all st)" "wf_store (snd (flag_for_recovery a st))" "wf_store (reschedule_recovery a w st)"
    "wf_store (begin_refresh a st)" "wf_store (snd (end_refresh a st))"
proof -
  have d: "wf_dict (st_accounts st)" "distinct (st_refreshing st)" using assms by (simp_all add: wf_store_def)
  have i: "\<And>a c. credentials_of a st = Some c \<Longrightarrow> cr_account_id c = a" using assms by (simp add: wf_store_iff)
  show "wf_store (authorize c st)" "wf_store (replace_credentials c st)" "wf_store (snd (remove_account_entry a st))"
    unfolding wf_store_iff store_simps using d
    by (auto dest: i simp: authorize_def replace_credentials_def remove_account_entry_def Let_def dict.wf_assign dict.wf_pop
        split: if_splits)
  have "wf_dict (st_accounts (snd (flag_for_recovery a st)))" "st_refreshing (snd (flag_for_recovery a st)) = st_refreshing st"
    "wf_dict (st_accounts (reschedule_recovery a w st))" "st_refreshing (reschedule_recovery a w st) = st_refreshing st"
    using d(1) by (simp_all add: flag_for_recovery_def reschedule_recovery_def dict.wf_assign split: option.splits)
  then show "wf_store (snd (flag_for_recovery a st))" "wf_store (reschedule_recovery a w st)"
    using d(2) unfolding wf_store_iff by (simp_all only: ss.creds_flag ss.creds_resched) (auto dest: i)
  show "wf_store (invalidate_all st)"
    unfolding wf_store_iff store_simps using d by (auto dest: i simp: invalidate_all_def)
  show "wf_store (begin_refresh a st)" "wf_store (snd (end_refresh a st))"
    using assms unfolding wf_store_def by (auto simp: begin_refresh_def end_refresh_def distinct_removeAll)
qed

end
