(* ===== verification/Coroutine.thy ===== *)
theory Coroutine
  imports Session Events
begin

text \<open>
  Coroutines that await. A program runs on a shared state and either returns (or raises) or
  suspends in one of the awaits the authentication code makes, handing out the state it leaves
  and a continuation. The continuation takes the outcome of the await and the state at that
  moment, which other tasks may have changed meanwhile: so a statement about all continuations
  is a statement about every interleaving.
\<close>

datatype ('s, 'a) co =
    Return "'a res" 's
  | Send request rat 's "message res \<Rightarrow> 's \<Rightarrow> ('s, 'a) co"
  | Emit event 's "'s \<Rightarrow> ('s, 'a) co"
  | Save credentials 's "unit res \<Rightarrow> 's \<Rightarrow> ('s, 'a) co"
  | Sleep rat 's "'s \<Rightarrow> ('s, 'a) co"
  | WaitRefresh int 's "'s \<Rightarrow> ('s, 'a) co"
  | WaitFlag "rat option" 's "'s \<Rightarrow> ('s, 'a) co"

text \<open>Going on with the result, whether it is a value or an exception.\<close>

primrec co_then :: "('s, 'a) co \<Rightarrow> ('a res \<Rightarrow> 's \<Rightarrow> ('s, 'b) co) \<Rightarrow> ('s, 'b) co" where
  "co_then (Return r s) f = f r s"
| "co_then (Send q t s k) f = Send q t s (\<lambda>r s'. co_then (k r s') f)"
| "co_then (Emit e s k) f = Emit e s (\<lambda>s'. co_then (k s') f)"
| "co_then (Save c s k) f = Save c s (\<lambda>r s'. co_then (k r s') f)"
| "co_then (Sleep d s k) f = Sleep d s (\<lambda>s'. co_then (k s') f)"
| "co_then (WaitRefresh a s k) f = WaitRefresh a s (\<lambda>s'. co_then (k s') f)"
| "co_then (WaitFlag d s k) f = WaitFlag d s (\<lambda>s'. co_then (k s') f)"

text \<open>Sequential composition: an exception skips the rest.\<close>

definition co_bind :: "('s, 'a) co \<Rightarrow> ('a \<Rightarrow> 's \<Rightarrow> ('s, 'b) co) \<Rightarrow> ('s, 'b) co" where
  "co_bind c f = co_then c (\<lambda>r s. case r of Inl e \<Rightarrow> Return (Inl e) s | Inr a \<Rightarrow> f a s)"

text \<open>\<open>try\<close> with an \<open>except Exception\<close> clause.\<close>

definition co_try :: "('s, 'a) co \<Rightarrow> (exn \<Rightarrow> 's \<Rightarrow> ('s, 'a) co) \<Rightarrow> ('s, 'a) co" where
  "co_try c h = co_then c (\<lambda>r s. case r of Inl e \<Rightarrow> h e s | Inr a \<Rightarrow> Return (Inr a) s)"

text \<open>\<open>await self._protocol.request(message, response_type, timeout)\<close>.\<close>

definition co_request :: "request \<Rightarrow> reply_class \<Rightarrow> rat \<Rightarrow> 's \<Rightarrow> ('s, message) co" where
  "co_request q cls timeout s = Send q timeout s (\<lambda>r s'. Return (narrow (ClsReply cls) r) s')"

definition co_emit :: "event \<Rightarrow> 's \<Rightarrow> ('s, unit) co" where
  "co_emit e s = Emit e s (\<lambda>s'. Return (Inr ()) s')"

subsection \<open>Running\<close>

text \<open>What the environment does at a suspension: the outcome, and the interference of other tasks.\<close>

datatype outcome = Answer "message res" | Stored "unit res" | Resume

fun resume :: "('s, 'a) co \<Rightarrow> outcome \<Rightarrow> 's \<Rightarrow> ('s, 'a) co option" where
  "resume (Send q t s k) (Answer r) s' = Some (k r s')"
| "resume (Emit e s k) Resume s' = Some (k s')"
| "resume (Save c s k) (Stored r) s' = Some (k r s')"
| "resume (Sleep d s k) Resume s' = Some (k s')"
| "resume (WaitRefresh a s k) Resume s' = Some (k s')"
| "resume (WaitFlag d s k) Resume s' = Some (k s')"
| "resume _ _ _ = None"

primrec co_state :: "('s, 'a) co \<Rightarrow> 's" where
  "co_state (Return r s) = s"
| "co_state (Send q t s k) = s"
| "co_state (Emit e s k) = s"
| "co_state (Save c s k) = s"
| "co_state (Sleep d s k) = s"
| "co_state (WaitRefresh a s k) = s"
| "co_state (WaitFlag d s k) = s"

text \<open>A task runs along a script of outcomes; the second component of an entry is the interference.\<close>

fun drive :: "('s, 'a) co \<Rightarrow> (outcome \<times> ('s \<Rightarrow> 's)) list \<Rightarrow> ('s, 'a) co option" where
  "drive c [] = Some c"
| "drive c ((out, f) # script) =
     (case resume c out (f (co_state c)) of None \<Rightarrow> None | Some c' \<Rightarrow> drive c' script)"

subsection \<open>Runs without interference\<close>

text \<open>
  The task alone against a server that answers each request by \<open>answer\<close> and a token store that
  answers by \<open>saved\<close>: what it did at its suspensions, its result and the final state.
\<close>

datatype effect =
    Requested request | Emitted event | Saved credentials | Slept rat | AwaitedRefresh int | AwaitedFlag "rat option"

primrec quiet_run ::
  "(request \<Rightarrow> message res) \<Rightarrow> (credentials \<Rightarrow> unit res) \<Rightarrow> ('s, 'a) co \<Rightarrow> effect list \<times> 'a res \<times> 's" where
  "quiet_run answer saved (Return r s) = ([], r, s)"
| "quiet_run answer saved (Send q t s k) = apfst (Cons (Requested q)) (quiet_run answer saved (k (answer q) s))"
| "quiet_run answer saved (Emit e s k) = apfst (Cons (Emitted e)) (quiet_run answer saved (k s))"
| "quiet_run answer saved (Save c s k) = apfst (Cons (Saved c)) (quiet_run answer saved (k (saved c) s))"
| "quiet_run answer saved (Sleep d s k) = apfst (Cons (Slept d)) (quiet_run answer saved (k s))"
| "quiet_run answer saved (WaitRefresh a s k) = apfst (Cons (AwaitedRefresh a)) (quiet_run answer saved (k s))"
| "quiet_run answer saved (WaitFlag d s k) = apfst (Cons (AwaitedFlag d)) (quiet_run answer saved (k s))"

lemma quiet_run_then:
  "quiet_run answer saved (co_then c f) =
     (case quiet_run answer saved c of (es, r, s) \<Rightarrow> apfst ((@) es) (quiet_run answer saved (f r s)))"
proof (induction c)
  case (Send q t s k)
  from Send [OF rangeI rangeI, of "answer q" s] show ?case by (auto simp: apfst_def map_prod_def split: prod.splits)
next
  case (Save c s k)
  from Save [OF rangeI rangeI, of "saved c" s] show ?case by (auto simp: apfst_def map_prod_def split: prod.splits)
qed (auto simp: apfst_def map_prod_def split: prod.splits)

lemma quiet_run_bind:
  "quiet_run answer saved (co_bind c f) =
     (case quiet_run answer saved c of
        (es, Inl e, s) \<Rightarrow> (es, Inl e, s)
      | (es, Inr a, s) \<Rightarrow> apfst ((@) es) (quiet_run answer saved (f a s)))"
  by (simp add: co_bind_def quiet_run_then split: prod.splits sum.splits)

lemma quiet_run_try:
  "quiet_run answer saved (co_try c h) =
     (case quiet_run answer saved c of
        (es, Inr a, s) \<Rightarrow> (es, Inr a, s)
      | (es, Inl e, s) \<Rightarrow> apfst ((@) es) (quiet_run answer saved (h e s)))"
  by (simp add: co_try_def quiet_run_then split: prod.splits sum.splits)

lemma quiet_run_request [simp]:
  "quiet_run answer saved (co_request q cls t s) = ([Requested q], narrow (ClsReply cls) (answer q), s)"
  by (simp add: co_request_def)

lemma quiet_run_emit [simp]: "quiet_run answer saved (co_emit e s) = ([Emitted e], Inr (), s)"
  by (simp add: co_emit_def)

lemmas quiet_run_simps = quiet_run_then quiet_run_bind quiet_run_try

subsection \<open>Properties of every run\<close>

text \<open>
  \<open>always rely I Q R c\<close>: if other tasks change the state only as \<open>rely\<close> allows, then \<open>I\<close> holds at
  every suspension of this one and at its end, every event it emits satisfies \<open>Q\<close> in the state it
  is emitted in, and the result with the final state satisfies \<open>R\<close>.
\<close>

primrec always ::
  "('s \<Rightarrow> 's \<Rightarrow> bool) \<Rightarrow> ('s \<Rightarrow> bool) \<Rightarrow> (event \<Rightarrow> 's \<Rightarrow> bool) \<Rightarrow> ('a res \<Rightarrow> 's \<Rightarrow> bool) \<Rightarrow> ('s, 'a) co \<Rightarrow> bool" where
  "always rely I Q R (Return r s) = (I s \<and> R r s)"
| "always rely I Q R (Send q t s k) = (I s \<and> (\<forall>r s'. rely s s' \<longrightarrow> always rely I Q R (k r s')))"
| "always rely I Q R (Emit e s k) = (I s \<and> Q e s \<and> (\<forall>s'. rely s s' \<longrightarrow> always rely I Q R (k s')))"
| "always rely I Q R (Save c s k) = (I s \<and> (\<forall>r s'. rely s s' \<longrightarrow> always rely I Q R (k r s')))"
| "always rely I Q R (Sleep d s k) = (I s \<and> (\<forall>s'. rely s s' \<longrightarrow> always rely I Q R (k s')))"
| "always rely I Q R (WaitRefresh a s k) = (I s \<and> (\<forall>s'. rely s s' \<longrightarrow> always rely I Q R (k s')))"
| "always rely I Q R (WaitFlag d s k) = (I s \<and> (\<forall>s'. rely s s' \<longrightarrow> always rely I Q R (k s')))"

text \<open>Other tasks keep the invariant.\<close>

abbreviation keeps :: "('s \<Rightarrow> bool) \<Rightarrow> 's \<Rightarrow> 's \<Rightarrow> bool" where
  "keeps I \<equiv> \<lambda>s s'. I s \<longrightarrow> I s'"

lemma always_then:
  "always rely I Q S c \<Longrightarrow> (\<And>r s. I s \<Longrightarrow> S r s \<Longrightarrow> always rely I Q R (f r s)) \<Longrightarrow> always rely I Q R (co_then c f)"
  by (induction c) (simp_all, (metis rangeI)+)

lemma always_bind:
  "always rely I Q (\<lambda>r s. case r of Inl e \<Rightarrow> R (Inl e) s | Inr a \<Rightarrow> S a s) c \<Longrightarrow>
    (\<And>a s. I s \<Longrightarrow> S a s \<Longrightarrow> always rely I Q R (f a s)) \<Longrightarrow> always rely I Q R (co_bind c f)"
  unfolding co_bind_def by (erule always_then) (auto split: sum.splits)

lemma always_try:
  "always rely I Q (\<lambda>r s. case r of Inl e \<Rightarrow> S e s | Inr a \<Rightarrow> R (Inr a) s) c \<Longrightarrow>
    (\<And>e s. I s \<Longrightarrow> S e s \<Longrightarrow> always rely I Q R (h e s)) \<Longrightarrow> always rely I Q R (co_try c h)"
  unfolding co_try_def by (erule always_then) (auto split: sum.splits)

lemma always_seq:
  assumes "always rely I Q S c" "\<And>e s. I s \<Longrightarrow> S (Inl e) s \<Longrightarrow> R (Inl e) s"
    and "\<And>a s. I s \<Longrightarrow> S (Inr a) s \<Longrightarrow> always rely I Q R (f a s)"
  shows "always rely I Q R (co_bind c f)"
  unfolding co_bind_def by (rule always_then [OF assms(1)]) (use assms(2,3) in \<open>auto split: sum.splits\<close>)

lemma always_mono:
  "always rely I Q R c \<Longrightarrow> (\<And>r s. I s \<Longrightarrow> R r s \<Longrightarrow> R' r s) \<Longrightarrow> (\<And>e s. I s \<Longrightarrow> Q e s \<Longrightarrow> Q' e s) \<Longrightarrow>
    (\<And>s. I s \<Longrightarrow> I' s) \<Longrightarrow> always rely I' Q' R' c"
  by (induction c) (simp_all, (metis rangeI)+)

lemma always_result:
  "always rely I Q R c \<Longrightarrow> (\<And>r s. I s \<Longrightarrow> R r s \<Longrightarrow> R' r s) \<Longrightarrow> always rely I Q R' c"
  by (erule always_mono)

lemma always_request [simp]:
  "always rely I Q R (co_request q cls t s) \<longleftrightarrow>
     I s \<and> (\<forall>r s'. rely s s' \<longrightarrow> I s' \<and> R (narrow (ClsReply cls) r) s')"
  by (simp add: co_request_def)

lemma always_emit [simp]:
  "always rely I Q R (co_emit e s) \<longleftrightarrow> I s \<and> Q e s \<and> (\<forall>s'. rely s s' \<longrightarrow> I s' \<and> R (Inr ()) s')"
  by (simp add: co_emit_def)

lemma always_state: "always rely I Q R c \<Longrightarrow> I (co_state c)"
  by (cases c) auto

lemma always_resume:
  assumes "always rely I Q R c" "resume c out s' = Some c'" "rely (co_state c) s'"
  shows "always rely I Q R c'"
  using assms by (cases c; cases out) auto

text \<open>What holds of every run holds along every script whose interference is allowed.\<close>

lemma always_drive:
  "always rely I Q R c \<Longrightarrow> (\<And>out f s. (out, f) \<in> set script \<Longrightarrow> rely s (f s)) \<Longrightarrow> drive c script = Some c' \<Longrightarrow>
    always rely I Q R c'"
proof (induction c script rule: drive.induct)
  case (2 c out f script)
  from "2.prems"(3) obtain c1 where c1: "resume c out (f (co_state c)) = Some c1" "drive c1 script = Some c'"
    by (auto split: option.splits)
  have "rely (co_state c) (f (co_state c))" using "2.prems"(2) [of out f] by simp
  with "2.prems"(1) c1(1) have "always rely I Q R c1" by (rule always_resume)
  with "2.IH" [OF c1(1)] "2.prems"(2) c1(2) show ?case by (meson list.set_intros(2))
qed simp

subsection \<open>What holds while a task is suspended\<close>

text \<open>
  \<open>guards P R c\<close>: \<open>P\<close> holds at every suspension of the task, as long as the other tasks keep it, and
  \<open>R\<close> holds of the state it leaves when it has ended, by returning or by raising.
\<close>

primrec guards :: "('s \<Rightarrow> bool) \<Rightarrow> ('s \<Rightarrow> bool) \<Rightarrow> ('s, 'a) co \<Rightarrow> bool" where
  "guards P R (Return r s) = R s"
| "guards P R (Send q t s k) = (P s \<and> (\<forall>r s'. P s' \<longrightarrow> guards P R (k r s')))"
| "guards P R (Emit e s k) = (P s \<and> (\<forall>s'. P s' \<longrightarrow> guards P R (k s')))"
| "guards P R (Save c s k) = (P s \<and> (\<forall>r s'. P s' \<longrightarrow> guards P R (k r s')))"
| "guards P R (Sleep d s k) = (P s \<and> (\<forall>s'. P s' \<longrightarrow> guards P R (k s')))"
| "guards P R (WaitRefresh a s k) = (P s \<and> (\<forall>s'. P s' \<longrightarrow> guards P R (k s')))"
| "guards P R (WaitFlag d s k) = (P s \<and> (\<forall>s'. P s' \<longrightarrow> guards P R (k s')))"

lemma guards_resume:
  assumes "guards P R c" "resume c out s' = Some c'" "P (co_state c) \<Longrightarrow> P s'"
  shows "guards P R c'"
  using assms by (cases c; cases out) auto

lemma guards_drive:
  "guards P R c \<Longrightarrow> (\<And>out f s. (out, f) \<in> set script \<Longrightarrow> P s \<Longrightarrow> P (f s)) \<Longrightarrow> drive c script = Some c' \<Longrightarrow> guards P R c'"
proof (induction c script rule: drive.induct)
  case (2 c out f script)
  from "2.prems"(3) obtain c1 where c1: "resume c out (f (co_state c)) = Some c1" "drive c1 script = Some c'"
    by (auto split: option.splits)
  have "guards P R c1" by (rule guards_resume [OF "2.prems"(1) c1(1)]) (use "2.prems"(2) in auto)
  with "2.IH" [OF c1(1)] "2.prems"(2) c1(2) show ?case by (meson list.set_intros(2))
qed simp

lemma guards_then:
  "always (keeps P) P Q S c \<Longrightarrow> (\<And>r s. P s \<Longrightarrow> S r s \<Longrightarrow> guards P R (f r s)) \<Longrightarrow> guards P R (co_then c f)"
  by (induction c) (simp_all, (metis rangeI)+)

end
