(* ===== verification/Requests.thy ===== *)
theory Requests
  imports Instruments
begin

text \<open>
  \<open>models/requests.py\<close>: the trading requests and their \<open>to_proto\<close>. An absent or zero price,
  volume or timestamp becomes 0 on the wire. A trigger method that is \<open>None\<close> is left out of the
  message, which reads as 0.
\<close>

definition ORDER_TYPE_TO_PROTO :: "(order_type, int) dict" where
  "ORDER_TYPE_TO_PROTO = [(OT_MARKET, 1), (OT_LIMIT, 2), (OT_STOP, 3), (OT_STOP_LOSS_TAKE_PROFIT, 4),
     (OT_MARKET_RANGE, 5), (OT_STOP_LIMIT, 6)]"

definition TIME_IN_FORCE_TO_PROTO :: "(time_in_force, int) dict" where
  "TIME_IN_FORCE_TO_PROTO = [(GOOD_TILL_DATE, 1), (GOOD_TILL_CANCEL, 2), (IMMEDIATE_OR_CANCEL, 3), (FILL_OR_KILL, 4),
     (MARKET_ON_OPEN, 5)]"

definition TRIGGER_TO_PROTO :: "(stop_trigger_method, int) dict" where
  "TRIGGER_TO_PROTO = [(TRADE, 1), (OPPOSITE, 2), (DOUBLE_TRADE, 3), (DOUBLE_OPPOSITE, 4)]"

text \<open>\<open>m[k]\<close> on these dictionaries, which have every member of the enumeration as a key.\<close>

definition index :: "('k, 'v) dict \<Rightarrow> 'k \<Rightarrow> 'v" where
  "index m k = the (dict_get m k)"

text \<open>\<open>float(x) if x else 0.0\<close>, \<open>x or 0\<close>, \<open>int(x * 100000) if x else 0\<close>, \<open>int(t.timestamp() * 1000) if t else 0\<close>.\<close>

definition price_field :: "decimal option \<Rightarrow> double" where
  "price_field p = (case p of None \<Rightarrow> 0 | Some d \<Rightarrow> if d = 0 then 0 else float_of_decimal d)"

definition int_field :: "int option \<Rightarrow> int" where
  "int_field i = (case i of None \<Rightarrow> 0 | Some n \<Rightarrow> or_default n 0)"

definition points_field :: "decimal option \<Rightarrow> int" where
  "points_field p = (case p of None \<Rightarrow> 0 | Some d \<Rightarrow> if d = 0 then 0 else dec_int (dec_mul d 100000))"

definition time_field :: "datetime option \<Rightarrow> int" where
  "time_field t = (case t of None \<Rightarrow> 0 | Some dt \<Rightarrow> datetime_to_ms dt)"

definition bool_field :: "bool option \<Rightarrow> bool" where
  "bool_field b = (case b of None \<Rightarrow> False | Some v \<Rightarrow> v)"

definition trigger_field :: "stop_trigger_method option \<Rightarrow> int" where
  "trigger_field m = (case m of None \<Rightarrow> 0 | Some t \<Rightarrow> index TRIGGER_TO_PROTO t)"

record new_order_request =
  no_symbol_id :: int
  no_side :: order_side
  no_volume :: int
  no_order_type :: order_type
  no_limit_price :: "decimal option"
  no_stop_price :: "decimal option"
  no_stop_loss :: "decimal option"
  no_take_profit :: "decimal option"
  no_time_in_force :: time_in_force
  no_expiration_timestamp :: "datetime option"
  no_position_id :: "int option"
  no_client_order_id :: string
  no_label :: string
  no_comment :: string
  no_base_slippage_price :: "decimal option"
  no_slippage_in_points :: "int option"
  no_relative_stop_loss :: "decimal option"
  no_relative_take_profit :: "decimal option"
  no_trailing_stop_loss :: bool
  no_guaranteed_stop_loss :: bool
  no_stop_trigger_method :: "stop_trigger_method option"

definition new_order_to_proto :: "new_order_request \<Rightarrow> int \<Rightarrow> proto_oa_new_order_req" where
  "new_order_to_proto r account_id =
     \<lparr>pno_payload_type = 2106,
      pno_ctid_trader_account_id = account_id,
      pno_symbol_id = no_symbol_id r,
      pno_order_type = index ORDER_TYPE_TO_PROTO (no_order_type r),
      pno_trade_side = (if no_side r = BUY then 1 else 2),
      pno_volume = no_volume r,
      pno_limit_price = price_field (no_limit_price r),
      pno_stop_price = price_field (no_stop_price r),
      pno_time_in_force = index TIME_IN_FORCE_TO_PROTO (no_time_in_force r),
      pno_expiration_timestamp = time_field (no_expiration_timestamp r),
      pno_stop_loss = price_field (no_stop_loss r),
      pno_take_profit = price_field (no_take_profit r),
      pno_comment = no_comment r,
      pno_base_slippage_price = price_field (no_base_slippage_price r),
      pno_slippage_in_points = int_field (no_slippage_in_points r),
      pno_label = no_label r,
      pno_position_id = int_field (no_position_id r),
      pno_client_order_id = no_client_order_id r,
      pno_relative_stop_loss = points_field (no_relative_stop_loss r),
      pno_relative_take_profit = points_field (no_relative_take_profit r),
      pno_guaranteed_stop_loss = no_guaranteed_stop_loss r,
      pno_trailing_stop_loss = no_trailing_stop_loss r,
      pno_stop_trigger_method = trigger_field (no_stop_trigger_method r)\<rparr>"

record amend_order_request =
  ao_order_id :: int
  ao_volume :: "int option"
  ao_limit_price :: "decimal option"
  ao_stop_price :: "decimal option"
  ao_stop_loss :: "decimal option"
  ao_take_profit :: "decimal option"
  ao_expiration_timestamp :: "datetime option"
  ao_slippage_in_points :: "int option"
  ao_trailing_stop_loss :: "bool option"
  ao_guaranteed_stop_loss :: "bool option"
  ao_relative_stop_loss :: "decimal option"
  ao_relative_take_profit :: "decimal option"
  ao_stop_trigger_method :: "stop_trigger_method option"

definition amend_order_to_proto :: "amend_order_request \<Rightarrow> int \<Rightarrow> proto_oa_amend_order_req" where
  "amend_order_to_proto r account_id =
     \<lparr>pao_payload_type = 2109,
      pao_ctid_trader_account_id = account_id,
      pao_order_id = ao_order_id r,
      pao_volume = int_field (ao_volume r),
      pao_limit_price = price_field (ao_limit_price r),
      pao_stop_price = price_field (ao_stop_price r),
      pao_expiration_timestamp = time_field (ao_expiration_timestamp r),
      pao_stop_loss = price_field (ao_stop_loss r),
      pao_take_profit = price_field (ao_take_profit r),
      pao_slippage_in_points = int_field (ao_slippage_in_points r),
      pao_relative_stop_loss = points_field (ao_relative_stop_loss r),
      pao_relative_take_profit = points_field (ao_relative_take_profit r),
      pao_guaranteed_stop_loss = bool_field (ao_guaranteed_stop_loss r),
      pao_trailing_stop_loss = bool_field (ao_trailing_stop_loss r),
      pao_stop_trigger_method = trigger_field (ao_stop_trigger_method r)\<rparr>"

record amend_position_request =
  ap_position_id :: int
  ap_stop_loss :: "decimal option"
  ap_take_profit :: "decimal option"
  ap_trailing_stop_loss :: bool
  ap_guaranteed_stop_loss :: bool
  ap_stop_loss_trigger_method :: "stop_trigger_method option"

definition amend_position_to_proto :: "amend_position_request \<Rightarrow> int \<Rightarrow> proto_oa_amend_position_sltp_req" where
  "amend_position_to_proto r account_id =
     \<lparr>pap_payload_type = 2110,
      pap_ctid_trader_account_id = account_id,
      pap_position_id = ap_position_id r,
      pap_stop_loss = price_field (ap_stop_loss r),
      pap_take_profit = price_field (ap_take_profit r),
      pap_guaranteed_stop_loss = ap_guaranteed_stop_loss r,
      pap_trailing_stop_loss = ap_trailing_stop_loss r,
      pap_stop_loss_trigger_method =
        (case ap_stop_loss_trigger_method r of None \<Rightarrow> 1 | Some t \<Rightarrow> index TRIGGER_TO_PROTO t)\<rparr>"

record close_position_request =
  cp_position_id :: int
  cp_volume :: int

definition close_position_to_proto :: "close_position_request \<Rightarrow> int \<Rightarrow> proto_oa_close_position_req" where
  "close_position_to_proto r account_id =
     \<lparr>pcp_payload_type = 2111, pcp_ctid_trader_account_id = account_id, pcp_position_id = cp_position_id r,
      pcp_volume = cp_volume r\<rparr>"

subsection \<open>Lemmas\<close>

lemma order_type_roundtrip: "dict_get ORDER_TYPE_MAP (index ORDER_TYPE_TO_PROTO t) = Some t"
  by (cases t) (simp_all add: index_def ORDER_TYPE_MAP_def ORDER_TYPE_TO_PROTO_def)

lemma time_in_force_roundtrip: "dict_get TIME_IN_FORCE_MAP (index TIME_IN_FORCE_TO_PROTO t) = Some t"
  by (cases t) (simp_all add: index_def TIME_IN_FORCE_MAP_def TIME_IN_FORCE_TO_PROTO_def)

lemma trigger_roundtrip: "dict_get TRIGGER_METHOD_MAP (trigger_field t) = t"
proof (cases t)
  case (Some m)
  then show ?thesis by (cases m) (simp_all add: trigger_field_def index_def TRIGGER_METHOD_MAP_def TRIGGER_TO_PROTO_def)
qed (simp add: trigger_field_def TRIGGER_METHOD_MAP_def)

lemma points_field_exact:
  assumes "\<bar>n\<bar> < 10 ^ 28"
  shows "points_field (Some (of_int n / 100000)) = n"
proof -
  have "round_sig 10 28 (of_int n) = of_int n" using money_exact [OF assms, of 0] by (simp add: money_def)
  then show ?thesis by (simp add: points_field_def dec_mul_def dec_int_def)
qed

text \<open>A float is within half a unit in the last place of what it was rounded from.\<close>

lemma round_at_close: "\<bar>round_at 2 k x - x\<bar> \<le> 2 powi (- k) / 2"
proof -
  have "x = x * 2 powi k * 2 powi (- k)" by (simp add: power_int_minus)
  then have "round_at 2 k x - x = (of_int (round_half_even (x * 2 powi k)) - x * 2 powi k) * 2 powi (- k)"
    by (simp add: round_at_def left_diff_distrib)
  then have "\<bar>round_at 2 k x - x\<bar> = \<bar>of_int (round_half_even (x * 2 powi k)) - x * 2 powi k\<bar> * 2 powi (- k)"
    by (simp add: abs_mult)
  also have "\<dots> \<le> 1 / 2 * 2 powi (- k)" by (intro mult_right_mono round_half_even_close) simp
  finally show ?thesis by simp
qed

lemma float_round_close: "\<bar>float_round x - x\<bar> \<le> \<bar>x\<bar> / 2 ^ 53 + 1 / 2 ^ 1075"
proof (cases "x = 0")
  case False
  let ?e = "exponent_of 2 \<bar>x\<bar>" and ?k = "min (52 - exponent_of 2 \<bar>x\<bar>) 1074"
  have "x = sgn x * \<bar>x\<bar>" by (simp add: sgn_mult_abs)
  then have "float_round x - x = sgn x * (round_at 2 ?k \<bar>x\<bar> - \<bar>x\<bar>)"
    using False by (simp only: float_round_def if_False right_diff_distrib)
  then have "\<bar>float_round x - x\<bar> = \<bar>round_at 2 ?k \<bar>x\<bar> - \<bar>x\<bar>\<bar>" using False by (simp add: abs_mult abs_sgn_eq)
  also have "\<dots> \<le> 2 powi (- ?k) / 2" by (rule round_at_close)
  also have "\<dots> \<le> (2 powi (?e - 52) + 2 powi (- 1074)) / 2" by (simp add: min_def)
  also have "2 powi (?e - 52) = 2 powi ?e / (2 :: rat) ^ 52"
    using power_int_diff [of "2 :: rat" ?e 52] by simp
  also have "(2 :: rat) powi ?e \<le> \<bar>x\<bar>" using exponent_of_spec(1) [of 2 "\<bar>x\<bar>"] False by simp
  also have "(\<bar>x\<bar> / 2 ^ 52 + 2 powi (- 1074)) / 2 = \<bar>x\<bar> / 2 ^ 53 + 1 / 2 ^ 1075"
    by (simp add: power_int_minus field_simps)
  finally show ?thesis by (simp add: divide_right_mono)
qed (simp add: float_round_def)

lemma float_round_within:
  assumes "\<bar>x\<bar> \<le> 2 ^ k"
  shows "\<bar>float_round x - x\<bar> \<le> 2 ^ k / 2 ^ 52"
proof -
  have "1 / 2 ^ 1075 \<le> 1 / (2 ^ 53 :: rat)" by (intro divide_left_mono power_increasing) simp_all
  also have "\<dots> \<le> 2 ^ k / 2 ^ 53" by (intro divide_right_mono) simp_all
  finally have "\<bar>x\<bar> / 2 ^ 53 + 1 / 2 ^ 1075 \<le> 2 ^ k / 2 ^ 53 + 2 ^ k / (2 ^ 53 :: rat)"
    using assms by (intro add_mono divide_right_mono) simp_all
  also have "\<dots> = 2 ^ k / 2 ^ 52" by simp
  finally show ?thesis using float_round_close [of x] by (rule order_trans [rotated])
qed

lemma dec_int_close: "\<bar>of_int (dec_int d) - d\<bar> < 1"
proof (cases "0 \<le> d")
  case True
  then show ?thesis using floor_correct [of d] by (simp add: dec_int_def abs_less_iff; linarith)
next
  case False
  then show ?thesis using ceiling_correct [of d] by (simp add: dec_int_def abs_less_iff; linarith)
qed

lemma datetime_to_ms_close:
  assumes "- 62135596800000000 \<le> t" "t < 253402300800000000"
  shows "\<bar>of_int (datetime_to_ms t) - of_int t / 1000\<bar> < (5 / 4 :: rat)"
proof -
  define s where "s = float_round (of_int t / 1000000)"
  define m where "m = float_round (s * 1000)"
  have t: "\<bar>of_int t / 1000000\<bar> \<le> (253402300800 :: rat)" using assms by (simp add: abs_le_iff)
  then have "\<bar>of_int t / 1000000\<bar> \<le> (2 ^ 38 :: rat)" by simp
  then have s: "\<bar>s - of_int t / 1000000\<bar> \<le> 1 / 16384"
    using float_round_within [of "of_int t / 1000000" 38] unfolding s_def by simp
  then have "\<bar>s\<bar> \<le> 253402300801" using t abs_triangle_ineq [of "s - of_int t / 1000000" "of_int t / 1000000"] by simp
  then have "\<bar>s * 1000\<bar> \<le> 2 ^ 48" by (simp add: abs_mult)
  then have "\<bar>m - s * 1000\<bar> \<le> 1 / 16" using float_round_within [of "s * 1000" 48] unfolding m_def by simp
  moreover have "\<bar>of_int (datetime_to_ms t) - m\<bar> < 1"
    using dec_int_close [of m] by (simp add: datetime_to_ms_def datetime_timestamp_def s_def m_def)
  ultimately show ?thesis using s unfolding abs_less_iff abs_le_iff by linarith
qed

subsection \<open>Properties\<close>

text \<open>
  How an optional value has to arrive: a missing one as 0, a price within half a unit in the
  last place of a double, a distance that is a multiple of a hundred-thousandth as exactly that
  many points, and a time within a millisecond and a quarter.
\<close>

definition price_sent :: "decimal option \<Rightarrow> double \<Rightarrow> bool" where
  "price_sent p x \<longleftrightarrow> (case p of None \<Rightarrow> x = 0 | Some d \<Rightarrow> \<bar>x - d\<bar> \<le> \<bar>d\<bar> / 2 ^ 53 + 1 / 2 ^ 1075)"

definition points_sent :: "decimal option \<Rightarrow> int \<Rightarrow> bool" where
  "points_sent p n \<longleftrightarrow>
     (case p of None \<Rightarrow> n = 0 | Some d \<Rightarrow> \<forall>k. d = of_int k / 100000 \<and> \<bar>k\<bar> < 10 ^ 28 \<longrightarrow> n = k)"

definition time_sent :: "datetime option \<Rightarrow> int \<Rightarrow> bool" where
  "time_sent t ms \<longleftrightarrow>
     (case t of None \<Rightarrow> ms = 0
      | Some us \<Rightarrow> - 62135596800000000 \<le> us \<and> us < 253402300800000000 \<longrightarrow>
          \<bar>of_int ms - of_int us / 1000\<bar> < (5 / 4 :: rat))"

definition int_sent :: "int option \<Rightarrow> int \<Rightarrow> bool" where
  "int_sent i n \<longleftrightarrow> n = (case i of None \<Rightarrow> 0 | Some m \<Rightarrow> m)"

lemma price_field_sent: "price_sent p (price_field p)"
proof (cases p)
  case (Some d)
  then have "price_field p = float_round d" by (simp add: price_field_def float_of_decimal_def float_round_def)
  then show ?thesis unfolding price_sent_def Some option.case by (simp only: float_round_close)
qed (simp add: price_sent_def price_field_def)

lemma points_field_sent: "points_sent p (points_field p)"
proof (cases p)
  case (Some d)
  show ?thesis unfolding points_sent_def Some option.case
    by (intro allI impI, elim conjE) (simp only: points_field_exact)
qed (simp add: points_sent_def points_field_def)

lemma time_field_sent: "time_sent t (time_field t)"
  unfolding time_sent_def time_field_def using datetime_to_ms_close by (cases t) simp_all

lemma int_field_sent: "int_sent i (int_field i)"
  by (simp add: int_sent_def int_field_def or_default_def split: option.splits)

lemmas fields_sent = price_field_sent points_field_sent time_field_sent int_field_sent

text \<open>
  C30: an order goes onto the wire as it was asked for. Read by the client's own tables the
  message has the requested type, time in force, trigger method (none when none was given) and
  side; account, symbol, volume, labels, flags, position and slippage are those of the request;
  each of the five prices is the double next to the requested one, a relative stop or
  take-profit given in multiples of a hundred-thousandth is exactly that many points, and the
  expiration is within 1.25 ms of the requested time. What the request leaves out is 0.
\<close>

theorem new_order_on_wire:
  assumes "p = new_order_to_proto r account_id"
  shows "pno_ctid_trader_account_id p = account_id \<and> pno_symbol_id p = no_symbol_id r \<and> pno_volume p = no_volume r \<and>
    dict_get ORDER_TYPE_MAP (pno_order_type p) = Some (no_order_type r) \<and>
    dict_get TIME_IN_FORCE_MAP (pno_time_in_force p) = Some (no_time_in_force r) \<and>
    dict_get TRIGGER_METHOD_MAP (pno_stop_trigger_method p) = no_stop_trigger_method r \<and>
    pno_trade_side p \<in> {1, 2} \<and> (pno_trade_side p = 2 \<longleftrightarrow> no_side r = SELL) \<and>
    pno_label p = no_label r \<and> pno_comment p = no_comment r \<and> pno_client_order_id p = no_client_order_id r \<and>
    pno_guaranteed_stop_loss p = no_guaranteed_stop_loss r \<and> pno_trailing_stop_loss p = no_trailing_stop_loss r \<and>
    int_sent (no_position_id r) (pno_position_id p) \<and> int_sent (no_slippage_in_points r) (pno_slippage_in_points p) \<and>
    price_sent (no_limit_price r) (pno_limit_price p) \<and> price_sent (no_stop_price r) (pno_stop_price p) \<and>
    price_sent (no_stop_loss r) (pno_stop_loss p) \<and> price_sent (no_take_profit r) (pno_take_profit p) \<and>
    price_sent (no_base_slippage_price r) (pno_base_slippage_price p) \<and>
    points_sent (no_relative_stop_loss r) (pno_relative_stop_loss p) \<and>
    points_sent (no_relative_take_profit r) (pno_relative_take_profit p) \<and>
    time_sent (no_expiration_timestamp r) (pno_expiration_timestamp p)"
  by (cases "no_side r")
    (simp_all add: assms new_order_to_proto_def fields_sent order_type_roundtrip time_in_force_roundtrip trigger_roundtrip)

definition sample_new_order :: new_order_request where
  "sample_new_order =
     \<lparr>no_symbol_id = 1, no_side = SELL, no_volume = 100000, no_order_type = OT_STOP_LIMIT, no_limit_price = Some (12345 / 10000),
      no_stop_price = None, no_stop_loss = None, no_take_profit = None, no_time_in_force = GOOD_TILL_DATE,
      no_expiration_timestamp = Some 1767225600000000, no_position_id = None, no_client_order_id = ''c1'', no_label = ''l'', no_comment = [],
      no_base_slippage_price = None, no_slippage_in_points = None, no_relative_stop_loss = Some (of_int 150 / 100000),
      no_relative_take_profit = None, no_trailing_stop_loss = False, no_guaranteed_stop_loss = True,
      no_stop_trigger_method = Some DOUBLE_TRADE\<rparr>"

theorem new_order_on_wire_witness:
  "\<exists>p. p = new_order_to_proto sample_new_order 7 \<and> dict_get ORDER_TYPE_MAP (pno_order_type p) = Some OT_STOP_LIMIT \<and>
     \<bar>pno_limit_price p - 12345 / 10000\<bar> \<le> 12345 / 10000 / 2 ^ 53 + 1 / 2 ^ 1075 \<and>
     pno_relative_stop_loss p = 150 \<and> \<bar>of_int (pno_expiration_timestamp p) - 1767225600000\<bar> < (5 / 4 :: rat)"
proof -
  from new_order_on_wire [OF refl, of sample_new_order 7] show ?thesis
    by (auto simp: sample_new_order_def price_sent_def points_sent_def time_sent_def)
qed

text \<open>
  The millisecond a request sends for a time can be one short: 1.001 s after the epoch,
  which the client itself reads from 1001 ms, is sent as 1000 ms, because the product with
  1000 is truncated after being rounded to a float.
\<close>

theorem time_field_truncates:
  "timestamp_to_datetime 1001 = Inr 1001000 \<and> time_field (Some 1001000) = 1000"
  by code_simp

end
