(* ===== verification/Market_Data.thy ===== *)
theory Market_Data
  imports Coroutine Requests "HOL-Library.Product_Lexorder" "HOL-Library.List_Lexorder" "HOL-Library.Char_ord"
begin

text \<open>
  \<open>api/_base.py\<close> and \<open>api/market_data.py\<close>: subscriptions, the record of what each account asked
  for and its restoration on a fresh session, historical data. The subscription records are
  objects: \<open>restore\<close> holds on to one across its awaits while \<open>forget\<close> may drop it from the
  dictionary, so the dictionary maps accounts to references into \<open>md_objects\<close>. A Python set is a
  list without repetitions, read only through membership and \<open>sorted\<close>.
\<close>

subsection \<open>Standing subscriptions\<close>

definition PERIOD_TO_PROTO :: "(trendbar_period, int) dict" where
  "PERIOD_TO_PROTO = [(M1, 1), (M2, 2), (M3, 3), (M4, 4), (M5, 5), (M10, 6), (M15, 7), (M30, 8), (H1, 9), (H4, 10),
     (H12, 11), (D1, 12), (W1, 13), (MN1, 14)]"

primrec period_name :: "trendbar_period \<Rightarrow> string" where
  "period_name M1 = ''M1''" | "period_name M2 = ''M2''" | "period_name M3 = ''M3''" | "period_name M4 = ''M4''"
| "period_name M5 = ''M5''" | "period_name M10 = ''M10''" | "period_name M15 = ''M15''" | "period_name M30 = ''M30''"
| "period_name H1 = ''H1''" | "period_name H4 = ''H4''" | "period_name H12 = ''H12''" | "period_name D1 = ''D1''"
| "period_name W1 = ''W1''" | "period_name MN1 = ''MN1''"

record standing_subscriptions =
  sd_spots :: "int list"
  sd_trendbars :: "(int \<times> trendbar_period) list"
  sd_depth :: "int list"

record market_data =
  md_default_timeout :: rat
  md_standing :: "(int, nat) dict"
  md_objects :: "standing_subscriptions list"

definition api_timeout :: "rat \<Rightarrow> rat option \<Rightarrow> rat" where
  "api_timeout default_timeout timeout = (case timeout of None \<Rightarrow> default_timeout | Some t \<Rightarrow> or_default t default_timeout)"

definition no_subscriptions :: standing_subscriptions where
  "no_subscriptions = \<lparr>sd_spots = [], sd_trendbars = [], sd_depth = []\<rparr>"

definition standing_for :: "int \<Rightarrow> 'z market_data_scheme \<Rightarrow> nat \<times> 'z market_data_scheme" where
  "standing_for account_id s =
     (case dict_get (md_standing s) account_id of
        Some r \<Rightarrow> (r, s)
      | None \<Rightarrow> (length (md_objects s),
          s\<lparr>md_standing := dict_set account_id (length (md_objects s)) (md_standing s),
            md_objects := md_objects s @ [no_subscriptions]\<rparr>))"

definition forget :: "int \<Rightarrow> 'z market_data_scheme \<Rightarrow> 'z market_data_scheme" where
  "forget account_id s = s\<lparr>md_standing := dict_pop account_id (md_standing s)\<rparr>"

text \<open>\<open>self._standing_for(account_id)\<close> with one of its sets updated in place.\<close>

definition update_standing ::
  "int \<Rightarrow> (standing_subscriptions \<Rightarrow> standing_subscriptions) \<Rightarrow> 'z market_data_scheme \<Rightarrow> 'z market_data_scheme" where
  "update_standing account_id f s =
     (case standing_for account_id s of
        (r, s') \<Rightarrow> s'\<lparr>md_objects := (md_objects s')[r := f (md_objects s' ! r)]\<rparr>)"

subsection \<open>Subscribing\<close>

definition subscribe_spots ::
  "int \<Rightarrow> int list \<Rightarrow> rat option \<Rightarrow> 'z market_data_scheme \<Rightarrow> ('z market_data_scheme, unit) co" where
  "subscribe_spots account_id symbol_ids timeout s =
     co_bind (co_request (ProtoOASubscribeSpotsReq account_id symbol_ids True) Cls_ProtoOASubscribeSpotsRes
                (api_timeout (md_default_timeout s) timeout) s)
       (\<lambda>_ s'. Return (Inr ())
          (update_standing account_id (\<lambda>d. d\<lparr>sd_spots := List.union symbol_ids (sd_spots d)\<rparr>) s'))"

definition unsubscribe_spots ::
  "int \<Rightarrow> int list \<Rightarrow> rat option \<Rightarrow> 'z market_data_scheme \<Rightarrow> ('z market_data_scheme, unit) co" where
  "unsubscribe_spots account_id symbol_ids timeout s =
     co_bind (co_request (ProtoOAUnsubscribeSpotsReq account_id symbol_ids) Cls_ProtoOAUnsubscribeSpotsRes
                (api_timeout (md_default_timeout s) timeout) s)
       (\<lambda>_ s'. Return (Inr ())
          (update_standing account_id (\<lambda>d. d\<lparr>sd_spots := filter (\<lambda>x. x \<notin> set symbol_ids) (sd_spots d)\<rparr>) s'))"

definition subscribe_trendbars ::
  "int \<Rightarrow> int \<Rightarrow> trendbar_period \<Rightarrow> rat option \<Rightarrow> 'z market_data_scheme \<Rightarrow> ('z market_data_scheme, unit) co" where
  "subscribe_trendbars account_id symbol_id period timeout s =
     co_bind (co_request (ProtoOASubscribeLiveTrendbarReq account_id (index PERIOD_TO_PROTO period) symbol_id)
                Cls_ProtoOASubscribeLiveTrendbarRes (api_timeout (md_default_timeout s) timeout) s)
       (\<lambda>_ s'. Return (Inr ())
          (update_standing account_id (\<lambda>d. d\<lparr>sd_trendbars := List.insert (symbol_id, period) (sd_trendbars d)\<rparr>) s'))"

definition unsubscribe_trendbars ::
  "int \<Rightarrow> int \<Rightarrow> trendbar_period \<Rightarrow> rat option \<Rightarrow> 'z market_data_scheme \<Rightarrow> ('z market_data_scheme, unit) co" where
  "unsubscribe_trendbars account_id symbol_id period timeout s =
     co_bind (co_request (ProtoOAUnsubscribeLiveTrendbarReq account_id (index PERIOD_TO_PROTO period) symbol_id)
                Cls_ProtoOAUnsubscribeLiveTrendbarRes (api_timeout (md_default_timeout s) timeout) s)
       (\<lambda>_ s'. Return (Inr ())
          (update_standing account_id (\<lambda>d. d\<lparr>sd_trendbars := removeAll (symbol_id, period) (sd_trendbars d)\<rparr>) s'))"

definition subscribe_depth ::
  "int \<Rightarrow> int list \<Rightarrow> rat option \<Rightarrow> 'z market_data_scheme \<Rightarrow> ('z market_data_scheme, unit) co" where
  "subscribe_depth account_id symbol_ids timeout s =
     co_bind (co_request (ProtoOASubscribeDepthQuotesReq account_id symbol_ids) Cls_ProtoOASubscribeDepthQuotesRes
                (api_timeout (md_default_timeout s) timeout) s)
       (\<lambda>_ s'. Return (Inr ())
          (update_standing account_id (\<lambda>d. d\<lparr>sd_depth := List.union symbol_ids (sd_depth d)\<rparr>) s'))"

definition unsubscribe_depth ::
  "int \<Rightarrow> int list \<Rightarrow> rat option \<Rightarrow> 'z market_data_scheme \<Rightarrow> ('z market_data_scheme, unit) co" where
  "unsubscribe_depth account_id symbol_ids timeout s =
     co_bind (co_request (ProtoOAUnsubscribeDepthQuotesReq account_id symbol_ids) Cls_ProtoOAUnsubscribeDepthQuotesRes
                (api_timeout (md_default_timeout s) timeout) s)
       (\<lambda>_ s'. Return (Inr ())
          (update_standing account_id (\<lambda>d. d\<lparr>sd_depth := filter (\<lambda>x. x \<notin> set symbol_ids) (sd_depth d)\<rparr>) s'))"

subsection \<open>Restoring\<close>

definition sorted_trendbars :: "(int \<times> trendbar_period) list \<Rightarrow> (int \<times> trendbar_period) list" where
  "sorted_trendbars = sort_key (\<lambda>item. (fst item, period_name (snd item)))"

fun restore_trendbars ::
  "int \<Rightarrow> (int \<times> trendbar_period) list \<Rightarrow> 'z market_data_scheme \<Rightarrow> ('z market_data_scheme, unit) co" where
  "restore_trendbars account_id [] s = Return (Inr ()) s"
| "restore_trendbars account_id ((symbol_id, period) # items) s =
     co_bind (subscribe_trendbars account_id symbol_id period None s) (\<lambda>_. restore_trendbars account_id items)"

definition restore :: "int \<Rightarrow> 'z market_data_scheme \<Rightarrow> ('z market_data_scheme, unit) co" where
  "restore account_id s =
     (case dict_get (md_standing s) account_id of
        None \<Rightarrow> Return (Inr ()) s
      | Some r \<Rightarrow>
          co_try
            (co_bind
               (if sd_spots (md_objects s ! r) \<noteq> []
                then subscribe_spots account_id (sort (sd_spots (md_objects s ! r))) None s else Return (Inr ()) s)
               (\<lambda>_ s1. co_bind (restore_trendbars account_id (sorted_trendbars (sd_trendbars (md_objects s1 ! r))) s1)
               (\<lambda>_ s2. if sd_depth (md_objects s2 ! r) \<noteq> []
                 then subscribe_depth account_id (sort (sd_depth (md_objects s2 ! r))) None s2 else Return (Inr ()) s2)))
            (\<lambda>e. co_emit (SubscriptionRestoreFailedEvent account_id e)))"

subsection \<open>Historical data\<close>

definition reply_trendbars :: "message \<Rightarrow> proto_oa_trendbar list" where
  "reply_trendbars m = (case m of Reply (ProtoOAGetTrendbarsRes r) \<Rightarrow> pgtr_trendbar r | _ \<Rightarrow> [])"

definition reply_ticks :: "message \<Rightarrow> proto_oa_tick_data list" where
  "reply_ticks m = (case m of Reply (ProtoOAGetTickDataRes _ ticks _) \<Rightarrow> ticks | _ \<Rightarrow> [])"

definition ascii_upper :: "string \<Rightarrow> string" where
  "ascii_upper = map (\<lambda>c. if CHR ''a'' \<le> c \<and> c \<le> CHR ''z'' then char_of (of_char c - 32 :: nat) else c)"

text \<open>\<open>clock\<close> reads \<open>datetime.now\<close>, the timestamp of a bar that carries none.\<close>

definition get_trendbars ::
  "('z market_data_scheme \<Rightarrow> datetime) \<Rightarrow> int \<Rightarrow> int \<Rightarrow> trendbar_period \<Rightarrow> datetime \<Rightarrow> datetime \<Rightarrow> rat option \<Rightarrow>
   'z market_data_scheme \<Rightarrow> ('z market_data_scheme, trendbar list) co" where
  "get_trendbars clock account_id symbol_id period from_timestamp to_timestamp timeout s =
     co_bind (co_request
         (ProtoOAGetTrendbarsReq
            \<lparr>pgt_ctid_trader_account_id = account_id, pgt_from_timestamp = datetime_to_ms from_timestamp,
             pgt_to_timestamp = datetime_to_ms to_timestamp, pgt_period = index PERIOD_TO_PROTO period,
             pgt_symbol_id = symbol_id, pgt_count = 0\<rparr>)
         Cls_ProtoOAGetTrendbarsRes (api_timeout (md_default_timeout s) timeout) s)
       (\<lambda>response s'. Return
          (map_res (\<lambda>t. trendbar_from_proto (clock s') t None True) (reply_trendbars response)) s')"

definition get_tick_data ::
  "int \<Rightarrow> int \<Rightarrow> datetime \<Rightarrow> datetime \<Rightarrow> string \<Rightarrow> rat option \<Rightarrow>
   'z market_data_scheme \<Rightarrow> ('z market_data_scheme, tick_data list) co" where
  "get_tick_data account_id symbol_id from_timestamp to_timestamp quote_type timeout s =
     co_bind (co_request
         (ProtoOAGetTickDataReq
            \<lparr>pgk_ctid_trader_account_id = account_id, pgk_symbol_id = symbol_id,
             pgk_type = (if ascii_upper quote_type = ''BID'' then 1 else 2),
             pgk_from_timestamp = datetime_to_ms from_timestamp, pgk_to_timestamp = datetime_to_ms to_timestamp\<rparr>)
         Cls_ProtoOAGetTickDataRes (api_timeout (md_default_timeout s) timeout) s)
       (\<lambda>response s'. Return (ticks_from_proto_list (reply_ticks response)) s')"

subsection \<open>Well-formed records\<close>

text \<open>References are valid and no two accounts share a record.\<close>

definition wf_market :: "'z market_data_scheme \<Rightarrow> bool" where
  "wf_market s \<longleftrightarrow> wf_dict (md_standing s) \<and> distinct (map snd (md_standing s)) \<and>
     list_all (\<lambda>(a, r). r < length (md_objects s)) (md_standing s)"

text \<open>What an account has asked for, whether or not there is a record of it yet.\<close>

definition standing_of :: "int \<Rightarrow> 'z market_data_scheme \<Rightarrow> standing_subscriptions" where
  "standing_of account_id s =
     (case dict_get (md_standing s) account_id of None \<Rightarrow> no_subscriptions | Some r \<Rightarrow> md_objects s ! r)"

lemma wf_market_ref: "wf_market s \<Longrightarrow> dict_get (md_standing s) a = Some r \<Longrightarrow> r < length (md_objects s)"
  by (auto simp: wf_market_def list_all_iff dest: map_of_SomeD)

lemma wf_market_inj:
  assumes "wf_market s" "dict_get (md_standing s) a = Some r" "dict_get (md_standing s) b = Some r"
  shows "a = b"
proof -
  have "(a, r) \<in> set (md_standing s)" "(b, r) \<in> set (md_standing s)" using assms(2,3) by (auto dest: map_of_SomeD)
  with assms(1) show ?thesis
    by (auto simp: wf_market_def distinct_map dest: inj_onD [where x = "(a, r)" and y = "(b, r)"])
qed

lemma dict_set_fresh: "dict_get d k = None \<Longrightarrow> dict_set k v d = d @ [(k, v)]"
  by (induction d) (auto split: if_splits)

lemma wf_market_standing_for: "wf_market s \<Longrightarrow> wf_market (snd (standing_for a s))"
  by (auto simp: wf_market_def standing_for_def dict_set_fresh list_all_iff wf_dict_def map_of_eq_None_iff split: option.splits)

lemma standing_for_ref: "wf_market s \<Longrightarrow> fst (standing_for a s) < length (md_objects (snd (standing_for a s)))"
  by (auto simp: standing_for_def wf_market_ref split: option.splits)

lemma wf_market_update [simp]: "wf_market s \<Longrightarrow> wf_market (update_standing a f s)"
  using wf_market_standing_for [of s a] by (auto simp: update_standing_def wf_market_def split: prod.splits)

lemma wf_market_forget [simp]: "wf_market s \<Longrightarrow> wf_market (forget a s)"
  by (auto simp: wf_market_def forget_def list_all_iff dict.wf_pop [unfolded AList.delete_eq] AList.delete_eq distinct_map_filter)

lemma standing_of_forget: "standing_of b (forget a s) = (if b = a then no_subscriptions else standing_of b s)"
  by (simp add: standing_of_def forget_def dict.get_pop split: option.split)

lemma standing_of_standing_for: "wf_market s \<Longrightarrow> standing_of b (snd (standing_for a s)) = standing_of b s"
  by (auto simp: standing_of_def standing_for_def dict.get_assign nth_append wf_market_ref split: option.splits)

lemma update_standing_noop:
  "wf_market s \<Longrightarrow> dict_get (md_standing s) a = Some r \<Longrightarrow> f (md_objects s ! r) = md_objects s ! r \<Longrightarrow>
    update_standing a f s = s"
  by (simp add: update_standing_def standing_for_def)

lemma standing_of_update:
  assumes "wf_market s"
  shows "standing_of b (update_standing a f s) = (if b = a then f (standing_of a s) else standing_of b s)"
proof -
  obtain r s' where rs: "standing_for a s = (r, s')" by force
  have s': "wf_market s'" "dict_get (md_standing s') a = Some r" "\<And>b. standing_of b s' = standing_of b s"
    using wf_market_standing_for [OF assms, of a] standing_of_standing_for [OF assms, of _ a] rs
    by (auto simp: standing_for_def dict.get_assign split: option.splits)
  have r: "r < length (md_objects s')" using s' by (auto dest: wf_market_ref)
  have "standing_of b (update_standing a f s) = (if b = a then f (standing_of a s') else standing_of b s')"
  proof (cases "dict_get (md_standing s') b")
    case (Some q)
    then have "b \<noteq> a \<Longrightarrow> q \<noteq> r" using wf_market_inj [OF s'(1,2)] by blast
    then show ?thesis using Some r s'(2) by (cases "b = a") (simp_all add: update_standing_def rs standing_of_def)
  qed (use s'(2) in \<open>auto simp: update_standing_def rs standing_of_def\<close>)
  then show ?thesis using s'(3) by simp
qed

lemma period_inverse: "dict_get PERIOD_MAP (index PERIOD_TO_PROTO p) = Some p"
  by (cases p) (simp_all add: PERIOD_MAP_def PERIOD_TO_PROTO_def index_def)


subsection \<open>What a restoration does\<close>

text \<open>The specification: the requests in order, up to the first that fails.\<close>

definition restore_requests :: "int \<Rightarrow> standing_subscriptions \<Rightarrow> (request \<times> reply_class) list" where
  "restore_requests a d =
     (if sd_spots d = [] then [] else [(ProtoOASubscribeSpotsReq a (sort (sd_spots d)) True, Cls_ProtoOASubscribeSpotsRes)]) @
     map (\<lambda>(sym, p). (ProtoOASubscribeLiveTrendbarReq a (index PERIOD_TO_PROTO p) sym, Cls_ProtoOASubscribeLiveTrendbarRes))
       (sorted_trendbars (sd_trendbars d)) @
     (if sd_depth d = [] then [] else [(ProtoOASubscribeDepthQuotesReq a (sort (sd_depth d)), Cls_ProtoOASubscribeDepthQuotesRes)])"

fun until_refused :: "(request \<Rightarrow> message res) \<Rightarrow> (request \<times> reply_class) list \<Rightarrow> request list \<times> exn option" where
  "until_refused answer [] = ([], None)"
| "until_refused answer ((q, cls) # qs) =
     (case narrow (ClsReply cls) (answer q) of
        Inl e \<Rightarrow> ([q], Some e)
      | Inr _ \<Rightarrow> apfst (Cons q) (until_refused answer qs))"

lemma until_refused_append:
  "until_refused answer (qs @ rs) =
     (case until_refused answer qs of (sent, Some e) \<Rightarrow> (sent, Some e) | (sent, None) \<Rightarrow> apfst ((@) sent) (until_refused answer rs))"
  by (induction answer qs rule: until_refused.induct)
    (auto simp: apfst_def map_prod_def split: sum.splits prod.splits option.splits)

text \<open>A task that sends such a list of requests and leaves the state alone.\<close>

definition sends :: "(request \<Rightarrow> message res) \<Rightarrow> (credentials \<Rightarrow> unit res) \<Rightarrow> (request \<times> reply_class) list \<Rightarrow> 's \<Rightarrow> ('s, unit) co \<Rightarrow> bool" where
  "sends answer saved qs s c \<longleftrightarrow> quiet_run answer saved c =
     (case until_refused answer qs of (sent, err) \<Rightarrow>
        (map Requested sent, case err of None \<Rightarrow> Inr () | Some e \<Rightarrow> Inl e, s))"

lemma sends_done [simp]: "sends answer saved [] s (Return (Inr ()) s)"
  by (simp add: sends_def)

lemma sends_one:
  "upd s = s \<Longrightarrow> sends answer saved [(q, cls)] s (co_bind (co_request q cls t s) (\<lambda>_ s'. Return (Inr ()) (upd s')))"
  by (auto simp: sends_def quiet_run_bind split: sum.splits)

lemma sends_bind:
  assumes "sends answer saved qs s c" "sends answer saved rs s (f () s)"
  shows "sends answer saved (qs @ rs) s (co_bind c f)"
  using assms by (auto simp: sends_def quiet_run_bind until_refused_append split: prod.splits option.splits)

lemma list_union_subset: "set ys \<subseteq> set xs \<Longrightarrow> List.union ys xs = xs"
  by (induction ys arbitrary: xs) (auto simp: List.union_def)

lemma restore_spots_sends:
  assumes held: "wf_market s" "dict_get (md_standing s) a = Some r"
  shows "sends answer saved [(ProtoOASubscribeSpotsReq a (sort (sd_spots (md_objects s ! r))) True, Cls_ProtoOASubscribeSpotsRes)] s
     (subscribe_spots a (sort (sd_spots (md_objects s ! r))) t s)"
  unfolding subscribe_spots_def
  by (rule sends_one) (rule update_standing_noop [OF held], simp add: list_union_subset)

lemma restore_depth_sends:
  assumes held: "wf_market s" "dict_get (md_standing s) a = Some r"
  shows "sends answer saved [(ProtoOASubscribeDepthQuotesReq a (sort (sd_depth (md_objects s ! r))), Cls_ProtoOASubscribeDepthQuotesRes)] s
     (subscribe_depth a (sort (sd_depth (md_objects s ! r))) t s)"
  unfolding subscribe_depth_def
  by (rule sends_one) (rule update_standing_noop [OF held], simp add: list_union_subset)

lemma restore_trendbars_sends:
  assumes held: "wf_market s" "dict_get (md_standing s) a = Some r"
  assumes items: "set items \<subseteq> set (sd_trendbars (md_objects s ! r))"
  shows "sends answer saved (map (\<lambda>(sym, p). (ProtoOASubscribeLiveTrendbarReq a (index PERIOD_TO_PROTO p) sym,
      Cls_ProtoOASubscribeLiveTrendbarRes)) items) s (restore_trendbars a items s)"
  using items
proof (induction items)
  case (Cons item items)
  obtain sym p where item: "item = (sym, p)" by force
  have "sends answer saved [(ProtoOASubscribeLiveTrendbarReq a (index PERIOD_TO_PROTO p) sym, Cls_ProtoOASubscribeLiveTrendbarRes)]
      s (subscribe_trendbars a sym p None s)"
    unfolding subscribe_trendbars_def
    by (rule sends_one) (rule update_standing_noop [OF held], use Cons.prems item in simp)
  then have "sends answer saved ([(ProtoOASubscribeLiveTrendbarReq a (index PERIOD_TO_PROTO p) sym, Cls_ProtoOASubscribeLiveTrendbarRes)] @
      map (\<lambda>(sym, p). (ProtoOASubscribeLiveTrendbarReq a (index PERIOD_TO_PROTO p) sym, Cls_ProtoOASubscribeLiveTrendbarRes)) items)
      s (co_bind (subscribe_trendbars a sym p None s) (\<lambda>_. restore_trendbars a items))"
    by (rule sends_bind) (use Cons in simp)
  then show ?case by (simp add: item)
qed simp

lemma restore_body_sends:
  assumes held: "wf_market s" "dict_get (md_standing s) a = Some r"
  shows "sends answer saved (restore_requests a (md_objects s ! r)) s
     (co_bind
        (if sd_spots (md_objects s ! r) \<noteq> [] then subscribe_spots a (sort (sd_spots (md_objects s ! r))) None s else Return (Inr ()) s)
        (\<lambda>_ s1. co_bind (restore_trendbars a (sorted_trendbars (sd_trendbars (md_objects s1 ! r))) s1)
        (\<lambda>_ s2. if sd_depth (md_objects s2 ! r) \<noteq> []
          then subscribe_depth a (sort (sd_depth (md_objects s2 ! r))) None s2 else Return (Inr ()) s2)))"
  unfolding restore_requests_def
  using restore_spots_sends [OF held] restore_depth_sends [OF held]
  by (intro sends_bind restore_trendbars_sends [OF held]) (simp_all add: sorted_trendbars_def)

lemma quiet_run_restore:
  assumes "wf_market s"
  shows "quiet_run answer saved (restore a s) =
    (case until_refused answer (restore_requests a (standing_of a s)) of (sent, err) \<Rightarrow>
       (map Requested sent @ (case err of None \<Rightarrow> [] | Some e \<Rightarrow> [Emitted (SubscriptionRestoreFailedEvent a e)]), Inr (), s))"
proof (cases "dict_get (md_standing s) a")
  case None
  then show ?thesis
    by (simp add: restore_def standing_of_def restore_requests_def no_subscriptions_def sorted_trendbars_def)
next
  case (Some r)
  from restore_body_sends [OF assms Some, of answer saved] Some show ?thesis
    by (auto simp: restore_def standing_of_def quiet_run_try sends_def split: prod.splits option.splits)
qed

text \<open>Under interference: restoring suspends only for its requests, and its failure is an event, never an exception.\<close>

lemma always_acknowledged:
  assumes "I s" "\<And>s s'. I s \<Longrightarrow> rely s s' \<Longrightarrow> I s'" "\<And>s. I s \<Longrightarrow> I (upd s)"
  shows "always rely I Q (\<lambda>_ _. True) (co_bind (co_request q cls t s) (\<lambda>_ s'. Return (Inr ()) (upd s')))"
  by (rule always_bind [where S = "\<lambda>_ _. True"]) (use assms in \<open>auto split: sum.splits\<close>)

lemma always_restore_trendbars:
  assumes rely: "\<And>s s'. I s \<Longrightarrow> rely s s' \<Longrightarrow> I s'" and upd: "\<And>f s. I s \<Longrightarrow> I (update_standing a f s)"
  shows "I s \<Longrightarrow> always rely I Q (\<lambda>_ _. True) (restore_trendbars a items s)"
proof (induction items arbitrary: s)
  case (Cons item items)
  obtain sym p where item: "item = (sym, p)" by force
  have "always rely I Q (\<lambda>_ _. True) (subscribe_trendbars a sym p None s)"
    unfolding subscribe_trendbars_def by (rule always_acknowledged) (use Cons.prems rely upd in auto)
  then show ?case unfolding item restore_trendbars.simps
    by (intro always_bind [where S = "\<lambda>_ _. True"]) (auto intro: Cons.IH elim!: always_mono split: sum.splits)
qed simp

lemma always_restore:
  assumes rely: "\<And>s s'. I s \<Longrightarrow> rely s s' \<Longrightarrow> I s'" and upd: "\<And>f s. I s \<Longrightarrow> I (update_standing a f s)"
    and "I s" and failed: "\<And>e s. I s \<Longrightarrow> Q (SubscriptionRestoreFailedEvent a e) s"
  shows "always rely I Q (\<lambda>r _. r = Inr ()) (restore a s)"
proof (cases "dict_get (md_standing s) a")
  case (Some r)
  have spots: "I s \<Longrightarrow> always rely I Q (\<lambda>_ _. True) (subscribe_spots a ids t s)"
    and depth: "I s \<Longrightarrow> always rely I Q (\<lambda>_ _. True) (subscribe_depth a ids t s)" for ids t s
    unfolding subscribe_spots_def subscribe_depth_def by (rule always_acknowledged; use rely upd in auto)+
  have any: "always rely I Q (\<lambda>_ _. True) (co_bind c f)"
    if "always rely I Q (\<lambda>_ _. True) c" "\<And>u s. I s \<Longrightarrow> always rely I Q (\<lambda>_ _. True) (f u s)" for c f
    by (rule always_bind [where S = "\<lambda>_ _. True"]) (use that in \<open>auto elim!: always_mono split: sum.splits\<close>)
  have bars: "I s \<Longrightarrow> always rely I Q (\<lambda>_ _. True) (restore_trendbars a items s)" for items s
    by (rule always_restore_trendbars) (use rely upd in auto)
  show ?thesis unfolding restore_def Some option.case
  proof (rule always_try [where S = "\<lambda>_ _. True"], rule always_mono [where R = "\<lambda>_ _. True" and I = I and Q = Q])
    show "always rely I Q (\<lambda>_ _. True)
      (co_bind (if sd_spots (md_objects s ! r) \<noteq> [] then subscribe_spots a (sort (sd_spots (md_objects s ! r))) None s
                else Return (Inr ()) s)
        (\<lambda>_ s1. co_bind (restore_trendbars a (sorted_trendbars (sd_trendbars (md_objects s1 ! r))) s1)
        (\<lambda>_ s2. if sd_depth (md_objects s2 ! r) \<noteq> []
          then subscribe_depth a (sort (sd_depth (md_objects s2 ! r))) None s2 else Return (Inr ()) s2)))"
      by (intro any) (use \<open>I s\<close> spots depth bars in auto)
  qed (use failed rely in \<open>auto split: sum.splits\<close>)
qed (simp add: restore_def \<open>I s\<close>)

subsection \<open>Restoration is faithful\<close>

text \<open>
  C13: restoring an account re-applies exactly what it asked for: the spots of all its symbols in
  one request, then its trendbars one by one in order of symbol and period name, then its depth
  subscriptions. It stops at the first request that fails, which it reports by one event and never
  by an exception, and the record of what the account asked for is unchanged, so the next session
  is restored from it again.
\<close>

theorem restore_trace:
  assumes "wf_market s"
  shows "quiet_run answer saved (restore a s) =
    (case until_refused answer (restore_requests a (standing_of a s)) of (sent, err) \<Rightarrow>
       (map Requested sent @ (case err of None \<Rightarrow> [] | Some e \<Rightarrow> [Emitted (SubscriptionRestoreFailedEvent a e)]), Inr (), s))"
  using assms by (rule quiet_run_restore)

definition sample_market :: market_data where
  "sample_market = \<lparr>md_default_timeout = 30, md_standing = [(7, 0)],
     md_objects = [\<lparr>sd_spots = [271, 270], sd_trendbars = [(270, H1), (270, D1)], sd_depth = [270]\<rparr>]\<rparr>"

text \<open>A server that accepts spots and the daily bars and refuses hourly bars.\<close>

definition sample_answer :: "request \<Rightarrow> message res" where
  "sample_answer q = (case q of
     ProtoOASubscribeSpotsReq a _ _ \<Rightarrow> Inr (Reply (ProtoOASubscribeSpotsRes a))
   | ProtoOASubscribeLiveTrendbarReq a p _ \<Rightarrow>
       if p = 12 then Inr (Reply (ProtoOASubscribeLiveTrendbarRes a)) else Inl TimeoutError
   | _ \<Rightarrow> Inl TimeoutError)"

theorem restore_trace_witness:
  "quiet_run sample_answer (\<lambda>_. Inr ()) (restore 7 sample_market) =
    ([Requested (ProtoOASubscribeSpotsReq 7 [270, 271] True), Requested (ProtoOASubscribeLiveTrendbarReq 7 12 270),
      Requested (ProtoOASubscribeLiveTrendbarReq 7 9 270), Emitted (SubscriptionRestoreFailedEvent 7 TimeoutError)],
     Inr (), sample_market)"
proof -
  have "sorted_trendbars [(270, H1), (270, D1)] = [(270, D1), (270, H1)]" by code_simp
  moreover have "wf_market sample_market" by (simp add: wf_market_def sample_market_def wf_dict_def)
  note restore_trace [OF this, of sample_answer "\<lambda>_. Inr ()" 7]
  ultimately show ?thesis
    by (simp add: standing_of_def restore_requests_def sample_market_def sample_answer_def narrow_def PERIOD_TO_PROTO_def index_def)
qed

text \<open>
  However its awaits interleave with other tasks that keep the records well formed (subscribing,
  forgetting, other restorations), a restoration keeps them well formed, returns without an
  exception and emits nothing but the report of its own failure.
\<close>

theorem restore_interleaved:
  assumes "wf_market s"
  shows "always (keeps wf_market) wf_market (\<lambda>e _. \<exists>err. e = SubscriptionRestoreFailedEvent a err) (\<lambda>r _. r = Inr ()) (restore a s)"
  by (rule always_restore) (use assms in auto)

theorem restore_interleaved_witness:
  "always (keeps wf_market) wf_market (\<lambda>e _. \<exists>err. e = SubscriptionRestoreFailedEvent 7 err) (\<lambda>r _. r = Inr ()) (restore 7 sample_market)"
  by (rule restore_interleaved) (simp add: wf_market_def sample_market_def wf_dict_def)

end
