(* ===== verification/Auth.thy ===== *)
theory Auth
  imports Market_Data
begin

text \<open>
  \<open>auth/manager.py\<close>: the exchanges that authenticate the application and turn credentials into
  sessions. The state is that of the market data component, which is the session restorer, with
  the session store and the manager's own fields; \<open>w_time\<close> is what \<open>time.time()\<close> and \<open>w_now\<close> what
  the monotonic clock reads when the task runs.
\<close>

record auth_state = market_data +
  w_time :: rat
  w_now :: rat
  w_store :: session_store
  au_client_id :: string
  au_client_secret :: string
  au_app_authenticated :: bool
  au_restorer :: bool

text \<open>\<open>except APIError as e: raise f(e)\<close>: other exceptions pass.\<close>

fun raise_api_as :: "(api_error \<Rightarrow> exn) \<Rightarrow> exn \<Rightarrow> exn" where
  "raise_api_as f (APIError e) = f e"
| "raise_api_as f e = e"

definition co_translate :: "(exn \<Rightarrow> exn) \<Rightarrow> ('s, 'a) co \<Rightarrow> ('s, 'a) co" where
  "co_translate f c = co_try c (\<lambda>e. Return (Inl (f e)))"

subsection \<open>Operations\<close>

definition is_account_authorized :: "int \<Rightarrow> 'z auth_state_scheme \<Rightarrow> bool" where
  "is_account_authorized account_id s = is_authorized account_id (w_store s)"

definition authenticated_accounts :: "'z auth_state_scheme \<Rightarrow> int list" where
  "authenticated_accounts s = account_ids (w_store s)"

definition authorized_accounts :: "'z auth_state_scheme \<Rightarrow> int list" where
  "authorized_accounts s = authorized_ids (w_store s)"

definition get_credentials :: "int \<Rightarrow> 'z auth_state_scheme \<Rightarrow> credentials option" where
  "get_credentials account_id s = credentials_of account_id (w_store s)"

definition authenticate_app :: "rat \<Rightarrow> 'z auth_state_scheme \<Rightarrow> ('z auth_state_scheme, unit) co" where
  "authenticate_app timeout s =
     co_bind
       (co_translate (raise_api_as (\<lambda>e. ApplicationAuthError (ae_error_code e) (ae_description e)))
          (co_request (ProtoOAApplicationAuthReq (au_client_id s) (au_client_secret s)) Cls_ProtoOAApplicationAuthRes timeout s))
       (\<lambda>_ s'. Return (Inr ()) (s'\<lparr>au_app_authenticated := True\<rparr>))"

definition establish_refusal :: "int \<Rightarrow> api_error \<Rightarrow> exn" where
  "establish_refusal account_id e =
     (if is_token_failure e then TokenExpiredError (Some account_id)
      else AccountAuthError (ae_error_code e) (ae_description e) (Some account_id))"

text \<open>The part of \<open>establish\<close> after the server accepted the account.\<close>

definition establish_accepted ::
  "credentials \<Rightarrow> auth_trigger \<Rightarrow> 'z auth_state_scheme \<Rightarrow> ('z auth_state_scheme, unit) co" where
  "establish_accepted cr trigger s =
     (let s' = s\<lparr>w_store := authorize cr (w_store s)\<rparr> in
      if trigger \<noteq> TOKEN_REFRESH
      then co_bind (if au_restorer s' then restore (cr_account_id cr) s' else Return (Inr ()) s')
             (\<lambda>_. co_emit (ReadyEvent (cr_account_id cr) trigger))
      else Return (Inr ()) s')"

definition establish ::
  "credentials \<Rightarrow> auth_trigger \<Rightarrow> rat \<Rightarrow> 'z auth_state_scheme \<Rightarrow> ('z auth_state_scheme, unit) co" where
  "establish cr trigger timeout s =
     (if is_expired (w_time s) cr then Return (Inl (TokenExpiredError (Some (cr_account_id cr)))) s
      else co_bind
        (co_translate (raise_api_as (establish_refusal (cr_account_id cr)))
           (co_request (ProtoOAAccountAuthReq (cr_account_id cr) (cr_access_token cr)) Cls_ProtoOAAccountAuthRes timeout s))
        (\<lambda>_. establish_accepted cr trigger))"

definition authenticate_trader :: "credentials \<Rightarrow> rat \<Rightarrow> 'z auth_state_scheme \<Rightarrow> ('z auth_state_scheme, unit) co" where
  "authenticate_trader cr timeout = establish cr INITIAL timeout"

text \<open>What \<open>probe_session\<close> makes of the reply: a refusal naming the token is raised, any other one means no.\<close>

fun probe_verdict :: "message res \<Rightarrow> bool res" where
  "probe_verdict (Inr _) = Inr True"
| "probe_verdict (Inl (APIError e)) = (if is_token_failure e then Inl (APIError e) else Inr False)"
| "probe_verdict (Inl e) = Inl e"

definition probe_session :: "int \<Rightarrow> rat \<Rightarrow> 'z auth_state_scheme \<Rightarrow> ('z auth_state_scheme, bool) co" where
  "probe_session account_id timeout s =
     co_then (co_request (ProtoOATraderReq account_id) Cls_ProtoOATraderRes timeout s) (\<lambda>r. Return (probe_verdict r))"

definition remove_account :: "int \<Rightarrow> 'z auth_state_scheme \<Rightarrow> bool \<times> 'z auth_state_scheme" where
  "remove_account account_id s =
     (case remove_account_entry account_id (w_store s) of (held, st) \<Rightarrow>
        let s' = s\<lparr>w_store := st\<rparr> in
        if held then (True, if au_restorer s' then forget account_id s' else s') else (False, s'))"

subsection \<open>Invariant\<close>

definition wf_auth :: "'z auth_state_scheme \<Rightarrow> bool" where
  "wf_auth s \<longleftrightarrow> wf_store (w_store s) \<and> wf_market s"

lemma wf_market_store [simp]: "wf_market (s\<lparr>w_store := st\<rparr>) \<longleftrightarrow> wf_market s"
  by (simp add: wf_market_def)

lemma store_update_standing [simp]: "w_store (update_standing a f s) = w_store s" "w_time (update_standing a f s) = w_time s"
  by (simp_all add: update_standing_def standing_for_def split: option.splits)

lemma store_forget [simp]: "w_store (forget a s) = w_store s"
  by (simp add: forget_def)

lemma wf_auth_intros [intro]:
  "wf_auth s \<Longrightarrow> wf_auth (update_standing a f s)"
  "wf_auth s \<Longrightarrow> wf_auth (s\<lparr>w_store := authorize cr (w_store s)\<rparr>)"
  "wf_auth s \<Longrightarrow> wf_auth (s\<lparr>w_store := replace_credentials cr (w_store s)\<rparr>)"
  "wf_auth s \<Longrightarrow> wf_auth (s\<lparr>w_store := invalidate_all (w_store s)\<rparr>)"
  "wf_auth s \<Longrightarrow> wf_auth (s\<lparr>w_store := snd (flag_for_recovery a (w_store s))\<rparr>)"
  "wf_auth s \<Longrightarrow> wf_auth (s\<lparr>w_store := reschedule_recovery a w (w_store s)\<rparr>)"
  "wf_auth s \<Longrightarrow> wf_auth (s\<lparr>w_store := begin_refresh a (w_store s)\<rparr>)"
  "wf_auth s \<Longrightarrow> wf_auth (s\<lparr>w_store := snd (end_refresh a (w_store s))\<rparr>)"
  by (simp_all add: wf_auth_def wf_store_ops)

lemma wf_auth_remove: "wf_auth s \<Longrightarrow> wf_auth (snd (remove_account a s))"
  using wf_store_ops(3) [of "w_store s" a]
  by (auto simp: wf_auth_def remove_account_def Let_def split: prod.splits if_splits)

lemma wf_auth_app [simp]: "wf_auth (s\<lparr>au_app_authenticated := b\<rparr>) \<longleftrightarrow> wf_auth s"
  by (simp add: wf_auth_def wf_market_def)

subsection \<open>Runs without interference\<close>

lemma quiet_run_translate:
  "quiet_run answer saved (co_translate f c) =
     (case quiet_run answer saved c of (es, r, s) \<Rightarrow> (es, map_sum f id r, s))"
  by (simp add: co_translate_def quiet_run_try split: prod.splits sum.splits)

text \<open>What the server's answer makes of an attempt to authorize an account at a time: the error, if any.\<close>

definition establish_error :: "(request \<Rightarrow> message res) \<Rightarrow> rat \<Rightarrow> credentials \<Rightarrow> exn option" where
  "establish_error answer time cr =
     (if is_expired time cr then Some (TokenExpiredError (Some (cr_account_id cr)))
      else case narrow (ClsReply Cls_ProtoOAAccountAuthRes)
                  (answer (ProtoOAAccountAuthReq (cr_account_id cr) (cr_access_token cr))) of
             Inl e \<Rightarrow> Some (raise_api_as (establish_refusal (cr_account_id cr)) e)
           | Inr _ \<Rightarrow> None)"

definition restore_effects :: "(request \<Rightarrow> message res) \<Rightarrow> int \<Rightarrow> standing_subscriptions \<Rightarrow> effect list" where
  "restore_effects answer a d =
     (case until_refused answer (restore_requests a d) of (sent, err) \<Rightarrow>
        map Requested sent @ (case err of None \<Rightarrow> [] | Some e \<Rightarrow> [Emitted (SubscriptionRestoreFailedEvent a e)]))"

definition establish_effects :: "(request \<Rightarrow> message res) \<Rightarrow> credentials \<Rightarrow> auth_trigger \<Rightarrow> 'z auth_state_scheme \<Rightarrow> effect list" where
  "establish_effects answer cr trigger s =
     (if is_expired (w_time s) cr then []
      else Requested (ProtoOAAccountAuthReq (cr_account_id cr) (cr_access_token cr)) #
        (if establish_error answer (w_time s) cr = None \<and> trigger \<noteq> TOKEN_REFRESH
         then (if au_restorer s then restore_effects answer (cr_account_id cr) (standing_of (cr_account_id cr) s) else []) @
              [Emitted (ReadyEvent (cr_account_id cr) trigger)]
         else []))"

lemma standing_of_store [simp]: "standing_of a (s\<lparr>w_store := st\<rparr>) = standing_of a s"
  by (simp add: standing_of_def split: option.split)

lemma quiet_run_establish:
  assumes "wf_auth s"
  shows "quiet_run answer saved (establish cr trigger timeout s) =
    (establish_effects answer cr trigger s,
     case establish_error answer (w_time s) cr of
       Some e \<Rightarrow> (Inl e, s)
     | None \<Rightarrow> (Inr (), s\<lparr>w_store := authorize cr (w_store s)\<rparr>))"
proof (cases "is_expired (w_time s) cr")
  case False
  let ?s = "s\<lparr>w_store := authorize cr (w_store s)\<rparr>"
  have "wf_market ?s" using assms by (simp add: wf_auth_def)
  from quiet_run_restore [OF this, of answer saved "cr_account_id cr"] have
    "quiet_run answer saved (restore (cr_account_id cr) ?s) =
      (restore_effects answer (cr_account_id cr) (standing_of (cr_account_id cr) s), Inr (), ?s)"
    by (simp add: restore_effects_def split: prod.splits)
  with False show ?thesis
    by (cases "answer (ProtoOAAccountAuthReq (cr_account_id cr) (cr_access_token cr))")
      (auto simp: establish_def establish_accepted_def establish_effects_def establish_error_def quiet_run_bind
        quiet_run_translate Let_def split: sum.splits)
qed (simp add: establish_def establish_effects_def establish_error_def)

subsection \<open>Every interleaving\<close>

lemma always_translate:
  "always rely I Q (\<lambda>r s. R (map_sum f id r) s) c \<Longrightarrow> always rely I Q R (co_translate f c)"
  unfolding co_translate_def by (rule always_try [where S = "\<lambda>e s. R (Inl (f e)) s"]) (auto elim!: always_mono split: sum.splits)

lemma raise_api_as_not_api: "(\<And>e. \<not> is_api_error (f e)) \<Longrightarrow> \<not> is_api_error (raise_api_as f e)"
  by (cases e) auto

lemma establish_refusal_not_api [simp]: "\<not> is_api_error (establish_refusal a e)"
  by (simp add: establish_refusal_def)

text \<open>\<open>J\<close> is what holds once the account is authorized, \<open>I\<close> what holds all along.\<close>

lemma always_establish_accepted:
  assumes rely: "\<And>s s'. J s \<Longrightarrow> rely s s' \<Longrightarrow> J s'" and upd: "\<And>f s. J s \<Longrightarrow> J (update_standing (cr_account_id cr) f s)"
    and start: "J (s\<lparr>w_store := authorize cr (w_store s)\<rparr>)"
    and failed: "\<And>e s. J s \<Longrightarrow> trigger \<noteq> TOKEN_REFRESH \<Longrightarrow> Q (SubscriptionRestoreFailedEvent (cr_account_id cr) e) s"
    and ready: "\<And>s. J s \<Longrightarrow> trigger \<noteq> TOKEN_REFRESH \<Longrightarrow> Q (ReadyEvent (cr_account_id cr) trigger) s"
  shows "always rely J Q (\<lambda>r _. r = Inr ()) (establish_accepted cr trigger s)"
proof (cases "trigger = TOKEN_REFRESH")
  case False
  have r: "always rely J Q (\<lambda>r _. r = Inr ()) (restore (cr_account_id cr) s')" if "J s'" for s'
    by (rule always_restore) (use rely upd that failed False in auto)
  have "always rely J Q (\<lambda>r s. case r of Inl e \<Rightarrow> Inl e = Inr () | Inr a \<Rightarrow> True) (restore (cr_account_id cr) s')"
    if "J s'" for s' by (rule always_result [OF r [OF that]]) (auto split: sum.splits)
  then show ?thesis unfolding establish_accepted_def Let_def
    using False start ready rely by (auto intro!: always_bind [where S = "\<lambda>_ _. True"])
qed (simp add: establish_accepted_def start)

lemma always_establish:
  assumes relyI: "\<And>s s'. I s \<Longrightarrow> rely s s' \<Longrightarrow> I s'" and relyJ: "\<And>s s'. J s \<Longrightarrow> rely s s' \<Longrightarrow> J s'"
    and JI: "\<And>s. J s \<Longrightarrow> I s" and upd: "\<And>f s. J s \<Longrightarrow> J (update_standing (cr_account_id cr) f s)"
    and auth: "\<And>s. I s \<Longrightarrow> J (s\<lparr>w_store := authorize cr (w_store s)\<rparr>)" and "I s"
    and failed: "\<And>e s. J s \<Longrightarrow> trigger \<noteq> TOKEN_REFRESH \<Longrightarrow> Q (SubscriptionRestoreFailedEvent (cr_account_id cr) e) s"
    and ready: "\<And>s. J s \<Longrightarrow> trigger \<noteq> TOKEN_REFRESH \<Longrightarrow> Q (ReadyEvent (cr_account_id cr) trigger) s"
  shows "always rely I Q (\<lambda>r s. case r of Inl e \<Rightarrow> \<not> is_api_error e | Inr _ \<Rightarrow> J s) (establish cr trigger timeout s)"
proof (cases "is_expired (w_time s) cr")
  case False
  have acc: "always rely I Q (\<lambda>r s. case r of Inl e \<Rightarrow> \<not> is_api_error e | Inr _ \<Rightarrow> J s) (establish_accepted cr trigger s')"
    if "I s'" for s'
    by (rule always_mono [OF always_establish_accepted [where J = J and Q = Q]])
      (use relyJ upd auth that failed ready JI in auto)
  have ok: "I s' \<and> (case map_sum (raise_api_as (establish_refusal (cr_account_id cr))) id (r :: message res) of
      Inl e \<Rightarrow> \<not> is_api_error e | Inr _ \<Rightarrow> True)" if "rely s s'" for r s'
    using relyI [OF \<open>I s\<close> that] by (cases r) (simp_all add: raise_api_as_not_api)
  have "always rely I Q (\<lambda>r s. case r of Inl e \<Rightarrow> \<not> is_api_error e | Inr _ \<Rightarrow> True)
      (co_translate (raise_api_as (establish_refusal (cr_account_id cr)))
        (co_request (ProtoOAAccountAuthReq (cr_account_id cr) (cr_access_token cr)) Cls_ProtoOAAccountAuthRes timeout s))"
    by (rule always_translate) (use \<open>I s\<close> ok in simp)
  then have "always rely I Q (\<lambda>r s. case r of Inl e \<Rightarrow> \<not> is_api_error e | Inr _ \<Rightarrow> J s)
      (co_bind (co_translate (raise_api_as (establish_refusal (cr_account_id cr)))
        (co_request (ProtoOAAccountAuthReq (cr_account_id cr) (cr_access_token cr)) Cls_ProtoOAAccountAuthRes timeout s))
        (\<lambda>_. establish_accepted cr trigger))"
    by (rule always_seq) (use acc in simp_all)
  with False show ?thesis by (simp add: establish_def)
qed (simp add: establish_def \<open>I s\<close>)

lemma always_establish_wf:
  assumes "wf_auth s"
    and "\<And>e s. wf_auth s \<Longrightarrow> trigger \<noteq> TOKEN_REFRESH \<Longrightarrow> Q (SubscriptionRestoreFailedEvent (cr_account_id cr) e) s"
    and "\<And>s. wf_auth s \<Longrightarrow> trigger \<noteq> TOKEN_REFRESH \<Longrightarrow> Q (ReadyEvent (cr_account_id cr) trigger) s"
  shows "always (keeps wf_auth) wf_auth Q (\<lambda>r s. case r of Inl e \<Rightarrow> \<not> is_api_error e | Inr _ \<Rightarrow> wf_auth s)
    (establish cr trigger timeout s)"
  by (rule always_establish) (use assms in auto)

lemma is_authorized_authorize [simp]: "is_authorized a (authorize cr st) \<longleftrightarrow> a = cr_account_id cr \<or> is_authorized a st"
  by (simp add: is_authorized_iff ss.sess_auth)

subsection \<open>Properties of authorization\<close>

definition sample_credentials :: credentials where
  "sample_credentials = \<lparr>cr_account_id = 7, cr_access_token = ''at'', cr_refresh_token = ''rt'', cr_expires_at = 100\<rparr>"

definition sample_auth :: auth_state where
  "sample_auth = \<lparr>md_default_timeout = 30, md_standing = [(7, 0)],
     md_objects = [\<lparr>sd_spots = [271, 270], sd_trendbars = [], sd_depth = []\<rparr>], w_time = 10, w_now = 0,
     w_store = authorize sample_credentials store_init, au_client_id = ''id'', au_client_secret = ''secret'',
     au_app_authenticated = True, au_restorer = True\<rparr>"

definition auth_answer :: "request \<Rightarrow> message res" where
  "auth_answer q = (case q of
     ProtoOAAccountAuthReq a _ \<Rightarrow> Inr (Reply (ProtoOAAccountAuthRes a)) | _ \<Rightarrow> sample_answer q)"

lemma wf_store_init: "wf_store store_init"
  by (simp add: wf_store_def store_init_def)

lemma wf_sample_auth: "wf_auth sample_auth"
  using wf_store_ops(1) [OF wf_store_init] by (simp add: wf_auth_def sample_auth_def wf_market_def wf_dict_def)

lemma sample_account [simp]: "cr_account_id sample_credentials = 7"
  by (simp add: sample_credentials_def)

text \<open>
  C12: what \<open>establish\<close> does on every branch. With expired credentials it raises before asking the
  server; a refusal that names the token is a \<open>TokenExpiredError\<close>, any other API error an
  \<open>AccountAuthError\<close> with its code and description, and other failures pass unchanged; none of
  these touches the store. When accepted, the account is authorized with these credentials, its
  subscriptions are restored before it is announced as ready, and a token refresh does neither.
\<close>

theorem establish_trace:
  assumes "wf_auth s"
  shows "quiet_run answer saved (establish cr trigger timeout s) =
    (let a = cr_account_id cr; q = ProtoOAAccountAuthReq a (cr_access_token cr) in
     if is_expired (w_time s) cr then ([], Inl (TokenExpiredError (Some a)), s)
     else case narrow (ClsReply Cls_ProtoOAAccountAuthRes) (answer q) of
         Inl (APIError e) \<Rightarrow> ([Requested q],
           Inl (if is_token_failure e then TokenExpiredError (Some a)
                else AccountAuthError (ae_error_code e) (ae_description e) (Some a)), s)
       | Inl e \<Rightarrow> ([Requested q], Inl e, s)
       | Inr _ \<Rightarrow> (Requested q #
           (if trigger = TOKEN_REFRESH then []
            else (if au_restorer s then restore_effects answer a (standing_of a s) else []) @ [Emitted (ReadyEvent a trigger)]),
           Inr (), s\<lparr>w_store := authorize cr (w_store s)\<rparr>))"
  unfolding quiet_run_establish [OF assms]
  by (auto simp: establish_effects_def establish_error_def establish_refusal_def Let_def split: sum.splits exn.splits)

theorem establish_trace_witness:
  "quiet_run auth_answer (\<lambda>_. Inr ()) (establish sample_credentials RECONNECT 30 sample_auth) =
    ([Requested (ProtoOAAccountAuthReq 7 ''at''), Requested (ProtoOASubscribeSpotsReq 7 [270, 271] True),
      Emitted (ReadyEvent 7 RECONNECT)], Inr (), sample_auth)"
  unfolding establish_trace [OF wf_sample_auth]
  by (simp add: sample_credentials_def is_expired_def sample_auth_def auth_answer_def sample_answer_def narrow_def
      restore_effects_def standing_of_def restore_requests_def sorted_trendbars_def authorize_def store_init_def)

text \<open>
  C16: under every interleaving with tasks that keep the state well formed and do not take this
  account's session away, authorizing keeps the state well formed, never raises an \<open>APIError\<close>, and
  announces the account as ready only while it is authorized and only for a trigger other than a
  token refresh; the one other event it may emit is the failure to restore subscriptions.
\<close>

theorem establish_announces:
  assumes "wf_auth s"
  shows "always
     (\<lambda>s s'. (wf_auth s \<longrightarrow> wf_auth s') \<and>
        (is_account_authorized (cr_account_id cr) s \<longrightarrow> is_account_authorized (cr_account_id cr) s'))
     wf_auth
     (\<lambda>e s. trigger \<noteq> TOKEN_REFRESH \<and>
        (e = ReadyEvent (cr_account_id cr) trigger \<and> is_account_authorized (cr_account_id cr) s \<or>
         (\<exists>err. e = SubscriptionRestoreFailedEvent (cr_account_id cr) err)))
     (\<lambda>r s. case r of Inl e \<Rightarrow> \<not> is_api_error e | Inr _ \<Rightarrow> is_account_authorized (cr_account_id cr) s)
     (establish cr trigger timeout s)"
  by (rule always_result, rule always_establish [where J = "\<lambda>s. wf_auth s \<and> is_account_authorized (cr_account_id cr) s"])
    (use assms in \<open>auto simp: is_account_authorized_def split: sum.splits\<close>)

theorem establish_announces_witness:
  "always
     (\<lambda>s s'. (wf_auth s \<longrightarrow> wf_auth s') \<and> (is_account_authorized 7 s \<longrightarrow> is_account_authorized 7 s'))
     wf_auth
     (\<lambda>e s. INITIAL \<noteq> TOKEN_REFRESH \<and>
        (e = ReadyEvent 7 INITIAL \<and> is_account_authorized 7 s \<or> (\<exists>err. e = SubscriptionRestoreFailedEvent 7 err)))
     (\<lambda>r s. case r of Inl e \<Rightarrow> \<not> is_api_error e | Inr _ \<Rightarrow> is_account_authorized 7 s)
     (establish sample_credentials INITIAL 30 sample_auth)"
  by (rule establish_announces [OF wf_sample_auth, of sample_credentials INITIAL 30, unfolded sample_account])

text \<open>
  The assumption about the session is needed. When the link drops while the subscriptions of
  a freshly authorized account are being restored, the sessions are discarded and the pending
  request fails; the account is then announced as ready although it holds no session.
\<close>

theorem ready_without_session:
  assumes "\<not> is_expired (w_time s) cr" "au_restorer s" "trigger \<noteq> TOKEN_REFRESH"
    and "dict_get (md_standing s) (cr_account_id cr) = Some r" "sd_spots (md_objects s ! r) \<noteq> []"
  shows "\<exists>s' k. drive (establish cr trigger timeout s)
      [(Answer (Inr (Reply (ProtoOAAccountAuthRes (cr_account_id cr)))), id),
       (Answer (Inl (ClosedError reason)), \<lambda>s. s\<lparr>w_store := invalidate_all (w_store s)\<rparr>), (Resume, id)] =
      Some (Emit (ReadyEvent (cr_account_id cr) trigger) s' k) \<and> \<not> is_account_authorized (cr_account_id cr) s'"
  using assms
  by (simp add: establish_def establish_accepted_def restore_def subscribe_spots_def co_translate_def co_bind_def co_try_def
      co_request_def co_emit_def narrow_def Let_def is_account_authorized_def is_authorized_iff ss.sess_invalidate)

theorem ready_without_session_witness:
  "\<exists>s' k. drive (establish sample_credentials RECONNECT 30 sample_auth)
      [(Answer (Inr (Reply (ProtoOAAccountAuthRes 7))), id),
       (Answer (Inl (ClosedError ''reset'')), \<lambda>s. s\<lparr>w_store := invalidate_all (w_store s)\<rparr>), (Resume, id)] =
      Some (Emit (ReadyEvent 7 RECONNECT) s' k) \<and> \<not> is_account_authorized 7 s'"
  using ready_without_session [of sample_auth sample_credentials RECONNECT 0 30 "''reset''"]
  by (simp add: sample_auth_def sample_credentials_def is_expired_def)

text \<open>
  An account that is removed while a request to authorize it is in flight is held again, and
  authorized, once the server accepts: the manager works on the credentials it started from.
\<close>

theorem removed_account_returns:
  assumes "\<not> is_expired (w_time s) cr"
  shows "\<exists>c. drive (establish cr trigger timeout s)
      [(Answer (Inr (Reply (ProtoOAAccountAuthRes (cr_account_id cr)))), \<lambda>s. snd (remove_account (cr_account_id cr) s))] = Some c \<and>
    is_account_authorized (cr_account_id cr) (co_state c) \<and> get_credentials (cr_account_id cr) (co_state c) = Some cr"
proof -
  have "w_store (co_state (establish_accepted cr trigger s')) = authorize cr (w_store s')" for s' :: "'a auth_state_scheme"
    by (rule always_state [OF always_establish_accepted [where rely = "(=)" and Q = "\<lambda>_ _. True"]]) simp_all
  with assms show ?thesis
    by (simp add: establish_def co_translate_def co_bind_def co_try_def co_request_def narrow_def is_account_authorized_def
        get_credentials_def ss.creds_auth)
qed

theorem removed_account_returns_witness:
  "\<exists>c. drive (establish sample_credentials RECONNECT 30 sample_auth)
      [(Answer (Inr (Reply (ProtoOAAccountAuthRes 7))), \<lambda>s. snd (remove_account 7 s))] = Some c \<and>
    is_account_authorized 7 (co_state c) \<and> get_credentials 7 (co_state c) = Some sample_credentials"
  using removed_account_returns [of sample_auth sample_credentials RECONNECT 30]
  by (simp add: sample_auth_def sample_credentials_def is_expired_def)

end
