(* ===== verification/Recovery.thy ===== *)
theory Recovery
  imports Auth
begin

text \<open>
  \<open>auth/_recovery.py\<close>: putting sessions back after the server or the link took them away. The
  recovery loop runs forever, so \<open>reauth_loop\<close> takes a bound on its passes; statements hold for
  every bound. \<open>show_exn\<close> is \<open>str(e)\<close>. Only the loop replaces the wake-up event, and it waits on
  the one it just read, so that event is the flag \<open>rc_reauth_signal\<close>. Cancellation by \<open>stop\<close> ends a
  task at one of its suspensions, which the statements about all suspensions cover.
\<close>

record recovery = auth_state +
  rc_policy :: reauth_policy
  rc_reauth_signal :: bool
  rc_verifying :: "int list"
  rc_app_auth_pending :: bool
  rc_app_auth_attempts :: int
  rc_app_auth_next_at :: rat
  rc_task_scope :: bool
  rc_running :: bool

definition AUTH_TIMEOUT :: rat where "AUTH_TIMEOUT = 30"
definition PROBE_TIMEOUT :: rat where "PROBE_TIMEOUT = 10"

subsection \<open>Serving\<close>

definition recovery_serve_enter :: "'z recovery_scheme \<Rightarrow> unit res \<times> 'z recovery_scheme" where
  "recovery_serve_enter s =
     (if rc_running s then (Inl (RuntimeError ''Session recovery monitor is already running''), s)
      else (Inr (), s\<lparr>rc_running := True, rc_task_scope := True\<rparr>))"

definition recovery_serve_exit :: "'z recovery_scheme \<Rightarrow> 'z recovery_scheme" where
  "recovery_serve_exit s =
     s\<lparr>rc_running := False, rc_task_scope := False, rc_app_auth_pending := False, w_store := invalidate_all (w_store s)\<rparr>"

text \<open>The result says whether the scope of the loop is cancelled.\<close>

definition recovery_stop :: "'z recovery_scheme \<Rightarrow> bool \<times> 'z recovery_scheme" where
  "recovery_stop s = (rc_task_scope s, s\<lparr>rc_running := False\<rparr>)"

subsection \<open>Reported disconnects\<close>

definition report_dropped :: "int \<Rightarrow> 'z recovery_scheme \<Rightarrow> ('z recovery_scheme, unit) co" where
  "report_dropped account_id s =
     co_emit (AccountDisconnectEvent account_id)
       (s\<lparr>w_store := snd (flag_for_recovery account_id (w_store s)), rc_reauth_signal := True\<rparr>)"

text \<open>The body of \<open>handle_account_disconnect\<close> after it waited for a refresh.\<close>

definition verify_disconnect :: "int \<Rightarrow> 'z recovery_scheme \<Rightarrow> ('z recovery_scheme, unit) co" where
  "verify_disconnect account_id s =
     (if credentials_of account_id (w_store s) = None \<or> \<not> is_authorized account_id (w_store s) then Return (Inr ()) s
      else if account_id \<in> set (rc_verifying s) then Return (Inr ()) s
      else co_then
        (co_then (probe_session account_id PROBE_TIMEOUT (s\<lparr>rc_verifying := List.insert account_id (rc_verifying s)\<rparr>))
           (\<lambda>alive s'. case alive of
              Inl e \<Rightarrow> Return (Inr ()) s'
            | Inr True \<Rightarrow> Return (Inr ()) s'
            | Inr False \<Rightarrow> report_dropped account_id s'))
        (\<lambda>r s'. Return r (s'\<lparr>rc_verifying := removeAll account_id (rc_verifying s')\<rparr>)))"

definition handle_account_disconnect :: "int \<Rightarrow> 'z recovery_scheme \<Rightarrow> ('z recovery_scheme, unit) co" where
  "handle_account_disconnect account_id s =
     (if is_refreshing account_id (w_store s) then WaitRefresh account_id s (verify_disconnect account_id)
      else verify_disconnect account_id s)"

subsection \<open>Backoff\<close>

text \<open>
  \<open>min_wait * 2 ** (attempts - 1)\<close> multiplies a float by an integer, which Python first converts
  to a float: from \<open>2 ** 1024\<close> on the conversion raises. Below, the product by a power of two is
  exact (or infinite, and then the minimum is \<open>max_wait\<close> all the same).
\<close>

definition backoff_delay :: "reauth_policy \<Rightarrow> int \<Rightarrow> rat res" where
  "backoff_delay policy attempts =
     (if attempts - 1 \<ge> 1024 then Inl OverflowError
      else Inr (min (ra_min_wait policy * 2 powi (attempts - 1)) (ra_max_wait policy)))"

definition defer_recovery :: "int \<Rightarrow> awaiting_recovery \<Rightarrow> 'z recovery_scheme \<Rightarrow> unit res \<times> 'z recovery_scheme" where
  "defer_recovery account_id state s =
     (let attempts = aw_attempts state + 1 in
      case backoff_delay (rc_policy s) attempts of
        Inl e \<Rightarrow> (Inl e, s)
      | Inr delay \<Rightarrow> (Inr (), s\<lparr>w_store := reschedule_recovery account_id
          \<lparr>aw_attempts = attempts, aw_next_attempt_at = w_now s + delay\<rparr> (w_store s)\<rparr>))"

definition defer_app_auth :: "'z recovery_scheme \<Rightarrow> unit res \<times> 'z recovery_scheme" where
  "defer_app_auth s =
     (let s' = s\<lparr>rc_app_auth_attempts := rc_app_auth_attempts s + 1\<rparr> in
      case backoff_delay (rc_policy s') (rc_app_auth_attempts s') of
        Inl e \<Rightarrow> (Inl e, s')
      | Inr delay \<Rightarrow> (Inr (), s'\<lparr>rc_app_auth_next_at := w_now s' + delay\<rparr>))"

definition flag_all :: "credentials list \<Rightarrow> session_store \<Rightarrow> session_store" where
  "flag_all crs st = foldl (\<lambda>st cr. snd (flag_for_recovery (cr_account_id cr) st)) st crs"

definition arm_app_auth_recovery :: "'z recovery_scheme \<Rightarrow> unit res \<times> 'z recovery_scheme" where
  "arm_app_auth_recovery s =
     (case defer_app_auth (s\<lparr>rc_app_auth_pending := True, rc_app_auth_attempts := 0\<rparr>) of
        (Inl e, s') \<Rightarrow> (Inl e, s')
      | (Inr _, s') \<Rightarrow> (Inr (), s'\<lparr>w_store := flag_all (all_credentials (w_store s')) (w_store s'), rc_reauth_signal := True\<rparr>))"

subsection \<open>The link\<close>

definition on_connection_lost :: "'z recovery_scheme \<Rightarrow> 'z recovery_scheme" where
  "on_connection_lost s = s\<lparr>rc_app_auth_pending := False, w_store := invalidate_all (w_store s)\<rparr>"

fun reauth_accounts ::
  "(exn \<Rightarrow> string) \<Rightarrow> credentials list \<Rightarrow> int list \<Rightarrow> (int \<times> string) list \<Rightarrow> 'z recovery_scheme \<Rightarrow> ('z recovery_scheme, unit) co" where
  "reauth_accounts show_exn [] restored failed s = co_emit (ReconnectedEvent True restored failed) s"
| "reauth_accounts show_exn (cr # crs) restored failed s =
     co_then (establish cr RECONNECT AUTH_TIMEOUT s) (\<lambda>r s'.
       case r of
         Inr _ \<Rightarrow> reauth_accounts show_exn crs (restored @ [cr_account_id cr]) failed s'
       | Inl e \<Rightarrow> reauth_accounts show_exn crs restored (failed @ [(cr_account_id cr, show_exn e)]) s')"

definition on_connection_restored :: "(exn \<Rightarrow> string) \<Rightarrow> 'z recovery_scheme \<Rightarrow> ('z recovery_scheme, unit) co" where
  "on_connection_restored show_exn s =
     co_then (authenticate_app AUTH_TIMEOUT s) (\<lambda>r s1.
       case r of
         Inl e \<Rightarrow> (case arm_app_auth_recovery s1 of
             (Inl e', s2) \<Rightarrow> Return (Inl e') s2
           | (Inr _, s2) \<Rightarrow> co_emit (ReconnectedEvent False [] []) s2)
       | Inr _ \<Rightarrow> reauth_accounts show_exn (all_credentials (w_store s1)) [] [] s1)"

subsection \<open>The recovery loop\<close>

definition retry_app_auth :: "'z recovery_scheme \<Rightarrow> ('z recovery_scheme, bool) co" where
  "retry_app_auth s =
     co_then (authenticate_app AUTH_TIMEOUT s) (\<lambda>r s'.
       case r of
         Inl e \<Rightarrow> (case defer_app_auth s' of (Inl e', s2) \<Rightarrow> Return (Inl e') s2 | (Inr _, s2) \<Rightarrow> Return (Inr False) s2)
       | Inr _ \<Rightarrow> Return (Inr True) (s'\<lparr>rc_app_auth_pending := False, rc_app_auth_attempts := 0\<rparr>))"

text \<open>One account that is due: recovered, recovered by some other route, or put off.\<close>

definition recover_account ::
  "int \<times> credentials \<times> awaiting_recovery \<Rightarrow> 'z recovery_scheme \<Rightarrow> ('z recovery_scheme, unit) co" where
  "recover_account entry s =
     (case entry of (account_id, cr, state) \<Rightarrow>
        co_try (establish cr ACCOUNT_REAUTH AUTH_TIMEOUT s) (\<lambda>e s'.
          if is_already_authorized e
          then co_emit (ReadyEvent account_id ACCOUNT_REAUTH) (s'\<lparr>w_store := authorize cr (w_store s')\<rparr>)
          else case defer_recovery account_id state s' of (r, s2) \<Rightarrow> Return r s2))"

fun recover_accounts ::
  "(int \<times> credentials \<times> awaiting_recovery) list \<Rightarrow> 'z recovery_scheme \<Rightarrow> ('z recovery_scheme, unit) co" where
  "recover_accounts [] s = Return (Inr ()) s"
| "recover_accounts (entry # due) s = co_bind (recover_account entry s) (\<lambda>_. recover_accounts due)"

definition soonest :: "(int \<times> credentials \<times> awaiting_recovery) list \<Rightarrow> rat" where
  "soonest queue = Min (set (map (\<lambda>(_, _, state). aw_next_attempt_at state) queue))"

text \<open>The part of a pass behind the application's authentication.\<close>

definition recover_due :: "'z recovery_scheme \<Rightarrow> ('z recovery_scheme, unit) co" where
  "recover_due s =
     (let queue = awaiting_recovery_queue (w_store s); now = w_now s;
          due = filter (\<lambda>(_, _, state). aw_next_attempt_at state \<le> now) queue in
      if queue = [] then WaitFlag None s (Return (Inr ()))
      else if due = [] then WaitFlag (Some (soonest queue - now)) s (Return (Inr ()))
      else recover_accounts due s)"

definition reauth_pass :: "'z recovery_scheme \<Rightarrow> ('z recovery_scheme, unit) co" where
  "reauth_pass s0 =
     (let s = s0\<lparr>rc_reauth_signal := False\<rparr> in
      if rc_app_auth_pending s
      then let waiting = rc_app_auth_next_at s - w_now s in
        if waiting > 0 then WaitFlag (Some waiting) s (Return (Inr ()))
        else co_bind (retry_app_auth s) (\<lambda>ok s'. if \<not> ok then Return (Inr ()) s' else recover_due s')
      else recover_due s)"

text \<open>\<open>Inr True\<close>: the loop has left because the monitor no longer runs; \<open>Inr False\<close>: the bound is reached.\<close>

fun reauth_loop :: "nat \<Rightarrow> 'z recovery_scheme \<Rightarrow> ('z recovery_scheme, bool) co" where
  "reauth_loop 0 s = Return (Inr False) s"
| "reauth_loop (Suc n) s =
     (if rc_running s then co_bind (reauth_pass s) (\<lambda>_. reauth_loop n) else Return (Inr True) s)"

subsection \<open>Invariant\<close>

lemma wf_auth_recovery [simp]:
  "wf_auth (s\<lparr>rc_reauth_signal := b\<rparr>) \<longleftrightarrow> wf_auth s" "wf_auth (s\<lparr>rc_verifying := v\<rparr>) \<longleftrightarrow> wf_auth s"
  "wf_auth (s\<lparr>rc_app_auth_pending := b\<rparr>) \<longleftrightarrow> wf_auth s" "wf_auth (s\<lparr>rc_app_auth_attempts := i\<rparr>) \<longleftrightarrow> wf_auth s"
  "wf_auth (s\<lparr>rc_app_auth_next_at := x\<rparr>) \<longleftrightarrow> wf_auth s" "wf_auth (s\<lparr>rc_running := b\<rparr>) \<longleftrightarrow> wf_auth s"
  "wf_auth (s\<lparr>rc_task_scope := b\<rparr>) \<longleftrightarrow> wf_auth s"
  by (simp_all add: wf_auth_def wf_market_def)

lemma backoff_error: "backoff_delay p n = Inl e \<Longrightarrow> e = OverflowError"
  by (simp add: backoff_delay_def split: if_splits)

lemma defer_recovery_wf:
  "wf_auth s \<Longrightarrow> wf_auth (snd (defer_recovery a w s))" "fst (defer_recovery a w s) = Inl e \<Longrightarrow> e = OverflowError"
  by (auto simp: defer_recovery_def Let_def wf_auth_intros(6) split: sum.splits dest: backoff_error)

lemma defer_app_auth_wf:
  "wf_auth s \<Longrightarrow> wf_auth (snd (defer_app_auth s))" "fst (defer_app_auth s) = Inl e \<Longrightarrow> e = OverflowError"
  by (auto simp: defer_app_auth_def Let_def split: sum.splits dest: backoff_error)

lemma always_authenticate_app:
  assumes "wf_auth s"
  shows "always (keeps wf_auth) wf_auth Q (\<lambda>_ _. True) (authenticate_app timeout s)"
  unfolding authenticate_app_def
  by (rule always_seq [where S = "\<lambda>_ _. True"], rule always_translate) (use assms in simp_all)

abbreviation only_overflow :: "'a res \<Rightarrow> 's \<Rightarrow> bool" where
  "only_overflow \<equiv> \<lambda>r _. \<forall>e. r = Inl e \<longrightarrow> e = OverflowError"

lemma always_retry_app_auth:
  assumes "wf_auth s"
  shows "always (keeps wf_auth) wf_auth Q only_overflow (retry_app_auth s)"
  unfolding retry_app_auth_def
proof (rule always_then [OF always_authenticate_app [OF assms]])
  fix r :: "unit res" and s' :: "'a recovery_scheme"
  assume "wf_auth s'"
  then show "always (keeps wf_auth) wf_auth Q only_overflow
    (case r of
       Inl e \<Rightarrow> (case defer_app_auth s' of (Inl e', s2) \<Rightarrow> Return (Inl e') s2 | (Inr _, s2) \<Rightarrow> Return (Inr False) s2)
     | Inr _ \<Rightarrow> Return (Inr True) (s'\<lparr>rc_app_auth_pending := False, rc_app_auth_attempts := 0\<rparr>))"
    using defer_app_auth_wf [of s'] by (cases "defer_app_auth s'") (auto split: sum.splits)
qed

definition recovery_event :: "event \<Rightarrow> bool" where
  "recovery_event e \<longleftrightarrow> (\<exists>a. e = ReadyEvent a ACCOUNT_REAUTH \<or> (\<exists>err. e = SubscriptionRestoreFailedEvent a err))"

lemma always_recover_account:
  assumes "wf_auth s"
  shows "always (keeps wf_auth) wf_auth (\<lambda>e _. recovery_event e) only_overflow (recover_account entry s)"
proof -
  obtain a cr w where entry: "entry = (a, cr, w)" by (cases entry) auto
  have est: "always (keeps wf_auth) wf_auth (\<lambda>e _. recovery_event e) (\<lambda>_ _. True) (establish cr ACCOUNT_REAUTH AUTH_TIMEOUT s)"
    by (rule always_result, rule always_establish_wf) (use assms in \<open>auto simp: recovery_event_def\<close>)
  have handler: "always (keeps wf_auth) wf_auth (\<lambda>e _. recovery_event e) only_overflow
      (if is_already_authorized e then co_emit (ReadyEvent a ACCOUNT_REAUTH) (s'\<lparr>w_store := authorize cr (w_store s')\<rparr>)
       else case defer_recovery a w s' of (r, s2) \<Rightarrow> Return r s2)" if "wf_auth s'" for e s'
    using that defer_recovery_wf(1) [of s' a w] defer_recovery_wf(2) [of a w s']
    by (cases "defer_recovery a w s'") (auto simp: recovery_event_def wf_auth_intros(2))
  show ?thesis unfolding recover_account_def entry prod.case co_try_def
    by (rule always_then [OF est]) (auto split: sum.split intro!: handler simp del: if_split_asm split del: if_split)
qed

lemma always_recover_accounts:
  "wf_auth s \<Longrightarrow> always (keeps wf_auth) wf_auth (\<lambda>e _. recovery_event e) only_overflow (recover_accounts due s)"
proof (induction due arbitrary: s)
  case (Cons entry due)
  show ?case unfolding recover_accounts.simps
    by (rule always_seq [OF always_recover_account [OF Cons.prems]]) (use Cons.IH in auto)
qed simp

lemma always_recover_due:
  "wf_auth s \<Longrightarrow> always (keeps wf_auth) wf_auth (\<lambda>e _. recovery_event e) only_overflow (recover_due s)"
  by (auto simp: recover_due_def Let_def intro: always_recover_accounts)

lemma always_reauth_pass:
  assumes "wf_auth s"
  shows "always (keeps wf_auth) wf_auth (\<lambda>e _. recovery_event e) only_overflow (reauth_pass s)"
proof -
  let ?s = "s\<lparr>rc_reauth_signal := False\<rparr>"
  have "always (keeps wf_auth) wf_auth (\<lambda>e _. recovery_event e) only_overflow
    (co_bind (retry_app_auth ?s) (\<lambda>ok s'. if \<not> ok then Return (Inr ()) s' else recover_due s'))"
    by (rule always_seq [OF always_retry_app_auth]) (use assms always_recover_due in auto)
  then show ?thesis using assms by (auto simp: reauth_pass_def Let_def intro: always_recover_due)
qed

lemma always_reauth_loop:
  "wf_auth s \<Longrightarrow> always (keeps wf_auth) wf_auth (\<lambda>e _. recovery_event e) only_overflow (reauth_loop n s)"
proof (induction n arbitrary: s)
  case (Suc n)
  have "always (keeps wf_auth) wf_auth (\<lambda>e _. recovery_event e) only_overflow (co_bind (reauth_pass s) (\<lambda>_. reauth_loop n))"
    by (rule always_seq [OF always_reauth_pass [OF Suc.prems]]) (use Suc.IH in auto)
  then show ?case using Suc.prems by simp
qed simp

subsection \<open>The recovery queue\<close>

lemma in_queue_iff:
  assumes "wf_store st"
  shows "(a, cr, w) \<in> set (awaiting_recovery_queue st) \<longleftrightarrow>
    credentials_of a st = Some cr \<and> session_of a st = Some (AwaitingRecovery w)"
proof -
  have "wf_dict (st_accounts st)" using assms by (simp add: wf_store_def)
  have "(a, cr, w) \<in> set (awaiting_recovery_queue st) \<longleftrightarrow>
      (\<exists>t. (a, t) \<in> set (st_accounts st) \<and> ta_credentials t = cr \<and> ta_session t = Some (AwaitingRecovery w))"
    by (force simp: awaiting_recovery_queue_def split: option.splits session.splits)
  also have "\<dots> \<longleftrightarrow> credentials_of a st = Some cr \<and> session_of a st = Some (AwaitingRecovery w)"
    using dict_get_in [OF \<open>wf_dict (st_accounts st)\<close>] by (auto simp: credentials_of_def session_of_def bind_eq_Some_conv)
  finally show ?thesis .
qed

lemma queue_keys: "map fst (awaiting_recovery_queue st) = map fst (filter (\<lambda>(a, t). is_awaiting (ta_session t)) (st_accounts st))"
proof -
  have "map fst (concat (map awaiting_entry d)) = map fst (filter (\<lambda>(a, t). is_awaiting (ta_session t)) d)" for d
    by (induction d) (auto split: option.splits session.splits)
  then show ?thesis by (simp add: awaiting_recovery_queue_def)
qed

lemma queue_distinct: "wf_store st \<Longrightarrow> distinct (map fst (awaiting_recovery_queue st))"
  by (simp add: queue_keys wf_store_def wf_dict_def distinct_map_filter)

lemma queue_empty_iff:
  assumes "wf_store st"
  shows "awaiting_recovery_queue st = [] \<longleftrightarrow> (\<forall>a. \<not> is_awaiting (session_of a st))"
proof -
  have "awaiting_recovery_queue st = [] \<longleftrightarrow> (\<forall>a cr w. (a, cr, w) \<notin> set (awaiting_recovery_queue st))"
    by (cases "awaiting_recovery_queue st") auto
  also have "\<dots> \<longleftrightarrow> (\<forall>a. \<not> is_awaiting (session_of a st))"
    using ss.sess_held [of _ st] by (auto simp: in_queue_iff [OF assms])
  finally show ?thesis .
qed

subsection \<open>Runs without interference\<close>

definition app_request :: "'z auth_state_scheme \<Rightarrow> request" where
  "app_request s = ProtoOAApplicationAuthReq (au_client_id s) (au_client_secret s)"

lemma quiet_run_app:
  "quiet_run answer saved (authenticate_app timeout s) =
    ([Requested (app_request s)],
     case narrow (ClsReply Cls_ProtoOAApplicationAuthRes) (answer (app_request s)) of
       Inl e \<Rightarrow> (Inl (raise_api_as (\<lambda>e. ApplicationAuthError (ae_error_code e) (ae_description e)) e), s)
     | Inr _ \<Rightarrow> (Inr (), s\<lparr>au_app_authenticated := True\<rparr>))"
  by (simp add: authenticate_app_def quiet_run_bind quiet_run_translate app_request_def split: sum.splits)

text \<open>Whether an attempt at a time ends with the account recovered, and the retry state if it does not.\<close>

definition recovered :: "(request \<Rightarrow> message res) \<Rightarrow> rat \<Rightarrow> credentials \<Rightarrow> bool" where
  "recovered answer time cr =
     (case establish_error answer time cr of None \<Rightarrow> True | Some e \<Rightarrow> is_already_authorized e)"

definition next_retry :: "reauth_policy \<Rightarrow> rat \<Rightarrow> awaiting_recovery \<Rightarrow> awaiting_recovery" where
  "next_retry policy now w =
     \<lparr>aw_attempts = aw_attempts w + 1,
      aw_next_attempt_at = now + min (ra_min_wait policy * 2 powi aw_attempts w) (ra_max_wait policy)\<rparr>"

text \<open>What the recovery of one account does: its authorization, and the announcement if it turns out to hold a session.\<close>

definition recovery_effects :: "(request \<Rightarrow> message res) \<Rightarrow> 'z auth_state_scheme \<Rightarrow> int \<times> credentials \<times> awaiting_recovery \<Rightarrow> effect list" where
  "recovery_effects answer s entry = (case entry of (a, cr, w) \<Rightarrow>
     establish_effects answer cr ACCOUNT_REAUTH s @
     (case establish_error answer (w_time s) cr of
        None \<Rightarrow> []
      | Some e \<Rightarrow> if is_already_authorized e then [Emitted (ReadyEvent a ACCOUNT_REAUTH)] else []))"

lemma establish_effects_updates [simp]:
  "establish_effects answer cr tr (s\<lparr>w_store := st\<rparr>) = establish_effects answer cr tr s"
  "establish_effects answer cr tr (s\<lparr>au_app_authenticated := b\<rparr>) = establish_effects answer cr tr s"
  "establish_effects answer cr tr (r\<lparr>rc_reauth_signal := b\<rparr>) = establish_effects answer cr tr r"
  "establish_effects answer cr tr (r\<lparr>rc_app_auth_pending := b\<rparr>) = establish_effects answer cr tr r"
  "establish_effects answer cr tr (r\<lparr>rc_app_auth_attempts := n\<rparr>) = establish_effects answer cr tr r"
  by (simp_all add: establish_effects_def standing_of_def split: option.split)

lemma recovery_effects_updates [simp]:
  "recovery_effects answer (s\<lparr>w_store := st\<rparr>) = recovery_effects answer s"
  "recovery_effects answer (s\<lparr>au_app_authenticated := b\<rparr>) = recovery_effects answer s"
  "recovery_effects answer (r\<lparr>rc_reauth_signal := b\<rparr>) = recovery_effects answer r"
  "recovery_effects answer (r\<lparr>rc_app_auth_pending := b\<rparr>) = recovery_effects answer r"
  "recovery_effects answer (r\<lparr>rc_app_auth_attempts := n\<rparr>) = recovery_effects answer r"
  by (simp_all add: recovery_effects_def fun_eq_iff)

lemma quiet_run_recover_account:
  assumes "wf_auth s" "aw_attempts w < 1024"
  shows "quiet_run answer saved (recover_account (a, cr, w) s) =
    (recovery_effects answer s (a, cr, w), Inr (), s\<lparr>w_store :=
       if recovered answer (w_time s) cr then authorize cr (w_store s)
       else reschedule_recovery a (next_retry (rc_policy s) (w_now s) w) (w_store s)\<rparr>)"
  using assms(2) unfolding recover_account_def prod.case quiet_run_try quiet_run_establish [OF assms(1)]
  by (auto simp: recovery_effects_def recovered_def next_retry_def defer_recovery_def backoff_delay_def split: option.splits)

lemma quiet_run_recover_accounts:
  assumes "wf_auth s" "distinct (map fst due)"
    and "\<And>a cr w. (a, cr, w) \<in> set due \<Longrightarrow>
      cr_account_id cr = a \<and> session_of a (w_store s) = Some (AwaitingRecovery w) \<and> aw_attempts w < 1024"
  shows "\<exists>st. quiet_run answer saved (recover_accounts due s) = (concat (map (recovery_effects answer s) due), Inr (), s\<lparr>w_store := st\<rparr>) \<and>
    (\<forall>b. session_of b st = (case map_of due b of
        None \<Rightarrow> session_of b (w_store s)
      | Some (cr, w) \<Rightarrow> if recovered answer (w_time s) cr then Some Authorized
          else Some (AwaitingRecovery (next_retry (rc_policy s) (w_now s) w))))"
  using assms
proof (induction due arbitrary: s)
  case Nil
  have "quiet_run answer saved (recover_accounts [] s) = ([], Inr (), s\<lparr>w_store := w_store s\<rparr>)" by simp
  then show ?case by (intro exI [of _ "w_store s"]) simp
next
  case (Cons entry due)
  obtain a cr w where entry: "entry = (a, cr, w)" by (cases entry) auto
  have head: "cr_account_id cr = a" "session_of a (w_store s) = Some (AwaitingRecovery w)" "aw_attempts w < 1024"
    using Cons.prems(3) [of a cr w] by (simp_all add: entry)
  define st1 where "st1 = (if recovered answer (w_time s) cr then authorize cr (w_store s)
    else reschedule_recovery a (next_retry (rc_policy s) (w_now s) w) (w_store s))"
  define s1 where "s1 = s\<lparr>w_store := st1\<rparr>"
  have es1: "quiet_run answer saved (recover_account (a, cr, w) s) = (recovery_effects answer s (a, cr, w), Inr (), s1)"
    using quiet_run_recover_account [OF Cons.prems(1) head(3), of answer saved a cr] unfolding s1_def st1_def .
  have sess: "session_of b st1 = (if b = a
      then if recovered answer (w_time s) cr then Some Authorized
        else Some (AwaitingRecovery (next_retry (rc_policy s) (w_now s) w))
      else session_of b (w_store s))" for b
    using head(1,2) by (simp add: st1_def ss.sess_auth ss.sess_resched)
  have wf1: "wf_auth s1" using Cons.prems(1) by (simp add: s1_def st1_def wf_auth_intros(2,6))
  have due: "distinct (map fst due)" "a \<notin> fst ` set due" using Cons.prems(2) by (simp_all add: entry)
  have held: "cr_account_id cr' = b \<and> session_of b (w_store s1) = Some (AwaitingRecovery w') \<and> aw_attempts w' < 1024"
    if "(b, cr', w') \<in> set due" for b cr' w'
    using Cons.prems(3) [of b cr' w'] that due(2) sess [of b] by (force simp: entry s1_def)
  have f: "w_store s1 = st1" "w_time s1 = w_time s" "w_now s1 = w_now s" "rc_policy s1 = rc_policy s"
    "\<And>st. s1\<lparr>w_store := st\<rparr> = s\<lparr>w_store := st\<rparr>" "recovery_effects answer s1 = recovery_effects answer s" by (simp_all add: s1_def)
  from Cons.IH [OF wf1 due(1) held, unfolded f] obtain st where
    "quiet_run answer saved (recover_accounts due s1) = (concat (map (recovery_effects answer s) due), Inr (), s\<lparr>w_store := st\<rparr>)"
    and st: "\<And>b. session_of b st = (case map_of due b of None \<Rightarrow> session_of b st1
      | Some (cr, w) \<Rightarrow> if recovered answer (w_time s) cr then Some Authorized
          else Some (AwaitingRecovery (next_retry (rc_policy s) (w_now s) w)))"
    by blast
  then have "quiet_run answer saved (recover_accounts (entry # due) s) =
      (concat (map (recovery_effects answer s) (entry # due)), Inr (), s\<lparr>w_store := st\<rparr>)"
    using es1 by (simp add: entry quiet_run_bind)
  moreover have "map_of due a = None" using due(2) by (simp add: map_of_eq_None_iff)
  ultimately show ?case using st sess by (intro exI [of _ st]) (simp add: entry split: option.split)
qed

text \<open>The requests, events and waits of a pass behind the application's authentication.\<close>

definition due_effects :: "(request \<Rightarrow> message res) \<Rightarrow> 'z auth_state_scheme \<Rightarrow> effect list" where
  "due_effects answer s =
     (let queue = awaiting_recovery_queue (w_store s); due = filter (\<lambda>(_, _, w). aw_next_attempt_at w \<le> w_now s) queue in
      if queue = [] then [AwaitedFlag None]
      else if due = [] then [AwaitedFlag (Some (soonest queue - w_now s))]
      else concat (map (recovery_effects answer s) due))"

lemma quiet_run_recover_due:
  assumes "wf_auth s" "\<forall>a w. session_of a (w_store s) = Some (AwaitingRecovery w) \<longrightarrow> aw_attempts w < 1024"
  shows "\<exists>st. quiet_run answer saved (recover_due s) = (due_effects answer s, Inr (), s\<lparr>w_store := st\<rparr>) \<and>
    (\<forall>a. session_of a st = (case session_of a (w_store s) of
        Some (AwaitingRecovery w) \<Rightarrow>
          if aw_next_attempt_at w \<le> w_now s
          then if recovered answer (w_time s) (the (credentials_of a (w_store s))) then Some Authorized
               else Some (AwaitingRecovery (next_retry (rc_policy s) (w_now s) w))
          else Some (AwaitingRecovery w)
      | r \<Rightarrow> r))"
proof -
  let ?st = "w_store s"
  define queue where "queue = awaiting_recovery_queue ?st"
  define due where "due = filter (\<lambda>(_, _, w). aw_next_attempt_at w \<le> w_now s) queue"
  have wf: "wf_store ?st" using assms(1) by (simp add: wf_auth_def)
  have q: "(a, cr, w) \<in> set queue \<longleftrightarrow> credentials_of a ?st = Some cr \<and> session_of a ?st = Some (AwaitingRecovery w)" for a cr w
    unfolding queue_def by (rule in_queue_iff [OF wf])
  have d: "distinct (map fst due)" using queue_distinct [OF wf] by (simp add: due_def queue_def distinct_map_filter)
  have at: "map_of due a = (case session_of a ?st of
      Some (AwaitingRecovery w) \<Rightarrow> if aw_next_attempt_at w \<le> w_now s then Some (the (credentials_of a ?st), w) else None
    | _ \<Rightarrow> None)" for a
  proof (cases "map_of due a")
    case None
    then have "\<And>cr w. (a, cr, w) \<notin> set due" by (force simp: map_of_eq_None_iff)
    with None ss.sess_held [of a ?st] show ?thesis
      by (auto simp: due_def q split: option.splits session.splits)
  next
    case (Some v)
    then have "(a, v) \<in> set due" by (rule map_of_SomeD)
    with Some show ?thesis by (cases v) (simp add: due_def q)
  qed
  have "cr_account_id cr = a \<and> session_of a ?st = Some (AwaitingRecovery w) \<and> aw_attempts w < 1024"
    if "(a, cr, w) \<in> set due" for a cr w
    using that assms(2) wf by (auto simp: due_def q wf_store_iff)
  from quiet_run_recover_accounts [OF assms(1) d this, of answer saved] obtain st where
    run: "quiet_run answer saved (recover_accounts due s) = (concat (map (recovery_effects answer s) due), Inr (), s\<lparr>w_store := st\<rparr>)"
    and st: "\<And>b. session_of b st = (case map_of due b of None \<Rightarrow> session_of b ?st
      | Some (cr, w) \<Rightarrow> if recovered answer (w_time s) cr then Some Authorized
          else Some (AwaitingRecovery (next_retry (rc_policy s) (w_now s) w)))"
    by blast
  have "quiet_run answer saved (recover_due s) = (due_effects answer s, Inr (), s\<lparr>w_store := st\<rparr>)"
  proof (cases "due = []")
    case True
    with run have "s\<lparr>w_store := st\<rparr> = s" by simp
    with True show ?thesis by (simp add: recover_due_def due_effects_def Let_def queue_def [symmetric] due_def [symmetric])
  next
    case False
    then have "queue \<noteq> []" by (auto simp: due_def)
    with False run show ?thesis by (simp add: recover_due_def due_effects_def Let_def queue_def [symmetric] due_def [symmetric])
  qed
  moreover have "session_of a st = (case session_of a ?st of
        Some (AwaitingRecovery w) \<Rightarrow>
          if aw_next_attempt_at w \<le> w_now s
          then if recovered answer (w_time s) (the (credentials_of a ?st)) then Some Authorized
               else Some (AwaitingRecovery (next_retry (rc_policy s) (w_now s) w))
          else Some (AwaitingRecovery w)
      | r \<Rightarrow> r)" for a
    using st [of a] at [of a] by (auto split: option.splits session.splits)
  ultimately show ?thesis by blast
qed

end
