(* ===== verification/Refresh.thy ===== *)
theory Refresh
  imports Recovery
begin

text \<open>
  \<open>auth/_refresh.py\<close>: rotating access tokens before they expire. The retry policy is tenacity's:
  \<open>stop n k\<close> is the verdict of \<open>stop_after_attempt(n)\<close> after attempt \<open>k\<close>, \<open>wait lo hi k\<close> the pause of
  \<open>wait_exponential(min=lo, max=hi)\<close>. The attempts of one refresh are bounded by \<open>fuel\<close>; the value
  \<open>False\<close> says that it ran out, and the theorems show that \<open>retry_attempts\<close> is enough. The loop
  runs forever and takes a bound on its rounds.
\<close>

record refresher = recovery +
  rf_policy :: refresh_policy
  rf_token_store :: bool
  rf_task_scope :: bool
  rf_running :: bool

definition refresher_serve_enter :: "'z refresher_scheme \<Rightarrow> unit res \<times> 'z refresher_scheme" where
  "refresher_serve_enter s =
     (if rf_running s then (Inl (RuntimeError ''Token refresh monitor is already running''), s)
      else (Inr (), s\<lparr>rf_running := True, rf_task_scope := True\<rparr>))"

definition refresher_serve_exit :: "'z refresher_scheme \<Rightarrow> 'z refresher_scheme" where
  "refresher_serve_exit s = s\<lparr>rf_running := False, rf_task_scope := False\<rparr>"

definition refresher_stop :: "'z refresher_scheme \<Rightarrow> bool \<times> 'z refresher_scheme" where
  "refresher_stop s = (rf_task_scope s, s\<lparr>rf_running := False\<rparr>)"

definition reply_tokens :: "message \<Rightarrow> proto_oa_refresh_token_res" where
  "reply_tokens m = (case m of
     Reply (ProtoOARefreshTokenRes r) \<Rightarrow> r
   | _ \<Rightarrow> \<lparr>prt_access_token = [], prt_token_type = [], prt_expires_in = 0, prt_refresh_token = []\<rparr>)"

text \<open>A refusal that names the token can not be retried; other API errors are raised again as they are.\<close>

definition refresh_refusal :: "int \<Rightarrow> api_error \<Rightarrow> exn" where
  "refresh_refusal account_id e = (if is_token_failure e then TokenExpiredError (Some account_id) else APIError e)"

definition save_tokens :: "credentials \<Rightarrow> 'z refresher_scheme \<Rightarrow> ('z refresher_scheme, unit) co" where
  "save_tokens cr s = (if rf_token_store s then Save cr s Return else Return (Inr ()) s)"

text \<open>The body of one attempt.\<close>

definition refresh_attempt :: "int \<Rightarrow> credentials \<Rightarrow> 'z refresher_scheme \<Rightarrow> ('z refresher_scheme, unit) co" where
  "refresh_attempt account_id cr s =
     co_bind (co_translate (raise_api_as (refresh_refusal account_id))
        (co_request (ProtoOARefreshTokenReq (cr_refresh_token cr)) Cls_ProtoOARefreshTokenRes AUTH_TIMEOUT s))
      (\<lambda>response s1.
         let r = reply_tokens response;
             new = with_refreshed_tokens (w_time s1) (prt_access_token r) (prt_refresh_token r) (prt_expires_in r) cr in
         co_bind (save_tokens new (s1\<lparr>w_store := replace_credentials new (w_store s1)\<rparr>))
           (\<lambda>_. establish new TOKEN_REFRESH AUTH_TIMEOUT))"

fun refresh_attempts ::
  "(int \<Rightarrow> nat \<Rightarrow> bool) \<Rightarrow> (rat \<Rightarrow> rat \<Rightarrow> nat \<Rightarrow> rat) \<Rightarrow> nat \<Rightarrow> nat \<Rightarrow> int \<Rightarrow> credentials \<Rightarrow>
   'z refresher_scheme \<Rightarrow> ('z refresher_scheme, bool) co" where
  "refresh_attempts stop wait 0 k account_id cr s = Return (Inr False) s"
| "refresh_attempts stop wait (Suc fuel) k account_id cr s =
     co_then (refresh_attempt account_id cr s) (\<lambda>r s'.
       case r of
         Inr _ \<Rightarrow> Return (Inr True) s'
       | Inl e \<Rightarrow>
           if is_api_error e \<and> \<not> stop (rp_retry_attempts (rf_policy s')) k
           then Sleep (wait (rp_retry_min_wait (rf_policy s')) (rp_retry_max_wait (rf_policy s')) k) s'
                  (refresh_attempts stop wait fuel (Suc k) account_id cr)
           else Return (Inl e) s')"

definition refresh_account ::
  "(int \<Rightarrow> nat \<Rightarrow> bool) \<Rightarrow> (rat \<Rightarrow> rat \<Rightarrow> nat \<Rightarrow> rat) \<Rightarrow> nat \<Rightarrow> int \<Rightarrow>
   'z refresher_scheme \<Rightarrow> ('z refresher_scheme, bool) co" where
  "refresh_account stop wait fuel account_id s =
     (case credentials_of account_id (w_store s) of
        None \<Rightarrow> Return (Inr True) s
      | Some cr \<Rightarrow>
          co_then
            (refresh_attempts stop wait fuel 1 account_id cr (s\<lparr>w_store := begin_refresh account_id (w_store s)\<rparr>))
            (\<lambda>r s'. Return (map_sum (\<lambda>e. TokenRefreshError (Some account_id) (Some e)) id r)
               (s'\<lparr>w_store := snd (end_refresh account_id (w_store s'))\<rparr>)))"

fun is_token_refresh_error :: "exn \<Rightarrow> bool" where
  "is_token_refresh_error (TokenRefreshError _ _) = True"
| "is_token_refresh_error _ = False"

fun refresh_items ::
  "(int \<Rightarrow> nat \<Rightarrow> bool) \<Rightarrow> (rat \<Rightarrow> rat \<Rightarrow> nat \<Rightarrow> rat) \<Rightarrow> nat \<Rightarrow> (int \<times> credentials) list \<Rightarrow>
   'z refresher_scheme \<Rightarrow> ('z refresher_scheme, unit) co" where
  "refresh_items stop wait fuel [] s = Return (Inr ()) s"
| "refresh_items stop wait fuel ((account_id, cr) # items) s =
     (if expires_soon (w_time s) (rp_buffer_seconds (rf_policy s)) cr
      then co_then (refresh_account stop wait fuel account_id s) (\<lambda>r s'.
        case r of
          Inr _ \<Rightarrow> refresh_items stop wait fuel items s'
        | Inl e \<Rightarrow>
            if is_token_refresh_error e
            then co_bind (co_emit (TokenRefreshFailedEvent account_id e) s') (\<lambda>_. refresh_items stop wait fuel items)
            else Return (Inl e) s')
      else refresh_items stop wait fuel items s)"

text \<open>\<open>Inr True\<close>: the loop has left because the monitor no longer runs; \<open>Inr False\<close>: the bound is reached.\<close>

fun refresh_loop ::
  "(int \<Rightarrow> nat \<Rightarrow> bool) \<Rightarrow> (rat \<Rightarrow> rat \<Rightarrow> nat \<Rightarrow> rat) \<Rightarrow> nat \<Rightarrow> nat \<Rightarrow>
   'z refresher_scheme \<Rightarrow> ('z refresher_scheme, bool) co" where
  "refresh_loop stop wait fuel 0 s = Return (Inr False) s"
| "refresh_loop stop wait fuel (Suc n) s =
     (if rf_running s
      then Sleep (rp_check_interval (rf_policy s)) s (\<lambda>s1.
        co_bind (refresh_items stop wait fuel (store_items (w_store s1)) s1) (\<lambda>_. refresh_loop stop wait fuel n))
      else Return (Inr True) s)"

subsection \<open>Every interleaving\<close>

text \<open>tenacity's documentation: \<open>stop_after_attempt(n)\<close> stops once the attempt number reaches \<open>n\<close>.\<close>

definition stops_after :: "(int \<Rightarrow> nat \<Rightarrow> bool) \<Rightarrow> bool" where
  "stops_after stop \<longleftrightarrow> (\<forall>n k. stop n k \<longleftrightarrow> n \<le> int k)"

lemma rf_policy_store [simp]: "rf_policy (update_standing a f s) = rf_policy s"
  by (simp add: update_standing_def standing_for_def split: option.splits)

text \<open>
  An invariant the steps of a refresh keep: other tasks keep it, and so do the updates of the
  store and of the standing subscriptions.
\<close>

locale refresh_steps =
  fixes rely :: "'z refresher_scheme \<Rightarrow> 'z refresher_scheme \<Rightarrow> bool" and I :: "'z refresher_scheme \<Rightarrow> bool"
  assumes rely: "I s \<Longrightarrow> rely s s' \<Longrightarrow> I s'"
    and upd: "I s \<Longrightarrow> I (update_standing a f s)"
    and auth: "I s \<Longrightarrow> I (s\<lparr>w_store := authorize cr (w_store s)\<rparr>)"
    and repl: "I s \<Longrightarrow> I (s\<lparr>w_store := replace_credentials cr (w_store s)\<rparr>)"
begin

lemma always_reauthorize: "I s \<Longrightarrow> always rely I Q (\<lambda>_ _. True) (establish cr TOKEN_REFRESH t s)"
  by (rule always_result, rule always_establish [where J = I]) (use rely upd auth in auto)

lemma always_attempt:
  assumes "I s"
  shows "always rely I Q (\<lambda>_ _. True) (refresh_attempt a cr s)"
  unfolding refresh_attempt_def
proof (rule always_seq [where S = "\<lambda>_ _. True"])
  show "always rely I Q (\<lambda>_ _. True) (co_translate (raise_api_as (refresh_refusal a))
      (co_request (ProtoOARefreshTokenReq (cr_refresh_token cr)) Cls_ProtoOARefreshTokenRes AUTH_TIMEOUT s))"
    by (rule always_translate) (use assms rely in auto)
  fix m s1 assume "I s1"
  have save: "always rely I Q (\<lambda>_ _. True) (save_tokens new s2)" if "I s2" for new s2
    using that rely by (auto simp: save_tokens_def)
  show "always rely I Q (\<lambda>_ _. True)
     (let r = reply_tokens m;
          new = with_refreshed_tokens (w_time s1) (prt_access_token r) (prt_refresh_token r) (prt_expires_in r) cr in
      co_bind (save_tokens new (s1\<lparr>w_store := replace_credentials new (w_store s1)\<rparr>))
        (\<lambda>_. establish new TOKEN_REFRESH AUTH_TIMEOUT))"
    unfolding Let_def by (rule always_seq [OF save]) (use \<open>I s1\<close> repl always_reauthorize in auto)
qed auto

lemma always_any_attempts: "I s \<Longrightarrow> always rely I Q (\<lambda>_ _. True) (refresh_attempts stop wait fuel k a cr s)"
proof (induction fuel arbitrary: k s)
  case (Suc fuel)
  show ?case unfolding refresh_attempts.simps
    by (rule always_then [OF always_attempt [OF Suc.prems]]) (use Suc.IH rely in \<open>auto split: sum.splits\<close>)
qed simp

end

text \<open>One that also fixes the number of attempts of the policy.\<close>

locale refresh_invariant = refresh_steps rely I
  for rely :: "'z refresher_scheme \<Rightarrow> 'z refresher_scheme \<Rightarrow> bool" and I :: "'z refresher_scheme \<Rightarrow> bool" +
  fixes n :: int
  assumes attempts: "I s \<Longrightarrow> rp_retry_attempts (rf_policy s) = n"
begin

text \<open>Enough fuel: the last attempt it allows is one at which tenacity stops.\<close>

lemma always_attempts:
  assumes "stops_after stop"
  shows "I s \<Longrightarrow> 0 < fuel \<Longrightarrow> n < int (k + fuel) \<Longrightarrow>
    always rely I Q (\<lambda>r _. r \<noteq> Inr False) (refresh_attempts stop wait fuel k a cr s)"
proof (induction fuel arbitrary: k s)
  case (Suc fuel)
  have "always rely I Q (\<lambda>r _. r \<noteq> Inr False) (case r of
         Inr _ \<Rightarrow> Return (Inr True) s'
       | Inl e \<Rightarrow>
           if is_api_error e \<and> \<not> stop (rp_retry_attempts (rf_policy s')) k
           then Sleep (wait (rp_retry_min_wait (rf_policy s')) (rp_retry_max_wait (rf_policy s')) k) s'
                  (refresh_attempts stop wait fuel (Suc k) a cr)
           else Return (Inl e) s')" if "I s'" for r :: "unit res" and s'
  proof (cases "stop n k")
    case False
    then have "int k < n" using assms by (auto simp: stops_after_def)
    with Suc.prems have "0 < fuel" "n < int (Suc k + fuel)" by auto
    with that Suc.IH rely show ?thesis by (auto split: sum.splits)
  qed (use that attempts in \<open>auto split: sum.splits\<close>)
  then show ?case unfolding refresh_attempts.simps by (intro always_then [OF always_attempt [OF Suc.prems(1)]])
qed simp

end

definition wf_refresher :: "refresh_policy \<Rightarrow> 'z refresher_scheme \<Rightarrow> bool" where
  "wf_refresher p s \<longleftrightarrow> wf_auth s \<and> rf_policy s = p"

interpretation wfr: refresh_invariant "keeps (wf_refresher p)" "wf_refresher p" "rp_retry_attempts p"
  by unfold_locales (auto simp: wf_refresher_def)

text \<open>The mark of a refresh in flight.\<close>

definition marked :: "int \<Rightarrow> 'z refresher_scheme \<Rightarrow> bool" where
  "marked a s \<longleftrightarrow> is_refreshing a (w_store s)"

interpretation mark: refresh_steps "keeps (marked a)" "marked a"
  by unfold_locales (auto simp: marked_def is_refreshing_def authorize_def replace_credentials_def Let_def)

lemma refresh_account_guards:
  assumes "credentials_of a (w_store s) = Some cr"
  shows "guards (marked a) (\<lambda>s'. \<not> marked a s') (refresh_account stop wait fuel a s)"
  unfolding refresh_account_def assms option.case
proof (rule guards_then [OF mark.always_any_attempts])
  show "marked a (s\<lparr>w_store := begin_refresh a (w_store s)\<rparr>)" by (simp add: marked_def is_refreshing_def begin_refresh_def)
qed (simp add: marked_def is_refreshing_def end_refresh_def)

lemma always_refresh_account:
  assumes "wf_refresher p s" "stops_after stop" "0 < fuel" "rp_retry_attempts p \<le> int fuel"
  shows "always (keeps (wf_refresher p)) (wf_refresher p) Q
    (\<lambda>r s'. (r = Inr True \<or> (\<exists>e. r = Inl (TokenRefreshError (Some a) (Some e)))) \<and>
       (credentials_of a (w_store s) \<noteq> None \<longrightarrow> \<not> is_refreshing a (w_store s')))
    (refresh_account stop wait fuel a s)"
proof (cases "credentials_of a (w_store s)")
  case (Some cr)
  have "wf_refresher p (s\<lparr>w_store := begin_refresh a (w_store s)\<rparr>)"
    using assms(1) by (auto simp: wf_refresher_def)
  from wfr.always_attempts [OF assms(2) this assms(3), of 1] assms(4)
  have "always (keeps (wf_refresher p)) (wf_refresher p) Q (\<lambda>r _. r \<noteq> Inr False)
      (refresh_attempts stop wait fuel 1 a cr (s\<lparr>w_store := begin_refresh a (w_store s)\<rparr>))" by simp
  then show ?thesis unfolding refresh_account_def Some option.case
  proof (rule always_then)
    fix r :: "bool res" and s' :: "'a refresher_scheme" assume "wf_refresher p s'" "r \<noteq> Inr False"
    moreover have "wf_refresher p s' \<Longrightarrow> wf_refresher p (s'\<lparr>w_store := snd (end_refresh a (w_store s'))\<rparr>)"
      by (auto simp: wf_refresher_def)
    moreover have "\<not> is_refreshing a (snd (end_refresh a (w_store s')))" by (simp add: is_refreshing_def end_refresh_def)
    ultimately show "always (keeps (wf_refresher p)) (wf_refresher p) Q
      (\<lambda>r s'. (r = Inr True \<or> (\<exists>e. r = Inl (TokenRefreshError (Some a) (Some e)))) \<and>
         (Some cr \<noteq> None \<longrightarrow> \<not> is_refreshing a (w_store s')))
      (Return (map_sum (\<lambda>e. TokenRefreshError (Some a) (Some e)) id r) (s'\<lparr>w_store := snd (end_refresh a (w_store s'))\<rparr>))"
      by (cases r) auto
  qed
qed (simp add: refresh_account_def assms)

lemma always_refresh_items:
  assumes "stops_after stop" "0 < fuel" "rp_retry_attempts p \<le> int fuel"
  shows "wf_refresher p s \<Longrightarrow> always (keeps (wf_refresher p)) (wf_refresher p)
    (\<lambda>e _. \<exists>a err. e = TokenRefreshFailedEvent a (TokenRefreshError (Some a) err)) (\<lambda>r _. r = Inr ())
    (refresh_items stop wait fuel items s)"
proof (induction items arbitrary: s)
  case (Cons item items)
  obtain a cr where item: "item = (a, cr)" by force
  let ?Q = "\<lambda>e (_ :: 'a refresher_scheme). \<exists>a err. e = TokenRefreshFailedEvent a (TokenRefreshError (Some a) err)"
  have "always (keeps (wf_refresher p)) (wf_refresher p) ?Q (\<lambda>r _. r = Inr ())
      (case r of
          Inr _ \<Rightarrow> refresh_items stop wait fuel items s'
        | Inl e \<Rightarrow>
            if is_token_refresh_error e
            then co_bind (co_emit (TokenRefreshFailedEvent a e) s') (\<lambda>_. refresh_items stop wait fuel items)
            else Return (Inl e) s')"
    if "wf_refresher p s'" "r = Inr True \<or> (\<exists>e. r = Inl (TokenRefreshError (Some a) (Some e)))" for r :: "bool res" and s'
    using that Cons.IH by (auto intro!: always_seq [where S = "\<lambda>r _. r = Inr ()"])
  then have "always (keeps (wf_refresher p)) (wf_refresher p) ?Q (\<lambda>r _. r = Inr ())
      (co_then (refresh_account stop wait fuel a s) (\<lambda>r s'.
        case r of
          Inr _ \<Rightarrow> refresh_items stop wait fuel items s'
        | Inl e \<Rightarrow>
            if is_token_refresh_error e
            then co_bind (co_emit (TokenRefreshFailedEvent a e) s') (\<lambda>_. refresh_items stop wait fuel items)
            else Return (Inl e) s'))"
    by (intro always_then [OF always_refresh_account [OF Cons.prems assms]]) blast
  then show ?case using Cons by (simp add: item)
qed simp

lemma always_refresh_loop:
  assumes "stops_after stop" "0 < fuel" "rp_retry_attempts p \<le> int fuel"
  shows "wf_refresher p s \<Longrightarrow> always (keeps (wf_refresher p)) (wf_refresher p)
    (\<lambda>e _. \<exists>a err. e = TokenRefreshFailedEvent a (TokenRefreshError (Some a) err)) (\<lambda>r _. \<forall>e. r \<noteq> Inl e)
    (refresh_loop stop wait fuel m s)"
proof (induction m arbitrary: s)
  case (Suc m)
  let ?Q = "\<lambda>e (_ :: 'a refresher_scheme). \<exists>a err. e = TokenRefreshFailedEvent a (TokenRefreshError (Some a) err)"
  have "always (keeps (wf_refresher p)) (wf_refresher p) ?Q (\<lambda>r _. \<forall>e. r \<noteq> Inl e)
      (co_bind (refresh_items stop wait fuel items s1) (\<lambda>_. refresh_loop stop wait fuel m))" if "wf_refresher p s1" for items s1
    by (rule always_seq [OF always_refresh_items [OF assms that]]) (use Suc.IH in auto)
  with Suc.prems show ?case by simp
qed simp

subsection \<open>Runs without interference\<close>

lemma quiet_run_save:
  "quiet_run answer saved (save_tokens new s) = (if rf_token_store s then ([Saved new], saved new, s) else ([], Inr (), s))"
  by (simp add: save_tokens_def)

lemma end_begin_refresh: "\<not> is_refreshing a st \<Longrightarrow> snd (end_refresh a (begin_refresh a st)) = st"
  by (simp add: is_refreshing_def begin_refresh_def end_refresh_def)

lemma refresh_mark_simps:
  "credentials_of b (begin_refresh a st) = credentials_of b st" "session_of b (begin_refresh a st) = session_of b st"
  "credentials_of b (snd (end_refresh a st)) = credentials_of b st" "session_of b (snd (end_refresh a st)) = session_of b st"
  by (simp_all add: begin_refresh_def end_refresh_def credentials_of_def session_of_def)

text \<open>The requests and pauses of a refresh the server keeps refusing, from attempt \<open>k\<close> on.\<close>

fun refused_attempts :: "(rat \<Rightarrow> rat \<Rightarrow> nat \<Rightarrow> rat) \<Rightarrow> refresh_policy \<Rightarrow> request \<Rightarrow> nat \<Rightarrow> nat \<Rightarrow> effect list" where
  "refused_attempts wait p q k 0 = [Requested q]"
| "refused_attempts wait p q k (Suc m) =
     Requested q # Slept (wait (rp_retry_min_wait p) (rp_retry_max_wait p) k) # refused_attempts wait p q (Suc k) m"

lemma refused_attempts_conv:
  "refused_attempts wait p q k m =
     Requested q # concat (map (\<lambda>j. [Slept (wait (rp_retry_min_wait p) (rp_retry_max_wait p) j), Requested q]) [k..<k + m])"
  by (induction m arbitrary: k) (simp_all add: upt_conv_Cons del: upt_Suc)

lemma quiet_run_refused_attempt:
  assumes "narrow (ClsReply Cls_ProtoOARefreshTokenRes) (answer (ProtoOARefreshTokenReq (cr_refresh_token cr))) = Inl e"
  shows "quiet_run answer saved (refresh_attempt a cr s) =
    ([Requested (ProtoOARefreshTokenReq (cr_refresh_token cr))], Inl (raise_api_as (refresh_refusal a) e), s)"
  using assms by (simp add: refresh_attempt_def quiet_run_bind quiet_run_translate)

lemma quiet_run_refused_attempts:
  assumes "narrow (ClsReply Cls_ProtoOARefreshTokenRes) (answer (ProtoOARefreshTokenReq (cr_refresh_token cr))) = Inl (APIError e)"
    and "\<not> is_token_failure e" "stops_after stop" "rp_retry_attempts (rf_policy s) = n"
  shows "max 1 n = int (k + m) \<Longrightarrow> 0 < k \<Longrightarrow> m < fuel \<Longrightarrow>
    quiet_run answer saved (refresh_attempts stop wait fuel k a cr s) =
      (refused_attempts wait (rf_policy s) (ProtoOARefreshTokenReq (cr_refresh_token cr)) k m, Inl (APIError e), s)"
proof (induction m arbitrary: k fuel)
  case 0
  then obtain f where "fuel = Suc f" by (cases fuel) auto
  moreover have "stop n k" using 0 assms(3) by (auto simp: stops_after_def)
  ultimately show ?case using assms quiet_run_refused_attempt [of answer cr "APIError e" saved a s]
    by (simp add: quiet_run_then refresh_refusal_def)
next
  case (Suc m)
  then obtain f where f: "fuel = Suc f" "m < f" by (cases fuel) auto
  moreover have "\<not> stop n k" using Suc.prems(1,2) assms(3) by (auto simp: stops_after_def max_def split: if_splits)
  ultimately show ?case using assms quiet_run_refused_attempt [of answer cr "APIError e" saved a s] Suc.IH [of "Suc k" f] Suc.prems
    by (simp add: quiet_run_then refresh_refusal_def)
qed

text \<open>The credentials an accepted refresh gives, and what becomes of them.\<close>

definition rotated :: "rat \<Rightarrow> message \<Rightarrow> credentials \<Rightarrow> credentials" where
  "rotated time m cr = (let r = reply_tokens m in
     with_refreshed_tokens time (prt_access_token r) (prt_refresh_token r) (prt_expires_in r) cr)"

definition rotation_error :: "(request \<Rightarrow> message res) \<Rightarrow> (credentials \<Rightarrow> unit res) \<Rightarrow> bool \<Rightarrow> rat \<Rightarrow> credentials \<Rightarrow> exn option" where
  "rotation_error answer saved store time new =
     (case (if store then saved new else Inr ()) of Inl e \<Rightarrow> Some e | Inr _ \<Rightarrow> establish_error answer time new)"

lemma quiet_run_rotation:
  assumes "wf_auth s"
    and "narrow (ClsReply Cls_ProtoOARefreshTokenRes) (answer (ProtoOARefreshTokenReq (cr_refresh_token cr))) = Inr m"
  defines "new \<equiv> rotated (w_time s) m cr"
  shows "quiet_run answer saved (refresh_attempt a cr s) =
    (Requested (ProtoOARefreshTokenReq (cr_refresh_token cr)) # (if rf_token_store s then [Saved new] else []) @
       (if rf_token_store s \<and> (\<exists>e. saved new = Inl e) then [] else establish_effects answer new TOKEN_REFRESH s),
     case rotation_error answer saved (rf_token_store s) (w_time s) new of
       Some e \<Rightarrow> (Inl e, s\<lparr>w_store := replace_credentials new (w_store s)\<rparr>)
     | None \<Rightarrow> (Inr (), s\<lparr>w_store := authorize new (replace_credentials new (w_store s))\<rparr>))"
proof -
  have wf: "wf_auth (s\<lparr>w_store := replace_credentials new (w_store s)\<rparr>)" using assms(1) by (rule wf_auth_intros(3))
  have eff: "establish_effects answer new TOKEN_REFRESH (s\<lparr>w_store := st\<rparr>) = establish_effects answer new TOKEN_REFRESH s" for st
    by (simp add: establish_effects_def)
  from assms(2) show ?thesis
    by (auto simp: refresh_attempt_def quiet_run_bind quiet_run_translate quiet_run_save quiet_run_establish [OF wf] eff
        rotation_error_def new_def [unfolded rotated_def Let_def, symmetric] Let_def split: sum.splits option.splits)
qed

end
