(* ===== verification/Recovery_Properties.thy ===== *)
theory Recovery_Properties
  imports Recovery
begin

text \<open>
  What session recovery does: the check of a reported disconnect, the report after a reconnection,
  the effect of one pass of the recovery loop on every account, the backoff, and what can end the
  loop.
\<close>

subsection \<open>Re-authorizing a list of accounts\<close>

definition accepted_ids :: "(request \<Rightarrow> message res) \<Rightarrow> rat \<Rightarrow> credentials list \<Rightarrow> int list" where
  "accepted_ids answer time crs = map cr_account_id (filter (\<lambda>cr. establish_error answer time cr = None) crs)"

definition refused_ids :: "(exn \<Rightarrow> string) \<Rightarrow> (request \<Rightarrow> message res) \<Rightarrow> rat \<Rightarrow> credentials list \<Rightarrow> (int \<times> string) list" where
  "refused_ids show_exn answer time crs =
     map (\<lambda>cr. (cr_account_id cr, show_exn (the (establish_error answer time cr))))
       (filter (\<lambda>cr. establish_error answer time cr \<noteq> None) crs)"

definition authorize_all :: "credentials list \<Rightarrow> session_store \<Rightarrow> session_store" where
  "authorize_all crs st = foldl (\<lambda>st cr. authorize cr st) st crs"

lemma authorize_all_Cons: "authorize_all (cr # crs) st = authorize_all crs (authorize cr st)"
  by (simp add: authorize_all_def)

lemma session_authorize_all:
  "session_of a (authorize_all crs st) = (if a \<in> cr_account_id ` set crs then Some Authorized else session_of a st)"
  by (induction crs arbitrary: st) (auto simp: authorize_all_Cons ss.sess_auth, simp add: authorize_all_def)

lemma wf_authorize_all: "wf_store st \<Longrightarrow> wf_store (authorize_all crs st)"
  by (induction crs arbitrary: st) (simp_all add: authorize_all_def wf_store_ops)

lemma quiet_run_reauth_accounts:
  "wf_auth s \<Longrightarrow> quiet_run answer saved (reauth_accounts show_exn crs restored failed s) =
    (concat (map (\<lambda>cr. establish_effects answer cr RECONNECT s) crs) @
       [Emitted (ReconnectedEvent True (restored @ accepted_ids answer (w_time s) crs)
          (failed @ refused_ids show_exn answer (w_time s) crs))],
     Inr (), s\<lparr>w_store := authorize_all (filter (\<lambda>cr. establish_error answer (w_time s) cr = None) crs) (w_store s)\<rparr>)"
proof (induction crs arbitrary: restored failed s)
  case Nil
  then show ?case by (simp add: accepted_ids_def refused_ids_def authorize_all_def)
next
  case (Cons cr crs)
  show ?case
  proof (cases "establish_error answer (w_time s) cr")
    case None
    have "wf_auth (s\<lparr>w_store := authorize cr (w_store s)\<rparr>)" using Cons.prems by (rule wf_auth_intros(2))
    with None Cons show ?thesis
      by (simp add: quiet_run_then quiet_run_establish accepted_ids_def refused_ids_def authorize_all_Cons)
  next
    case (Some e)
    with Cons show ?thesis by (simp add: quiet_run_then quiet_run_establish accepted_ids_def refused_ids_def)
  qed
qed

lemma all_credentials_invalidate: "all_credentials (invalidate_all st) = all_credentials st"
  by (simp add: all_credentials_def invalidate_all_def comp_def split_def)

lemma flag_all_Cons: "flag_all (cr # crs) st = flag_all crs (snd (flag_for_recovery (cr_account_id cr) st))"
  by (simp add: flag_all_def)

lemma credentials_flag_all: "credentials_of a (flag_all crs st) = credentials_of a st"
  by (induction crs arbitrary: st) (simp_all add: flag_all_def ss.creds_flag)

lemma session_flag_all:
  "session_of a (flag_all crs st) =
    (if a \<in> cr_account_id ` set crs \<and> credentials_of a st \<noteq> None \<and> \<not> is_awaiting (session_of a st)
     then Some (AwaitingRecovery \<lparr>aw_attempts = 0, aw_next_attempt_at = 0\<rparr>) else session_of a st)"
proof (induction crs arbitrary: st)
  case (Cons cr crs)
  show ?case unfolding flag_all_Cons Cons.IH ss.creds_flag ss.sess_flag by auto
qed (simp add: flag_all_def)

lemma all_credentials_ids:
  assumes "wf_store st"
  shows "cr_account_id ` set (all_credentials st) = {a. credentials_of a st \<noteq> None}"
proof -
  have "wf_dict (st_accounts st)" using assms by (simp add: wf_store_def)
  then have "cr \<in> set (all_credentials st) \<longleftrightarrow> (\<exists>a. credentials_of a st = Some cr)" for cr
    by (force simp: all_credentials_def credentials_of_def dict_get_in [symmetric] image_iff)
  then show ?thesis using assms by (auto simp: wf_store_iff)
qed

lemma all_credentials_distinct:
  assumes "wf_store st"
  shows "distinct (map cr_account_id (all_credentials st))"
proof -
  have "\<forall>(a, t) \<in> set (st_accounts st). cr_account_id (ta_credentials t) = a" "wf_dict (st_accounts st)"
    using assms by (auto simp: wf_store_def dict_get_in)
  then have "map cr_account_id (all_credentials st) = map fst (st_accounts st)" "distinct (map fst (st_accounts st))"
    by (auto simp: all_credentials_def wf_dict_def)
  then show ?thesis by simp
qed

subsection \<open>Reported disconnects\<close>

text \<open>
  C21: a reported disconnect is acted upon only if the account is held and authorized, no other
  check of it is under way, and the server then refuses a trader lookup for a reason other than the
  token. In that case the account is flagged for recovery, the loop is woken and one event is
  published. In every other case, whatever the probe answers or raises, nothing changes. The
  check waits for a refresh of the account first and never raises.
\<close>

theorem disconnect_verdict:
  "quiet_run answer saved (handle_account_disconnect a s) =
    (let q = ProtoOATraderReq a;
         waited = (if is_refreshing a (w_store s) then [AwaitedRefresh a] else []) in
     if \<not> is_authorized a (w_store s) \<or> a \<in> set (rc_verifying s) then (waited, Inr (), s)
     else case narrow (ClsReply Cls_ProtoOATraderRes) (answer q) of
         Inl (APIError e) \<Rightarrow>
           if is_token_failure e then (waited @ [Requested q], Inr (), s)
           else (waited @ [Requested q, Emitted (AccountDisconnectEvent a)], Inr (),
                 s\<lparr>w_store := snd (flag_for_recovery a (w_store s)), rc_reauth_signal := True\<rparr>)
       | _ \<Rightarrow> (waited @ [Requested q], Inr (), s))"
proof -
  have cred: "is_authorized a (w_store s) \<Longrightarrow> credentials_of a (w_store s) \<noteq> None"
    using ss.sess_held [of a "w_store s"] by (simp add: is_authorized_iff)
  have same: "a \<notin> set (rc_verifying s) \<Longrightarrow> removeAll a (rc_verifying s) = rc_verifying s" by simp
  have "quiet_run answer saved (verify_disconnect a s) =
    (let q = ProtoOATraderReq a in
     if \<not> is_authorized a (w_store s) \<or> a \<in> set (rc_verifying s) then ([], Inr (), s)
     else case probe_verdict (narrow (ClsReply Cls_ProtoOATraderRes) (answer q)) of
         Inr False \<Rightarrow> ([Requested q, Emitted (AccountDisconnectEvent a)], Inr (),
                 s\<lparr>w_store := snd (flag_for_recovery a (w_store s)), rc_reauth_signal := True\<rparr>)
       | _ \<Rightarrow> ([Requested q], Inr (), s))"
    using cred same
    by (auto simp: verify_disconnect_def quiet_run_then probe_session_def report_dropped_def Let_def split: sum.splits bool.splits)
  then show ?thesis
    by (cases "narrow (ClsReply Cls_ProtoOATraderRes) (answer (ProtoOATraderReq a))" rule: probe_verdict.cases)
      (simp_all add: handle_account_disconnect_def Let_def)
qed

text \<open>
  However the check interleaves with other tasks, it returns without an exception, keeps the
  state well formed, and the only event it may publish is the disconnect of this account, at a
  moment when the account is not authorized.
\<close>

theorem disconnect_interleaved:
  assumes "wf_auth s"
  shows "always (keeps wf_auth) wf_auth (\<lambda>e s. e = AccountDisconnectEvent a \<and> \<not> is_account_authorized a s)
    (\<lambda>r _. r = Inr ()) (handle_account_disconnect a s)"
proof -
  let ?Q = "\<lambda>e s. e = AccountDisconnectEvent a \<and> \<not> is_account_authorized a s"
  have rep: "always (keeps wf_auth) wf_auth ?Q (\<lambda>r _. r = Inr ()) (report_dropped a s)" if "wf_auth s" for s :: "'a recovery_scheme"
  proof -
    have "\<not> is_authorized a (snd (flag_for_recovery a (w_store s)))"
      using ss.sess_held [of a "w_store s"] by (auto simp: is_authorized_iff ss.sess_flag)
    with that show ?thesis
      by (simp add: report_dropped_def is_account_authorized_def wf_auth_intros(5))
  qed
  have probe: "always (keeps wf_auth) wf_auth ?Q (\<lambda>_ _. True) (probe_session a PROBE_TIMEOUT s)" if "wf_auth s" for s :: "'a recovery_scheme"
    using that by (simp add: probe_session_def co_request_def)
  have "always (keeps wf_auth) wf_auth ?Q (\<lambda>r _. r = Inr ()) (verify_disconnect a s)" if "wf_auth s" for s :: "'a recovery_scheme"
    unfolding verify_disconnect_def using that
    by (auto intro!: always_then [where S = "\<lambda>r _. r = Inr ()"] always_then [OF probe] rep split: sum.splits bool.splits)
  with assms show ?thesis by (simp add: handle_account_disconnect_def)
qed

definition sample_policy :: reauth_policy where
  "sample_policy = \<lparr>ra_min_wait = 1, ra_max_wait = 60\<rparr>"

text \<open>Two accounts; the token of the second one has expired.\<close>

definition sample_recovery :: recovery where
  "sample_recovery = auth_state.extend sample_auth
     (recovery.fields sample_policy False [] False 0 0 True True)
     \<lparr>w_store := authorize (sample_credentials\<lparr>cr_account_id := 8, cr_expires_at := 5\<rparr>) (w_store sample_auth)\<rparr>"

lemma wf_sample_recovery: "wf_auth sample_recovery"
  using wf_sample_auth wf_store_ops(1) [of "w_store sample_auth"]
  by (simp add: sample_recovery_def wf_auth_def wf_market_def auth_state.defs recovery.defs)

theorem disconnect_verdict_witness:
  "fst (quiet_run (\<lambda>_. Inl (APIError (api_error_new ''CH_ACCOUNT_NOT_AUTH'' None))) (\<lambda>_. Inr ()) (handle_account_disconnect 8 sample_recovery)) =
     [Requested (ProtoOATraderReq 8), Emitted (AccountDisconnectEvent 8)]"
proof -
  have "is_authorized 8 (w_store sample_recovery)" "\<not> is_refreshing 8 (w_store sample_recovery)" "rc_verifying sample_recovery = []"
    by (simp_all add: sample_recovery_def sample_auth_def auth_state.defs recovery.defs store_init_def is_refreshing_def authorize_def is_authorized_def)
  moreover have "\<not> is_token_failure (api_error_new ''CH_ACCOUNT_NOT_AUTH'' None)"
    by (simp add: is_token_failure_def api_error_new_def error_code_defs)
  ultimately show ?thesis by (simp add: disconnect_verdict narrow_def)
qed

theorem disconnect_interleaved_witness:
  "always (keeps wf_auth) wf_auth (\<lambda>e s. e = AccountDisconnectEvent 7 \<and> \<not> is_account_authorized 7 s)
    (\<lambda>r _. r = Inr ()) (handle_account_disconnect 7 sample_recovery)"
  by (rule disconnect_interleaved [OF wf_sample_recovery])

subsection \<open>After a reconnection\<close>

text \<open>
  C19: after the link was lost and came back, if the server accepts the application, the task sends
  the application's request, then authorizes every held account exactly once, in the order of the
  store, then publishes one report, and does nothing else: no failed account is tried again. The
  report splits the accounts: the restored ones are authorized, and the failed ones, listed with
  their errors, hold no session. None of them is queued for recovery, so nothing tries the failed
  ones again until the next reconnection.
\<close>

theorem reconnect_report:
  assumes "wf_auth s"
    and "narrow (ClsReply Cls_ProtoOAApplicationAuthRes) (answer (app_request s)) = Inr m"
  shows "\<exists>s'. quiet_run answer saved (on_connection_restored show_exn (on_connection_lost s)) =
      (Requested (app_request s) #
         concat (map (\<lambda>cr. establish_effects answer cr RECONNECT s) (all_credentials (w_store s))) @
         [Emitted (ReconnectedEvent True (accepted_ids answer (w_time s) (all_credentials (w_store s)))
            (refused_ids show_exn answer (w_time s) (all_credentials (w_store s))))], Inr (), s') \<and>
    distinct (map cr_account_id (all_credentials (w_store s))) \<and>
    cr_account_id ` set (all_credentials (w_store s)) = {a. credentials_of a (w_store s) \<noteq> None} \<and>
    (\<forall>a. session_of a (w_store s') =
       (if a \<in> set (accepted_ids answer (w_time s) (all_credentials (w_store s))) then Some Authorized else None)) \<and>
    awaiting_recovery_queue (w_store s') = []"
proof -
  let ?crs = "all_credentials (w_store s)"
  let ?ok = "filter (\<lambda>cr. establish_error answer (w_time s) cr = None) ?crs"
  define s1 where "s1 = (on_connection_lost s)\<lparr>au_app_authenticated := True\<rparr>"
  define s' where "s' = s1\<lparr>w_store := authorize_all ?ok (w_store s1)\<rparr>"
  have held: "wf_store (w_store s)" using assms(1) by (simp add: wf_auth_def)
  have wf: "wf_auth s1" using assms(1) wf_auth_intros(4) [of s] by (simp add: s1_def on_connection_lost_def wf_auth_def wf_market_def)
  have f: "w_store s1 = invalidate_all (w_store s)" "w_time s1 = w_time s" "all_credentials (w_store s1) = ?crs"
    "\<And>cr. establish_effects answer cr RECONNECT s1 = establish_effects answer cr RECONNECT s"
    by (simp_all add: s1_def on_connection_lost_def all_credentials_invalidate)
  have req: "app_request (on_connection_lost s) = app_request s" by (simp add: app_request_def on_connection_lost_def)
  have "quiet_run answer saved (on_connection_restored show_exn (on_connection_lost s)) =
      (Requested (app_request s) # concat (map (\<lambda>cr. establish_effects answer cr RECONNECT s) ?crs) @
       [Emitted (ReconnectedEvent True (accepted_ids answer (w_time s) ?crs) (refused_ids show_exn answer (w_time s) ?crs))],
       Inr (), s')"
    using assms(2) quiet_run_reauth_accounts [OF wf, of answer saved show_exn ?crs "[]" "[]"] f
    by (simp add: on_connection_restored_def quiet_run_then quiet_run_app req s1_def [symmetric] s'_def)
  moreover have sess: "session_of a (w_store s') = (if a \<in> set (accepted_ids answer (w_time s) ?crs) then Some Authorized else None)" for a
    by (auto simp: s'_def f session_authorize_all accepted_ids_def ss.sess_invalidate)
  moreover have "awaiting_recovery_queue (w_store s') = []"
    using wf sess by (subst queue_empty_iff) (auto simp: s'_def wf_auth_def wf_authorize_all)
  ultimately show ?thesis using all_credentials_ids [OF held] all_credentials_distinct [OF held] by blast
qed

definition recovery_answer :: "request \<Rightarrow> message res" where
  "recovery_answer q = (case q of
     ProtoOAApplicationAuthReq _ _ \<Rightarrow> Inr (Reply ProtoOAApplicationAuthRes) | _ \<Rightarrow> auth_answer q)"

lemma sample_recovery_simps [simp]:
  "w_store sample_recovery = authorize (sample_credentials\<lparr>cr_account_id := 8, cr_expires_at := 5\<rparr>) (w_store sample_auth)"
  "w_time sample_recovery = 10" "w_now sample_recovery = 0" "rc_policy sample_recovery = sample_policy"
  "rc_app_auth_pending sample_recovery = False" "rc_running sample_recovery = True"
  by (simp_all add: sample_recovery_def sample_auth_def auth_state.defs recovery.defs)

lemma sample_recovery_credentials:
  "all_credentials (w_store sample_recovery) = [sample_credentials, sample_credentials\<lparr>cr_account_id := 8, cr_expires_at := 5\<rparr>]"
  by (simp add: sample_auth_def authorize_def store_init_def all_credentials_def)

lemma sample_outcomes:
  "accepted_ids recovery_answer 10 [sample_credentials, sample_credentials\<lparr>cr_account_id := 8, cr_expires_at := 5\<rparr>] = [7]"
  "refused_ids show_exn recovery_answer 10 [sample_credentials, sample_credentials\<lparr>cr_account_id := 8, cr_expires_at := 5\<rparr>] =
    [(8, show_exn (TokenExpiredError (Some 8)))]"
  by (simp_all add: accepted_ids_def refused_ids_def establish_error_def is_expired_def sample_credentials_def
      recovery_answer_def auth_answer_def narrow_def)

lemma recovery_answer_app: "narrow (ClsReply Cls_ProtoOAApplicationAuthRes) (recovery_answer (app_request s)) = Inr (Reply ProtoOAApplicationAuthRes)"
  by (simp add: app_request_def recovery_answer_def narrow_def)

theorem reconnect_report_witness:
  "\<exists>s'. quiet_run recovery_answer (\<lambda>_. Inr ()) (on_connection_restored (\<lambda>_. ''expired'') (on_connection_lost sample_recovery)) =
      (Requested (app_request sample_recovery) #
         concat (map (\<lambda>cr. establish_effects recovery_answer cr RECONNECT sample_recovery) (all_credentials (w_store sample_recovery))) @
         [Emitted (ReconnectedEvent True [7] [(8, ''expired'')])], Inr (), s') \<and>
    session_of 7 (w_store s') = Some Authorized \<and> session_of 8 (w_store s') = None \<and> awaiting_recovery_queue (w_store s') = []"
  using reconnect_report [where s = sample_recovery and answer = recovery_answer, OF wf_sample_recovery recovery_answer_app, of "\<lambda>_. Inr ()" "\<lambda>_. ''expired''"]
  unfolding sample_recovery_credentials sample_recovery_simps(2) sample_outcomes by fastforce

text \<open>
  C20: if the server refuses the application after a reconnection, that is reported on its own, and
  everything is handed to the recovery loop: the application is to be tried again after the first
  backoff, every held account awaits recovery (keeping the backoff of one that already did), and
  the loop is woken.
\<close>

theorem app_refused_arms:
  assumes "wf_auth s"
    and "narrow (ClsReply Cls_ProtoOAApplicationAuthRes) (answer (app_request s)) = Inl e"
  shows "\<exists>s'. quiet_run answer saved (on_connection_restored show_exn s) =
      ([Requested (app_request s), Emitted (ReconnectedEvent False [] [])], Inr (), s') \<and>
    rc_app_auth_pending s' \<and> rc_reauth_signal s' \<and> rc_app_auth_attempts s' = 1 \<and>
    rc_app_auth_next_at s' = w_now s + min (ra_min_wait (rc_policy s)) (ra_max_wait (rc_policy s)) \<and>
    (\<forall>a. credentials_of a (w_store s') = credentials_of a (w_store s) \<and>
       session_of a (w_store s') =
         (if credentials_of a (w_store s) \<noteq> None \<and> \<not> is_awaiting (session_of a (w_store s))
          then Some (AwaitingRecovery \<lparr>aw_attempts = 0, aw_next_attempt_at = 0\<rparr>) else session_of a (w_store s)))"
proof -
  have wf: "wf_store (w_store s)" using assms(1) by (simp add: wf_auth_def)
  let ?s = "s\<lparr>rc_app_auth_pending := True, rc_app_auth_attempts := 1,
    rc_app_auth_next_at := w_now s + min (ra_min_wait (rc_policy s)) (ra_max_wait (rc_policy s)),
    w_store := flag_all (all_credentials (w_store s)) (w_store s), rc_reauth_signal := True\<rparr>"
  have "arm_app_auth_recovery s = (Inr (), ?s)"
    by (simp add: arm_app_auth_recovery_def defer_app_auth_def backoff_delay_def Let_def)
  then have "quiet_run answer saved (on_connection_restored show_exn s) =
      ([Requested (app_request s), Emitted (ReconnectedEvent False [] [])], Inr (), ?s)"
    using assms(2) by (simp add: on_connection_restored_def quiet_run_then quiet_run_app)
  moreover have "a \<in> cr_account_id ` set (all_credentials (w_store s)) \<longleftrightarrow> credentials_of a (w_store s) \<noteq> None" for a
    using all_credentials_ids [OF wf] by blast
  ultimately show ?thesis
    by (intro exI [of _ ?s]) (simp add: credentials_flag_all session_flag_all)
qed

theorem app_refused_arms_witness:
  "\<exists>s'. quiet_run (\<lambda>_. Inl TimeoutError) (\<lambda>_. Inr ()) (on_connection_restored (\<lambda>_. []) sample_recovery) =
      ([Requested (app_request sample_recovery), Emitted (ReconnectedEvent False [] [])], Inr (), s') \<and>
    rc_app_auth_pending s' \<and> rc_reauth_signal s' \<and> rc_app_auth_attempts s' = 1 \<and> rc_app_auth_next_at s' = 1"
  using app_refused_arms [OF wf_sample_recovery, of "\<lambda>_. Inl TimeoutError" TimeoutError "\<lambda>_. Inr ()" "\<lambda>_. []"]
  by (auto simp: narrow_def sample_policy_def)

subsection \<open>The recovery loop\<close>

text \<open>
  C7: one pass of the recovery loop, with the application authenticated (or pending, due and
  accepted) and no account past its 1024th attempt. What the pass does is exactly this: it
  authorizes each account whose backoff has elapsed once, in the order of the queue, announcing the
  ones the server says already are; with an empty queue it waits for the signal, and with none due
  until the soonest attempt. A due account ends authorized if the server accepts it or says it
  already is, and otherwise stays queued with one attempt more and the next wait doubled up to the
  cap. Accounts that are not due and accounts that are not queued keep their session, so no account
  holds up another.
\<close>

theorem recovery_pass:
  assumes "wf_auth s" "\<forall>a w. session_of a (w_store s) = Some (AwaitingRecovery w) \<longrightarrow> aw_attempts w < 1024"
    and "rc_app_auth_pending s \<Longrightarrow> rc_app_auth_next_at s \<le> w_now s \<and>
      narrow (ClsReply Cls_ProtoOAApplicationAuthRes) (answer (app_request s)) = Inr m"
  defines "queue \<equiv> awaiting_recovery_queue (w_store s)"
  defines "due \<equiv> filter (\<lambda>(_, _, w). aw_next_attempt_at w \<le> w_now s) queue"
  shows "\<exists>s'. quiet_run answer saved (reauth_pass s) =
      ((if rc_app_auth_pending s then [Requested (app_request s)] else []) @
       (if queue = [] then [AwaitedFlag None]
        else if due = [] then [AwaitedFlag (Some (soonest queue - w_now s))]
        else concat (map (recovery_effects answer s) due)), Inr (), s') \<and>
    distinct (map fst due) \<and> \<not> rc_app_auth_pending s' \<and>
    (\<forall>a. session_of a (w_store s') = (case session_of a (w_store s) of
        Some (AwaitingRecovery w) \<Rightarrow>
          if aw_next_attempt_at w \<le> w_now s
          then if recovered answer (w_time s) (the (credentials_of a (w_store s))) then Some Authorized
               else Some (AwaitingRecovery (next_retry (rc_policy s) (w_now s) w))
          else Some (AwaitingRecovery w)
      | r \<Rightarrow> r))"
proof -
  define s1 where "s1 = (if rc_app_auth_pending s
    then s\<lparr>rc_reauth_signal := False, au_app_authenticated := True, rc_app_auth_pending := False, rc_app_auth_attempts := 0\<rparr>
    else s\<lparr>rc_reauth_signal := False\<rparr>)"
  have f: "w_store s1 = w_store s" "w_time s1 = w_time s" "w_now s1 = w_now s" "rc_policy s1 = rc_policy s"
    "\<not> rc_app_auth_pending s1" "due_effects answer s1 = due_effects answer s" by (simp_all add: s1_def due_effects_def Let_def)
  have "wf_auth s1" using assms(1) by (simp add: s1_def)
  from quiet_run_recover_due [OF this, of answer saved, unfolded f, OF assms(2)] obtain st where
    run: "quiet_run answer saved (recover_due s1) = (due_effects answer s, Inr (), s1\<lparr>w_store := st\<rparr>)"
    and st: "\<forall>a. session_of a st = (case session_of a (w_store s) of
        Some (AwaitingRecovery w) \<Rightarrow>
          if aw_next_attempt_at w \<le> w_now s
          then if recovered answer (w_time s) (the (credentials_of a (w_store s))) then Some Authorized
               else Some (AwaitingRecovery (next_retry (rc_policy s) (w_now s) w))
          else Some (AwaitingRecovery w)
      | r \<Rightarrow> r)" by blast
  have "quiet_run answer saved (reauth_pass s) =
      ((if rc_app_auth_pending s then [Requested (app_request s)] else []) @ due_effects answer s, Inr (), s1\<lparr>w_store := st\<rparr>)"
    using run assms(3)
    by (auto simp: reauth_pass_def Let_def s1_def quiet_run_bind retry_app_auth_def quiet_run_then quiet_run_app app_request_def)
  moreover have "distinct (map fst due)"
    using assms(1) by (simp add: due_def queue_def wf_auth_def queue_distinct distinct_map_filter)
  ultimately show ?thesis using st f(5)
    by (intro exI [of _ "s1\<lparr>w_store := st\<rparr>"]) (simp add: due_effects_def Let_def queue_def due_def)
qed

text \<open>Both accounts dropped by the server, the second for the third time.\<close>

definition sample_dropped :: recovery where
  "sample_dropped = sample_recovery\<lparr>w_store := reschedule_recovery 8 \<lparr>aw_attempts = 3, aw_next_attempt_at = -1\<rparr>
     (flag_all (all_credentials (w_store sample_recovery)) (w_store sample_recovery))\<rparr>"

lemma sample_dropped_simps [simp]:
  "w_time sample_dropped = 10" "w_now sample_dropped = 0" "rc_policy sample_dropped = sample_policy"
  "rc_app_auth_pending sample_dropped = False" "rc_running sample_dropped = True"
  by (simp_all add: sample_dropped_def)

lemma sample_dropped_sessions:
  "session_of a (w_store sample_dropped) =
    (if a = 7 then Some (AwaitingRecovery \<lparr>aw_attempts = 0, aw_next_attempt_at = 0\<rparr>)
     else if a = 8 then Some (AwaitingRecovery \<lparr>aw_attempts = 3, aw_next_attempt_at = -1\<rparr>) else None)"
  "credentials_of 7 (w_store sample_dropped) = Some sample_credentials"
  "credentials_of 8 (w_store sample_dropped) = Some (sample_credentials\<lparr>cr_account_id := 8, cr_expires_at := 5\<rparr>)"
proof -
  have st: "session_of b (w_store sample_recovery) = (if b = 7 \<or> b = 8 then Some Authorized else None)"
    "credentials_of b (w_store sample_recovery) = (if b = 8 then Some (sample_credentials\<lparr>cr_account_id := 8, cr_expires_at := 5\<rparr>)
      else if b = 7 then Some sample_credentials else None)" for b
    by (simp_all add: ss.sess_auth ss.creds_auth sample_auth_def, simp_all add: session_of_def credentials_of_def store_init_def)
  show "session_of a (w_store sample_dropped) =
    (if a = 7 then Some (AwaitingRecovery \<lparr>aw_attempts = 0, aw_next_attempt_at = 0\<rparr>)
     else if a = 8 then Some (AwaitingRecovery \<lparr>aw_attempts = 3, aw_next_attempt_at = -1\<rparr>) else None)"
    "credentials_of 7 (w_store sample_dropped) = Some sample_credentials"
    "credentials_of 8 (w_store sample_dropped) = Some (sample_credentials\<lparr>cr_account_id := 8, cr_expires_at := 5\<rparr>)"
    using sample_recovery_credentials
    by (simp_all add: sample_dropped_def ss.sess_resched ss.creds_resched session_flag_all credentials_flag_all st
        del: sample_recovery_simps(1))
qed

lemma wf_sample_dropped: "wf_auth sample_dropped"
proof -
  have "wf_store (flag_all crs st)" if "wf_store st" for crs st
    using that by (induction crs arbitrary: st) (simp_all add: flag_all_def wf_store_ops)
  then show ?thesis using wf_sample_recovery by (simp add: sample_dropped_def wf_auth_def wf_store_ops)
qed

theorem recovery_pass_witness:
  "\<exists>es s'. quiet_run recovery_answer (\<lambda>_. Inr ()) (reauth_pass sample_dropped) = (es, Inr (), s') \<and> \<not> rc_app_auth_pending s' \<and>
    session_of 7 (w_store s') = Some Authorized \<and>
    session_of 8 (w_store s') = Some (AwaitingRecovery \<lparr>aw_attempts = 4, aw_next_attempt_at = 8\<rparr>)"
proof -
  have "recovered recovery_answer 10 sample_credentials"
    "\<not> recovered recovery_answer 10 (sample_credentials\<lparr>cr_account_id := 8, cr_expires_at := 5\<rparr>)"
    by (simp_all add: recovered_def establish_error_def is_expired_def sample_credentials_def recovery_answer_def
        auth_answer_def narrow_def)
  note verdicts = this
  have few: "\<forall>a w. session_of a (w_store sample_dropped) = Some (AwaitingRecovery w) \<longrightarrow> aw_attempts w < 1024"
    by (simp add: sample_dropped_sessions)
  obtain es s' where run: "quiet_run recovery_answer (\<lambda>_. Inr ()) (reauth_pass sample_dropped) = (es, Inr (), s')"
    "\<not> rc_app_auth_pending s'"
    and sess: "\<forall>a. session_of a (w_store s') = (case session_of a (w_store sample_dropped) of
        Some (AwaitingRecovery w) \<Rightarrow>
          if aw_next_attempt_at w \<le> w_now sample_dropped
          then if recovered recovery_answer (w_time sample_dropped) (the (credentials_of a (w_store sample_dropped)))
               then Some Authorized
               else Some (AwaitingRecovery (next_retry (rc_policy sample_dropped) (w_now sample_dropped) w))
          else Some (AwaitingRecovery w)
      | r \<Rightarrow> r)"
    using recovery_pass [where s = sample_dropped and answer = recovery_answer and saved = "\<lambda>_. Inr ()", OF wf_sample_dropped few]
    by (auto simp del: concat.simps list.map)
  have "session_of 7 (w_store s') = Some Authorized"
    "session_of 8 (w_store s') = Some (AwaitingRecovery \<lparr>aw_attempts = 4, aw_next_attempt_at = 8\<rparr>)"
    using sess [rule_format, of 7] sess [rule_format, of 8] verdicts
    by (simp_all add: sample_dropped_sessions next_retry_def sample_policy_def)
  with run show ?thesis by blast
qed



text \<open>
  The backoff of attempt \<open>n\<close> starts at the minimum (or the cap), doubles with every attempt
  and never exceeds the cap, up to attempt 1024.
\<close>

theorem backoff_doubles:
  assumes "0 \<le> ra_min_wait p" "0 \<le> ra_max_wait p" "1 \<le> n" "n \<le> 1024"
  shows "\<exists>d. backoff_delay p n = Inr d \<and> 0 \<le> d \<and> d \<le> ra_max_wait p \<and>
    (n = 1 \<longrightarrow> d = min (ra_min_wait p) (ra_max_wait p)) \<and>
    (n < 1024 \<longrightarrow> backoff_delay p (n + 1) = Inr (min (2 * d) (ra_max_wait p)))"
proof -
  have "(2 :: rat) powi n = 2 * 2 powi (n - 1)" using power_int_add_1 [of "2 :: rat" "n - 1"] by simp
  moreover have "0 \<le> (2 :: rat) powi (n - 1)" by simp
  ultimately show ?thesis using assms by (auto simp: backoff_delay_def min_def)
qed

theorem backoff_doubles_witness:
  "\<exists>d. backoff_delay sample_policy 6 = Inr d \<and> 0 \<le> d \<and> d \<le> 60 \<and>
    backoff_delay sample_policy 7 = Inr (min (2 * d) 60)"
  using backoff_doubles [of sample_policy 6] by (simp add: sample_policy_def)

text \<open>
  C39: computing the backoff of attempt 1025 raises, whatever the policy, because the factor no
  longer converts to a float. An account that is refused for the 1025th time therefore ends the
  recovery loop with an \<open>OverflowError\<close>, although recovery is meant to be retried indefinitely.
\<close>

theorem recovery_overflows:
  assumes wf: "wf_auth s" and running: "rc_running s" "\<not> rc_app_auth_pending s"
    and queue: "awaiting_recovery_queue (w_store s) = [(a, cr, w)]" "aw_next_attempt_at w \<le> w_now s" "1024 \<le> aw_attempts w"
    and refused: "\<not> recovered answer (w_time s) cr"
  shows "\<exists>es. quiet_run answer saved (reauth_loop (Suc k) s) = (es, Inl OverflowError, s\<lparr>rc_reauth_signal := False\<rparr>)"
proof -
  let ?s = "s\<lparr>rc_reauth_signal := False\<rparr>"
  obtain e where e: "establish_error answer (w_time s) cr = Some e" "\<not> is_already_authorized e"
    using refused by (auto simp: recovered_def split: option.splits)
  have "wf_auth ?s" using wf by simp
  from quiet_run_establish [OF this, of answer saved cr ACCOUNT_REAUTH AUTH_TIMEOUT] e
  have "\<exists>es. quiet_run answer saved (recover_account (a, cr, w) ?s) = (es, Inl OverflowError, ?s)"
    using queue(3) by (simp add: recover_account_def quiet_run_try defer_recovery_def backoff_delay_def)
  then show ?thesis using running queue by (auto simp: reauth_pass_def recover_due_def Let_def quiet_run_bind)
qed

definition sample_exhausted :: recovery where
  "sample_exhausted = sample_recovery\<lparr>w_store := reschedule_recovery 7 \<lparr>aw_attempts = 1024, aw_next_attempt_at = 0\<rparr>
     (snd (flag_for_recovery 7 (w_store sample_auth)))\<rparr>"

theorem recovery_overflows_witness:
  "\<exists>es. quiet_run (\<lambda>_. Inl TimeoutError) (\<lambda>_. Inr ()) (reauth_loop (Suc 0) sample_exhausted) =
    (es, Inl OverflowError, sample_exhausted\<lparr>rc_reauth_signal := False\<rparr>)"
proof (rule recovery_overflows)
  show "wf_auth sample_exhausted"
    using wf_sample_recovery wf_sample_auth by (simp add: sample_exhausted_def wf_auth_def wf_store_ops)
  show "awaiting_recovery_queue (w_store sample_exhausted) =
      [(7, sample_credentials, \<lparr>aw_attempts = 1024, aw_next_attempt_at = 0\<rparr>)]"
    by (simp add: sample_exhausted_def sample_auth_def authorize_def store_init_def flag_for_recovery_def
        reschedule_recovery_def awaiting_recovery_queue_def)
qed (simp_all add: sample_exhausted_def recovered_def establish_error_def is_expired_def sample_credentials_def narrow_def)

end
