(* ===== verification/Refresh_Properties.thy ===== *)
theory Refresh_Properties
  imports Refresh Recovery_Properties
begin

text \<open>
  What a token refresh does: the rotation of the credentials on every branch, the attempts at a
  refusing server, that it settles under every interleaving, and how it shields the account from
  the disconnect the server reports meanwhile.
\<close>

definition sample_refresher :: refresher where
  "sample_refresher = recovery.extend sample_recovery
     (refresher.fields \<lparr>rp_buffer_seconds = 300, rp_check_interval = 60, rp_retry_attempts = 3, rp_retry_min_wait = 1,
        rp_retry_max_wait = 30\<rparr> True True True)"

definition sample_stop :: "int \<Rightarrow> nat \<Rightarrow> bool" where
  "sample_stop n k \<longleftrightarrow> n \<le> int k"

definition sample_wait :: "rat \<Rightarrow> rat \<Rightarrow> nat \<Rightarrow> rat" where
  "sample_wait lo hi k = max lo (min (2 ^ (k - 1)) hi)"

definition refresh_answer :: "request \<Rightarrow> message res" where
  "refresh_answer q = (case q of
     ProtoOARefreshTokenReq _ \<Rightarrow> Inr (Reply (ProtoOARefreshTokenRes
       \<lparr>prt_access_token = ''at2'', prt_token_type = ''bearer'', prt_expires_in = 1000, prt_refresh_token = ''rt2''\<rparr>))
   | _ \<Rightarrow> recovery_answer q)"

lemma sample_stops: "stops_after sample_stop"
  by (simp add: stops_after_def sample_stop_def)

lemma sample_refresher_simps [simp]:
  "w_store sample_refresher = w_store sample_recovery" "w_time sample_refresher = 10" "rf_token_store sample_refresher"
  "rp_retry_attempts (rf_policy sample_refresher) = 3"
  "rp_retry_min_wait (rf_policy sample_refresher) = 1" "rp_retry_max_wait (rf_policy sample_refresher) = 30"
  by (simp_all add: sample_refresher_def sample_recovery_def sample_auth_def auth_state.defs recovery.defs refresher.defs)

lemma wf_sample_refresher: "wf_auth sample_refresher"
  using wf_sample_recovery
  by (simp add: sample_refresher_def wf_auth_def wf_market_def recovery.defs refresher.defs)

lemma sample_held: "credentials_of 7 (w_store sample_refresher) = Some sample_credentials"
  "\<not> is_refreshing 7 (w_store sample_refresher)"
  by (simp_all add: sample_auth_def ss.creds_auth is_refreshing_def) (simp_all add: authorize_def store_init_def)

subsection \<open>One refresh\<close>

lemma establish_error_not_api: "establish_error answer time cr = Some e \<Longrightarrow> \<not> is_api_error e"
  by (auto simp: establish_error_def raise_api_as_not_api split: if_splits sum.splits)

text \<open>
  C8: when the server issues a new pair of tokens, the account holds it from then on, whether or
  not it can be persisted or authorized: the old pair is dead. The pair is saved before the account
  is authorized with it. If both succeed the account is authorized; otherwise its session is as
  before and the failure is raised as a \<open>TokenRefreshError\<close>. In every case no other account is
  touched and the mark of the refresh is gone.
\<close>

theorem refresh_rotates:
  assumes "wf_auth s" "credentials_of a (w_store s) = Some cr" "\<not> is_refreshing a (w_store s)" "0 < fuel"
    and reply: "narrow (ClsReply Cls_ProtoOARefreshTokenRes) (answer (ProtoOARefreshTokenReq (cr_refresh_token cr))) = Inr m"
    and save: "\<forall>c e. saved c = Inl e \<longrightarrow> \<not> is_api_error e"
  defines "new \<equiv> rotated (w_time s) m cr"
  shows "\<exists>s'. quiet_run answer saved (refresh_account stop wait fuel a s) =
      (Requested (ProtoOARefreshTokenReq (cr_refresh_token cr)) # (if rf_token_store s then [Saved new] else []) @
         (if rf_token_store s \<and> (\<exists>e. saved new = Inl e) then [] else establish_effects answer new TOKEN_REFRESH s),
       case rotation_error answer saved (rf_token_store s) (w_time s) new of
         Some e \<Rightarrow> Inl (TokenRefreshError (Some a) (Some e)) | None \<Rightarrow> Inr True, s') \<and>
    (\<forall>b. credentials_of b (w_store s') = (if b = a then Some new else credentials_of b (w_store s)) \<and>
       session_of b (w_store s') =
         (if b = a \<and> rotation_error answer saved (rf_token_store s) (w_time s) new = None then Some Authorized
          else session_of b (w_store s))) \<and>
    \<not> is_refreshing a (w_store s')"
proof -
  let ?s = "s\<lparr>w_store := begin_refresh a (w_store s)\<rparr>"
  let ?err = "rotation_error answer saved (rf_token_store s) (w_time s) new"
  let ?st = "case ?err of Some _ \<Rightarrow> replace_credentials new (w_store ?s)
    | None \<Rightarrow> authorize new (replace_credentials new (w_store ?s))"
  let ?es = "Requested (ProtoOARefreshTokenReq (cr_refresh_token cr)) # (if rf_token_store s then [Saved new] else []) @
         (if rf_token_store s \<and> (\<exists>e. saved new = Inl e) then [] else establish_effects answer new TOKEN_REFRESH s)"
  have a: "cr_account_id new = a"
    using assms(1,2) by (simp add: new_def rotated_def with_refreshed_tokens_def Let_def wf_auth_def wf_store_iff)
  obtain f where f: "fuel = Suc f" using \<open>0 < fuel\<close> by (cases fuel) auto
  have not_api: "?err = Some e \<Longrightarrow> \<not> is_api_error e" for e
    using save by (auto simp: rotation_error_def establish_error_not_api split: sum.splits if_splits)
  have "wf_auth ?s" using assms(1) by (rule wf_auth_intros(7))
  from quiet_run_rotation [where answer = answer and cr = cr, OF this reply, of saved a] not_api
  have "quiet_run answer saved (refresh_attempts stop wait fuel 1 a cr ?s) =
      (?es, case ?err of Some e \<Rightarrow> Inl e | None \<Rightarrow> Inr True, s\<lparr>w_store := ?st\<rparr>)"
    by (auto simp: f quiet_run_then new_def [symmetric] split: option.splits)
  then have "quiet_run answer saved (refresh_account stop wait fuel a s) =
      (?es, case ?err of Some e \<Rightarrow> Inl (TokenRefreshError (Some a) (Some e)) | None \<Rightarrow> Inr True,
       s\<lparr>w_store := snd (end_refresh a ?st)\<rparr>)"
    by (auto simp: refresh_account_def assms(2) quiet_run_then split: option.splits)
  moreover have "\<not> is_refreshing a (snd (end_refresh a ?st))" by (simp add: is_refreshing_def end_refresh_def)
  ultimately show ?thesis
    by (intro exI [of _ "s\<lparr>w_store := snd (end_refresh a ?st)\<rparr>"])
      (auto simp: refresh_mark_simps store_simps a split: option.splits)
qed

theorem refresh_rotates_witness:
  "\<exists>s'. quiet_run refresh_answer (\<lambda>_. Inl (OSError ''disk full'')) (refresh_account sample_stop sample_wait 3 7 sample_refresher) =
      ([Requested (ProtoOARefreshTokenReq ''rt''),
        Saved \<lparr>cr_account_id = 7, cr_access_token = ''at2'', cr_refresh_token = ''rt2'', cr_expires_at = 1010\<rparr>],
       Inl (TokenRefreshError (Some 7) (Some (OSError ''disk full''))), s') \<and>
    credentials_of 7 (w_store s') = Some \<lparr>cr_account_id = 7, cr_access_token = ''at2'', cr_refresh_token = ''rt2'', cr_expires_at = 1010\<rparr> \<and>
    \<not> is_refreshing 7 (w_store s')"
proof -
  let ?m = "Reply (ProtoOARefreshTokenRes
       \<lparr>prt_access_token = ''at2'', prt_token_type = ''bearer'', prt_expires_in = 1000, prt_refresh_token = ''rt2''\<rparr>)"
  have "narrow (ClsReply Cls_ProtoOARefreshTokenRes) (refresh_answer (ProtoOARefreshTokenReq (cr_refresh_token sample_credentials))) = Inr ?m"
    by (simp add: refresh_answer_def narrow_def)
  from refresh_rotates [where answer = refresh_answer and cr = sample_credentials and saved = "\<lambda>_. Inl (OSError ''disk full'')" and
      fuel = 3 and stop = sample_stop and wait = sample_wait, OF wf_sample_refresher sample_held _ this]
  show ?thesis
    by (auto simp: rotated_def reply_tokens_def with_refreshed_tokens_def sample_credentials_def rotation_error_def)
qed

text \<open>
  C18: when the server refuses, nothing changes and the failure is raised as a \<open>TokenRefreshError\<close>.
  A refusal that names the token, and anything that is not an API error, ends the refresh after one
  request and no pause. Any other API error is retried: \<open>retry_attempts\<close> requests in all (at least
  one), and between attempt \<open>k\<close> and the next exactly the pause the policy gives for \<open>k\<close>.
\<close>

theorem refresh_gives_up:
  assumes "wf_auth s" "credentials_of a (w_store s) = Some cr" "\<not> is_refreshing a (w_store s)"
    and "stops_after stop" "0 < fuel" "rp_retry_attempts (rf_policy s) \<le> int fuel"
    and refused: "narrow (ClsReply Cls_ProtoOARefreshTokenRes) (answer (ProtoOARefreshTokenReq (cr_refresh_token cr))) = Inl e"
  defines "q \<equiv> ProtoOARefreshTokenReq (cr_refresh_token cr)"
  shows "quiet_run answer saved (refresh_account stop wait fuel a s) =
      (Requested q #
         (if is_api_error (raise_api_as (refresh_refusal a) e)
          then concat (map (\<lambda>k. [Slept (wait (rp_retry_min_wait (rf_policy s)) (rp_retry_max_wait (rf_policy s)) k), Requested q])
                 [1..<nat (max 1 (rp_retry_attempts (rf_policy s)))])
          else []),
       Inl (TokenRefreshError (Some a) (Some (raise_api_as (refresh_refusal a) e))), s)"
proof -
  let ?s = "s\<lparr>w_store := begin_refresh a (w_store s)\<rparr>"
  let ?es = "Requested q #
         (if is_api_error (raise_api_as (refresh_refusal a) e)
          then concat (map (\<lambda>k. [Slept (wait (rp_retry_min_wait (rf_policy s)) (rp_retry_max_wait (rf_policy s)) k), Requested q])
                 [1..<nat (max 1 (rp_retry_attempts (rf_policy s)))])
          else [])"
  have "quiet_run answer saved (refresh_attempts stop wait fuel 1 a cr ?s) = (?es, Inl (raise_api_as (refresh_refusal a) e), ?s)"
  proof (cases "is_api_error (raise_api_as (refresh_refusal a) e)")
    case True
    then obtain ae where ae: "e = APIError ae" "\<not> is_token_failure ae"
      by (cases e) (auto simp: refresh_refusal_def split: if_splits)
    define m where "m = nat (max 1 (rp_retry_attempts (rf_policy s)) - 1)"
    have m: "max 1 (rp_retry_attempts (rf_policy ?s)) = int (1 + m)" "m < fuel" "nat (max 1 (rp_retry_attempts (rf_policy s))) = 1 + m"
      using assms(5,6) by (auto simp: m_def max_def)
    from quiet_run_refused_attempts [where answer = answer and cr = cr, OF refused [unfolded ae] ae(2) assms(4) refl m(1) _ m(2), of saved wait a]
    show ?thesis using True ae m(3) refused_attempts_conv [of wait "rf_policy s" q 1 m]
      by (simp add: q_def refresh_refusal_def)
  next
    case False
    obtain f where f: "fuel = Suc f" using assms(5) by (cases fuel) auto
    from quiet_run_refused_attempt [where answer = answer and cr = cr, OF refused, of saved a ?s] False show ?thesis by (simp add: f q_def quiet_run_then)
  qed
  then show ?thesis
    using end_begin_refresh [OF assms(3)] by (simp add: refresh_account_def assms(2) quiet_run_then)
qed

theorem refresh_gives_up_witness:
  "quiet_run (\<lambda>_. Inl (APIError (api_error_new REQUEST_FREQUENCY_EXCEEDED None))) (\<lambda>_. Inr ())
       (refresh_account sample_stop sample_wait 3 7 sample_refresher) =
      ([Requested (ProtoOARefreshTokenReq ''rt''), Slept 1, Requested (ProtoOARefreshTokenReq ''rt''), Slept 2,
        Requested (ProtoOARefreshTokenReq ''rt'')],
       Inl (TokenRefreshError (Some 7) (Some (APIError (api_error_new REQUEST_FREQUENCY_EXCEEDED None)))), sample_refresher)"
proof -
  let ?e = "APIError (api_error_new REQUEST_FREQUENCY_EXCEEDED None)"
  have refused: "narrow (ClsReply Cls_ProtoOARefreshTokenRes) ((\<lambda>_. Inl ?e) (ProtoOARefreshTokenReq (cr_refresh_token sample_credentials))) = Inl ?e"
    by (simp add: narrow_def)
  have "raise_api_as (refresh_refusal 7) ?e = ?e"
    by (simp add: refresh_refusal_def is_token_failure_def api_error_new_def error_code_defs)
  with refresh_gives_up [where answer = "\<lambda>_. Inl ?e" and cr = sample_credentials and fuel = 3 and saved = "\<lambda>_. Inr ()" and
      wait = sample_wait, OF wf_sample_refresher sample_held sample_stops _ _ refused]
  show ?thesis by (simp add: sample_credentials_def sample_wait_def upt_conv_Cons)
qed

subsection \<open>Under interference\<close>

text \<open>
  C17: whatever the server answers from attempt to attempt and however other tasks interleave, a
  refresh ends within \<open>retry_attempts\<close> attempts, publishes nothing, raises nothing but a
  \<open>TokenRefreshError\<close> for its account, keeps the state well formed and leaves no mark behind, so
  whoever waits for it is woken.
\<close>

theorem refresh_settles:
  assumes "wf_refresher p s" "stops_after stop" "0 < fuel" "rp_retry_attempts p \<le> int fuel"
  shows "always (keeps (wf_refresher p)) (wf_refresher p) (\<lambda>_ _. False)
    (\<lambda>r s'. (r = Inr True \<or> (\<exists>e. r = Inl (TokenRefreshError (Some a) (Some e)))) \<and>
       (credentials_of a (w_store s) \<noteq> None \<longrightarrow> \<not> is_refreshing a (w_store s')))
    (refresh_account stop wait fuel a s)"
  using assms by (rule always_refresh_account)

lemma wf_refresher_sample: "wf_refresher (rf_policy sample_refresher) sample_refresher"
  using wf_sample_refresher by (simp add: wf_refresher_def)

theorem refresh_settles_witness:
  "always (keeps (wf_refresher (rf_policy sample_refresher))) (wf_refresher (rf_policy sample_refresher)) (\<lambda>_ _. False)
    (\<lambda>r s'. (r = Inr True \<or> (\<exists>e. r = Inl (TokenRefreshError (Some 7) (Some e)))) \<and>
       (credentials_of 7 (w_store sample_refresher) \<noteq> None \<longrightarrow> \<not> is_refreshing 7 (w_store s')))
    (refresh_account sample_stop sample_wait 3 7 sample_refresher)"
  by (rule refresh_settles [OF wf_refresher_sample sample_stops]) simp_all

text \<open>
  The refresh loop never dies. For any number of rounds and under every interleaving it raises
  nothing; a refresh that fails is published, for its account, and the next account is next.
\<close>

theorem refresh_loop_survives:
  assumes "wf_refresher p s" "stops_after stop" "0 < fuel" "rp_retry_attempts p \<le> int fuel"
  shows "always (keeps (wf_refresher p)) (wf_refresher p)
    (\<lambda>e _. \<exists>a err. e = TokenRefreshFailedEvent a (TokenRefreshError (Some a) err)) (\<lambda>r _. \<forall>e. r \<noteq> Inl e)
    (refresh_loop stop wait fuel m s)"
  using assms(2-4,1) by (rule always_refresh_loop)

theorem refresh_loop_survives_witness:
  "always (keeps (wf_refresher (rf_policy sample_refresher))) (wf_refresher (rf_policy sample_refresher))
    (\<lambda>e _. \<exists>a err. e = TokenRefreshFailedEvent a (TokenRefreshError (Some a) err)) (\<lambda>r _. \<forall>e. r \<noteq> Inl e)
    (refresh_loop sample_stop sample_wait 3 100 sample_refresher)"
  by (rule refresh_loop_survives [OF wf_refresher_sample sample_stops]) simp_all

text \<open>
  C22: the refresher shields its account from the recovery. Take a refresh of a held account along
  any script of outcomes and of interference by other tasks that leave the mark of the account
  alone. Wherever the refresh stands before its end, from its first suspension on, the account is
  marked, so a disconnect the server reports for it at that moment is not acted upon: the check
  neither probes nor publishes anything but waits for the refresh. And when the refresh ends, in
  whatever way, the mark is gone and the check goes on.
\<close>

theorem refresh_shields:
  assumes "credentials_of a (w_store s) = Some cr"
    and "\<forall>(out, f) \<in> set script. \<forall>s. is_refreshing a (w_store s) \<longrightarrow> is_refreshing a (w_store (f s))"
    and "drive (refresh_account stop wait fuel a s) script = Some c"
  shows "case c of
      Return r s' \<Rightarrow> \<not> is_refreshing a (w_store s') \<and> handle_account_disconnect a s' = verify_disconnect a s'
    | _ \<Rightarrow> is_refreshing a (w_store (co_state c)) \<and>
        handle_account_disconnect a (co_state c) = WaitRefresh a (co_state c) (verify_disconnect a)"
proof -
  have "guards (marked a) (\<lambda>s'. \<not> marked a s') c"
    by (rule guards_drive [OF refresh_account_guards [OF assms(1)] _ assms(3)]) (use assms(2) in \<open>auto simp: marked_def\<close>)
  then show ?thesis by (cases c) (simp_all add: marked_def handle_account_disconnect_def)
qed

theorem refresh_shields_witness:
  "\<exists>q t s k r s'. drive (refresh_account sample_stop sample_wait 3 7 sample_refresher) [] = Some (Send q t s k) \<and>
     handle_account_disconnect 7 s = WaitRefresh 7 s (verify_disconnect 7) \<and>
     drive (refresh_account sample_stop sample_wait 3 7 sample_refresher) [(Answer (Inl TimeoutError), id)] = Some (Return r s') \<and>
     \<not> is_refreshing 7 (w_store s')"
proof -
  let ?c = "refresh_account sample_stop sample_wait 3 7 sample_refresher"
  note defs = refresh_account_def refresh_attempt_def co_request_def co_translate_def co_try_def co_bind_def narrow_def
  obtain q t s k r s' where c: "drive ?c [] = Some (Send q t s k)"
    "drive ?c [(Answer (Inl TimeoutError), id)] = Some (Return r s')"
    using sample_held by (simp add: numeral_3_eq_3 defs)
  have "handle_account_disconnect 7 s = WaitRefresh 7 s (verify_disconnect 7)" using refresh_shields [OF sample_held(1) _ c(1)] by simp
  moreover have "\<not> is_refreshing 7 (w_store s')" using refresh_shields [OF sample_held(1) _ c(2)] by simp
  ultimately show ?thesis using c by blast
qed

end
