(* ===== verification/Api.thy ===== *)
theory Api
  imports Market_Data "HOL-Library.Sublist"
begin

text \<open>
  \<open>api/trading.py\<close>, \<open>api/accounts.py\<close> and \<open>api/symbols.py\<close>: the request namespaces. They keep no
  state but their default timeout, the argument \<open>dt\<close>, and run on any state; \<open>clock\<close> reads
  \<open>datetime.now\<close> and \<open>show_enum\<close> is the text of an enum value. Strings are ASCII where \<open>upper()\<close> is
  used.
\<close>

subsection \<open>Trades\<close>

definition raise_if_order_error :: "message \<Rightarrow> unit res" where
  "raise_if_order_error response = (case response of
     Push (ProtoOAOrderErrorEvent p) \<Rightarrow>
       Inl (APIError \<lparr>ae_error_code = or_str (poe_error_code p) ''ORDER_ERROR'', ae_description = nonempty (poe_description p),
         ae_ctid_trader_account_id = nonzero (poe_ctid_trader_account_id p), ae_maintenance_end_timestamp = None,
         ae_retry_after = None\<rparr>)
   | _ \<Rightarrow> Inr ())"

definition proto_to_execution_event :: "(int \<Rightarrow> string) \<Rightarrow> datetime \<Rightarrow> proto_oa_execution_event \<Rightarrow> execution_event res" where
  "proto_to_execution_event show_enum now p =
     bind_res (execution_event_from_proto now p) (\<lambda>event. case event of
         None \<Rightarrow> Inl (APIError (api_error_new ''UNKNOWN_EXECUTION_TYPE''
                   (Some (''Unknown execution type: '' @ show_enum (pex_execution_type p)))))
       | Some e \<Rightarrow> Inr e)"

definition trade_reply :: "(int \<Rightarrow> string) \<Rightarrow> datetime \<Rightarrow> message \<Rightarrow> execution_event res" where
  "trade_reply show_enum now response =
     bind_res (raise_if_order_error response) (\<lambda>_. case response of
         Push (ProtoOAExecutionEvent p) \<Rightarrow> proto_to_execution_event show_enum now p
       | _ \<Rightarrow> Inl (APIError (api_error_new UNEXPECTED_RESPONSE
                (Some (''Expected ProtoOAExecutionEvent, got '' @ class_name (msg_class response))))))"

definition execute_trade ::
  "('s \<Rightarrow> datetime) \<Rightarrow> (int \<Rightarrow> string) \<Rightarrow> rat \<Rightarrow> request \<Rightarrow> rat option \<Rightarrow> 's \<Rightarrow> ('s, execution_event) co" where
  "execute_trade clock show_enum dt request timeout s =
     Send request (api_timeout dt timeout) s (\<lambda>r s'. Return (bind_res r (trade_reply show_enum (clock s'))) s')"

definition place_order where
  "place_order clock show_enum dt account_id request timeout =
     execute_trade clock show_enum dt (ProtoOANewOrderReq (new_order_to_proto request account_id)) timeout"

definition amend_order where
  "amend_order clock show_enum dt account_id request timeout =
     execute_trade clock show_enum dt (ProtoOAAmendOrderReq (amend_order_to_proto request account_id)) timeout"

definition cancel_order where
  "cancel_order clock show_enum dt account_id order_id timeout =
     execute_trade clock show_enum dt (ProtoOACancelOrderReq account_id order_id) timeout"

definition close_position where
  "close_position clock show_enum dt account_id request timeout =
     execute_trade clock show_enum dt (ProtoOAClosePositionReq (close_position_to_proto request account_id)) timeout"

definition amend_position where
  "amend_position clock show_enum dt account_id request timeout =
     execute_trade clock show_enum dt (ProtoOAAmendPositionSLTPReq (amend_position_to_proto request account_id)) timeout"

subsection \<open>Queries\<close>

text \<open>
  A request whose reply is narrowed to a class and converted; the conversion may raise. Narrowing
  leaves one constructor of \<open>reply\<close>, so the other branches of the conversions are never taken.
\<close>

abbreviation unreachable :: "'a res" where "unreachable \<equiv> Inl (OtherException [])"

definition query ::
  "rat \<Rightarrow> request \<Rightarrow> reply_class \<Rightarrow> rat option \<Rightarrow> ('s \<Rightarrow> reply \<Rightarrow> 'a res) \<Rightarrow> 's \<Rightarrow> ('s, 'a) co" where
  "query dt request cls timeout convert s =
     co_bind (co_request request cls (api_timeout dt timeout) s)
       (\<lambda>response s'. Return (case response of Reply r \<Rightarrow> convert s' r | _ \<Rightarrow> unreachable) s')"

definition unrealized_pnl :: "int \<Rightarrow> proto_oa_position_unrealized_pnl \<Rightarrow> position_unrealized_pnl" where
  "unrealized_pnl divisor p =
     \<lparr>up_position_id = ppnl_position_id p, up_gross_unrealized_pnl = money (ppnl_gross_unrealized_pn_l p) divisor,
      up_net_unrealized_pnl = money (ppnl_net_unrealized_pn_l p) divisor\<rparr>"

definition get_unrealized_pnl_per_position :: "rat \<Rightarrow> int \<Rightarrow> 's \<Rightarrow> ('s, position_unrealized_pnl list) co" where
  "get_unrealized_pnl_per_position dt account_id =
     query dt (ProtoOAGetPositionUnrealizedPnLReq account_id) Cls_ProtoOAGetPositionUnrealizedPnLRes None
       (\<lambda>_ r. case r of
          ProtoOAGetPositionUnrealizedPnLRes _ ps digits \<Rightarrow> Inr (map (unrealized_pnl (money_divisor digits)) ps)
        | _ \<Rightarrow> unreachable)"

definition get_open_positions :: "('s \<Rightarrow> datetime) \<Rightarrow> rat \<Rightarrow> int \<Rightarrow> rat option \<Rightarrow> 's \<Rightarrow> ('s, model_position list) co" where
  "get_open_positions clock dt account_id timeout =
     query dt (ProtoOAReconcileReq account_id False) Cls_ProtoOAReconcileRes timeout
       (\<lambda>s r. case r of ProtoOAReconcileRes _ ps _ \<Rightarrow> map_res (position_from_proto (clock s)) ps | _ \<Rightarrow> unreachable)"

definition order_list_reply :: "('s \<Rightarrow> datetime) \<Rightarrow> 's \<Rightarrow> reply \<Rightarrow> model_order list res" where
  "order_list_reply clock s r =
     (case r of ProtoOAOrderListRes _ orders _ \<Rightarrow> map_res (order_from_proto (clock s)) orders | _ \<Rightarrow> unreachable)"

definition get_orders ::
  "('s \<Rightarrow> datetime) \<Rightarrow> rat \<Rightarrow> int \<Rightarrow> rat option \<Rightarrow> datetime option \<Rightarrow> datetime option \<Rightarrow> 's \<Rightarrow> ('s, model_order list) co" where
  "get_orders clock dt account_id timeout from_timestamp to_timestamp =
     query dt (ProtoOAOrderListReq account_id (time_field from_timestamp) (time_field to_timestamp)) Cls_ProtoOAOrderListRes timeout
       (order_list_reply clock)"

definition get_pending_orders :: "('s \<Rightarrow> datetime) \<Rightarrow> rat \<Rightarrow> int \<Rightarrow> rat option \<Rightarrow> 's \<Rightarrow> ('s, model_order list) co" where
  "get_pending_orders clock dt account_id timeout =
     query dt (ProtoOAOrderListReq account_id 0 0) Cls_ProtoOAOrderListRes timeout
       (\<lambda>s r. bind_res (order_list_reply clock s r) (\<lambda>orders. Inr (filter order_is_pending orders)))"

definition get_deals_by_position_id :: "rat \<Rightarrow> int \<Rightarrow> int \<Rightarrow> 's \<Rightarrow> ('s, model_deal list) co" where
  "get_deals_by_position_id dt account_id position_id =
     query dt (ProtoOADealListByPositionIdReq account_id position_id 0 0) Cls_ProtoOADealListByPositionIdRes None
       (\<lambda>_ r. case r of ProtoOADealListByPositionIdRes _ deals _ \<Rightarrow> map_res deal_from_proto deals | _ \<Rightarrow> unreachable)"

definition get_deals :: "rat \<Rightarrow> int \<Rightarrow> datetime \<Rightarrow> datetime \<Rightarrow> rat option \<Rightarrow> 's \<Rightarrow> ('s, model_deal list) co" where
  "get_deals dt account_id from_timestamp to_timestamp timeout =
     query dt (ProtoOADealListReq account_id (datetime_to_ms from_timestamp) (datetime_to_ms to_timestamp) 0)
       Cls_ProtoOADealListRes timeout
       (\<lambda>_ r. case r of ProtoOADealListRes _ deals _ \<Rightarrow> map_res deal_from_proto deals | _ \<Rightarrow> unreachable)"

subsection \<open>Accounts\<close>

definition get_trader :: "rat \<Rightarrow> int \<Rightarrow> rat option \<Rightarrow> 's \<Rightarrow> ('s, account) co" where
  "get_trader dt account_id timeout =
     query dt (ProtoOATraderReq account_id) Cls_ProtoOATraderRes timeout
       (\<lambda>_ r. case r of ProtoOATraderRes _ trader \<Rightarrow> account_from_proto (submsg default_trader trader) | _ \<Rightarrow> unreachable)"

text \<open>Only the request stands inside the \<open>try\<close>; the conversion of the reply follows it.\<close>

fun token_refused :: "message res \<Rightarrow> message res" where
  "token_refused (Inl (APIError e)) = (if is_token_failure e then Inl (TokenExpiredError None) else Inl (APIError e))"
| "token_refused r = r"

definition list_by_token :: "rat \<Rightarrow> string \<Rightarrow> rat option \<Rightarrow> 's \<Rightarrow> ('s, account_summary list) co" where
  "list_by_token dt access_token timeout s =
     co_then (co_request (ProtoOAGetAccountListByAccessTokenReq access_token) Cls_ProtoOAGetAccountListByAccessTokenRes
                (api_timeout dt timeout) s)
       (\<lambda>r. Return (bind_res (token_refused r) (\<lambda>response. case response of
          Reply (ProtoOAGetAccountListByAccessTokenRes _ _ accounts) \<Rightarrow> map_res account_summary_from_proto accounts
        | _ \<Rightarrow> unreachable)))"

fun find_login :: "int \<Rightarrow> account_summary list \<Rightarrow> int option" where
  "find_login trader_login [] = None"
| "find_login trader_login (account # accounts) =
     (if as_trader_login account = trader_login then Some (as_account_id account) else find_login trader_login accounts)"

definition resolve_account_id :: "rat \<Rightarrow> string \<Rightarrow> int \<Rightarrow> rat option \<Rightarrow> 's \<Rightarrow> ('s, int) co" where
  "resolve_account_id dt access_token trader_login timeout s =
     co_bind (list_by_token dt access_token timeout s) (\<lambda>accounts.
       Return (case find_login trader_login accounts of
           Some account_id \<Rightarrow> Inr account_id
         | None \<Rightarrow> Inl (AccountNotFoundError trader_login (Some (map as_trader_login accounts)))))"

subsection \<open>Symbols\<close>

definition list_all_symbols :: "rat \<Rightarrow> int \<Rightarrow> rat option \<Rightarrow> 's \<Rightarrow> ('s, symbol_info list) co" where
  "list_all_symbols dt account_id timeout =
     query dt (ProtoOASymbolsListReq account_id False) Cls_ProtoOASymbolsListRes timeout
       (\<lambda>_ r. case r of ProtoOASymbolsListRes _ symbols _ \<Rightarrow> Inr (map symbol_info_from_proto symbols) | _ \<Rightarrow> unreachable)"

definition get_by_ids :: "rat \<Rightarrow> int \<Rightarrow> int list \<Rightarrow> rat option \<Rightarrow> 's \<Rightarrow> ('s, symbol list) co" where
  "get_by_ids dt account_id symbol_ids timeout =
     query dt (ProtoOASymbolByIdReq account_id symbol_ids) Cls_ProtoOASymbolByIdRes timeout
       (\<lambda>_ r. case r of ProtoOASymbolByIdRes _ symbols _ \<Rightarrow> Inr (map symbol_from_proto symbols) | _ \<Rightarrow> unreachable)"

definition get_by_id :: "rat \<Rightarrow> int \<Rightarrow> int \<Rightarrow> rat option \<Rightarrow> 's \<Rightarrow> ('s, symbol) co" where
  "get_by_id dt account_id symbol_id timeout s =
     co_bind (get_by_ids dt account_id [symbol_id] timeout s) (\<lambda>symbols.
       Return (case symbols of
           [] \<Rightarrow> Inl (ValueError (''Symbol '' @ int_str symbol_id @ '' not found''))
         | x # _ \<Rightarrow> Inr x))"

definition search :: "rat \<Rightarrow> int \<Rightarrow> string \<Rightarrow> rat option \<Rightarrow> 's \<Rightarrow> ('s, symbol_info list) co" where
  "search dt account_id text_query timeout s =
     co_bind (list_all_symbols dt account_id timeout s) (\<lambda>symbols.
       Return (Inr (filter (\<lambda>i. sublist (ascii_upper text_query) (ascii_upper (si_name i))) symbols)))"

subsection \<open>Properties\<close>

lemma quiet_run_trade:
  "quiet_run answer saved (execute_trade clock show_enum dt q timeout s) =
     ([Requested q], bind_res (answer q) (trade_reply show_enum (clock s)), s)"
  by (simp add: execute_trade_def)

lemma trade_reply_execution:
  "trade_reply show_enum now (Push (ProtoOAExecutionEvent p)) = proto_to_execution_event show_enum now p"
  by (simp add: trade_reply_def raise_if_order_error_def)

lemma trade_reply_refused:
  "trade_reply show_enum now (Push (ProtoOAOrderErrorEvent p)) =
     Inl (APIError \<lparr>ae_error_code = or_str (poe_error_code p) ''ORDER_ERROR'', ae_description = nonempty (poe_description p),
       ae_ctid_trader_account_id = nonzero (poe_ctid_trader_account_id p), ae_maintenance_end_timestamp = None,
       ae_retry_after = None\<rparr>)"
  by (simp add: trade_reply_def raise_if_order_error_def)

lemma trade_reply_other:
  assumes "\<forall>p. m \<noteq> Push (ProtoOAExecutionEvent p)"
  shows "trade_reply show_enum now m \<noteq> Inr ev"
proof (cases m)
  case (Push p)
  with assms show ?thesis by (cases p) (simp_all add: trade_reply_def raise_if_order_error_def)
qed (simp_all add: trade_reply_def raise_if_order_error_def)

lemma proto_to_execution_event_Inr:
  "proto_to_execution_event show_enum now p = Inr ev \<longleftrightarrow> execution_event_from_proto now p = Inr (Some ev)"
  by (auto simp: proto_to_execution_event_def bind_res_Inr_conv split: option.splits)

lemma trade_reply_Inr:
  "trade_reply show_enum now m = Inr ev \<longleftrightarrow>
     (\<exists>p. m = Push (ProtoOAExecutionEvent p) \<and> execution_event_from_proto now p = Inr (Some ev))"
proof (cases "\<exists>p. m = Push (ProtoOAExecutionEvent p)")
  case True
  then show ?thesis by (auto simp: trade_reply_execution proto_to_execution_event_Inr)
next
  case False
  then show ?thesis using trade_reply_other [of m] by blast
qed

lemma trade_reply_unexpected:
  assumes "\<forall>p. m \<noteq> Push (ProtoOAExecutionEvent p)" "\<forall>p. m \<noteq> Push (ProtoOAOrderErrorEvent p)"
  shows "trade_reply show_enum now m = Inl (APIError (api_error_new ''UNEXPECTED_RESPONSE''
    (Some (''Expected ProtoOAExecutionEvent, got '' @ class_name (msg_class m)))))"
proof (cases m)
  case (Push p)
  with assms show ?thesis by (cases p) (simp_all add: trade_reply_def raise_if_order_error_def UNEXPECTED_RESPONSE_def)
qed (simp_all add: trade_reply_def raise_if_order_error_def UNEXPECTED_RESPONSE_def)

text \<open>
  C26: every trade call sends one request and returns an execution event exactly when the server
  answered with an execution of a known type that could be converted; it is then the conversion of
  that answer. A rejected order is never returned: it raises an \<open>APIError\<close> with the server's own
  error code (or \<open>ORDER_ERROR\<close> when it sent none), its description and its account. An execution of
  an unknown type raises \<open>UNKNOWN_EXECUTION_TYPE\<close>, any other reply \<open>UNEXPECTED_RESPONSE\<close>, and what the
  request itself raised is passed on.
\<close>

theorem trade_outcomes:
  "\<exists>r. quiet_run answer saved (execute_trade clock show_enum dt q timeout s) = ([Requested q], r, s) \<and>
    (\<forall>ev. r = Inr ev \<longleftrightarrow> (\<exists>p. answer q = Inr (Push (ProtoOAExecutionEvent p)) \<and>
       execution_event_from_proto (clock s) p = Inr (Some ev))) \<and>
    (\<forall>p. answer q = Inr (Push (ProtoOAOrderErrorEvent p)) \<longrightarrow>
       r = Inl (APIError \<lparr>ae_error_code = (if poe_error_code p = [] then ''ORDER_ERROR'' else poe_error_code p),
         ae_description = (if poe_description p = [] then None else Some (poe_description p)),
         ae_ctid_trader_account_id = (if poe_ctid_trader_account_id p = 0 then None else Some (poe_ctid_trader_account_id p)),
         ae_maintenance_end_timestamp = None, ae_retry_after = None\<rparr>)) \<and>
    (\<forall>p. answer q = Inr (Push (ProtoOAExecutionEvent p)) \<and> dict_get EXECUTION_TYPE_MAP (pex_execution_type p) = None \<longrightarrow>
       (\<exists>e. r = Inl (APIError e) \<and> ae_error_code e = ''UNKNOWN_EXECUTION_TYPE'')) \<and>
    (\<forall>m. answer q = Inr m \<and> (\<nexists>p. m = Push (ProtoOAExecutionEvent p)) \<and> (\<nexists>p. m = Push (ProtoOAOrderErrorEvent p)) \<longrightarrow>
       (\<exists>e. r = Inl (APIError e) \<and> ae_error_code e = ''UNEXPECTED_RESPONSE'')) \<and>
    (\<forall>e. answer q = Inl e \<longrightarrow> r = Inl e)"
proof -
  let ?r = "bind_res (answer q) (trade_reply show_enum (clock s))"
  have "?r = Inr ev \<longleftrightarrow> (\<exists>p. answer q = Inr (Push (ProtoOAExecutionEvent p)) \<and> execution_event_from_proto (clock s) p = Inr (Some ev))" for ev
    by (cases "answer q") (simp_all add: trade_reply_Inr)
  moreover have "\<exists>e. ?r = Inl (APIError e) \<and> ae_error_code e = ''UNKNOWN_EXECUTION_TYPE''"
    if "answer q = Inr (Push (ProtoOAExecutionEvent p)) \<and> dict_get EXECUTION_TYPE_MAP (pex_execution_type p) = None" for p
    using that by (simp add: trade_reply_execution proto_to_execution_event_def execution_event_from_proto_def api_error_new_def)
  moreover have "\<exists>e. ?r = Inl (APIError e) \<and> ae_error_code e = ''UNEXPECTED_RESPONSE''"
    if "answer q = Inr m \<and> (\<nexists>p. m = Push (ProtoOAExecutionEvent p)) \<and> (\<nexists>p. m = Push (ProtoOAOrderErrorEvent p))" for m
    using that by (simp add: trade_reply_unexpected api_error_new_def)
  ultimately show ?thesis unfolding quiet_run_trade
    by (intro exI [of _ ?r]) (simp add: trade_reply_refused or_str_def nonempty_def nonzero_def)
qed

theorem trade_outcomes_witness:
  "quiet_run (\<lambda>_. Inr (Push (ProtoOAOrderErrorEvent
      \<lparr>poe_ctid_trader_account_id = 7, poe_error_code = ''NOT_ENOUGH_MONEY'', poe_order_id = 0, poe_position_id = 0, poe_description = []\<rparr>))) (\<lambda>_. Inr ())
      (cancel_order (\<lambda>_. 0) (\<lambda>_. []) 30 7 99 None ()) =
    ([Requested (ProtoOACancelOrderReq 7 99)],
     Inl (APIError \<lparr>ae_error_code = ''NOT_ENOUGH_MONEY'', ae_description = None, ae_ctid_trader_account_id = Some 7,
       ae_maintenance_end_timestamp = None, ae_retry_after = None\<rparr>), ())"
  using trade_outcomes [of "\<lambda>_. Inr (Push (ProtoOAOrderErrorEvent
      \<lparr>poe_ctid_trader_account_id = 7, poe_error_code = ''NOT_ENOUGH_MONEY'', poe_order_id = 0, poe_position_id = 0, poe_description = []\<rparr>))"
      "\<lambda>_. Inr ()" "\<lambda>_. 0" "\<lambda>_. []" 30 "ProtoOACancelOrderReq 7 99" None "()"]
  by (auto simp: cancel_order_def)

lemma find_login_append:
  "find_login l (before @ account # after) = Some (as_account_id account)"
  if "\<forall>x\<in>set before. as_trader_login x \<noteq> l" "as_trader_login account = l"
  using that by (induction before) auto

lemma find_login_Some:
  "find_login l accounts = Some a \<longleftrightarrow>
    (\<exists>before account after. accounts = before @ account # after \<and> as_trader_login account = l \<and>
       as_account_id account = a \<and> l \<notin> as_trader_login ` set before)"
proof
  assume "find_login l accounts = Some a"
  then have "\<exists>x\<in>set accounts. as_trader_login x = l"
    by (induction accounts) (auto split: if_splits)
  then obtain before account after where "accounts = before @ account # after" "as_trader_login account = l"
      "\<forall>x\<in>set before. as_trader_login x \<noteq> l"
    using split_list_first_prop [of accounts "\<lambda>x. as_trader_login x = l"] by blast
  moreover from this have "find_login l accounts = Some (as_account_id account)"
    by (simp add: find_login_append)
  with \<open>find_login l accounts = Some a\<close> have "as_account_id account = a" by simp
  ultimately show "\<exists>before account after. accounts = before @ account # after \<and> as_trader_login account = l \<and>
       as_account_id account = a \<and> l \<notin> as_trader_login ` set before"
    by (intro exI [of _ before] exI [of _ account] exI [of _ after]) auto
qed (auto intro!: find_login_append simp: image_iff)

lemma find_login_None: "find_login l accounts = None \<longleftrightarrow> l \<notin> as_trader_login ` set accounts"
  by (induction accounts) auto

text \<open>
  Resolving a login against the accounts the server lists gives the id of the first one with
  that login, and raises, naming every login there is, exactly when there is none. A refusal
  that names the token is a \<open>TokenExpiredError\<close>.
\<close>

theorem login_resolved:
  assumes "answer (ProtoOAGetAccountListByAccessTokenReq token) = Inr (Reply (ProtoOAGetAccountListByAccessTokenRes tok scope protos))"
    and "map_res account_summary_from_proto protos = Inr accounts"
  shows "\<exists>r. quiet_run answer saved (resolve_account_id dt token login timeout s) =
      ([Requested (ProtoOAGetAccountListByAccessTokenReq token)], r, s) \<and>
    (\<forall>a. r = Inr a \<longleftrightarrow> (\<exists>before account after. accounts = before @ account # after \<and>
       as_trader_login account = login \<and> as_account_id account = a \<and> login \<notin> as_trader_login ` set before)) \<and>
    (login \<notin> as_trader_login ` set accounts \<longleftrightarrow>
       r = Inl (AccountNotFoundError login (Some (map as_trader_login accounts))))"
proof -
  let ?r = "case find_login login accounts of
      Some a \<Rightarrow> Inr a | None \<Rightarrow> Inl (AccountNotFoundError login (Some (map as_trader_login accounts)))"
  have run: "quiet_run answer saved (resolve_account_id dt token login timeout s) =
      ([Requested (ProtoOAGetAccountListByAccessTokenReq token)], ?r, s)"
    using assms by (simp add: resolve_account_id_def list_by_token_def quiet_run_bind quiet_run_then narrow_def)
  have found: "?r = Inr a \<longleftrightarrow> find_login login accounts = Some a" for a by (simp split: option.split)
  have missing: "find_login login accounts = None \<longleftrightarrow> ?r = Inl (AccountNotFoundError login (Some (map as_trader_login accounts)))"
    by (simp split: option.split)
  show ?thesis
    by (rule exI [of _ ?r], intro conjI allI run)
       (simp_all only: found find_login_Some find_login_None [symmetric] missing)
qed

definition sample_trader_account :: "int \<Rightarrow> int \<Rightarrow> proto_oa_ctid_trader_account" where
  "sample_trader_account a login = \<lparr>pcta_ctid_trader_account_id = a, pcta_is_live = False, pcta_trader_login = login,
     pcta_last_closing_deal_timestamp = 0, pcta_last_balance_update_timestamp = 0, pcta_broker_title_short = []\<rparr>"

theorem login_resolved_witness:
  "\<exists>r. quiet_run (\<lambda>_. Inr (Reply (ProtoOAGetAccountListByAccessTokenRes ''t'' 1 [sample_trader_account 7 100, sample_trader_account 8 200])))
      (\<lambda>_. Inr ()) (resolve_account_id 30 ''t'' 300 None ()) =
      ([Requested (ProtoOAGetAccountListByAccessTokenReq ''t'')], r, ()) \<and>
    r = Inl (AccountNotFoundError 300 (Some [100, 200]))"
proof -
  let ?ps = "[sample_trader_account 7 100, sample_trader_account 8 200]"
  obtain accounts where acc: "map_res account_summary_from_proto ?ps = Inr accounts" "map as_trader_login accounts = [100, 200]"
    by (simp add: account_summary_from_proto_def sample_trader_account_def opt_time_def)
  from acc(2) have "as_trader_login ` set accounts = {100, 200}" by (simp flip: set_map)
  then show ?thesis
    using login_resolved [where answer = "\<lambda>_. Inr (Reply (ProtoOAGetAccountListByAccessTokenRes ''t'' 1 ?ps))" and token = "''t''"
        and tok = "''t''" and scope = 1 and saved = "\<lambda>_. Inr ()" and dt = 30 and login = 300 and timeout = None and s = "()", OF refl acc(1)]
    by (simp add: acc(2))
qed

lemma ascii_upper_idem [simp]: "ascii_upper (ascii_upper x) = ascii_upper x"
proof -
  have "\<not> CHR ''a'' \<le> (char_of (of_char c - 32 :: nat) :: char)" if "CHR ''a'' \<le> c" "c \<le> CHR ''z''" for c
  proof -
    from that have "(of_char c :: nat) \<le> 122" by (simp add: less_eq_char_def)
    then show ?thesis by (simp add: less_eq_char_def)
  qed
  then show ?thesis by (simp add: ascii_upper_def comp_def)
qed

text \<open>
  A search lists the account's symbols once and keeps, in the server's order, exactly those whose
  name contains the text up to case; the case of the text does not matter, and the empty text keeps
  them all.
\<close>

theorem search_keeps_matches:
  assumes "answer (ProtoOASymbolsListReq account False) = Inr (Reply (ProtoOASymbolsListRes acc symbols archived))"
  shows "\<exists>found. quiet_run answer saved (search dt account text_query timeout s) =
      ([Requested (ProtoOASymbolsListReq account False)], Inr found, s) \<and>
    subseq found (map symbol_info_from_proto symbols) \<and>
    (\<forall>i \<in> set (map symbol_info_from_proto symbols). i \<in> set found \<longleftrightarrow>
       (\<exists>before after. ascii_upper (si_name i) = before @ ascii_upper text_query @ after)) \<and>
    quiet_run answer saved (search dt account (ascii_upper text_query) timeout s) =
      ([Requested (ProtoOASymbolsListReq account False)], Inr found, s) \<and>
    (text_query = [] \<longrightarrow> found = map symbol_info_from_proto symbols)"
proof -
  let ?infos = "map symbol_info_from_proto symbols"
  have run: "quiet_run answer saved (search dt account q timeout s) =
      ([Requested (ProtoOASymbolsListReq account False)],
       Inr (filter (\<lambda>i. sublist (ascii_upper q) (ascii_upper (si_name i))) ?infos), s)" for q
    using assms by (simp add: search_def list_all_symbols_def query_def quiet_run_bind narrow_def)
  show ?thesis
    by (rule exI [of _ "filter (\<lambda>i. sublist (ascii_upper text_query) (ascii_upper (si_name i))) ?infos"],
        intro conjI run run [of "ascii_upper text_query", unfolded ascii_upper_idem] subseq_filter_left)
       ((auto simp: sublist_def) [1], simp add: ascii_upper_def)
qed

definition sample_light_symbol :: "int \<Rightarrow> string \<Rightarrow> proto_oa_light_symbol" where
  "sample_light_symbol i name = \<lparr>plsym_symbol_id = i, plsym_symbol_name = name, plsym_enabled = True, plsym_base_asset_id = 0,
     plsym_quote_asset_id = 0, plsym_symbol_category_id = 0, plsym_description = [], plsym_sorting_number = 0\<rparr>"

theorem search_keeps_matches_witness:
  "quiet_run (\<lambda>_. Inr (Reply (ProtoOASymbolsListRes 7 [sample_light_symbol 1 ''EURUSD'', sample_light_symbol 2 ''XAUUSD''] [])))
      (\<lambda>_. Inr ()) (search 30 7 [] None ()) =
    ([Requested (ProtoOASymbolsListReq 7 False)],
     Inr [symbol_info_from_proto (sample_light_symbol 1 ''EURUSD''), symbol_info_from_proto (sample_light_symbol 2 ''XAUUSD'')], ())"
  using search_keeps_matches [where answer = "\<lambda>_. Inr (Reply (ProtoOASymbolsListRes 7 [sample_light_symbol 1 ''EURUSD'', sample_light_symbol 2 ''XAUUSD''] []))"
      and account = 7 and saved = "\<lambda>_. Inr ()" and dt = 30 and text_query = "[]" and timeout = None and s = "()", OF refl]
  by auto

text \<open>
  C33: amounts of money are not rounded. Every balance, bonus, swap, commission, margin and profit
  of up to 28 digits (so every one a 64-bit field can hold) that an account, a position, a deal, the
  closing detail of a deal or the unrealized profit of a position carries is exactly the integer on
  the wire over ten to the digits sent with it, an omitted exponent counting as 2.
\<close>

theorem money_not_rounded:
  assumes "account_from_proto tr = Inr a" "position_from_proto now po = Inr p" "deal_from_proto de = Inr d"
  defines "cl \<equiv> submsg default_close_position_detail (pdeal_close_position_detail de)"
  assumes digits: "\<forall>v \<in> {ptr_balance tr, ptr_manager_bonus tr, ptr_ib_bonus tr, ptr_non_withdrawable_bonus tr,
      ppos_swap po, ppos_commission po, ppos_used_margin po, pdeal_commission de, pcpd_gross_profit cl, pcpd_swap cl,
      pcpd_commission cl, pcpd_balance cl, pcpd_pnl_conversion_fee cl, ppnl_gross_unrealized_pn_l u, ppnl_net_unrealized_pn_l u}.
      \<bar>v\<bar> < 10 ^ 28"
  shows "(let D = 10 ^ effective_money_digits (ptr_money_digits tr) in
      ac_balance a = of_int (ptr_balance tr) / D \<and>
      ac_manager_bonus a = map_option (\<lambda>v. of_int v / D) (nonzero (ptr_manager_bonus tr)) \<and>
      ac_ib_bonus a = map_option (\<lambda>v. of_int v / D) (nonzero (ptr_ib_bonus tr)) \<and>
      ac_non_withdrawable_bonus a = map_option (\<lambda>v. of_int v / D) (nonzero (ptr_non_withdrawable_bonus tr))) \<and>
    (let D = 10 ^ effective_money_digits (ppos_money_digits po) in
      p_swap p = of_int (ppos_swap po) / D \<and> p_commission p = of_int (ppos_commission po) / D \<and>
      p_used_margin p = of_int (ppos_used_margin po) / D) \<and>
    d_commission d = of_int (pdeal_commission de) / 10 ^ effective_money_digits (pdeal_money_digits de) \<and>
    (\<forall>cd. d_close_detail d = Some cd \<longrightarrow> (let D = 10 ^ effective_money_digits (pcpd_money_digits cl) in
      cd_gross_profit cd = of_int (pcpd_gross_profit cl) / D \<and> cd_swap cd = of_int (pcpd_swap cl) / D \<and>
      cd_commission cd = of_int (pcpd_commission cl) / D \<and> cd_balance cd = of_int (pcpd_balance cl) / D \<and>
      cd_pnl_conversion_fee cd = of_int (pcpd_pnl_conversion_fee cl) / D)) \<and>
    (let D = 10 ^ effective_money_digits dg; r = unrealized_pnl (money_divisor dg) u in
      up_gross_unrealized_pnl r = of_int (ppnl_gross_unrealized_pn_l u) / D \<and>
      up_net_unrealized_pnl r = of_int (ppnl_net_unrealized_pn_l u) / D)"
proof -
  have bonus: "\<bar>v\<bar> < 10 ^ 28 \<Longrightarrow> opt_money v (money_divisor dg) = map_option (\<lambda>v. of_int v / 10 ^ effective_money_digits dg) (nonzero v)" for v dg
    by (simp add: opt_money_def money_divisor_exact nonzero_def)
  have deal: "d_commission d = money_or_zero (pdeal_commission de) (money_divisor (pdeal_money_digits de))"
    "d_close_detail d = (if pcpd_balance cl > 0 then Some (close_detail_from_proto cl) else None)"
    using assms(3) by (auto simp: deal_from_proto_def Let_def bind_res_Inr_conv cl_def)
  have acc: "ac_balance a = money (ptr_balance tr) (money_divisor (ptr_money_digits tr))"
    "ac_manager_bonus a = opt_money (ptr_manager_bonus tr) (money_divisor (ptr_money_digits tr))"
    "ac_ib_bonus a = opt_money (ptr_ib_bonus tr) (money_divisor (ptr_money_digits tr))"
    "ac_non_withdrawable_bonus a = opt_money (ptr_non_withdrawable_bonus tr) (money_divisor (ptr_money_digits tr))"
    using assms(1) by (auto simp: account_from_proto_def Let_def bind_res_Inr_conv)
  have pos: "p_swap p = money_or_zero (ppos_swap po) (money_divisor (ppos_money_digits po))"
    "p_commission p = money_or_zero (ppos_commission po) (money_divisor (ppos_money_digits po))"
    "p_used_margin p = money_or_zero (ppos_used_margin po) (money_divisor (ppos_money_digits po))"
    using assms(2) by (auto simp: position_from_proto_def Let_def bind_res_Inr_conv position_divisor)
  show ?thesis unfolding Let_def
  proof (intro conjI allI impI)
    show "ac_balance a = of_int (ptr_balance tr) / 10 ^ effective_money_digits (ptr_money_digits tr)"
      "ac_manager_bonus a = map_option (\<lambda>v. of_int v / 10 ^ effective_money_digits (ptr_money_digits tr)) (nonzero (ptr_manager_bonus tr))"
      "ac_ib_bonus a = map_option (\<lambda>v. of_int v / 10 ^ effective_money_digits (ptr_money_digits tr)) (nonzero (ptr_ib_bonus tr))"
      "ac_non_withdrawable_bonus a =
        map_option (\<lambda>v. of_int v / 10 ^ effective_money_digits (ptr_money_digits tr)) (nonzero (ptr_non_withdrawable_bonus tr))"
      using digits by (simp_all add: acc money_divisor_exact bonus)
    show "p_swap p = of_int (ppos_swap po) / 10 ^ effective_money_digits (ppos_money_digits po)"
      "p_commission p = of_int (ppos_commission po) / 10 ^ effective_money_digits (ppos_money_digits po)"
      "p_used_margin p = of_int (ppos_used_margin po) / 10 ^ effective_money_digits (ppos_money_digits po)"
      using digits by (simp_all add: pos money_or_zero_exact)
    show "d_commission d = of_int (pdeal_commission de) / 10 ^ effective_money_digits (pdeal_money_digits de)"
      using deal(1) digits by (simp add: money_or_zero_exact)
    show "up_gross_unrealized_pnl (unrealized_pnl (money_divisor dg) u) = of_int (ppnl_gross_unrealized_pn_l u) / 10 ^ effective_money_digits dg"
      "up_net_unrealized_pnl (unrealized_pnl (money_divisor dg) u) = of_int (ppnl_net_unrealized_pn_l u) / 10 ^ effective_money_digits dg"
      using digits by (simp_all add: unrealized_pnl_def money_divisor_exact)
    fix cd assume "d_close_detail d = Some cd"
    then have "cd = close_detail_from_proto cl" using deal(2) by (simp split: if_splits)
    then show "cd_gross_profit cd = of_int (pcpd_gross_profit cl) / 10 ^ effective_money_digits (pcpd_money_digits cl)"
      "cd_swap cd = of_int (pcpd_swap cl) / 10 ^ effective_money_digits (pcpd_money_digits cl)"
      "cd_commission cd = of_int (pcpd_commission cl) / 10 ^ effective_money_digits (pcpd_money_digits cl)"
      "cd_balance cd = of_int (pcpd_balance cl) / 10 ^ effective_money_digits (pcpd_money_digits cl)"
      "cd_pnl_conversion_fee cd = of_int (pcpd_pnl_conversion_fee cl) / 10 ^ effective_money_digits (pcpd_money_digits cl)"
      using digits by (simp_all add: close_detail_from_proto_def money_divisor_exact money_or_zero_exact)
  qed
qed

definition sample_closing :: proto_oa_close_position_detail where
  "sample_closing = default_close_position_detail\<lparr>pcpd_balance := 1000000, pcpd_gross_profit := - 12345, pcpd_money_digits := 3\<rparr>"

theorem money_not_rounded_witness:
  "\<exists>a p d cd. account_from_proto (default_trader\<lparr>ptr_balance := 123456\<rparr>) = Inr a \<and> ac_balance a = 123456 / 100 \<and>
     position_from_proto 0 (default_position\<lparr>ppos_swap := - 250, ppos_money_digits := 3\<rparr>) = Inr p \<and> p_swap p = - 250 / 1000 \<and>
     deal_from_proto (default_deal\<lparr>pdeal_close_position_detail := Some sample_closing\<rparr>) = Inr d \<and>
     d_close_detail d = Some cd \<and> cd_gross_profit cd = - 12345 / 1000"
proof -
  have epoch: "timestamp_to_datetime 0 = Inr 0" by code_simp
  let ?u = "\<lparr>ppnl_position_id = 1, ppnl_gross_unrealized_pn_l = 0, ppnl_net_unrealized_pn_l = 0\<rparr>"
  obtain a p d cd where
    a: "account_from_proto (default_trader\<lparr>ptr_balance := 123456\<rparr>) = Inr a" and
    p: "position_from_proto 0 (default_position\<lparr>ppos_swap := - 250, ppos_money_digits := 3\<rparr>) = Inr p" and
    d: "deal_from_proto (default_deal\<lparr>pdeal_close_position_detail := Some sample_closing\<rparr>) = Inr d" and
    cd: "d_close_detail d = Some cd"
    by (simp add: account_from_proto_def position_from_proto_def deal_from_proto_def default_trader_def
        default_position_def default_deal_def sample_closing_def opt_time_def open_time_def epoch Let_def)
  from money_not_rounded [OF a p d, of ?u] cd have
    "ac_balance a = 123456 / 100 \<and> p_swap p = - 250 / 1000 \<and> cd_gross_profit cd = - 12345 / 1000"
    by (simp add: default_trader_def default_position_def default_deal_def default_close_position_detail_def sample_closing_def
        effective_money_digits_def Let_def)
  with a p d cd show ?thesis by blast
qed

end
