(* ===== verification/Client.thy ===== *)
theory Client
  imports Heartbeat Refresh_Properties Api
begin

text \<open>
  \<open>config.py\<close>, \<open>composition.py\<close>, \<open>client.py\<close> and \<open>ConnectionSupervisor.serving\<close>: the settings, the
  assembly of the collaborators and the life of a client from \<open>async with\<close> to its end. The state
  of a graph is the state of all its collaborators; the session components share theirs, so it
  extends \<open>refresher\<close>. \<open>dial\<close> and \<open>aclose\<close> are the outcomes of anyio's streams, as in \<open>Transport\<close>.
\<close>

subsection \<open>Configuration\<close>

record client_config =
  cf_host :: string
  cf_port :: int
  cf_use_ssl :: bool
  cf_client_id :: string
  cf_client_secret :: string
  cf_heartbeat_interval :: rat
  cf_heartbeat_timeout :: rat
  cf_request_timeout :: rat
  cf_connect_timeout :: rat
  cf_reconnect_attempts :: "int option"
  cf_reconnect_min_wait :: rat
  cf_reconnect_max_wait :: rat
  cf_refresh_policy :: refresh_policy
  cf_reauth_policy :: reauth_policy

definition default_refresh_policy :: refresh_policy where
  "default_refresh_policy = \<lparr>rp_buffer_seconds = 300, rp_check_interval = 60, rp_retry_attempts = 3, rp_retry_min_wait = 1,
     rp_retry_max_wait = 30\<rparr>"

definition default_reauth_policy :: reauth_policy where
  "default_reauth_policy = \<lparr>ra_min_wait = 1, ra_max_wait = 60\<rparr>"

text \<open>A configuration of which only the two required fields are given.\<close>

definition default_config :: "string \<Rightarrow> string \<Rightarrow> client_config" where
  "default_config client_id client_secret =
     \<lparr>cf_host = ''live.ctraderapi.com'', cf_port = 5035, cf_use_ssl = True, cf_client_id = client_id, cf_client_secret = client_secret,
      cf_heartbeat_interval = 10, cf_heartbeat_timeout = 60, cf_request_timeout = 30, cf_connect_timeout = 30,
      cf_reconnect_attempts = None, cf_reconnect_min_wait = 1, cf_reconnect_max_wait = 60,
      cf_refresh_policy = default_refresh_policy, cf_reauth_policy = default_reauth_policy\<rparr>"

text \<open>The constraints of the \<open>Field\<close>s; a configuration that breaks one is not constructed.\<close>

definition config_valid :: "client_config \<Rightarrow> bool" where
  "config_valid c \<longleftrightarrow> 0 < cf_heartbeat_interval c \<and> 0 \<le> cf_heartbeat_timeout c \<and> 0 < cf_request_timeout c \<and>
     0 < cf_connect_timeout c \<and> (case cf_reconnect_attempts c of None \<Rightarrow> True | Some n \<Rightarrow> 0 \<le> n) \<and>
     0 < cf_reconnect_min_wait c \<and> 0 < cf_reconnect_max_wait c"

subsection \<open>The graph\<close>

datatype link_listener = SessionRecovery

text \<open>The API namespaces keep nothing but their default timeout.\<close>

record ('h, 'n) client_graph = refresher +
  cg_transport :: "'n transport"
  cg_protocol :: "component_handler protocol"
  cg_heartbeat :: heartbeat
  cg_supervisor :: "link_listener supervisor"
  cg_emitter :: "'h emitter"
  cg_router :: router
  cg_accounts :: rat
  cg_symbols :: rat
  cg_trading :: rat

definition supervisor_init :: "'h protocol \<Rightarrow> 'l supervisor \<times> 'h protocol" where
  "supervisor_init pr = (\<lparr>sv_listeners = [], sv_serving = False\<rparr>, set_listener pr)"

definition build_graph :: "client_config \<Rightarrow> bool \<Rightarrow> rat \<Rightarrow> rat \<Rightarrow> ('h, 'n) client_graph" where
  "build_graph c token_store time now =
     (let tp = transport_init (cf_host c) (cf_port c) (cf_use_ssl c) (cf_connect_timeout c);
          pr = protocol_init (cf_reconnect_attempts c) (cf_reconnect_min_wait c) (cf_reconnect_max_wait c);
          hb = heartbeat_init (cf_heartbeat_interval c) (cf_heartbeat_timeout c);
          (sv, pr') = supervisor_init pr in
      \<lparr>md_default_timeout = cf_request_timeout c, md_standing = [], md_objects = [],
       w_time = time, w_now = now, w_store = store_init,
       au_client_id = cf_client_id c, au_client_secret = cf_client_secret c, au_app_authenticated = False, au_restorer = True,
       rc_policy = cf_reauth_policy c, rc_reauth_signal = False, rc_verifying = [], rc_app_auth_pending = False,
       rc_app_auth_attempts = 0, rc_app_auth_next_at = 0, rc_task_scope = False, rc_running = False,
       rf_policy = cf_refresh_policy c, rf_token_store = token_store, rf_task_scope = False, rf_running = False,
       cg_transport = tp, cg_protocol = pr', cg_heartbeat = hb, cg_supervisor = add_listener SessionRecovery sv,
       cg_emitter = [], cg_router = \<lparr>ro_disposers = []\<rparr>, cg_accounts = cf_request_timeout c,
       cg_symbols = cf_request_timeout c, cg_trading = cf_request_timeout c\<rparr>)"

subsection \<open>Failures of task groups\<close>

text \<open>
  What a task group lets out. The number is the identity of an exception object. A group that
  ends raises one group of what its body raised and what its tasks raised; cancellation is
  not among them.
\<close>

datatype raised = Raised nat exn | RaisedGroup "raised list"

definition task_group_end :: "raised option \<Rightarrow> raised list \<Rightarrow> raised option" where
  "task_group_end body died =
     (let es = (case body of None \<Rightarrow> [] | Some e \<Rightarrow> [e]) @ died in if es = [] then None else Some (RaisedGroup es))"

fun sole_failure :: "raised \<Rightarrow> raised" where
  "sole_failure (RaisedGroup [e]) = sole_failure e"
| "sole_failure f = f"

fun is_group :: "raised \<Rightarrow> bool" where
  "is_group (RaisedGroup _) = True"
| "is_group (Raised _ _) = False"

subsection \<open>The link for the length of a block\<close>

text \<open>
  \<open>ConnectionSupervisor.serving\<close> up to its \<open>yield\<close>, and from there on. \<open>i\<close> is the identity of an
  exception raised here, \<open>block\<close> what came out of the block, \<open>died\<close> what the reader, the heartbeat
  and the work they spawned raised. A task that is cancelled runs its own \<open>finally\<close> before the
  group ends.
\<close>

definition close_link :: "('n \<Rightarrow> exn option) \<Rightarrow> nat \<Rightarrow> raised option \<Rightarrow> ('h, 'n, 'z) client_graph_scheme \<Rightarrow>
    raised option \<times> ('h, 'n, 'z) client_graph_scheme" where
  "close_link aclose i failure s =
     (let (r, tp) = transport_close aclose (cg_transport s) in
      (case r of Inl e \<Rightarrow> Some (Raised i e) | Inr _ \<Rightarrow> failure, s\<lparr>cg_transport := tp\<rparr>))"

definition serving_enter ::
  "(rat \<Rightarrow> string \<Rightarrow> int \<Rightarrow> bool \<Rightarrow> 'n res) \<Rightarrow> ('n \<Rightarrow> exn option) \<Rightarrow> rat \<Rightarrow> nat \<Rightarrow> raised list \<Rightarrow> ('h, 'n, 'z) client_graph_scheme \<Rightarrow>
   raised option \<times> ('h, 'n, 'z) client_graph_scheme" where
  "serving_enter dial aclose now i died s =
     (let (r, tp) = transport_connect dial (cg_transport s); s1 = s\<lparr>cg_transport := tp\<rparr> in
      case r of Inl e \<Rightarrow> (Some (Raised i e), s1)
      | Inr _ \<Rightarrow>
        (let (r, pr) = serve_enter (cg_protocol s1); s2 = s1\<lparr>cg_protocol := pr\<rparr> in
         case r of Inl e \<Rightarrow> close_link aclose i (task_group_end (Some (Raised i e)) died) s2
         | Inr _ \<Rightarrow>
           (let (r, hb, pr) = heartbeat_serve_enter now (cg_heartbeat s2) (cg_protocol s2);
                s3 = s2\<lparr>cg_heartbeat := hb, cg_protocol := pr\<rparr> in
            case r of Inl e \<Rightarrow> close_link aclose i (task_group_end (Some (Raised i e)) died) (s3\<lparr>cg_protocol := serve_exit (cg_protocol s3)\<rparr>)
            | Inr _ \<Rightarrow> (None, s3\<lparr>cg_supervisor := (cg_supervisor s3)\<lparr>sv_serving := True\<rparr>\<rparr>))))"

definition serving_exit ::
  "('n \<Rightarrow> exn option) \<Rightarrow> nat \<Rightarrow> raised option \<Rightarrow> raised list \<Rightarrow> ('h, 'n, 'z) client_graph_scheme \<Rightarrow>
   raised option \<times> ('h, 'n, 'z) client_graph_scheme" where
  "serving_exit aclose i block died s =
     (let s1 = s\<lparr>cg_supervisor := (cg_supervisor s)\<lparr>sv_serving := False\<rparr>\<rparr>;
          (_, _, pr) = stop_protocol (cg_protocol s1);
          (hb, pr) = heartbeat_serve_exit (cg_heartbeat s1) pr in
      close_link aclose i (task_group_end block died) (s1\<lparr>cg_heartbeat := hb, cg_protocol := serve_exit pr\<rparr>))"

subsection \<open>The life of a client\<close>

record ('h, 'n) client = "('h, 'n) client_graph" +
  cl_running :: bool

definition adopt :: "('h, 'n) client_graph \<Rightarrow> ('h, 'n) client" where
  "adopt g = client_graph.extend g (client.fields False)"

text \<open>
  \<open>_lifecycle\<close> up to its \<open>yield\<close> and from there on; \<open>lost\<close> is what the two monitors raised. The
  result of entering is the failure, if any.
\<close>

definition lifecycle_enter ::
  "(rat \<Rightarrow> string \<Rightarrow> int \<Rightarrow> bool \<Rightarrow> 'n res) \<Rightarrow> ('n \<Rightarrow> exn option) \<Rightarrow> rat \<Rightarrow> nat \<Rightarrow> raised list \<Rightarrow> raised list \<Rightarrow>
   ('h, 'n, 'z) client_graph_scheme \<Rightarrow> (('h, 'n, 'z) client_graph_scheme, raised option) co" where
  "lifecycle_enter dial aclose now i lost died s =
     (let leave = (\<lambda>block s. let (failure, s') = serving_exit aclose i block died s in Return (Inr failure) s');
          (failure, s1) = serving_enter dial aclose now i died s in
      if failure \<noteq> None then Return (Inr failure) s1
      else co_then (authenticate_app 30 s1) (\<lambda>r s2.
        case r of Inl e \<Rightarrow> leave (Some (Raised i e)) s2
        | Inr _ \<Rightarrow>
          (case refresher_serve_enter s2 of
             (Inl e, s3) \<Rightarrow> leave (task_group_end (Some (Raised i e)) lost) s3
           | (Inr _, s3) \<Rightarrow>
             (case recovery_serve_enter s3 of
                (Inl e, s4) \<Rightarrow> leave (task_group_end (Some (Raised i e)) lost) (refresher_serve_exit s4)
              | (Inr _, s4) \<Rightarrow>
                (let (ro, pr) = router_start (cg_router s4) (cg_protocol s4) in
                 Return (Inr None) (s4\<lparr>cg_router := ro, cg_protocol := pr\<rparr>))))))"

definition lifecycle_exit ::
  "('n \<Rightarrow> exn option) \<Rightarrow> nat \<Rightarrow> raised option \<Rightarrow> raised list \<Rightarrow> raised list \<Rightarrow> ('h, 'n, 'z) client_graph_scheme \<Rightarrow>
   raised option \<times> ('h, 'n, 'z) client_graph_scheme" where
  "lifecycle_exit aclose i block lost died s =
     (let (ro, pr) = router_stop (cg_router s) (cg_protocol s);
          s1 = s\<lparr>cg_router := ro, cg_protocol := pr\<rparr>;
          (_, s2) = recovery_stop s1;
          (_, s3) = refresher_stop s2;
          s4 = refresher_serve_exit (recovery_serve_exit s3) in
      serving_exit aclose i (task_group_end block lost) died s4)"

definition unwrap_group :: "raised \<Rightarrow> raised" where
  "unwrap_group g = (let failure = sole_failure g in if failure = g then g else failure)"

definition client_enter ::
  "(rat \<Rightarrow> string \<Rightarrow> int \<Rightarrow> bool \<Rightarrow> 'n res) \<Rightarrow> ('n \<Rightarrow> exn option) \<Rightarrow> rat \<Rightarrow> nat \<Rightarrow> raised list \<Rightarrow> raised list \<Rightarrow>
   ('h, 'n) client \<Rightarrow> (('h, 'n) client, raised option) co" where
  "client_enter dial aclose now i lost died s =
     (if cl_running s then Return (Inr (Some (Raised i (RuntimeError ''Client is already connected'')))) s
      else co_bind (lifecycle_enter dial aclose now i lost died s) (\<lambda>failure s'.
        case failure of
          Some f \<Rightarrow> Return (Inr (Some (if is_group f then unwrap_group f else f))) s'
        | None \<Rightarrow> Return (Inr None) (s'\<lparr>cl_running := True\<rparr>)))"

text \<open>\<open>None\<close>: the call returns a false value, and what the block raised, if anything, goes on.\<close>

definition exit_raises :: "raised option \<Rightarrow> raised option \<Rightarrow> raised option" where
  "exit_raises block failure = (case failure of
     None \<Rightarrow> None
   | Some f \<Rightarrow> if is_group f then (if block = Some (sole_failure f) then None else Some (unwrap_group f)) else Some f)"

definition client_exit ::
  "('n \<Rightarrow> exn option) \<Rightarrow> nat \<Rightarrow> raised option \<Rightarrow> raised list \<Rightarrow> raised list \<Rightarrow> ('h, 'n) client \<Rightarrow> raised option \<times> ('h, 'n) client" where
  "client_exit aclose i block lost died s =
     (if \<not> cl_running s then (None, s)
      else (let (failure, s') = lifecycle_exit aclose i block lost died (s\<lparr>cl_running := False\<rparr>) in
        (exit_raises block failure, s')))"

subsection \<open>Event registration\<close>

definition client_on ::
  "event_type \<Rightarrow> int option \<Rightarrow> int option \<Rightarrow> 'h \<Rightarrow> ('h, 'n) client \<Rightarrow> 'h res \<times> ('h, 'n) client" where
  "client_on event_type account_id symbol_id handler s =
     (let (r, em) = subscribe event_type handler account_id symbol_id (cg_emitter s) in
      (bind_res r (\<lambda>_. Inr handler), s\<lparr>cg_emitter := em\<rparr>))"

definition register_handler ::
  "event_type \<Rightarrow> 'h \<Rightarrow> int option \<Rightarrow> int option \<Rightarrow> ('h, 'n) client \<Rightarrow> unit res \<times> ('h, 'n) client" where
  "register_handler event_type handler account_id symbol_id s =
     (let (r, em) = subscribe event_type handler account_id symbol_id (cg_emitter s) in (r, s\<lparr>cg_emitter := em\<rparr>))"

definition client_off :: "event_type \<Rightarrow> 'h \<Rightarrow> ('h, 'n) client \<Rightarrow> bool \<times> ('h, 'n) client" where
  "client_off event_type handler s =
     (let (removed, em) = unsubscribe event_type handler (cg_emitter s) in (removed, s\<lparr>cg_emitter := em\<rparr>))"

definition client_is_connected :: "('h, 'n) client \<Rightarrow> bool" where
  "client_is_connected s = supervisor_is_connected (cg_transport s) (cg_supervisor s)"

definition client_is_account_authorized :: "int \<Rightarrow> ('h, 'n) client \<Rightarrow> bool" where
  "client_is_account_authorized account_id s = is_account_authorized account_id s"

subsection \<open>Lemmas\<close>

text \<open>Nothing runs, nothing is registered on the protocol and no session is held.\<close>

definition client_idle :: "('h, 'n, 'z) client_graph_scheme \<Rightarrow> bool" where
  "client_idle s \<longleftrightarrow> \<not> transport_is_connected (cg_transport s) \<and> \<not> sv_serving (cg_supervisor s) \<and>
     \<not> pr_running (cg_protocol s) \<and> \<not> pr_task_group (cg_protocol s) \<and>
     hb_disposers (cg_heartbeat s) = [] \<and> \<not> hb_task_group (cg_heartbeat s) \<and>
     ro_disposers (cg_router s) = [] \<and> \<not> rc_running s \<and> \<not> rf_running s \<and>
     (\<forall>a. \<not> is_authorized a (w_store s))"

definition in_service :: "('h, 'n, 'z) client_graph_scheme \<Rightarrow> bool" where
  "in_service s \<longleftrightarrow> transport_is_connected (cg_transport s) \<and> sv_serving (cg_supervisor s) \<and>
     pr_running (cg_protocol s) \<and> pr_task_group (cg_protocol s) \<and>
     hb_disposers (cg_heartbeat s) = heartbeat_registrations \<and> hb_task_group (cg_heartbeat s) \<and>
     ro_disposers (cg_router s) = router_registrations \<and> rc_running s \<and> rf_running s"

lemma unwrap_group_sole [simp]: "unwrap_group f = sole_failure f"
  by (simp add: unwrap_group_def Let_def)

lemma sole_failure_idem [simp]: "sole_failure (sole_failure f) = sole_failure f"
  by (induction f rule: sole_failure.induct) simp_all

lemma not_authorized_invalidated [simp]: "\<not> is_authorized a (invalidate_all st)"
  by (auto simp: is_authorized_def invalidate_all_def split: option.splits)

text \<open>The exception that closing the link lets out: none when there is no stream left to close.\<close>

definition close_error :: "('n \<Rightarrow> exn option) \<Rightarrow> 'n transport \<Rightarrow> exn option" where
  "close_error aclose tp = (case tp_stream tp of
     None \<Rightarrow> None
   | Some n \<Rightarrow> (case aclose n of None \<Rightarrow> None | Some x \<Rightarrow> if close_ignores x then None else Some x))"

lemma close_link_disconnects:
  "close_link aclose i failure s = (f, s') \<Longrightarrow>
     \<not> transport_is_connected (cg_transport s') \<and> s' = s\<lparr>cg_transport := cg_transport s'\<rparr> \<and>
     (failure \<noteq> None \<longrightarrow> f \<noteq> None) \<and>
     f = (case close_error aclose (cg_transport s) of None \<Rightarrow> failure | Some x \<Rightarrow> Some (Raised i x))"
  by (auto simp: close_link_def close_error_def transport_close_def transport_is_connected_def split: option.splits prod.splits if_splits)

lemma serve_exit_fields [simp]:
  "\<not> pr_running (serve_exit pr)" "\<not> pr_task_group (serve_exit pr)"
  by (simp_all add: serve_exit_def fail_pending_def)

lemma serving_exit_stops:
  assumes "serving_exit aclose i block died s = (f, s')"
  shows "\<not> transport_is_connected (cg_transport s')" "\<not> sv_serving (cg_supervisor s')"
    "\<not> pr_running (cg_protocol s')" "\<not> pr_task_group (cg_protocol s')"
    "hb_disposers (cg_heartbeat s') = []" "\<not> hb_task_group (cg_heartbeat s')"
    "cg_router s' = cg_router s" "rc_running s' = rc_running s" "rf_running s' = rf_running s" "w_store s' = w_store s"
    "client_graph.more s' = client_graph.more s"
    "cg_protocol s' = serve_exit (dispose_all (hb_disposers (cg_heartbeat s)) ((cg_protocol s)\<lparr>pr_running := False\<rparr>))"
    "block \<noteq> None \<Longrightarrow> f \<noteq> None"
    "f = (case close_error aclose (cg_transport s) of None \<Rightarrow> task_group_end block died | Some x \<Rightarrow> Some (Raised i x))"
proof -
  let ?hb = "(cg_heartbeat s)\<lparr>hb_task_group := False, hb_task_scope := None, hb_disposers := []\<rparr>"
  let ?pr = "dispose_all (hb_disposers (cg_heartbeat s)) ((cg_protocol s)\<lparr>pr_running := False\<rparr>)"
  have "close_link aclose i (task_group_end block died)
      (s\<lparr>cg_supervisor := (cg_supervisor s)\<lparr>sv_serving := False\<rparr>, cg_heartbeat := ?hb, cg_protocol := serve_exit ?pr\<rparr>) = (f, s')"
    using assms by (auto simp: serving_exit_def stop_protocol_def heartbeat_serve_exit_def)
  from close_link_disconnects [OF this] have closed: "\<not> transport_is_connected (cg_transport s')"
      "s' = s\<lparr>cg_supervisor := (cg_supervisor s)\<lparr>sv_serving := False\<rparr>, cg_heartbeat := ?hb, cg_protocol := serve_exit ?pr,
         cg_transport := cg_transport s'\<rparr>"
    and some: "task_group_end block died \<noteq> None \<Longrightarrow> f \<noteq> None"
    and failure: "f = (case close_error aclose (cg_transport s) of None \<Rightarrow> task_group_end block died | Some x \<Rightarrow> Some (Raised i x))"
    by (simp_all split: option.split_asm)
  show "\<not> transport_is_connected (cg_transport s')" by (fact closed)
  show "f = (case close_error aclose (cg_transport s) of None \<Rightarrow> task_group_end block died | Some x \<Rightarrow> Some (Raised i x))"
    by (fact failure)
  show "\<not> sv_serving (cg_supervisor s')" "\<not> pr_running (cg_protocol s')" "\<not> pr_task_group (cg_protocol s')"
    "hb_disposers (cg_heartbeat s') = []" "\<not> hb_task_group (cg_heartbeat s')"
    "cg_router s' = cg_router s" "rc_running s' = rc_running s" "rf_running s' = rf_running s" "w_store s' = w_store s"
    "client_graph.more s' = client_graph.more s"
    by (subst closed(2), simp)+
  show "block \<noteq> None \<Longrightarrow> f \<noteq> None" using some by (auto simp: task_group_end_def)
  show "cg_protocol s' = serve_exit ?pr" by (subst closed(2), simp)
qed

text \<open>An idle client with its link brought up on a stream, and then with everything else.\<close>

definition linked_up :: "rat \<Rightarrow> 'n \<Rightarrow> ('h, 'n, 'z) client_graph_scheme \<Rightarrow> ('h, 'n, 'z) client_graph_scheme" where
  "linked_up now n s = s\<lparr>cg_transport := (cg_transport s)\<lparr>tp_stream := Some n\<rparr>,
     cg_heartbeat := (cg_heartbeat s)\<lparr>hb_disposers := heartbeat_registrations, hb_last_received := now, hb_task_group := True\<rparr>,
     cg_protocol := register_all heartbeat_registrations ((cg_protocol s)\<lparr>pr_running := True, pr_task_group := True\<rparr>),
     cg_supervisor := (cg_supervisor s)\<lparr>sv_serving := True\<rparr>\<rparr>"

definition all_up :: "rat \<Rightarrow> 'n \<Rightarrow> ('h, 'n, 'z) client_graph_scheme \<Rightarrow> ('h, 'n, 'z) client_graph_scheme" where
  "all_up now n s = (linked_up now n s)\<lparr>au_app_authenticated := True, rf_running := True, rf_task_scope := True,
     rc_running := True, rc_task_scope := True, cg_router := (cg_router s)\<lparr>ro_disposers := router_registrations\<rparr>,
     cg_protocol := register_all router_registrations (cg_protocol (linked_up now n s))\<rparr>"

abbreviation dialled :: "(rat \<Rightarrow> string \<Rightarrow> int \<Rightarrow> bool \<Rightarrow> 'n res) \<Rightarrow> ('h, 'n, 'z) client_graph_scheme \<Rightarrow> 'n res" where
  "dialled dial s \<equiv> dial (tp_connect_timeout (cg_transport s)) (tp_host (cg_transport s)) (tp_port (cg_transport s)) (tp_ssl (cg_transport s))"

lemma serving_enter_idle:
  assumes "client_idle s"
  shows "dialled dial s = Inl e \<Longrightarrow> serving_enter dial aclose now i died s =
      (Some (Raised i (CTraderConnectionFailedError (tp_host (cg_transport s)) (tp_port (cg_transport s)) (Some e))), s)"
    and "dialled dial s = Inr n \<Longrightarrow> serving_enter dial aclose now i died s = (None, linked_up now n s)"
  using assms
  by (auto simp: client_idle_def serving_enter_def transport_connect_def transport_is_connected_def serve_enter_def
      heartbeat_serve_enter_def Let_def linked_up_def)

lemma register_all_fields [simp]:
  "pr_running (register_all regs pr) = pr_running pr" "pr_task_group (register_all regs pr) = pr_task_group pr"
  unfolding register_all_def by (induction regs arbitrary: pr) (auto simp: on_event_def Let_def)

lemma linked_up_simps [simp]:
  "app_request (linked_up now n s) = app_request s" "tp_stream (cg_transport (linked_up now n s)) = Some n"
  "rc_running (linked_up now n s) = rc_running s" "rf_running (linked_up now n s) = rf_running s"
  "cg_router (linked_up now n s) = cg_router s" "w_store (linked_up now n s) = w_store s"
  "client_graph.more (linked_up now n s) = client_graph.more s"
  by (simp_all add: linked_up_def app_request_def)

lemma all_up_in_service: "in_service (all_up now n s)" "client_graph.more (all_up now n s) = client_graph.more s"
  by (simp_all add: in_service_def all_up_def linked_up_def transport_is_connected_def)

lemma quiet_run_lifecycle_accepted:
  assumes "client_idle s" "dialled dial s = Inr n"
    and "narrow (ClsReply Cls_ProtoOAApplicationAuthRes) (answer (app_request s)) = Inr reply"
  shows "quiet_run answer saved (lifecycle_enter dial aclose now i lost died s) = ([Requested (app_request s)], Inr None, all_up now n s)"
  using assms serving_enter_idle(2) [where dial = dial and n = n, OF assms(1,2)]
  by (simp add: lifecycle_enter_def quiet_run_then quiet_run_app refresher_serve_enter_def recovery_serve_enter_def
      router_start_def client_idle_def all_up_def)

abbreviation app_error :: "exn \<Rightarrow> exn" where
  "app_error \<equiv> raise_api_as (\<lambda>e. ApplicationAuthError (ae_error_code e) (ae_description e))"

lemma quiet_run_lifecycle_refused:
  assumes "client_idle s" "dialled dial s = Inr n"
    and "narrow (ClsReply Cls_ProtoOAApplicationAuthRes) (answer (app_request s)) = Inl e"
    and "serving_exit aclose i (Some (Raised i (app_error e))) died
       (linked_up now n s) = (f, s')"
  shows "quiet_run answer saved (lifecycle_enter dial aclose now i lost died s) = ([Requested (app_request s)], Inr f, s')"
  using assms serving_enter_idle(2) [where dial = dial and n = n, OF assms(1,2)]
  by (simp add: lifecycle_enter_def quiet_run_then quiet_run_app)

lemma idle_after_exit:
  assumes "serving_exit aclose i block died s = (f, s')"
    and "ro_disposers (cg_router s) = []" "\<not> rc_running s" "\<not> rf_running s" "\<And>a. \<not> is_authorized a (w_store s)"
  shows "client_idle s'"
  using serving_exit_stops [OF assms(1)] assms(2-) by (simp add: client_idle_def)

lemma lifecycle_exit_serving:
  assumes "lifecycle_exit aclose i block lost died s = (f, s')"
  obtains s1 where "serving_exit aclose i (task_group_end block lost) died s1 = (f, s')" "ro_disposers (cg_router s1) = []"
    "\<not> rc_running s1" "\<not> rf_running s1" "\<And>a. \<not> is_authorized a (w_store s1)" "cg_transport s1 = cg_transport s"
    "client_graph.more s1 = client_graph.more s" "cg_heartbeat s1 = cg_heartbeat s"
    "cg_protocol s1 = snd (router_stop (cg_router s) (cg_protocol s))"
proof -
  obtain ro pr where router: "router_stop (cg_router s) (cg_protocol s) = (ro, pr)" by force
  then have "ro_disposers ro = []" by (auto simp: router_stop_def split: if_splits)
  with assms router show ?thesis
    by (intro that [of "refresher_serve_exit (recovery_serve_exit (snd (refresher_stop (snd (recovery_stop
            (s\<lparr>cg_router := ro, cg_protocol := pr\<rparr>))))))"])
       (simp_all add: lifecycle_exit_def recovery_stop_def refresher_stop_def refresher_serve_exit_def recovery_serve_exit_def)
qed

lemma serve_exit_wakes:
  "(k, p) \<in> set (pr_pending (serve_exit pr)) \<Longrightarrow> pd_event p \<and> (\<exists>e. pd_outcome p = Some (Inl e))"
  by (auto simp: serve_exit_def fail_pending_def)

text \<open>What the two task groups around the block make of the failures.\<close>

lemma nested_groups:
  "task_group_end (task_group_end block lost) died =
     (case (case block of None \<Rightarrow> [] | Some b \<Rightarrow> [b]) @ lost of
        [] \<Rightarrow> if died = [] then None else Some (RaisedGroup died)
      | es \<Rightarrow> Some (RaisedGroup (RaisedGroup es # died)))"
  by (auto simp: task_group_end_def Let_def split: option.splits list.splits)

lemma sole_failure_size: "size (sole_failure f) \<le> size f"
  by (induction f rule: sole_failure.induct) auto

lemma exit_raises_groups:
  "exit_raises None (task_group_end (task_group_end None []) []) = None"
  "exit_raises (Some b) (task_group_end (task_group_end (Some b) []) []) = (if sole_failure b = b then None else Some (sole_failure b))"
  "exit_raises None (task_group_end (task_group_end None [x]) []) = Some (sole_failure x)"
  "exit_raises None (task_group_end (task_group_end None []) [x]) = Some (sole_failure x)"
  by (simp_all add: exit_raises_def nested_groups)

lemma exit_raises_several:
  assumes "1 < length (case block of None \<Rightarrow> lost @ died | Some b \<Rightarrow> b # lost @ died)"
  shows "\<exists>es. exit_raises block (task_group_end (task_group_end block lost) died) = Some (RaisedGroup es)"
proof -
  define inner where "inner = (case block of None \<Rightarrow> [] | Some b \<Rightarrow> [b]) @ lost"
  define g where "g = (if died = [] then RaisedGroup inner else if inner = [] then RaisedGroup died else RaisedGroup (RaisedGroup inner # died))"
  have "exit_raises block (task_group_end (task_group_end block lost) died) = (if block = Some g then None else Some g)"
    using assms unfolding exit_raises_def nested_groups inner_def [symmetric]
    by (cases inner rule: remdups_adj.cases; cases died rule: remdups_adj.cases) (auto simp: g_def inner_def split: option.splits)
  moreover have "size g \<noteq> size b" if "block = Some b" for b
    using that by (simp add: g_def inner_def)
  then have "block \<noteq> Some g" by blast
  ultimately show ?thesis by (auto simp: g_def)
qed

lemma cl_running_more: "client_graph.more s' = client_graph.more s \<Longrightarrow> cl_running s' = cl_running s"
  by (cases s; cases s') simp

lemma client_exit_stops:
  assumes "cl_running s" "client_exit aclose i block lost died s = (f, s')"
  shows "client_idle s'" "\<not> cl_running s'"
    and "cg_protocol s' = serve_exit (dispose_all (hb_disposers (cg_heartbeat s))
      ((snd (router_stop (cg_router s) (cg_protocol s)))\<lparr>pr_running := False\<rparr>))"
    and "f = (case close_error aclose (cg_transport s) of
        None \<Rightarrow> exit_raises block (task_group_end (task_group_end block lost) died) | Some x \<Rightarrow> Some (Raised i x))"
proof -
  obtain g where exit: "lifecycle_exit aclose i block lost died (s\<lparr>cl_running := False\<rparr>) = (g, s')" and f: "f = exit_raises block g"
    using assms by (auto simp: client_exit_def split: prod.splits)
  obtain s1 where s1: "serving_exit aclose i (task_group_end block lost) died s1 = (g, s')" "ro_disposers (cg_router s1) = []"
    "\<not> rc_running s1" "\<not> rf_running s1" "\<And>a. \<not> is_authorized a (w_store s1)" "cg_transport s1 = cg_transport s"
    "client_graph.more s1 = client_graph.more (s\<lparr>cl_running := False\<rparr>)" "cg_heartbeat s1 = cg_heartbeat s"
    "cg_protocol s1 = snd (router_stop (cg_router s) (cg_protocol s))"
    using lifecycle_exit_serving [OF exit] by auto
  then show "client_idle s'" "\<not> cl_running s'"
    using idle_after_exit [OF s1(1)] cl_running_more [of s' "s\<lparr>cl_running := False\<rparr>"] serving_exit_stops(11) [OF s1(1)] by simp_all
  show "cg_protocol s' = serve_exit (dispose_all (hb_disposers (cg_heartbeat s))
      ((snd (router_stop (cg_router s) (cg_protocol s)))\<lparr>pr_running := False\<rparr>))"
    using serving_exit_stops(12) [OF s1(1)] s1(8,9) by simp
  show "f = (case close_error aclose (cg_transport s) of
        None \<Rightarrow> exit_raises block (task_group_end (task_group_end block lost) died) | Some x \<Rightarrow> Some (Raised i x))"
    using serving_exit_stops(14) [OF s1(1)] s1(6) f by (simp add: exit_raises_def split: option.split)
qed

lemma own_handlers_apart: "set (regs_for k router_registrations) \<inter> set (regs_for k heartbeat_registrations) = {}"
proof -
  have "set (regs_for k regs) \<subseteq> snd ` set regs" for regs :: "(handler_key \<times> component_handler) list"
    by (auto simp: regs_for_def)
  moreover have "snd ` set router_registrations \<inter> snd ` set heartbeat_registrations = {}"
    by (simp add: router_registrations_def heartbeat_registrations_def)
  ultimately show ?thesis by blast
qed

lemma handlers_for_flags [simp]:
  "handlers_for (pr\<lparr>pr_running := b\<rparr>) k = handlers_for pr k" "handlers_for (pr\<lparr>pr_task_group := c\<rparr>) k = handlers_for pr k"
  "handlers_for (serve_exit pr) k = handlers_for pr k"
  by (simp_all add: handlers_for_def serve_exit_def fail_pending_def)

lemma regs_for_append [simp]: "regs_for k (regs @ regs') = regs_for k regs @ regs_for k regs'"
  by (simp add: regs_for_def)

lemma graph_idle: "client_idle (adopt (build_graph c token_store time now))" "\<not> cl_running (adopt (build_graph c token_store time now))"
  by (simp_all add: client_idle_def adopt_def build_graph_def client_graph.defs client.defs supervisor_init_def transport_init_def
      transport_is_connected_def protocol_init_def heartbeat_init_def set_listener_def add_listener_def store_init_def is_authorized_def)

definition sample_client :: "(nat, unit) client" where
  "sample_client = adopt (build_graph (default_config ''id'' ''secret'') False 0 0)"

lemma sample_client_idle: "client_idle sample_client" "\<not> cl_running sample_client"
  by (simp_all add: sample_client_def graph_idle)

lemma sample_client_fields [simp]:
  "tp_host (cg_transport sample_client) = ''live.ctraderapi.com''" "tp_port (cg_transport sample_client) = 5035"
  "app_request sample_client = ProtoOAApplicationAuthReq ''id'' ''secret''" "handlers_for (cg_protocol sample_client) k = []"
  by (simp_all add: sample_client_def adopt_def build_graph_def client_graph.defs client.defs supervisor_init_def transport_init_def
      protocol_init_def set_listener_def default_config_def app_request_def handlers_for_def)

lemma quiet_run_client_accepted:
  assumes "client_idle s" "\<not> cl_running s" "dialled dial s = Inr n"
    and "narrow (ClsReply Cls_ProtoOAApplicationAuthRes) (answer (app_request s)) = Inr reply"
  shows "quiet_run answer saved (client_enter dial aclose now i lost died s) =
      ([Requested (app_request s)], Inr None, (all_up now n s)\<lparr>cl_running := True\<rparr>)"
  using assms(2) quiet_run_lifecycle_accepted [where dial = dial and answer = answer and n = n, OF assms(1,3,4)]
  by (simp add: client_enter_def quiet_run_bind)

lemma quiet_run_client_refused:
  assumes "client_idle s" "\<not> cl_running s" "dialled dial s = Inr n"
    and "narrow (ClsReply Cls_ProtoOAApplicationAuthRes) (answer (app_request s)) = Inl e"
  shows "\<exists>f s'. quiet_run answer saved (client_enter dial aclose now i lost died s) = ([Requested (app_request s)], Inr (Some f), s') \<and>
    client_idle s' \<and> \<not> cl_running s' \<and>
    (died = [] \<and> (\<forall>x. aclose n = Some x \<longrightarrow> close_ignores x) \<longrightarrow> f = Raised i (app_error e))"
proof -
  obtain f s' where exit: "serving_exit aclose i (Some (Raised i (app_error e))) died (linked_up now n s) = (f, s')" by force
  then obtain g where g: "f = Some g" using serving_exit_stops(13) by fastforce
  show ?thesis
  proof (intro exI conjI impI)
    show "quiet_run answer saved (client_enter dial aclose now i lost died s) =
        ([Requested (app_request s)], Inr (Some (if is_group g then unwrap_group g else g)), s')"
      using assms(2) quiet_run_lifecycle_refused [where dial = dial and answer = answer and n = n, OF assms(1,3,4) exit]
      by (simp add: client_enter_def quiet_run_bind g)
    show "client_idle s'" "\<not> cl_running s'"
      using assms idle_after_exit [OF exit] cl_running_more [of s' s] serving_exit_stops(11) [OF exit]
      by (auto simp: client_idle_def)
    show "(if is_group g then unwrap_group g else g) = Raised i (app_error e)"
      if "died = [] \<and> (\<forall>x. aclose n = Some x \<longrightarrow> close_ignores x)"
      using serving_exit_stops(14) [OF exit] that by (auto simp: g task_group_end_def close_error_def split: option.splits)
  qed
qed

text \<open>
  What a valid configuration makes is well formed and wired: recovery hears of the link, the
  protocol reports to the supervisor, and every namespace waits for the configured time.
\<close>

lemma graph_well_formed:
  fixes c :: client_config and token_store :: bool and time now :: rat
  defines "s \<equiv> adopt (build_graph c token_store time now) :: ('h, 'n) client"
  assumes "config_valid c"
  shows "wf_refresher (cf_refresh_policy c) s" "0 < hb_interval (cg_heartbeat s)" "0 \<le> hb_timeout (cg_heartbeat s)"
    "sv_listeners (cg_supervisor s) = [SessionRecovery]" "pr_listener (cg_protocol s)"
    "\<And>t. t \<in> {md_default_timeout s, cg_accounts s, cg_symbols s, cg_trading s} \<Longrightarrow> api_timeout t None = cf_request_timeout c \<and> 0 < t"
  using assms(2)
  by (auto simp: s_def adopt_def build_graph_def client_graph.defs client.defs supervisor_init_def protocol_init_def set_listener_def
      add_listener_def heartbeat_init_def config_valid_def api_timeout_def wf_refresher_def wf_auth_def wf_market_def wf_store_init)

lemma default_config_valid: "config_valid (default_config client_id client_secret)"
  by (simp add: config_valid_def default_config_def)

subsection \<open>Properties\<close>

text \<open>
  C14: entering an idle client has three outcomes. If no connection can be made, exactly
  \<open>CTraderConnectionFailedError\<close> is raised, nothing was sent and nothing changed. If the server
  refuses the application, the link is wound down again and, unless something else failed too, the
  error raised is the refusal itself and not a group around it. Otherwise everything is up, after
  one request. A client that was entered is not entered twice.
\<close>

theorem client_starts:
  assumes "client_idle s" "\<not> cl_running s"
  shows "(\<forall>e. dialled dial s = Inl e \<longrightarrow>
      quiet_run answer saved (client_enter dial aclose now i lost died s) =
        ([], Inr (Some (Raised i (CTraderConnectionFailedError (tp_host (cg_transport s)) (tp_port (cg_transport s)) (Some e)))), s)) \<and>
    (\<forall>n. dialled dial s = Inr n \<longrightarrow>
      (case narrow (ClsReply Cls_ProtoOAApplicationAuthRes) (answer (app_request s)) of
         Inl e \<Rightarrow> \<exists>f s'. quiet_run answer saved (client_enter dial aclose now i lost died s) = ([Requested (app_request s)], Inr (Some f), s') \<and>
           client_idle s' \<and> \<not> cl_running s' \<and>
           (died = [] \<and> (\<forall>x. aclose n = Some x \<longrightarrow> close_ignores x) \<longrightarrow>
              f = Raised i (app_error e))
       | Inr _ \<Rightarrow> \<exists>s'. quiet_run answer saved (client_enter dial aclose now i lost died s) = ([Requested (app_request s)], Inr None, s') \<and>
           in_service s' \<and> client_is_connected s' \<and>
           client_enter dial aclose now i lost died s' = Return (Inr (Some (Raised i (RuntimeError ''Client is already connected'')))) s'))"
proof (intro conjI allI impI)
  fix e
  assume "dialled dial s = Inl e"
  with assms show "quiet_run answer saved (client_enter dial aclose now i lost died s) =
      ([], Inr (Some (Raised i (CTraderConnectionFailedError (tp_host (cg_transport s)) (tp_port (cg_transport s)) (Some e)))), s)"
    by (simp add: client_enter_def lifecycle_enter_def serving_enter_idle(1) [where dial = dial and e = e] quiet_run_bind)
next
  fix n
  assume dial: "dialled dial s = Inr n"
  let ?verdict = "narrow (ClsReply Cls_ProtoOAApplicationAuthRes) (answer (app_request s))"
  let ?enter = "client_enter dial aclose now i lost died"
  show "case ?verdict of
      Inl e \<Rightarrow> \<exists>f s'. quiet_run answer saved (?enter s) = ([Requested (app_request s)], Inr (Some f), s') \<and>
        client_idle s' \<and> \<not> cl_running s' \<and>
        (died = [] \<and> (\<forall>x. aclose n = Some x \<longrightarrow> close_ignores x) \<longrightarrow>
           f = Raised i (app_error e))
    | Inr _ \<Rightarrow> \<exists>s'. quiet_run answer saved (?enter s) = ([Requested (app_request s)], Inr None, s') \<and>
        in_service s' \<and> client_is_connected s' \<and>
        ?enter s' = Return (Inr (Some (Raised i (RuntimeError ''Client is already connected'')))) s'"
  proof (cases ?verdict)
    case (Inl e)
    show ?thesis
      using quiet_run_client_refused [where dial = dial and answer = answer and n = n and saved = saved and lost = lost and died = died
          and aclose = aclose and now = now and i = i, OF assms dial Inl]
      by (simp add: Inl)
  next
    case (Inr m)
    with quiet_run_client_accepted [where dial = dial and answer = answer and n = n, OF assms dial Inr] all_up_in_service [of now n s]
    show ?thesis
      by (simp add: client_enter_def client_is_connected_def supervisor_is_connected_def in_service_def)
  qed
qed

theorem client_starts_witness:
  "quiet_run (\<lambda>_. Inr (Reply ProtoOAApplicationAuthRes)) (\<lambda>_. Inr ()) (client_enter (\<lambda>_ _ _ _. Inl (OSError [])) (\<lambda>_. None) 0 1 [] [] sample_client) =
     ([], Inr (Some (Raised 1 (CTraderConnectionFailedError ''live.ctraderapi.com'' 5035 (Some (OSError []))))), sample_client)"
  using client_starts [OF sample_client_idle, of "\<lambda>_ _ _ _. Inl (OSError [])"] by simp

text \<open>
  C15: leaving a client always leaves it idle, whatever state it is in and whatever failed: no link,
  no task, no handler of its own on the protocol, no session, every caller still waiting woken with
  an error; and an idle client can be entered again. What comes out is the error of closing the
  stream, if there is a stream and closing it raises anything but what \<open>close\<close> ignores. Otherwise,
  and always when the link is already down (a reconnection was in flight or was abandoned), it is
  nothing if nothing failed, the exception of the block itself if that is all there was (but the
  member of a group of one that the block raised), the failure itself if one background task died
  alone, and a group if there were several.
\<close>

theorem client_winds_down:
  assumes "cl_running s" "client_exit aclose i block lost died s = (f, s')"
  shows "client_idle s' \<and> \<not> cl_running s' \<and> (\<forall>(k, p) \<in> set (pr_pending (cg_protocol s')). pd_event p \<and> (\<exists>e. pd_outcome p = Some (Inl e))) \<and>
    (\<forall>n x. tp_stream (cg_transport s) = Some n \<and> aclose n = Some x \<and> \<not> close_ignores x \<longrightarrow> f = Some (Raised i x)) \<and>
    ((\<nexists>n x. tp_stream (cg_transport s) = Some n \<and> aclose n = Some x \<and> \<not> close_ignores x) \<longrightarrow>
      (lost @ died = [] \<longrightarrow> f = (case block of None \<Rightarrow> None | Some b \<Rightarrow> if sole_failure b = b then None else Some (sole_failure b))) \<and>
      (block = None \<longrightarrow> (\<forall>x. lost @ died = [x] \<longrightarrow> f = Some (sole_failure x))) \<and>
      (1 < length (case block of None \<Rightarrow> lost @ died | Some b \<Rightarrow> b # lost @ died) \<longrightarrow> (\<exists>es. f = Some (RaisedGroup es))))"
proof (intro conjI)
  note stops = client_exit_stops [OF assms]
  show "client_idle s'" "\<not> cl_running s'" by (fact stops)+
  show "\<forall>(k, p) \<in> set (pr_pending (cg_protocol s')). pd_event p \<and> (\<exists>e. pd_outcome p = Some (Inl e))"
    using stops(3) by (auto dest: serve_exit_wakes)
  show "\<forall>n x. tp_stream (cg_transport s) = Some n \<and> aclose n = Some x \<and> \<not> close_ignores x \<longrightarrow> f = Some (Raised i x)"
    using stops(4) by (auto simp: close_error_def)
  show "(\<nexists>n x. tp_stream (cg_transport s) = Some n \<and> aclose n = Some x \<and> \<not> close_ignores x) \<longrightarrow>
      (lost @ died = [] \<longrightarrow> f = (case block of None \<Rightarrow> None | Some b \<Rightarrow> if sole_failure b = b then None else Some (sole_failure b))) \<and>
      (block = None \<longrightarrow> (\<forall>x. lost @ died = [x] \<longrightarrow> f = Some (sole_failure x))) \<and>
      (1 < length (case block of None \<Rightarrow> lost @ died | Some b \<Rightarrow> b # lost @ died) \<longrightarrow> (\<exists>es. f = Some (RaisedGroup es)))"
  proof
    assume "\<nexists>n x. tp_stream (cg_transport s) = Some n \<and> aclose n = Some x \<and> \<not> close_ignores x"
    then have "close_error aclose (cg_transport s) = None" by (auto simp: close_error_def split: option.split)
    then have f: "f = exit_raises block (task_group_end (task_group_end block lost) died)" using stops(4) by simp
    show "(lost @ died = [] \<longrightarrow> f = (case block of None \<Rightarrow> None | Some b \<Rightarrow> if sole_failure b = b then None else Some (sole_failure b))) \<and>
      (block = None \<longrightarrow> (\<forall>x. lost @ died = [x] \<longrightarrow> f = Some (sole_failure x))) \<and>
      (1 < length (case block of None \<Rightarrow> lost @ died | Some b \<Rightarrow> b # lost @ died) \<longrightarrow> (\<exists>es. f = Some (RaisedGroup es)))"
      using exit_raises_several [of lost died block] by (auto simp: f exit_raises_groups append_eq_Cons_conv split: option.split)
  qed
qed

theorem client_winds_down_witness:
  "\<exists>s' s2. client_exit (\<lambda>_. None) 1 None [] [RaisedGroup [Raised 5 (OSError [])]] (sample_client\<lparr>cl_running := True, cg_transport := (cg_transport sample_client)\<lparr>tp_stream := Some ()\<rparr>\<rparr>) =
      (Some (Raised 5 (OSError [])), s') \<and> client_idle s' \<and>
    client_exit (\<lambda>_. Some TimeoutError) 1 None [] [] (sample_client\<lparr>cl_running := True\<rparr>) = (None, s2) \<and> client_idle s2"
proof -
  let ?s = "sample_client\<lparr>cl_running := True, cg_transport := (cg_transport sample_client)\<lparr>tp_stream := Some ()\<rparr>\<rparr>"
  have down: "tp_stream (cg_transport sample_client) = None" 
    using sample_client_idle(1) by (cases "tp_stream (cg_transport sample_client)") (auto simp: client_idle_def transport_is_connected_def)
  obtain f s' where exit: "client_exit (\<lambda>_. None) 1 None [] [RaisedGroup [Raised 5 (OSError [])]] ?s = (f, s')" by force
  obtain g s2 where exit2: "client_exit (\<lambda>_. Some TimeoutError) 1 None [] [] (sample_client\<lparr>cl_running := True\<rparr>) = (g, s2)" by force
  have "f = Some (Raised 5 (OSError []))" "client_idle s'" using client_winds_down [OF _ exit] by auto
  moreover have "g = None" "client_idle s2" using client_winds_down [OF _ exit2] down by auto
  ultimately show ?thesis using exit exit2 by blast
qed

text \<open>
  C32: a client that is entered and left again has taken every handler of its own off the protocol:
  what others registered there is called as before. So a client can be entered any number of
  times.
\<close>

theorem client_leaves_handlers:
  assumes "client_idle s" "\<not> cl_running s" "dialled dial s = Inr n"
    and "narrow (ClsReply Cls_ProtoOAApplicationAuthRes) (answer (app_request s)) = Inr reply"
    and "\<And>k. set (regs_for k (heartbeat_registrations @ router_registrations)) \<inter> set (handlers_for (cg_protocol s) k) = {}"
  shows "\<exists>s1 f s2. quiet_run answer saved (client_enter dial aclose now i lost died s) = ([Requested (app_request s)], Inr None, s1) \<and>
    client_exit aclose i block lost' died' s1 = (f, s2) \<and> client_idle s2 \<and> \<not> cl_running s2 \<and>
    (\<forall>k. handlers_for (cg_protocol s1) k = handlers_for (cg_protocol s) k @ regs_for k (heartbeat_registrations @ router_registrations)) \<and>
    (\<forall>k. handlers_for (cg_protocol s2) k = handlers_for (cg_protocol s) k)"
proof -
  let ?s1 = "(all_up now n s)\<lparr>cl_running := True\<rparr>"
  have enter: "quiet_run answer saved (client_enter dial aclose now i lost died s) = ([Requested (app_request s)], Inr None, ?s1)"
    using quiet_run_client_accepted [where dial = dial and answer = answer and n = n, OF assms(1-4)] .
  obtain f s2 where exit: "client_exit aclose i block lost' died' ?s1 = (f, s2)" by force
  then have stops: "client_idle s2" "\<not> cl_running s2" "cg_protocol s2 = serve_exit (dispose_all (hb_disposers (cg_heartbeat ?s1))
      ((snd (router_stop (cg_router ?s1) (cg_protocol ?s1)))\<lparr>pr_running := False\<rparr>))"
    using client_exit_stops [OF _ exit] by simp_all
  have up: "handlers_for (cg_protocol ?s1) k =
      handlers_for (cg_protocol s) k @ regs_for k (heartbeat_registrations @ router_registrations)" for k
    by (simp add: all_up_def linked_up_def register_all_handlers)
  have "handlers_for (cg_protocol s2) k = handlers_for (cg_protocol s) k" for k
  proof -
    have "router_registrations \<noteq> []" by (simp add: router_registrations_def)
    then have "handlers_for (cg_protocol s2) k =
        fold remove1 (regs_for k heartbeat_registrations) (fold remove1 (regs_for k router_registrations) (handlers_for (cg_protocol ?s1) k))"
      by (simp add: stops router_stop_def dispose_all_handlers all_up_def linked_up_def)
    also have "fold remove1 (regs_for k router_registrations) (handlers_for (cg_protocol ?s1) k) =
        handlers_for (cg_protocol s) k @ regs_for k heartbeat_registrations"
      using assms(5) [of k] own_handlers_apart [of k]
        fold_remove1_append [of "regs_for k router_registrations" "handlers_for (cg_protocol s) k @ regs_for k heartbeat_registrations"]
      unfolding up by (simp add: Int_Un_distrib Int_Un_distrib2)
    also have "fold remove1 (regs_for k heartbeat_registrations) \<dots> = handlers_for (cg_protocol s) k"
      using assms(5) [of k] by (simp add: fold_remove1_append Int_Un_distrib2)
    finally show ?thesis .
  qed
  with enter exit stops(1,2) up show ?thesis by blast
qed

theorem client_leaves_handlers_witness:
  "\<exists>s1 f s2. quiet_run (\<lambda>_. Inr (Reply ProtoOAApplicationAuthRes)) (\<lambda>_. Inr ()) (client_enter (\<lambda>_ _ _ _. Inr ()) (\<lambda>_. None) 0 1 [] [] sample_client) =
      ([Requested (ProtoOAApplicationAuthReq ''id'' ''secret'')], Inr None, s1) \<and>
    client_exit (\<lambda>_. None) 1 None [] [] s1 = (f, s2) \<and> client_idle s2 \<and> (\<forall>k. handlers_for (cg_protocol s2) k = [])"
  using client_leaves_handlers [OF sample_client_idle, where dial = "\<lambda>_ _ _ _. Inr ()" and n = "()" and answer = "\<lambda>_. Inr (Reply ProtoOAApplicationAuthRes)"
      and reply = "Reply ProtoOAApplicationAuthRes" and saved = "\<lambda>_. Inr ()" and aclose = "\<lambda>_. None" and now = 0 and i = 1 and lost = "[]" and died = "[]"
      and block = None and lost' = "[]" and died' = "[]"]
  by (simp add: narrow_def) blast

end
