(* ===== verification/Client_Typing.thy ===== *)
theory Client_Typing
  imports Client
begin

text \<open>
  The overloads of \<open>CTraderClient.on\<close> and \<open>register_handler\<close>: what a type checker accepts, by the three
  constrained type variables of \<open>client.py\<close>, against what the event bus accepts when the call is made.
\<close>

definition T_BothFilters :: "event_type list" where
  "T_BothFilters = [T_SpotEvent, T_ExecutionEvent, T_DepthEvent]"

definition T_AccountIdOnly :: "event_type list" where
  "T_AccountIdOnly =
     [T_ReadyEvent, T_OrderErrorEvent, T_TraderUpdateEvent, T_MarginChangeEvent, T_AccountDisconnectEvent,
      T_SymbolChangedEvent, T_TrailingStopChangedEvent, T_MarginCallTriggerEvent, T_TokenRefreshFailedEvent,
      T_SubscriptionRestoreFailedEvent]"

definition T_NoFilters :: "event_type list" where
  "T_NoFilters = [T_ReconnectedEvent, T_ClientDisconnectEvent, T_TokenInvalidatedEvent]"

text \<open>Which keyword arguments the overload for a type takes: \<open>account_id\<close>, \<open>symbol_id\<close>.\<close>

definition on_overload :: "event_type \<Rightarrow> bool \<Rightarrow> bool \<Rightarrow> bool" where
  "on_overload t by_account by_symbol \<longleftrightarrow>
     t \<in> set T_BothFilters \<or>
     t \<in> set T_AccountIdOnly \<and> \<not> by_symbol \<or>
     t \<in> set T_NoFilters \<and> \<not> by_account \<and> \<not> by_symbol"

lemma type_variables_partition:
  "distinct (T_BothFilters @ T_AccountIdOnly @ T_NoFilters)" "t \<in> set (T_BothFilters @ T_AccountIdOnly @ T_NoFilters)"
  by (simp add: T_BothFilters_def T_AccountIdOnly_def T_NoFilters_def)
    (cases t; simp add: T_BothFilters_def T_AccountIdOnly_def T_NoFilters_def)

lemma type_variables_fields:
  "t \<in> set T_BothFilters \<longleftrightarrow> has_symbol_id t" "t \<in> set T_NoFilters \<longleftrightarrow> \<not> has_account_id t"
  "t \<in> set T_AccountIdOnly \<longleftrightarrow> has_account_id t \<and> \<not> has_symbol_id t"
  by (cases t; simp add: T_BothFilters_def T_AccountIdOnly_def T_NoFilters_def has_account_id_def has_symbol_id_def)+

text \<open>
  C31: the declared types tell the truth. Every event type belongs to exactly one of the three overloads,
  and a registration with some filters is accepted when it runs if and only if an overload accepts
  it: a program that type-checks is never refused with a \<open>ValueError\<close>, and no accepted use is ruled
  out by the types.
\<close>

theorem overloads_match_runtime:
  "distinct (T_BothFilters @ T_AccountIdOnly @ T_NoFilters) \<and> t \<in> set (T_BothFilters @ T_AccountIdOnly @ T_NoFilters) \<and>
   (fst (register_handler t h a s c) = Inr () \<longleftrightarrow> on_overload t (a \<noteq> None) (s \<noteq> None))"
proof (intro conjI type_variables_partition)
  show "fst (register_handler t h a s c) = Inr () \<longleftrightarrow> on_overload t (a \<noteq> None) (s \<noteq> None)"
    by (cases a; cases s) (auto simp: register_handler_def subscribe_def validate_filter_def on_overload_def
        type_variables_fields has_account_id_def has_symbol_id_def)
qed

end
