(* ===== verification/Guarantee.thy ===== *)
theory Guarantee
  imports Refresh
begin

text \<open>
  What a task promises the others. \<open>guarantees G W c\<close>: whatever state it is resumed in, the task
  leads to its next suspension by a \<open>G\<close>-step, and wherever it waits for the wake-up flag, \<open>W\<close> holds
  of the timeout and the state it leaves. The promises of the session tasks are derived once, in
  locales over the updates they make, and interpreted for the two promises the tasks rely on.
\<close>

primrec guarantees :: "('s \<Rightarrow> 's \<Rightarrow> bool) \<Rightarrow> (rat option \<Rightarrow> 's \<Rightarrow> bool) \<Rightarrow> ('s, 'a) co \<Rightarrow> bool" where
  "guarantees G W (Return r s) = True"
| "guarantees G W (Send q t s k) = (\<forall>r s'. G s' (co_state (k r s')) \<and> guarantees G W (k r s'))"
| "guarantees G W (Emit e s k) = (\<forall>s'. G s' (co_state (k s')) \<and> guarantees G W (k s'))"
| "guarantees G W (Save c s k) = (\<forall>r s'. G s' (co_state (k r s')) \<and> guarantees G W (k r s'))"
| "guarantees G W (Sleep d s k) = (\<forall>s'. G s' (co_state (k s')) \<and> guarantees G W (k s'))"
| "guarantees G W (WaitRefresh a s k) = (\<forall>s'. G s' (co_state (k s')) \<and> guarantees G W (k s'))"
| "guarantees G W (WaitFlag d s k) = (W d s \<and> (\<forall>s'. G s' (co_state (k s')) \<and> guarantees G W (k s')))"

text \<open>A program started in a state: its first segment is a step as well.\<close>

definition runs_under :: "('s \<Rightarrow> 's \<Rightarrow> bool) \<Rightarrow> (rat option \<Rightarrow> 's \<Rightarrow> bool) \<Rightarrow> 's \<Rightarrow> ('s, 'a) co \<Rightarrow> bool" where
  "runs_under G W s c \<longleftrightarrow> G s (co_state c) \<and> guarantees G W c"

lemma guarantees_resume:
  assumes "guarantees G W c" "resume c out s = Some c'"
  shows "G s (co_state c') \<and> guarantees G W c'"
  using assms by (cases c; cases out) auto

lemma runs_under_simps [simp]:
  "runs_under G W s (Return r s') \<longleftrightarrow> G s s'"
  "runs_under G W s (Send q t s' k) \<longleftrightarrow> G s s' \<and> (\<forall>r u. runs_under G W u (k r u))"
  "runs_under G W s (Emit e s' k') \<longleftrightarrow> G s s' \<and> (\<forall>u. runs_under G W u (k' u))"
  "runs_under G W s (Save c s' k2) \<longleftrightarrow> G s s' \<and> (\<forall>r u. runs_under G W u (k2 r u))"
  "runs_under G W s (Sleep d s' k') \<longleftrightarrow> G s s' \<and> (\<forall>u. runs_under G W u (k' u))"
  "runs_under G W s (WaitRefresh a s' k') \<longleftrightarrow> G s s' \<and> (\<forall>u. runs_under G W u (k' u))"
  "runs_under G W s (WaitFlag t' s' k') \<longleftrightarrow> G s s' \<and> W t' s' \<and> (\<forall>u. runs_under G W u (k' u))"
  by (auto simp: runs_under_def)

subsection \<open>Composition\<close>

locale step_guarantee =
  fixes G :: "'s \<Rightarrow> 's \<Rightarrow> bool" and W :: "rat option \<Rightarrow> 's \<Rightarrow> bool"
  assumes refl [simp, intro]: "G s s"
    and trans: "G s t \<Longrightarrow> G t u \<Longrightarrow> G s u"
begin

lemma runs_then:
  assumes "runs_under G W s c" "\<And>r t. runs_under G W t (f r t)"
  shows "runs_under G W s (co_then c f)"
  using assms(1)
proof (induction c arbitrary: s)
  case (Return r s')
  with assms(2) [of s' r] show ?case by (auto simp: runs_under_def intro: trans)
next
  case (Send q t s' k)
  from Send.prems Send.IH [OF rangeI rangeI] show ?case by simp
next
  case (Save c s' k)
  from Save.prems Save.IH [OF rangeI rangeI] show ?case by simp
qed (auto simp: rangeI)

lemma runs_bind: "runs_under G W s c \<Longrightarrow> (\<And>a t. runs_under G W t (f a t)) \<Longrightarrow> runs_under G W s (co_bind c f)"
  unfolding co_bind_def by (rule runs_then) (auto split: sum.splits)

lemma runs_try: "runs_under G W s c \<Longrightarrow> (\<And>e t. runs_under G W t (h e t)) \<Longrightarrow> runs_under G W s (co_try c h)"
  unfolding co_try_def by (rule runs_then) (auto split: sum.splits)

lemma runs_translate: "runs_under G W s c \<Longrightarrow> runs_under G W s (co_translate f c)"
  unfolding co_translate_def by (rule runs_try) auto

lemma runs_request [simp]: "runs_under G W s (co_request q cls t s') \<longleftrightarrow> G s s'"
  by (simp add: co_request_def)

lemma runs_emit [simp]: "runs_under G W s (co_emit e s') \<longleftrightarrow> G s s'"
  by (simp add: co_emit_def)

lemma runs_after: "G s t \<Longrightarrow> runs_under G W t c \<Longrightarrow> runs_under G W s c"
  by (auto simp: runs_under_def intro: trans)

end

subsection \<open>The session tasks\<close>

text \<open>The updates every session task may make.\<close>

locale session_guarantee = step_guarantee G W
  for G :: "'z refresher_scheme \<Rightarrow> 'z refresher_scheme \<Rightarrow> bool" and W +
  assumes upd: "G s (update_standing a f s)"
    and frg: "G s (forget a s)"
    and auth: "G s (s\<lparr>w_store := authorize cr (w_store s)\<rparr>)"
    and app: "G s (s\<lparr>au_app_authenticated := True\<rparr>)"
    and rmv: "G s (s\<lparr>w_store := snd (remove_account_entry a (w_store s))\<rparr>)"
    and lost: "G s (on_connection_lost s)"
    and ver: "G s (s\<lparr>rc_verifying := v\<rparr>)"
    and drop: "G s (s\<lparr>w_store := snd (flag_for_recovery a (w_store s)), rc_reauth_signal := True\<rparr>)"
    and arm: "G s (snd (arm_app_auth_recovery s))"
begin

lemma runs_subscribe_spots: "runs_under G W s (subscribe_spots a xs t s)"
  and runs_unsubscribe_spots: "runs_under G W s (unsubscribe_spots a xs t s)"
  and runs_subscribe_trendbars: "runs_under G W s (subscribe_trendbars a x p t s)"
  and runs_unsubscribe_trendbars: "runs_under G W s (unsubscribe_trendbars a x p t s)"
  and runs_subscribe_depth: "runs_under G W s (subscribe_depth a xs t s)"
  and runs_unsubscribe_depth: "runs_under G W s (unsubscribe_depth a xs t s)"
  unfolding subscribe_spots_def unsubscribe_spots_def subscribe_trendbars_def unsubscribe_trendbars_def
    subscribe_depth_def unsubscribe_depth_def
  by (rule runs_bind; simp add: upd)+

lemma runs_restore_trendbars: "runs_under G W s (restore_trendbars a items s)"
proof (induction items arbitrary: s)
  case (Cons item items)
  then show ?case by (cases item) (auto intro!: runs_bind runs_subscribe_trendbars)
qed simp

lemma runs_restore: "runs_under G W s (restore a s)"
  unfolding restore_def
  by (auto split: option.split intro!: runs_try runs_bind runs_subscribe_spots runs_restore_trendbars runs_subscribe_depth)

lemma runs_authenticate_app: "runs_under G W s (authenticate_app t s)"
  unfolding authenticate_app_def by (rule runs_bind, rule runs_translate) (simp_all add: app)

lemma runs_establish: "runs_under G W s (establish cr trigger t s)"
proof -
  have "runs_under G W s (establish_accepted cr trigger s)" for s
    unfolding establish_accepted_def Let_def
    by (auto intro!: runs_bind auth runs_after [OF auth runs_restore])
  then show ?thesis unfolding establish_def by (auto intro!: runs_bind runs_translate)
qed

lemma runs_remove_account: "G s (snd (remove_account a s))"
  using rmv [of s a] trans [OF rmv frg, of s a a] by (auto simp: remove_account_def remove_account_entry_def Let_def)

lemma runs_report_dropped: "runs_under G W s (report_dropped a s)"
  by (simp add: report_dropped_def drop)

lemma runs_disconnect: "runs_under G W s (handle_account_disconnect a s)"
proof -
  have "runs_under G W s (verify_disconnect a s)" for s
    unfolding verify_disconnect_def probe_session_def
    by (auto intro!: runs_then runs_report_dropped ver split: sum.split bool.split)
  then show ?thesis by (simp add: handle_account_disconnect_def)
qed

lemma runs_reauth_accounts: "runs_under G W s (reauth_accounts show_exn crs restored failed s)"
proof (induction crs arbitrary: restored failed s)
  case (Cons cr crs)
  then show ?case by (auto intro!: runs_then runs_establish split: sum.split)
qed simp

lemma runs_connection_restored: "runs_under G W s (on_connection_restored show_exn s)"
  unfolding on_connection_restored_def
proof (rule runs_then [OF runs_authenticate_app])
  fix r :: "unit res" and t
  show "runs_under G W t (case r of
      Inl e \<Rightarrow> (case arm_app_auth_recovery t of
          (Inl e', s2) \<Rightarrow> Return (Inl e') s2
        | (Inr _, s2) \<Rightarrow> co_emit (ReconnectedEvent False [] []) s2)
    | Inr _ \<Rightarrow> reauth_accounts show_exn (all_credentials (w_store t)) [] [] t)"
    using arm [of t] by (auto intro: runs_reauth_accounts split: sum.split prod.split)
qed

end

subsection \<open>The recovery loop\<close>

lemma co_then_then: "co_then (co_then c f) g = co_then c (\<lambda>r s. co_then (f r s) g)"
proof (induction c)
  case (Send q t s k)
  from Send.IH [OF rangeI rangeI] show ?case by (simp add: fun_eq_iff)
next
  case (Save c s k)
  from Save.IH [OF rangeI rangeI] show ?case by (simp add: fun_eq_iff)
qed auto

locale recovery_guarantee = session_guarantee G W
  for G :: "'z refresher_scheme \<Rightarrow> 'z refresher_scheme \<Rightarrow> bool" and W +
  assumes reset: "G s (s\<lparr>rc_reauth_signal := False\<rparr>)"
    and put_off: "G s (snd (defer_recovery a w s))"
    and put_off_app: "G s (snd (defer_app_auth s))"
    and app_settled: "G s (s\<lparr>rc_app_auth_pending := False, rc_app_auth_attempts := 0\<rparr>)"
    and park_app: "rc_app_auth_pending s \<Longrightarrow> W (Some (rc_app_auth_next_at s - w_now s)) s"
    and park_none: "\<not> rc_app_auth_pending s \<Longrightarrow> awaiting_recovery_queue (w_store s) = [] \<Longrightarrow> W None s"
    and park_due: "\<not> rc_app_auth_pending s \<Longrightarrow> awaiting_recovery_queue (w_store s) \<noteq> [] \<Longrightarrow>
      W (Some (soonest (awaiting_recovery_queue (w_store s)) - w_now s)) s"
begin

lemma runs_recover_account: "runs_under G W s (recover_account entry s)"
proof -
  obtain a cr w where entry: "entry = (a, cr, w)" by (metis prod_cases3)
  have "runs_under G W s (co_emit (ReadyEvent a ACCOUNT_REAUTH) (s\<lparr>w_store := authorize cr (w_store s)\<rparr>))" for s
    using auth by simp
  moreover have "runs_under G W s (case defer_recovery a w s of (r, s2) \<Rightarrow> Return r s2)" for s
    using put_off [of s a w] by (auto split: prod.split)
  ultimately show ?thesis by (auto simp: recover_account_def entry intro!: runs_try runs_establish)
qed

lemma runs_recover_due: "\<not> rc_app_auth_pending s \<Longrightarrow> runs_under G W s (recover_due s)"
proof -
  have "runs_under G W s (recover_accounts due s)" for due s
    by (induction due arbitrary: s) (auto intro!: runs_bind runs_recover_account)
  then show "\<not> rc_app_auth_pending s \<Longrightarrow> runs_under G W s (recover_due s)"
    by (simp add: recover_due_def Let_def park_none park_due)
qed

lemma runs_reauth_pass: "runs_under G W s (reauth_pass s)"
proof -
  define s0 where "s0 = s\<lparr>rc_reauth_signal := False\<rparr>"
  have settled: "runs_under G W t (recover_due (t\<lparr>rc_app_auth_pending := False, rc_app_auth_attempts := 0\<rparr>))" for t
    by (rule runs_after [OF app_settled runs_recover_due]) simp
  have "runs_under G W t (co_bind (case r of
        Inl e \<Rightarrow> (case defer_app_auth t of (Inl e', s2) \<Rightarrow> Return (Inl e') s2 | (Inr _, s2) \<Rightarrow> Return (Inr False) s2)
      | Inr _ \<Rightarrow> Return (Inr True) (t\<lparr>rc_app_auth_pending := False, rc_app_auth_attempts := 0\<rparr>))
      (\<lambda>ok s'. if \<not> ok then Return (Inr ()) s' else recover_due s'))" for r :: "unit res" and t
    using settled [of t] put_off_app [of t] by (auto simp: co_bind_def split: sum.split prod.split)
  then have retry: "runs_under G W u (co_bind (retry_app_auth u) (\<lambda>ok s'. if \<not> ok then Return (Inr ()) s' else recover_due s'))" for u
    unfolding retry_app_auth_def co_bind_def co_then_then by (rule runs_then [OF runs_authenticate_app])
  have "runs_under G W s0 (if rc_app_auth_pending s0
      then let waiting = rc_app_auth_next_at s0 - w_now s0 in
        if waiting > 0 then WaitFlag (Some waiting) s0 (Return (Inr ()))
        else co_bind (retry_app_auth s0) (\<lambda>ok s'. if \<not> ok then Return (Inr ()) s' else recover_due s')
      else recover_due s0)"
    using retry [of s0] runs_recover_due [of s0] park_app [of s0] by (simp add: Let_def)
  with reset [of s] show ?thesis
    unfolding reauth_pass_def Let_def s0_def by (rule runs_after)
qed

lemma runs_reauth_loop: "runs_under G W s (reauth_loop n s)"
  by (induction n arbitrary: s) (auto intro!: runs_bind runs_reauth_pass)

end

subsection \<open>The refresh loop\<close>

locale refresh_guarantee = session_guarantee G W
  for G :: "'z refresher_scheme \<Rightarrow> 'z refresher_scheme \<Rightarrow> bool" and W +
  assumes mark: "G s (s\<lparr>w_store := begin_refresh a (w_store s)\<rparr>)"
    and unmark: "G s (s\<lparr>w_store := snd (end_refresh a (w_store s))\<rparr>)"
    and rotate: "G s (s\<lparr>w_store := replace_credentials cr (w_store s)\<rparr>)"
begin

lemma runs_refresh_attempt: "runs_under G W s (refresh_attempt a cr s)"
proof -
  have "runs_under G W s (co_bind (save_tokens cr (s\<lparr>w_store := replace_credentials cr (w_store s)\<rparr>))
      (\<lambda>_. establish cr TOKEN_REFRESH AUTH_TIMEOUT))" for cr s
    by (rule runs_after [OF rotate [of s cr]], rule runs_bind) (simp_all add: save_tokens_def runs_establish)
  then show ?thesis
    unfolding refresh_attempt_def Let_def by - (rule runs_bind, rule runs_translate, simp_all)
qed

lemma runs_refresh_attempts: "runs_under G W s (refresh_attempts stop wait fuel k a cr s)"
  by (induction fuel arbitrary: k s) (auto intro!: runs_then runs_refresh_attempt split: sum.split)

lemma runs_refresh_account: "runs_under G W s (refresh_account stop wait fuel a s)"
  unfolding refresh_account_def
  by (auto intro!: runs_then runs_after [OF mark runs_refresh_attempts] unmark split: option.split)

lemma runs_refresh_items: "runs_under G W s (refresh_items stop wait fuel items s)"
proof (induction items arbitrary: s)
  case (Cons item items)
  then show ?case by (cases item) (auto intro!: runs_then runs_bind runs_refresh_account split: sum.split)
qed simp

lemma runs_refresh_loop: "runs_under G W s (refresh_loop stop wait fuel n s)"
  by (induction n arbitrary: s) (auto intro!: runs_bind runs_refresh_items)

end

subsection \<open>The promises\<close>

text \<open>Only the refresher touches the marks of refreshes in flight, and nobody the policy.\<close>

definition leaves_marks :: "'z refresher_scheme \<Rightarrow> 'z refresher_scheme \<Rightarrow> bool" where
  "leaves_marks s s' \<longleftrightarrow> st_refreshing (w_store s') = st_refreshing (w_store s) \<and> rf_policy s' = rf_policy s"

text \<open>The accounts that await recovery.\<close>

definition awaiting :: "'z auth_state_scheme \<Rightarrow> (int \<times> awaiting_recovery) set" where
  "awaiting s = {(a, w). session_of a (w_store s) = Some (AwaitingRecovery w)}"

text \<open>
  Only the recovery loop resets its wake-up flag, and whoever gives it work without setting the flag
  only takes work away.
\<close>

definition keeps_signal :: "'z recovery_scheme \<Rightarrow> 'z recovery_scheme \<Rightarrow> bool" where
  "keeps_signal s s' \<longleftrightarrow> (rc_reauth_signal s \<longrightarrow> rc_reauth_signal s') \<and>
     (rc_reauth_signal s' \<or>
      awaiting s' \<subseteq> awaiting s \<and>
      (rc_app_auth_pending s' \<longrightarrow> rc_app_auth_pending s \<and> rc_app_auth_next_at s' = rc_app_auth_next_at s) \<and>
      (rc_app_auth_pending s \<and> \<not> rc_app_auth_pending s' \<longrightarrow> awaiting s' = {}))"

text \<open>The recovery loop waits no longer than until its next piece of work is due.\<close>

definition nothing_due_before :: "rat option \<Rightarrow> 'z recovery_scheme \<Rightarrow> bool" where
  "nothing_due_before d s \<longleftrightarrow>
     (if rc_app_auth_pending s then \<exists>t. d = Some t \<and> w_now s + t = rc_app_auth_next_at s
      else \<forall>(a, w) \<in> awaiting s. \<exists>t. d = Some t \<and> w_now s + t \<le> aw_next_attempt_at w)"

text \<open>Nobody breaks the well-formedness of the store and the standing subscriptions, or changes the policy.\<close>

definition keeps_wf :: "'z refresher_scheme \<Rightarrow> 'z refresher_scheme \<Rightarrow> bool" where
  "keeps_wf s s' \<longleftrightarrow> (wf_auth s \<longrightarrow> wf_auth s') \<and> rf_policy s' = rf_policy s"

subsection \<open>Who keeps which promise\<close>

lemma arm_app_auth_signals:
  "rc_reauth_signal (snd (arm_app_auth_recovery s))" "fst (arm_app_auth_recovery s) = Inr ()"
  by (simp_all add: arm_app_auth_recovery_def defer_app_auth_def backoff_delay_def Let_def)

lemma marks_store_ops [simp]:
  "st_refreshing (authorize cr st) = st_refreshing st" "st_refreshing (replace_credentials cr st) = st_refreshing st"
  "st_refreshing (snd (remove_account_entry a st)) = st_refreshing st" "st_refreshing (invalidate_all st) = st_refreshing st"
  "st_refreshing (snd (flag_for_recovery a st)) = st_refreshing st"
  "st_refreshing (reschedule_recovery a w st) = st_refreshing st"
  by (auto simp: authorize_def replace_credentials_def remove_account_entry_def invalidate_all_def flag_for_recovery_def
      reschedule_recovery_def Let_def split: option.split)

lemma marks_flag_all [simp]: "st_refreshing (flag_all crs st) = st_refreshing st"
  unfolding flag_all_def by (induction crs arbitrary: st) auto

lemma rf_policy_defer [simp]:
  "rf_policy (snd (defer_app_auth s)) = rf_policy s" "rf_policy (snd (arm_app_auth_recovery s)) = rf_policy s"
  "rf_policy (snd (defer_recovery a w s)) = rf_policy s" "rf_policy (forget a s) = rf_policy s"
  by (simp_all add: defer_app_auth_def arm_app_auth_recovery_def defer_recovery_def forget_def Let_def split: sum.split prod.split)

lemma marks_defer [simp]:
  "st_refreshing (w_store (snd (defer_app_auth s))) = st_refreshing (w_store s)"
  "st_refreshing (w_store (snd (arm_app_auth_recovery s))) = st_refreshing (w_store s)"
  "st_refreshing (w_store (snd (defer_recovery a w s))) = st_refreshing (w_store s)"
  by (auto simp: defer_app_auth_def arm_app_auth_recovery_def defer_recovery_def Let_def split: sum.split prod.split)

lemma wf_auth_link:
  "wf_auth s \<Longrightarrow> wf_auth (forget a s)" "wf_auth s \<Longrightarrow> wf_auth (on_connection_lost s)"
  "wf_auth s \<Longrightarrow> wf_auth (s\<lparr>w_store := snd (remove_account_entry a (w_store s))\<rparr>)"
  by (simp_all add: wf_auth_def wf_market_def on_connection_lost_def wf_store_ops wf_market_forget [unfolded wf_market_def])

lemma wf_store_flag_all: "wf_store st \<Longrightarrow> wf_store (flag_all crs st)"
  unfolding flag_all_def by (induction crs arbitrary: st) (auto simp: wf_store_ops)

lemma wf_auth_arm: "wf_auth s \<Longrightarrow> wf_auth (snd (arm_app_auth_recovery s))"
  by (simp add: arm_app_auth_recovery_def defer_app_auth_def backoff_delay_def Let_def wf_auth_def wf_market_def wf_store_flag_all)

lemma recovery_update_standing [simp]:
  "rc_reauth_signal (update_standing a f s) = rc_reauth_signal s"
  "rc_app_auth_pending (update_standing a f s) = rc_app_auth_pending s"
  "rc_app_auth_next_at (update_standing a f s) = rc_app_auth_next_at s"
  by (simp_all add: update_standing_def standing_for_def split: option.splits)

lemma awaiting_queue: "(a, w) \<in> awaiting s \<Longrightarrow> \<exists>cr. (a, cr, w) \<in> set (awaiting_recovery_queue (w_store s))"
  by (force simp: awaiting_def session_of_def awaiting_recovery_queue_def bind_eq_Some_conv dest: map_of_SomeD)

lemma soonest_le: "(a, cr, w) \<in> set queue \<Longrightarrow> soonest queue \<le> aw_next_attempt_at w"
  unfolding soonest_def by (rule Min_le) force+

interpretation marks: recovery_guarantee leaves_marks nothing_due_before
proof unfold_locales
  fix s :: "'a refresher_scheme"
  show "rc_app_auth_pending s \<Longrightarrow> nothing_due_before (Some (rc_app_auth_next_at s - w_now s)) s"
    by (simp add: nothing_due_before_def)
  show "\<not> rc_app_auth_pending s \<Longrightarrow> awaiting_recovery_queue (w_store s) = [] \<Longrightarrow> nothing_due_before None s"
    by (auto simp: nothing_due_before_def dest: awaiting_queue)
  show "\<not> rc_app_auth_pending s \<Longrightarrow> awaiting_recovery_queue (w_store s) \<noteq> [] \<Longrightarrow>
      nothing_due_before (Some (soonest (awaiting_recovery_queue (w_store s)) - w_now s)) s"
    by (auto simp: nothing_due_before_def dest!: awaiting_queue intro: soonest_le)
qed (auto simp: leaves_marks_def on_connection_lost_def)

lemma awaiting_ops:
  "awaiting (update_standing a f s) = awaiting s" "awaiting (forget a s) = awaiting s"
  "awaiting (s\<lparr>w_store := authorize cr (w_store s)\<rparr>) \<subseteq> awaiting s"
  "awaiting (s\<lparr>w_store := replace_credentials cr (w_store s)\<rparr>) = awaiting s"
  "awaiting (s\<lparr>w_store := snd (remove_account_entry a (w_store s))\<rparr>) \<subseteq> awaiting s"
  "awaiting (s\<lparr>au_app_authenticated := b\<rparr>) = awaiting s"
  "awaiting (s\<lparr>w_store := begin_refresh a (w_store s)\<rparr>) = awaiting s"
  "awaiting (s\<lparr>w_store := snd (end_refresh a (w_store s))\<rparr>) = awaiting s"
  by (auto simp: awaiting_def ss.sess_auth ss.sess_replace ss.sess_remove refresh_mark_simps split: if_splits)

lemma awaiting_recovery_ops:
  "awaiting (on_connection_lost s) = {}" "awaiting (s\<lparr>rc_verifying := v\<rparr>) = awaiting s"
  by (simp_all add: awaiting_def on_connection_lost_def ss.sess_invalidate)

interpretation sig: refresh_guarantee keeps_signal "\<lambda>_ _. True"
proof unfold_locales
  fix s t u :: "'a refresher_scheme"
  show "keeps_signal s t \<Longrightarrow> keeps_signal t u \<Longrightarrow> keeps_signal s u" unfolding keeps_signal_def
    by (metis empty_subsetI subset_antisym subset_trans)
  fix a cr
  show "keeps_signal s (s\<lparr>w_store := authorize cr (w_store s)\<rparr>)"
    "keeps_signal s (s\<lparr>w_store := snd (remove_account_entry a (w_store s))\<rparr>)"
    using awaiting_ops(3) [of cr s] awaiting_ops(5) [of a s] by (simp_all add: keeps_signal_def)
qed (simp_all add: keeps_signal_def awaiting_ops awaiting_recovery_ops arm_app_auth_signals, simp_all add: on_connection_lost_def forget_def)

interpretation wfg: recovery_guarantee keeps_wf "\<lambda>_ _. True"
  by unfold_locales (auto simp: keeps_wf_def wf_auth_link wf_auth_arm defer_recovery_wf defer_app_auth_wf,
    simp add: on_connection_lost_def)

interpretation wfg: refresh_guarantee keeps_wf "\<lambda>_ _. True"
  by unfold_locales (auto simp: keeps_wf_def)

end
