(* ===== verification/Pool.thy ===== *)
theory Pool
  imports Guarantee Refresh_Properties
begin

text \<open>
  The tasks of a client that share its session state: the recovery loop, the refresh loop, and any
  number of calls in flight: checks of reported disconnects, re-authentication after a reconnect,
  and what the program itself asks for. They run on one event loop, so a step is one task going
  from one await to the next; which task runs, and how the server answers, is open. A lost link, a
  removed account, the passing of time and the end of a loop are steps too. A wait may end at any
  moment: the relation has every schedule the event loop can take, and more.
\<close>

record pool =
  pl_state :: refresher
  pl_recovery :: "(refresher, bool) co"
  pl_refresher :: "(refresher, bool) co"
  pl_calls :: "(refresher, unit) co list"

text \<open>The calls the client makes into the session components.\<close>

datatype session_call =
    DisconnectReported int
  | ConnectionRestored
  | AuthenticateApp rat
  | AuthenticateTrader credentials rat
  | SubscribeSpots int "int list" "rat option"
  | UnsubscribeSpots int "int list" "rat option"
  | SubscribeTrendbars int int trendbar_period "rat option"
  | UnsubscribeTrendbars int int trendbar_period "rat option"
  | SubscribeDepth int "int list" "rat option"
  | UnsubscribeDepth int "int list" "rat option"

primrec start_call ::
  "(exn \<Rightarrow> string) \<Rightarrow> session_call \<Rightarrow> 'z refresher_scheme \<Rightarrow> ('z refresher_scheme, unit) co" where
  "start_call show_exn (DisconnectReported a) = handle_account_disconnect a"
| "start_call show_exn ConnectionRestored = on_connection_restored show_exn"
| "start_call show_exn (AuthenticateApp timeout) = authenticate_app timeout"
| "start_call show_exn (AuthenticateTrader cr timeout) = authenticate_trader cr timeout"
| "start_call show_exn (SubscribeSpots a xs timeout) = subscribe_spots a xs timeout"
| "start_call show_exn (UnsubscribeSpots a xs timeout) = unsubscribe_spots a xs timeout"
| "start_call show_exn (SubscribeTrendbars a x p timeout) = subscribe_trendbars a x p timeout"
| "start_call show_exn (UnsubscribeTrendbars a x p timeout) = unsubscribe_trendbars a x p timeout"
| "start_call show_exn (SubscribeDepth a xs timeout) = subscribe_depth a xs timeout"
| "start_call show_exn (UnsubscribeDepth a xs timeout) = unsubscribe_depth a xs timeout"

text \<open>\<open>serve\<close> of the two components from where it has checked that it is not running: the loop, and its \<open>finally\<close>.\<close>

definition serve_recovery :: "nat \<Rightarrow> 'z refresher_scheme \<Rightarrow> ('z refresher_scheme, bool) co" where
  "serve_recovery n s = co_then (reauth_loop n s) (\<lambda>r s'. Return r (recovery_serve_exit s'))"

definition serve_refresher ::
  "(int \<Rightarrow> nat \<Rightarrow> bool) \<Rightarrow> (rat \<Rightarrow> rat \<Rightarrow> nat \<Rightarrow> rat) \<Rightarrow> nat \<Rightarrow> nat \<Rightarrow> 'z refresher_scheme \<Rightarrow> ('z refresher_scheme, bool) co" where
  "serve_refresher stop wait fuel m s = co_then (refresh_loop stop wait fuel m s) (\<lambda>r s'. Return r (refresher_serve_exit s'))"

text \<open>
  How \<open>CTraderClient._lifecycle\<close> starts the two loops, for \<open>m\<close> rounds and \<open>n\<close> passes: the refresher is
  served until its first await, then the recovery; either refuses when it is already being served.
\<close>

definition serve_pool ::
  "(int \<Rightarrow> nat \<Rightarrow> bool) \<Rightarrow> (rat \<Rightarrow> rat \<Rightarrow> nat \<Rightarrow> rat) \<Rightarrow> nat \<Rightarrow> nat \<Rightarrow> nat \<Rightarrow> refresher \<Rightarrow> pool res" where
  "serve_pool stop wait fuel m n s =
     (case refresher_serve_enter s of
        (Inl e, _) \<Rightarrow> Inl e
      | (Inr _, s1) \<Rightarrow>
          let d = serve_refresher stop wait fuel m s1 in
          case recovery_serve_enter (co_state d) of
            (Inl e, _) \<Rightarrow> Inl e
          | (Inr _, s2) \<Rightarrow>
              let c = serve_recovery n s2 in
              Inr \<lparr>pl_state = co_state c, pl_recovery = c, pl_refresher = d, pl_calls = []\<rparr>)"

text \<open>
  A loop that is cancelled runs the \<open>finally\<close> clauses it is inside of: that of \<open>serve\<close>, and for the
  refresher the one of \<open>_refresh_account\<close>, which unmarks the account whose refresh is in flight. The
  refresher is the only task that marks accounts, one at a time (in every reachable state there is
  at most one mark), so the mark of that account is whatever mark there is.
\<close>

definition recovery_cancelled :: "refresher \<Rightarrow> refresher" where
  "recovery_cancelled s = recovery_serve_exit (snd (recovery_stop s))"

definition refresher_cancelled :: "refresher \<Rightarrow> refresher" where
  "refresher_cancelled s0 =
     (let s = snd (refresher_stop s0) in
      refresher_serve_exit (s\<lparr>w_store := fold (\<lambda>a st. snd (end_refresh a st)) (st_refreshing (w_store s)) (w_store s)\<rparr>))"

inductive session_step :: "(exn \<Rightarrow> string) \<Rightarrow> pool \<Rightarrow> pool \<Rightarrow> bool" for show_exn where
  RecoveryRuns: "resume (pl_recovery P) out (pl_state P) = Some c \<Longrightarrow>
    session_step show_exn P (P\<lparr>pl_state := co_state c, pl_recovery := c\<rparr>)"
| RefresherRuns: "resume (pl_refresher P) out (pl_state P) = Some d \<Longrightarrow>
    session_step show_exn P (P\<lparr>pl_state := co_state d, pl_refresher := d\<rparr>)"
| CallStarts: "start_call show_exn call (pl_state P) = e \<Longrightarrow>
    session_step show_exn P (P\<lparr>pl_state := co_state e, pl_calls := pl_calls P @ [e]\<rparr>)"
| CallRuns: "i < length (pl_calls P) \<Longrightarrow> resume (pl_calls P ! i) out (pl_state P) = Some e \<Longrightarrow>
    session_step show_exn P (P\<lparr>pl_state := co_state e, pl_calls := (pl_calls P)[i := e]\<rparr>)"
| LinkLost: "session_step show_exn P (P\<lparr>pl_state := on_connection_lost (pl_state P)\<rparr>)"
| AccountRemoved: "session_step show_exn P (P\<lparr>pl_state := snd (remove_account a (pl_state P))\<rparr>)"
| TimePasses: "w_now (pl_state P) \<le> now \<Longrightarrow>
    session_step show_exn P (P\<lparr>pl_state := (pl_state P)\<lparr>w_now := now, w_time := time\<rparr>\<rparr>)"
| RecoveryCancelled: "recovery_cancelled (pl_state P) = s \<Longrightarrow>
    session_step show_exn P (P\<lparr>pl_state := s, pl_recovery := Return (Inr True) s\<rparr>)"
| RefresherCancelled: "refresher_cancelled (pl_state P) = s \<Longrightarrow>
    session_step show_exn P (P\<lparr>pl_state := s, pl_refresher := Return (Inr True) s\<rparr>)"

inductive_cases session_stepE: "session_step show_exn P P'"

definition session_runs :: "(exn \<Rightarrow> string) \<Rightarrow> pool \<Rightarrow> pool \<Rightarrow> bool" where
  "session_runs show_exn = (session_step show_exn)\<^sup>*\<^sup>*"

context session_guarantee
begin

lemma runs_call: "runs_under G W s (start_call show_exn call s)"
  by (cases call) (simp_all add: authenticate_trader_def runs_disconnect runs_connection_restored runs_authenticate_app
      runs_establish runs_subscribe_spots runs_unsubscribe_spots runs_subscribe_trendbars runs_unsubscribe_trendbars
      runs_subscribe_depth runs_unsubscribe_depth)

end

subsection \<open>The marks of the refresher\<close>

interpretation sole: refresh_invariant leaves_marks
  "\<lambda>s. st_refreshing (w_store s) = [a] \<and> rf_policy s = p" "rp_retry_attempts p"
  by unfold_locales (auto simp: leaves_marks_def)

definition one_mark :: "refresh_policy \<Rightarrow> 'z refresher_scheme \<Rightarrow> bool" where
  "one_mark p s \<longleftrightarrow> length (st_refreshing (w_store s)) \<le> 1 \<and> rf_policy s = p"

definition no_mark :: "refresh_policy \<Rightarrow> 'z refresher_scheme \<Rightarrow> bool" where
  "no_mark p s \<longleftrightarrow> st_refreshing (w_store s) = [] \<and> rf_policy s = p"

lemma no_mark_one: "no_mark p s \<Longrightarrow> one_mark p s"
  by (simp add: no_mark_def one_mark_def)

lemma no_mark_leaves: "no_mark p s \<Longrightarrow> leaves_marks s s' \<Longrightarrow> no_mark p s' \<and> one_mark p s'"
  by (simp add: no_mark_def one_mark_def leaves_marks_def)

lemma one_mark_account:
  assumes "no_mark p s" "stops_after stop" "0 < fuel" "rp_retry_attempts p \<le> int fuel"
  shows "always leaves_marks (one_mark p) (\<lambda>_ _. True) (\<lambda>_. no_mark p) (refresh_account stop wait fuel a s)"
proof (cases "credentials_of a (w_store s)")
  case (Some cr)
  let ?I = "\<lambda>s. st_refreshing (w_store s) = [a] \<and> rf_policy s = p"
  have "?I (s\<lparr>w_store := begin_refresh a (w_store s)\<rparr>)"
    using assms(1) by (simp add: no_mark_def begin_refresh_def)
  then have "always leaves_marks ?I (\<lambda>_ _. True) (\<lambda>_ _. True)
      (refresh_attempts stop wait fuel 1 a cr (s\<lparr>w_store := begin_refresh a (w_store s)\<rparr>))"
    by (intro always_result [OF sole.always_attempts [OF assms(2) _ assms(3)]]) (use assms(4) in auto)
  then have "always leaves_marks (one_mark p) (\<lambda>_ _. True) (\<lambda>_. ?I)
      (refresh_attempts stop wait fuel 1 a cr (s\<lparr>w_store := begin_refresh a (w_store s)\<rparr>))"
    by (rule always_mono) (auto simp: one_mark_def)
  then show ?thesis unfolding refresh_account_def Some option.case
    by (rule always_then) (simp add: no_mark_def one_mark_def end_refresh_def)
qed (use assms(1) in \<open>simp add: refresh_account_def no_mark_def one_mark_def\<close>)

lemma one_mark_items:
  assumes "stops_after stop" "0 < fuel" "rp_retry_attempts p \<le> int fuel"
  shows "no_mark p s \<Longrightarrow> always leaves_marks (one_mark p) (\<lambda>_ _. True) (\<lambda>_. no_mark p) (refresh_items stop wait fuel items s)"
proof (induction items arbitrary: s)
  case (Cons item items)
  obtain a cr where item: "item = (a, cr)" by force
  have "always leaves_marks (one_mark p) (\<lambda>_ _. True) (\<lambda>_. no_mark p)
      (co_bind (co_emit e s') (\<lambda>_. refresh_items stop wait fuel items))" if "no_mark p s'" for e and s' :: "'a refresher_scheme"
    by (rule always_seq [where S = "\<lambda>_. no_mark p"]) (use that Cons.IH no_mark_leaves [OF that] in \<open>auto intro: no_mark_one\<close>)
  with Cons.IH have "always leaves_marks (one_mark p) (\<lambda>_ _. True) (\<lambda>_. no_mark p)
      (case r of
          Inr _ \<Rightarrow> refresh_items stop wait fuel items s'
        | Inl e \<Rightarrow>
            if is_token_refresh_error e
            then co_bind (co_emit (TokenRefreshFailedEvent a e) s') (\<lambda>_. refresh_items stop wait fuel items)
            else Return (Inl e) s')" if "no_mark p s'" for r :: "bool res" and s' :: "'a refresher_scheme"
    using that by (auto intro: no_mark_one split: sum.split)
  then show ?case
    using Cons by (auto simp: item intro!: always_then [OF one_mark_account [OF Cons.prems assms]])
qed (simp add: no_mark_one)

lemma one_mark_loop:
  assumes "stops_after stop" "0 < fuel" "rp_retry_attempts p \<le> int fuel"
  shows "no_mark p s \<Longrightarrow> always leaves_marks (one_mark p) (\<lambda>_ _. True) (\<lambda>_. no_mark p) (refresh_loop stop wait fuel m s)"
proof (induction m arbitrary: s)
  case (Suc m)
  have "always leaves_marks (one_mark p) (\<lambda>_ _. True) (\<lambda>_. no_mark p)
      (co_bind (refresh_items stop wait fuel items s') (\<lambda>_. refresh_loop stop wait fuel m))" if "no_mark p s'" for items and s' :: "'a refresher_scheme"
    by (rule always_seq [OF one_mark_items [OF assms that]]) (use Suc.IH in auto)
  with Suc.prems no_mark_leaves [OF Suc.prems] show ?case by (simp add: no_mark_one)
qed (simp add: no_mark_one)

subsection \<open>The invariant of the pool\<close>

text \<open>
  Each task keeps its promises, and since it last ran the others changed the state only as they
  promised: nobody took back the wake-up flag of the recovery loop or gave it work in silence, and
  nobody touched the refresher's marks.
\<close>

definition well_behaved :: "(refresher, 'a) co \<Rightarrow> bool" where
  "well_behaved c \<longleftrightarrow> guarantees keeps_wf (\<lambda>_ _. True) c"

definition call_ok :: "(refresher, unit) co \<Rightarrow> bool" where
  "call_ok e \<longleftrightarrow> well_behaved e \<and> guarantees leaves_marks nothing_due_before e \<and> guarantees keeps_signal (\<lambda>_ _. True) e"

definition pool_ok :: "refresh_policy \<Rightarrow> pool \<Rightarrow> bool" where
  "pool_ok p P \<longleftrightarrow>
     wf_refresher p (pl_state P) \<and>
     always (keeps wf_auth) wf_auth (\<lambda>e _. recovery_event e) only_overflow (pl_recovery P) \<and>
     always (keeps (wf_refresher p)) (wf_refresher p)
       (\<lambda>e _. \<exists>a err. e = TokenRefreshFailedEvent a (TokenRefreshError (Some a) err)) (\<lambda>r _. \<forall>e. r \<noteq> Inl e) (pl_refresher P) \<and>
     always leaves_marks (one_mark p) (\<lambda>_ _. True) (\<lambda>_. no_mark p) (pl_refresher P) \<and>
     well_behaved (pl_recovery P) \<and> guarantees leaves_marks nothing_due_before (pl_recovery P) \<and>
     keeps_signal (co_state (pl_recovery P)) (pl_state P) \<and>
     well_behaved (pl_refresher P) \<and> guarantees keeps_signal (\<lambda>_ _. True) (pl_refresher P) \<and>
     leaves_marks (co_state (pl_refresher P)) (pl_state P) \<and>
     (\<forall>e \<in> set (pl_calls P). call_ok e)"

lemma co_state_Return [simp]: "well_behaved (Return r s)" by (simp add: well_behaved_def)

lemma wf_refresher_keeps: "wf_refresher p s \<Longrightarrow> keeps_wf s s' \<Longrightarrow> wf_refresher p s'"
  by (simp add: wf_refresher_def keeps_wf_def)

text \<open>What a step of a task that is neither of the loops does, and a change that comes from outside.\<close>

lemma pool_ok_others:
  assumes "pool_ok p P" "keeps_wf (pl_state P) s" "keeps_signal (pl_state P) s" "leaves_marks (pl_state P) s"
    and "\<forall>e \<in> set es. call_ok e"
  shows "pool_ok p (P\<lparr>pl_state := s, pl_calls := es\<rparr>)"
  using assms unfolding pool_ok_def
  by (auto intro: wf_refresher_keeps marks.trans sig.trans)

lemma pool_ok_outside:
  assumes "pool_ok p P" "keeps_wf (pl_state P) s" "keeps_signal (pl_state P) s" "leaves_marks (pl_state P) s"
  shows "pool_ok p (P\<lparr>pl_state := s\<rparr>)"
  using pool_ok_others [OF assms, of "pl_calls P"] assms(1) by (simp add: pool_ok_def)

lemma pool_ok_recovery:
  assumes "pool_ok p P" "resume (pl_recovery P) out (pl_state P) = Some c"
  shows "pool_ok p (P\<lparr>pl_state := co_state c, pl_recovery := c\<rparr>)"
proof -
  have "keeps_wf (pl_state P) (co_state c) \<and> well_behaved c" "leaves_marks (pl_state P) (co_state c) \<and> guarantees leaves_marks nothing_due_before c"
    using guarantees_resume [OF _ assms(2)] assms(1) by (auto simp: pool_ok_def well_behaved_def)
  moreover have "always (keeps wf_auth) wf_auth (\<lambda>e _. recovery_event e) only_overflow c"
    by (rule always_resume [OF _ assms(2)]) (use assms(1) in \<open>auto simp: pool_ok_def wf_refresher_def\<close>)
  ultimately show ?thesis using assms(1) by (auto simp: pool_ok_def intro: wf_refresher_keeps marks.trans sig.refl)
qed

lemma pool_ok_refresher:
  assumes "pool_ok p P" "resume (pl_refresher P) out (pl_state P) = Some d"
  shows "pool_ok p (P\<lparr>pl_state := co_state d, pl_refresher := d\<rparr>)"
proof -
  have "keeps_wf (pl_state P) (co_state d) \<and> well_behaved d" "keeps_signal (pl_state P) (co_state d) \<and> guarantees keeps_signal (\<lambda>_ _. True) d"
    using guarantees_resume [OF _ assms(2)] assms(1) by (auto simp: pool_ok_def well_behaved_def)
  moreover have "always (keeps (wf_refresher p)) (wf_refresher p)
       (\<lambda>e _. \<exists>a err. e = TokenRefreshFailedEvent a (TokenRefreshError (Some a) err)) (\<lambda>r _. \<forall>e. r \<noteq> Inl e) d"
    "always leaves_marks (one_mark p) (\<lambda>_ _. True) (\<lambda>_. no_mark p) d"
    by (rule always_resume [OF _ assms(2)], use assms(1) in \<open>auto simp: pool_ok_def\<close>)+
  ultimately show ?thesis using assms(1) by (auto simp: pool_ok_def intro: wf_refresher_keeps sig.trans marks.refl)
qed

lemma start_call_ok:
  "keeps_wf s (co_state (start_call show_exn call s)) \<and> well_behaved (start_call show_exn call s)"
  "leaves_marks s (co_state (start_call show_exn call s)) \<and> guarantees leaves_marks nothing_due_before (start_call show_exn call s)"
  "keeps_signal s (co_state (start_call show_exn call s)) \<and> guarantees keeps_signal (\<lambda>_ _. True) (start_call show_exn call s)"
  using wfg.runs_call [of s show_exn call] marks.runs_call [of s show_exn call] sig.runs_call [of s show_exn call]
  by (simp_all add: runs_under_def well_behaved_def)

lemma pool_ok_call_starts:
  assumes "pool_ok p P" "start_call show_exn call (pl_state P) = e"
  shows "pool_ok p (P\<lparr>pl_state := co_state e, pl_calls := pl_calls P @ [e]\<rparr>)"
  by (rule pool_ok_others [OF assms(1)]) (use assms(1) start_call_ok [of "pl_state P" show_exn call, unfolded assms(2)] in
    \<open>auto simp: pool_ok_def call_ok_def\<close>)

lemma pool_ok_call_runs:
  assumes "pool_ok p P" "i < length (pl_calls P)" "resume (pl_calls P ! i) out (pl_state P) = Some e"
  shows "pool_ok p (P\<lparr>pl_state := co_state e, pl_calls := (pl_calls P)[i := e]\<rparr>)"
proof (rule pool_ok_others [OF assms(1)])
  from assms(1,2) have old: "well_behaved (pl_calls P ! i)" "guarantees leaves_marks nothing_due_before (pl_calls P ! i)"
    "guarantees keeps_signal (\<lambda>_ _. True) (pl_calls P ! i)" by (simp_all add: pool_ok_def call_ok_def)
  note new = guarantees_resume [OF old(1) [unfolded well_behaved_def] assms(3)] guarantees_resume [OF old(2) assms(3)]
    guarantees_resume [OF old(3) assms(3)]
  then show "keeps_wf (pl_state P) (co_state e)" "keeps_signal (pl_state P) (co_state e)" "leaves_marks (pl_state P) (co_state e)"
    by simp_all
  show "\<forall>e \<in> set ((pl_calls P)[i := e]). call_ok e"
    using assms(1) new set_update_subset_insert [of "pl_calls P" i e] by (auto simp: pool_ok_def call_ok_def well_behaved_def)
qed

lemma end_marks: "fold (\<lambda>a st. snd (end_refresh a st)) as st = st\<lparr>st_refreshing := filter (\<lambda>a. a \<notin> set as) (st_refreshing st)\<rparr>"
proof (induction as arbitrary: st)
  case (Cons a as)
  have "filter (\<lambda>x. a \<noteq> x \<and> x \<notin> set as) xs = filter (\<lambda>x. x \<noteq> a \<and> x \<notin> set as) xs" for xs
    by (rule filter_cong) auto
  with Cons.IH show ?case by (simp add: end_refresh_def removeAll_filter_not_eq)
qed simp

lemma refresher_cancelled_eq:
  "refresher_cancelled s = s\<lparr>rf_running := False, rf_task_scope := False, w_store := (w_store s)\<lparr>st_refreshing := []\<rparr>\<rparr>"
  by (simp add: refresher_cancelled_def refresher_stop_def refresher_serve_exit_def end_marks Let_def)

lemma pool_ok_recovery_cancelled:
  assumes "pool_ok p P" "recovery_cancelled (pl_state P) = s"
  shows "pool_ok p (P\<lparr>pl_state := s, pl_recovery := Return (Inr True) s\<rparr>)"
proof -
  have "wf_auth (pl_state P)" "rf_policy (pl_state P) = p" using assms(1) by (simp_all add: pool_ok_def wf_refresher_def)
  then have "wf_refresher p s" "leaves_marks (pl_state P) s"
    using assms(2) [symmetric]
    by (simp_all add: recovery_cancelled_def recovery_serve_exit_def recovery_stop_def wf_refresher_def leaves_marks_def
        wf_auth_def wf_market_def wf_store_ops)
  with assms(1) show ?thesis by (auto simp: pool_ok_def wf_refresher_def intro: marks.trans sig.refl)
qed

lemma pool_ok_refresher_cancelled:
  assumes "pool_ok p P" "refresher_cancelled (pl_state P) = s"
  shows "pool_ok p (P\<lparr>pl_state := s, pl_refresher := Return (Inr True) s\<rparr>)"
proof -
  have s: "s = (pl_state P)\<lparr>rf_running := False, rf_task_scope := False, w_store := (w_store (pl_state P))\<lparr>st_refreshing := []\<rparr>\<rparr>"
    using assms(2) by (simp add: refresher_cancelled_eq)
  then have "wf_refresher p s" "keeps_signal (pl_state P) s" "no_mark p s"
    using assms(1)
    by (simp_all add: pool_ok_def wf_refresher_def wf_auth_def wf_market_def wf_store_def keeps_signal_def awaiting_def session_of_def no_mark_def)
  with assms(1) show ?thesis by (auto simp: pool_ok_def no_mark_one intro: sig.trans marks.refl)
qed

lemma pool_ok_time:
  assumes "pool_ok p P"
  shows "pool_ok p (P\<lparr>pl_state := (pl_state P)\<lparr>w_now := now, w_time := time\<rparr>\<rparr>)"
  by (rule pool_ok_outside [OF assms])
    (simp_all add: keeps_wf_def wf_auth_def wf_market_def keeps_signal_def awaiting_def leaves_marks_def)

lemma session_step_ok: "session_step show_exn P P' \<Longrightarrow> pool_ok p P \<Longrightarrow> pool_ok p P'"
  by (induction rule: session_step.induct)
    (auto intro: pool_ok_recovery pool_ok_refresher pool_ok_call_starts pool_ok_call_runs pool_ok_time
      pool_ok_recovery_cancelled pool_ok_refresher_cancelled
      pool_ok_outside [OF _ wfg.lost sig.lost marks.lost]
      pool_ok_outside [OF _ wfg.runs_remove_account sig.runs_remove_account marks.runs_remove_account])

lemma session_runs_ok: "session_runs show_exn P P' \<Longrightarrow> pool_ok p P \<Longrightarrow> pool_ok p P'"
  unfolding session_runs_def by (induction rule: rtranclp_induct) (auto intro: session_step_ok)

subsection \<open>The served loops\<close>

lemma serve_exits:
  "keeps_wf s (recovery_serve_exit s)" "leaves_marks s (recovery_serve_exit s)"
  "keeps_wf s (refresher_serve_exit s)" "keeps_signal s (refresher_serve_exit s)"
  by (simp_all add: recovery_serve_exit_def refresher_serve_exit_def keeps_wf_def leaves_marks_def keeps_signal_def awaiting_def
      wf_auth_def wf_market_def wf_store_ops)

lemma serve_recovery_runs:
  "runs_under keeps_wf (\<lambda>_ _. True) s (serve_recovery n s)" "runs_under leaves_marks nothing_due_before s (serve_recovery n s)"
  unfolding serve_recovery_def
  by (rule wfg.runs_then [OF wfg.runs_reauth_loop], simp add: serve_exits)
    (rule marks.runs_then [OF marks.runs_reauth_loop], simp add: serve_exits)

lemma serve_refresher_runs:
  "runs_under keeps_wf (\<lambda>_ _. True) s (serve_refresher stop wait fuel m s)"
  "runs_under keeps_signal (\<lambda>_ _. True) s (serve_refresher stop wait fuel m s)"
  unfolding serve_refresher_def
  by (rule wfg.runs_then [OF wfg.runs_refresh_loop], simp add: serve_exits)
    (rule sig.runs_then [OF sig.runs_refresh_loop], simp add: serve_exits)

lemma always_serve_recovery:
  "wf_auth s \<Longrightarrow> always (keeps wf_auth) wf_auth (\<lambda>e _. recovery_event e) only_overflow (serve_recovery n s)"
  unfolding serve_recovery_def
  by (rule always_then [OF always_reauth_loop]) (use serve_exits(1) in \<open>auto simp: keeps_wf_def\<close>)

lemma always_serve_refresher:
  assumes "stops_after stop" "0 < fuel" "rp_retry_attempts p \<le> int fuel"
  shows "wf_refresher p s \<Longrightarrow> always (keeps (wf_refresher p)) (wf_refresher p)
      (\<lambda>e _. \<exists>a err. e = TokenRefreshFailedEvent a (TokenRefreshError (Some a) err)) (\<lambda>r _. \<forall>e. r \<noteq> Inl e)
      (serve_refresher stop wait fuel m s)"
    and "no_mark p s \<Longrightarrow> always leaves_marks (one_mark p) (\<lambda>_ _. True) (\<lambda>_. no_mark p) (serve_refresher stop wait fuel m s)"
  unfolding serve_refresher_def
  by (erule always_then [OF always_refresh_loop [OF assms]], simp add: wf_refresher_keeps [OF _ serve_exits(3)])
    (erule always_then [OF one_mark_loop [OF assms]], simp add: no_mark_def one_mark_def refresher_serve_exit_def)

text \<open>A client whose store holds no mark, as every client starts, and the two loops over it.\<close>

definition pool_ready :: "(int \<Rightarrow> nat \<Rightarrow> bool) \<Rightarrow> nat \<Rightarrow> refresher \<Rightarrow> bool" where
  "pool_ready stop fuel s \<longleftrightarrow> wf_auth s \<and> st_refreshing (w_store s) = [] \<and> stops_after stop \<and> 0 < fuel \<and>
     rp_retry_attempts (rf_policy s) \<le> int fuel"

lemma serve_pool_ok:
  assumes "pool_ready stop fuel s" "serve_pool stop wait fuel m n s = Inr P"
  shows "pool_ok (rf_policy s) P"
proof -
  let ?p = "rf_policy s"
  define s1 where "s1 = s\<lparr>rf_running := True, rf_task_scope := True\<rparr>"
  define d where "d = serve_refresher stop wait fuel m s1"
  define s2 where "s2 = (co_state d)\<lparr>rc_running := True, rc_task_scope := True\<rparr>"
  define c where "c = serve_recovery n s2"
  have P: "P = \<lparr>pl_state = co_state c, pl_recovery = c, pl_refresher = d, pl_calls = []\<rparr>"
    using assms(2) by (auto simp: serve_pool_def refresher_serve_enter_def recovery_serve_enter_def Let_def
        s1_def d_def s2_def c_def split: if_splits)
  have s: "wf_refresher ?p s1" "no_mark ?p s1" "stops_after stop" "0 < fuel" "rp_retry_attempts ?p \<le> int fuel"
    using assms(1) by (simp_all add: pool_ready_def wf_refresher_def no_mark_def s1_def wf_auth_def wf_market_def)
  have d: "keeps_wf s1 (co_state d)" "well_behaved d" "guarantees keeps_signal (\<lambda>_ _. True) d"
    using serve_refresher_runs [of s1] by (simp_all add: d_def runs_under_def well_behaved_def)
  have s2: "wf_refresher ?p s2" "leaves_marks (co_state d) s2"
    using wf_refresher_keeps [OF s(1) d(1)] by (simp_all add: s2_def wf_refresher_def leaves_marks_def wf_auth_def wf_market_def)
  have c: "keeps_wf s2 (co_state c)" "well_behaved c" "leaves_marks s2 (co_state c)" "guarantees leaves_marks nothing_due_before c"
    using serve_recovery_runs [of s2 n] by (simp_all add: c_def runs_under_def well_behaved_def)
  have "wf_refresher ?p (co_state c)" using s2(1) c(1) by (rule wf_refresher_keeps)
  moreover have "always (keeps wf_auth) wf_auth (\<lambda>e _. recovery_event e) only_overflow c"
    unfolding c_def by (rule always_serve_recovery) (use s2(1) in \<open>simp add: wf_refresher_def\<close>)
  moreover note always_serve_refresher(1) [OF s(3-5,1), of wait m, folded d_def] always_serve_refresher(2) [OF s(3-5,2), of wait m, folded d_def]
    marks.trans [OF s2(2) c(3)] sig.refl [of "co_state c"]
  ultimately show ?thesis using c d by (simp add: P pool_ok_def)
qed

subsection \<open>Waking the recovery loop\<close>

text \<open>The wait of a parked recovery loop is over: its flag is set, or its timeout has run out.\<close>

fun wait_over :: "(refresher, 'a) co \<Rightarrow> refresher \<Rightarrow> bool" where
  "wait_over (WaitFlag d s0 k) s \<longleftrightarrow>
     rc_reauth_signal s \<or> (case d of None \<Rightarrow> False | Some t \<Rightarrow> w_now s0 + t \<le> w_now s)"
| "wait_over c s \<longleftrightarrow> True"

text \<open>Recovery has work: an authentication of the application that is due, or an account that is.\<close>

definition work_due :: "'z recovery_scheme \<Rightarrow> bool" where
  "work_due s \<longleftrightarrow> (if rc_app_auth_pending s then rc_app_auth_next_at s \<le> w_now s
     else \<exists>(a, _, w) \<in> set (awaiting_recovery_queue (w_store s)). aw_next_attempt_at w \<le> w_now s)"

lemma parked_wakes:
  assumes "nothing_due_before d s0" "keeps_signal s0 s" "wf_store (w_store s)" "work_due s"
  shows "wait_over (WaitFlag d s0 k) s"
proof (cases "rc_reauth_signal s")
  case False
  with assms(2) have kept: "awaiting s \<subseteq> awaiting s0"
    "rc_app_auth_pending s \<Longrightarrow> rc_app_auth_pending s0 \<and> rc_app_auth_next_at s = rc_app_auth_next_at s0"
    "rc_app_auth_pending s0 \<Longrightarrow> \<not> rc_app_auth_pending s \<Longrightarrow> awaiting s = {}"
    by (auto simp: keeps_signal_def)
  show ?thesis
  proof (cases "rc_app_auth_pending s")
    case True
    with kept(2) assms(1,4) show ?thesis by (auto simp: nothing_due_before_def work_due_def)
  next
    case False
    with assms(4) obtain a cr w where "(a, cr, w) \<in> set (awaiting_recovery_queue (w_store s))" and due: "aw_next_attempt_at w \<le> w_now s"
      by (auto simp: work_due_def)
    then have "(a, w) \<in> awaiting s" using assms(3) by (simp add: in_queue_iff awaiting_def)
    with kept(1,3) False have "(a, w) \<in> awaiting s0" "\<not> rc_app_auth_pending s0" by auto
    with assms(1) obtain t where "d = Some t" "w_now s0 + t \<le> aw_next_attempt_at w" by (auto simp: nothing_due_before_def)
    with due show ?thesis by simp
  qed
qed simp

subsection \<open>A run\<close>

text \<open>Both loops over two accounts; the server drops account 7 and its check finds the session gone.\<close>

definition sample_start :: refresher where
  "sample_start = sample_refresher\<lparr>rf_running := False, rf_task_scope := False, rc_running := False, rc_task_scope := False\<rparr>"

definition sample_pool :: pool where
  "sample_pool = (case serve_pool sample_stop sample_wait 3 1 2 sample_start of Inr P \<Rightarrow> P)"

definition sample_idle :: refresher where
  "sample_idle = sample_start\<lparr>rf_running := True, rf_task_scope := True, rc_running := True, rc_task_scope := True, rc_reauth_signal := False\<rparr>"

definition sample_dropped_state :: refresher where
  "sample_dropped_state = sample_idle\<lparr>rc_verifying := [7], w_store := snd (flag_for_recovery 7 (w_store sample_idle)), rc_reauth_signal := True\<rparr>"

lemma ready_sample: "pool_ready sample_stop 3 sample_start"
  using wf_sample_refresher
  by (simp add: pool_ready_def sample_stops sample_start_def wf_auth_def wf_market_def)
    (simp add: sample_recovery_def sample_auth_def authorize_def store_init_def)

lemma sample_store: "w_store sample_idle = authorize (sample_credentials\<lparr>cr_account_id := 8, cr_expires_at := 5\<rparr>) (authorize sample_credentials store_init)"
  by (simp add: sample_idle_def sample_start_def sample_recovery_def sample_auth_def)

lemma sample_idle_simps [simp]: "rc_verifying sample_idle = []" "w_now sample_idle = 0" "rc_app_auth_pending sample_idle = False"
  by (simp_all add: sample_idle_def sample_start_def sample_refresher_def sample_recovery_def sample_auth_def auth_state.defs recovery.defs
      refresher.defs)

lemma sample_pool_parked:
  "serve_pool sample_stop sample_wait 3 1 2 sample_start = Inr sample_pool"
  "pl_state sample_pool = sample_idle" "pl_calls sample_pool = []" "\<exists>k. pl_recovery sample_pool = WaitFlag None sample_idle k"
proof -
  define s where "s = sample_start\<lparr>rf_running := True, rf_task_scope := True, rc_running := True, rc_task_scope := True\<rparr>"
  have "awaiting_recovery_queue (w_store sample_idle) = []" by (simp add: sample_store, code_simp)
  moreover have "sample_idle = s\<lparr>rc_reauth_signal := False\<rparr>" "rc_running s" by (simp_all add: sample_idle_def s_def)
  ultimately obtain k where k: "serve_recovery 2 s = WaitFlag None sample_idle k"
    using sample_idle_simps(3) by (simp add: serve_recovery_def eval_nat_numeral reauth_pass_def recover_due_def co_bind_def Let_def)
  then have "\<exists>d. serve_pool sample_stop sample_wait 3 1 2 sample_start =
      Inr \<lparr>pl_state = sample_idle, pl_recovery = WaitFlag None sample_idle k, pl_refresher = d, pl_calls = []\<rparr>"
    by (simp add: serve_pool_def serve_refresher_def refresher_serve_enter_def recovery_serve_enter_def Let_def s_def sample_start_def)
  then show "serve_pool sample_stop sample_wait 3 1 2 sample_start = Inr sample_pool"
    "pl_state sample_pool = sample_idle" "pl_calls sample_pool = []" "\<exists>k. pl_recovery sample_pool = WaitFlag None sample_idle k"
    by (auto simp: sample_pool_def)
qed

lemma sample_drop: "\<exists>P. session_runs (\<lambda>_. []) sample_pool P \<and> pl_state P = sample_dropped_state \<and> pl_recovery P = pl_recovery sample_pool"
proof -
  define refused :: outcome where "refused = Answer (Inl (APIError (api_error_new REQUEST_FREQUENCY_EXCEEDED None)))"
  define e where "e = start_call (\<lambda>_. []) (DisconnectReported 7) sample_idle"
  define P where "P = sample_pool\<lparr>pl_state := co_state e, pl_calls := [e]\<rparr>"
  have held: "credentials_of 7 (w_store sample_idle) \<noteq> None" "is_authorized 7 (w_store sample_idle)" "\<not> is_refreshing 7 (w_store sample_idle)"
    by (simp_all add: sample_store ss.creds_auth ss.sess_auth is_authorized_iff is_refreshing_def)
      (simp_all add: store_init_def)
  moreover have "probe_verdict (narrow (ClsReply Cls_ProtoOATraderRes) (Inl (APIError (api_error_new REQUEST_FREQUENCY_EXCEEDED None)))) = Inr False"
    by code_simp
  ultimately have e: "co_state e = sample_idle\<lparr>rc_verifying := [7]\<rparr>" "\<exists>f. resume e refused (sample_idle\<lparr>rc_verifying := [7]\<rparr>) = Some f \<and> co_state f = sample_dropped_state"
    by (simp_all add: e_def refused_def handle_account_disconnect_def verify_disconnect_def probe_session_def co_request_def
        report_dropped_def co_emit_def sample_dropped_state_def)
  have "session_step (\<lambda>_. []) sample_pool P"
    using session_step.CallStarts [OF e_def [symmetric, folded sample_pool_parked(2)]] by (simp add: P_def sample_pool_parked)
  moreover obtain f where f: "resume e refused (sample_idle\<lparr>rc_verifying := [7]\<rparr>) = Some f" "co_state f = sample_dropped_state" using e(2) by blast
  have "session_step (\<lambda>_. []) P (P\<lparr>pl_state := co_state f, pl_calls := (pl_calls P)[0 := f]\<rparr>)"
    by (rule session_step.CallRuns [where out = refused]) (simp_all add: P_def e(1) f(1))
  ultimately have "session_runs (\<lambda>_. []) sample_pool (P\<lparr>pl_state := co_state f, pl_calls := (pl_calls P)[0 := f]\<rparr>)"
    unfolding session_runs_def by (rule converse_rtranclp_into_rtranclp [OF _ r_into_rtranclp])
  with f(2) show ?thesis by (intro exI [where x = "P\<lparr>pl_state := co_state f, pl_calls := (pl_calls P)[0 := f]\<rparr>"]) (simp add: P_def)
qed

subsection \<open>The theorems\<close>

text \<open>
  C4: the session tasks together. Serve the refresh loop and the recovery loop over a well-formed
  store, and let them run with any number of calls in any interleaving, the link going and coming,
  accounts being added and removed and the loops being cancelled: the store and the standing
  subscriptions stay well-formed and the policy unchanged; the recovery loop never raises anything
  but the overflow of its backoff, the refresh loop nothing at all; at most one account is marked as
  being refreshed at a time; and once the refresh loop has ended, or was cancelled in the middle of
  a refresh, no mark is left that a disconnect check would wait on forever.
\<close>

theorem pool_sound:
  assumes "pool_ready stop fuel s" "serve_pool stop wait fuel m n s = Inr P\<^sub>0" "session_runs show_exn P\<^sub>0 P"
  shows "wf_refresher (rf_policy s) (pl_state P) \<and>
    (\<forall>e t. pl_recovery P = Return (Inl e) t \<longrightarrow> e = OverflowError) \<and>
    (\<forall>e t. pl_refresher P \<noteq> Return (Inl e) t) \<and>
    length (st_refreshing (w_store (pl_state P))) \<le> 1 \<and>
    (\<forall>r t. pl_refresher P = Return r t \<longrightarrow> st_refreshing (w_store (pl_state P)) = [])"
proof -
  have ok: "pool_ok (rf_policy s) P" using assms(3) serve_pool_ok [OF assms(1,2)] by (rule session_runs_ok)
  then have "one_mark (rf_policy s) (co_state (pl_refresher P))" "leaves_marks (co_state (pl_refresher P)) (pl_state P)"
    by (auto simp: pool_ok_def dest: always_state)
  then have "length (st_refreshing (w_store (pl_state P))) \<le> 1" by (simp add: one_mark_def leaves_marks_def)
  with ok show ?thesis by (auto simp: pool_ok_def leaves_marks_def no_mark_def)
qed

theorem pool_sound_witness:
  "\<exists>P. session_runs (\<lambda>_. []) sample_pool P \<and> is_awaiting (session_of 7 (w_store (pl_state P))) \<and>
    wf_refresher (rf_policy sample_start) (pl_state P)"
proof -
  obtain P where P: "session_runs (\<lambda>_. []) sample_pool P" "pl_state P = sample_dropped_state" using sample_drop by blast
  have "is_awaiting (session_of 7 (w_store sample_dropped_state))" by (simp add: sample_dropped_state_def sample_store ss.sess_flag ss.sess_auth ss.creds_auth)
  with P pool_sound [OF ready_sample sample_pool_parked(1) P(1)] show ?thesis by auto
qed

text \<open>
  C5: no lost wake-up. However the tasks interleave, when there is work for the recovery loop (the
  application's authentication is pending and due, or it is not pending and an account that awaits
  recovery is due), the loop is not stuck: it is not parked on its wake-up flag, or the flag is set,
  or the timeout it parked with has run out. No account is flagged behind the back of a sleeping
  loop, and no timeout outlives the earliest deadline.
\<close>

theorem no_lost_wakeup:
  assumes "pool_ready stop fuel s" "serve_pool stop wait fuel m n s = Inr P\<^sub>0" "session_runs show_exn P\<^sub>0 P" "work_due (pl_state P)"
  shows "wait_over (pl_recovery P) (pl_state P)"
proof (cases "pl_recovery P")
  case (WaitFlag d s0 k)
  have "pool_ok (rf_policy s) P" using assms(3) serve_pool_ok [OF assms(1,2)] by (rule session_runs_ok)
  with WaitFlag have "nothing_due_before d s0" "keeps_signal s0 (pl_state P)" "wf_store (w_store (pl_state P))"
    by (auto simp: pool_ok_def wf_refresher_def wf_auth_def)
  with assms(4) WaitFlag show ?thesis by (simp only: parked_wakes)
qed simp_all

theorem no_lost_wakeup_witness:
  "\<exists>P d s0 k. session_runs (\<lambda>_. []) sample_pool P \<and> pl_recovery P = WaitFlag d s0 k \<and> work_due (pl_state P) \<and>
    wait_over (pl_recovery P) (pl_state P)"
proof -
  obtain P where P: "session_runs (\<lambda>_. []) sample_pool P" "pl_state P = sample_dropped_state" "pl_recovery P = pl_recovery sample_pool"
    using sample_drop by blast
  have "work_due (pl_state P)" by (simp add: P(2) work_due_def sample_dropped_state_def sample_store, code_simp)
  with P no_lost_wakeup [OF ready_sample sample_pool_parked(1) P(1)] sample_pool_parked(4) show ?thesis by metis
qed

end
