(* ===== verification/Wire_Schema.thy ===== *)
theory Wire_Schema
  imports Messages
begin

text \<open>
  The wire schema, from the generated modules of \<open>_internal/proto/\<close>: the members of every enumeration
  with their numbers, and for every message class its fields in order, each with its name, its field
  number and its wire type. \<open>OpenApiModelMessages\<close> holds the enumerations and the entities that
  messages nest, \<open>OpenApiMessages\<close> and \<open>OpenApiCommonMessages\<close> the message classes.
\<close>

subsection \<open>Classes and field types\<close>

datatype (plugins only: code) proto_enum =
    ProtoPayloadType | ProtoErrorCode | ProtoOAPayloadType | ProtoOADayOfWeek | ProtoOACommissionType
  | ProtoOASymbolDistanceType | ProtoOAMinCommissionType | ProtoOATradingMode | ProtoOASwapCalculationType
  | ProtoOAAccessRights | ProtoOATotalMarginCalculationType | ProtoOAAccountType | ProtoOAPositionStatus
  | ProtoOATradeSide | ProtoOAOrderType | ProtoOATimeInForce | ProtoOAOrderStatus | ProtoOAOrderTriggerMethod
  | ProtoOAExecutionType | ProtoOAChangeBonusType | ProtoOAChangeBalanceType | ProtoOADealStatus | ProtoOATrendbarPeriod
  | ProtoOAQuoteType | ProtoOAClientPermissionScope | ProtoOANotificationType | ProtoOAErrorCode
  | ProtoOALimitedRiskMarginCalculationStrategy | ProtoOAStopOutStrategy

datatype (plugins only: code) proto_entity =
    ProtoOAAsset | ProtoOASymbol | ProtoOALightSymbol | ProtoOAArchivedSymbol | ProtoOASymbolCategory | ProtoOAInterval
  | ProtoOATrader | ProtoOAPosition | ProtoOATradeData | ProtoOAOrder | ProtoOABonusDepositWithdraw
  | ProtoOADepositWithdraw | ProtoOADeal | ProtoOADealOffset | ProtoOAClosePositionDetail | ProtoOATrendbar
  | ProtoOAExpectedMargin | ProtoOATickData | ProtoOACtidProfile | ProtoOACtidTraderAccount | ProtoOAAssetClass
  | ProtoOADepthQuote | ProtoOAMarginCall | ProtoOAHoliday | ProtoOADynamicLeverage | ProtoOADynamicLeverageTier
  | ProtoOAPositionUnrealizedPnL

datatype (plugins only: code) scalar = INT32 | INT64 | UINT32 | UINT64 | DOUBLE | BOOL | STRING | BYTES

datatype (plugins only: code) field_type = Scalar scalar | EnumField proto_enum | MessageField proto_entity

text \<open>A field of a dataclass: \<open>name: T = betterproto.xxx_field(number)\<close>, or \<open>name: list[T]\<close>.\<close>

datatype (plugins only: code) field = Single string nat field_type | Repeated string nat field_type

subsection \<open>Enumerations\<close>

definition members_ProtoPayloadType :: "(string \<times> int) list" where
  "members_ProtoPayloadType =
    [(''PROTO_MESSAGE'', 5), (''ERROR_RES'', 50), (''HEARTBEAT_EVENT'', 51)]"

definition members_ProtoErrorCode :: "(string \<times> int) list" where
  "members_ProtoErrorCode =
    [(''UNKNOWN_ERROR'', 1), (''UNSUPPORTED_MESSAGE'', 2), (''INVALID_REQUEST'', 3), (''TIMEOUT_ERROR'', 5),
     (''ENTITY_NOT_FOUND'', 6), (''CANT_ROUTE_REQUEST'', 7), (''FRAME_TOO_LONG'', 8), (''MARKET_CLOSED'', 9),
     (''CONCURRENT_MODIFICATION'', 10), (''BLOCKED_PAYLOAD_TYPE'', 11)]"

definition members_ProtoOAPayloadType :: "(string \<times> int) list" where
  "members_ProtoOAPayloadType =
    [(''PROTO_OA_APPLICATION_AUTH_REQ'', 2100), (''PROTO_OA_APPLICATION_AUTH_RES'', 2101),
     (''PROTO_OA_ACCOUNT_AUTH_REQ'', 2102), (''PROTO_OA_ACCOUNT_AUTH_RES'', 2103), (''PROTO_OA_VERSION_REQ'', 2104),
     (''PROTO_OA_VERSION_RES'', 2105), (''PROTO_OA_NEW_ORDER_REQ'', 2106),
     (''PROTO_OA_TRAILING_SL_CHANGED_EVENT'', 2107), (''PROTO_OA_CANCEL_ORDER_REQ'', 2108),
     (''PROTO_OA_AMEND_ORDER_REQ'', 2109), (''PROTO_OA_AMEND_POSITION_SLTP_REQ'', 2110),
     (''PROTO_OA_CLOSE_POSITION_REQ'', 2111), (''PROTO_OA_ASSET_LIST_REQ'', 2112),
     (''PROTO_OA_ASSET_LIST_RES'', 2113), (''PROTO_OA_SYMBOLS_LIST_REQ'', 2114),
     (''PROTO_OA_SYMBOLS_LIST_RES'', 2115), (''PROTO_OA_SYMBOL_BY_ID_REQ'', 2116),
     (''PROTO_OA_SYMBOL_BY_ID_RES'', 2117), (''PROTO_OA_SYMBOLS_FOR_CONVERSION_REQ'', 2118),
     (''PROTO_OA_SYMBOLS_FOR_CONVERSION_RES'', 2119), (''PROTO_OA_SYMBOL_CHANGED_EVENT'', 2120),
     (''PROTO_OA_TRADER_REQ'', 2121), (''PROTO_OA_TRADER_RES'', 2122), (''PROTO_OA_TRADER_UPDATE_EVENT'', 2123),
     (''PROTO_OA_RECONCILE_REQ'', 2124), (''PROTO_OA_RECONCILE_RES'', 2125), (''PROTO_OA_EXECUTION_EVENT'', 2126),
     (''PROTO_OA_SUBSCRIBE_SPOTS_REQ'', 2127), (''PROTO_OA_SUBSCRIBE_SPOTS_RES'', 2128),
     (''PROTO_OA_UNSUBSCRIBE_SPOTS_REQ'', 2129), (''PROTO_OA_UNSUBSCRIBE_SPOTS_RES'', 2130),
     (''PROTO_OA_SPOT_EVENT'', 2131), (''PROTO_OA_ORDER_ERROR_EVENT'', 2132), (''PROTO_OA_DEAL_LIST_REQ'', 2133),
     (''PROTO_OA_DEAL_LIST_RES'', 2134), (''PROTO_OA_SUBSCRIBE_LIVE_TRENDBAR_REQ'', 2135),
     (''PROTO_OA_UNSUBSCRIBE_LIVE_TRENDBAR_REQ'', 2136), (''PROTO_OA_GET_TRENDBARS_REQ'', 2137),
     (''PROTO_OA_GET_TRENDBARS_RES'', 2138), (''PROTO_OA_EXPECTED_MARGIN_REQ'', 2139),
     (''PROTO_OA_EXPECTED_MARGIN_RES'', 2140), (''PROTO_OA_MARGIN_CHANGED_EVENT'', 2141),
     (''PROTO_OA_ERROR_RES'', 2142), (''PROTO_OA_CASH_FLOW_HISTORY_LIST_REQ'', 2143),
     (''PROTO_OA_CASH_FLOW_HISTORY_LIST_RES'', 2144), (''PROTO_OA_GET_TICKDATA_REQ'', 2145),
     (''PROTO_OA_GET_TICKDATA_RES'', 2146), (''PROTO_OA_ACCOUNTS_TOKEN_INVALIDATED_EVENT'', 2147),
     (''PROTO_OA_CLIENT_DISCONNECT_EVENT'', 2148), (''PROTO_OA_GET_ACCOUNTS_BY_ACCESS_TOKEN_REQ'', 2149),
     (''PROTO_OA_GET_ACCOUNTS_BY_ACCESS_TOKEN_RES'', 2150), (''PROTO_OA_GET_CTID_PROFILE_BY_TOKEN_REQ'', 2151),
     (''PROTO_OA_GET_CTID_PROFILE_BY_TOKEN_RES'', 2152), (''PROTO_OA_ASSET_CLASS_LIST_REQ'', 2153),
     (''PROTO_OA_ASSET_CLASS_LIST_RES'', 2154), (''PROTO_OA_DEPTH_EVENT'', 2155),
     (''PROTO_OA_SUBSCRIBE_DEPTH_QUOTES_REQ'', 2156), (''PROTO_OA_SUBSCRIBE_DEPTH_QUOTES_RES'', 2157),
     (''PROTO_OA_UNSUBSCRIBE_DEPTH_QUOTES_REQ'', 2158), (''PROTO_OA_UNSUBSCRIBE_DEPTH_QUOTES_RES'', 2159),
     (''PROTO_OA_SYMBOL_CATEGORY_REQ'', 2160), (''PROTO_OA_SYMBOL_CATEGORY_RES'', 2161),
     (''PROTO_OA_ACCOUNT_LOGOUT_REQ'', 2162), (''PROTO_OA_ACCOUNT_LOGOUT_RES'', 2163),
     (''PROTO_OA_ACCOUNT_DISCONNECT_EVENT'', 2164), (''PROTO_OA_SUBSCRIBE_LIVE_TRENDBAR_RES'', 2165),
     (''PROTO_OA_UNSUBSCRIBE_LIVE_TRENDBAR_RES'', 2166), (''PROTO_OA_MARGIN_CALL_LIST_REQ'', 2167),
     (''PROTO_OA_MARGIN_CALL_LIST_RES'', 2168), (''PROTO_OA_MARGIN_CALL_UPDATE_REQ'', 2169),
     (''PROTO_OA_MARGIN_CALL_UPDATE_RES'', 2170), (''PROTO_OA_MARGIN_CALL_UPDATE_EVENT'', 2171),
     (''PROTO_OA_MARGIN_CALL_TRIGGER_EVENT'', 2172), (''PROTO_OA_REFRESH_TOKEN_REQ'', 2173),
     (''PROTO_OA_REFRESH_TOKEN_RES'', 2174), (''PROTO_OA_ORDER_LIST_REQ'', 2175),
     (''PROTO_OA_ORDER_LIST_RES'', 2176), (''PROTO_OA_GET_DYNAMIC_LEVERAGE_REQ'', 2177),
     (''PROTO_OA_GET_DYNAMIC_LEVERAGE_RES'', 2178), (''PROTO_OA_DEAL_LIST_BY_POSITION_ID_REQ'', 2179),
     (''PROTO_OA_DEAL_LIST_BY_POSITION_ID_RES'', 2180), (''PROTO_OA_ORDER_DETAILS_REQ'', 2181),
     (''PROTO_OA_ORDER_DETAILS_RES'', 2182), (''PROTO_OA_ORDER_LIST_BY_POSITION_ID_REQ'', 2183),
     (''PROTO_OA_ORDER_LIST_BY_POSITION_ID_RES'', 2184), (''PROTO_OA_DEAL_OFFSET_LIST_REQ'', 2185),
     (''PROTO_OA_DEAL_OFFSET_LIST_RES'', 2186), (''PROTO_OA_GET_POSITION_UNREALIZED_PNL_REQ'', 2187),
     (''PROTO_OA_GET_POSITION_UNREALIZED_PNL_RES'', 2188)]"

definition members_ProtoOADayOfWeek :: "(string \<times> int) list" where
  "members_ProtoOADayOfWeek =
    [(''NONE'', 0), (''MONDAY'', 1), (''TUESDAY'', 2), (''WEDNESDAY'', 3), (''THURSDAY'', 4), (''FRIDAY'', 5),
     (''SATURDAY'', 6), (''SUNDAY'', 7)]"

definition members_ProtoOACommissionType :: "(string \<times> int) list" where
  "members_ProtoOACommissionType =
    [(''USD_PER_MILLION_USD'', 1), (''USD_PER_LOT'', 2), (''PERCENTAGE_OF_VALUE'', 3), (''QUOTE_CCY_PER_LOT'', 4)]"

definition members_ProtoOASymbolDistanceType :: "(string \<times> int) list" where
  "members_ProtoOASymbolDistanceType =
    [(''SYMBOL_DISTANCE_IN_POINTS'', 1), (''SYMBOL_DISTANCE_IN_PERCENTAGE'', 2)]"

definition members_ProtoOAMinCommissionType :: "(string \<times> int) list" where
  "members_ProtoOAMinCommissionType =
    [(''CURRENCY'', 1), (''QUOTE_CURRENCY'', 2)]"

definition members_ProtoOATradingMode :: "(string \<times> int) list" where
  "members_ProtoOATradingMode =
    [(''ENABLED'', 0), (''DISABLED_WITHOUT_PENDINGS_EXECUTION'', 1), (''DISABLED_WITH_PENDINGS_EXECUTION'', 2),
     (''CLOSE_ONLY_MODE'', 3)]"

definition members_ProtoOASwapCalculationType :: "(string \<times> int) list" where
  "members_ProtoOASwapCalculationType =
    [(''PIPS'', 0), (''PERCENTAGE'', 1), (''POINTS'', 2)]"

definition members_ProtoOAAccessRights :: "(string \<times> int) list" where
  "members_ProtoOAAccessRights =
    [(''FULL_ACCESS'', 0), (''CLOSE_ONLY'', 1), (''NO_TRADING'', 2), (''NO_LOGIN'', 3)]"

definition members_ProtoOATotalMarginCalculationType :: "(string \<times> int) list" where
  "members_ProtoOATotalMarginCalculationType =
    [(''MAX'', 0), (''SUM'', 1), (''NET'', 2)]"

definition members_ProtoOAAccountType :: "(string \<times> int) list" where
  "members_ProtoOAAccountType =
    [(''HEDGED'', 0), (''NETTED'', 1), (''SPREAD_BETTING'', 2)]"

definition members_ProtoOAPositionStatus :: "(string \<times> int) list" where
  "members_ProtoOAPositionStatus =
    [(''POSITION_STATUS_OPEN'', 1), (''POSITION_STATUS_CLOSED'', 2), (''POSITION_STATUS_CREATED'', 3),
     (''POSITION_STATUS_ERROR'', 4)]"

definition members_ProtoOATradeSide :: "(string \<times> int) list" where
  "members_ProtoOATradeSide =
    [(''BUY'', 1), (''SELL'', 2)]"

definition members_ProtoOAOrderType :: "(string \<times> int) list" where
  "members_ProtoOAOrderType =
    [(''MARKET'', 1), (''LIMIT'', 2), (''STOP'', 3), (''STOP_LOSS_TAKE_PROFIT'', 4), (''MARKET_RANGE'', 5),
     (''STOP_LIMIT'', 6)]"

definition members_ProtoOATimeInForce :: "(string \<times> int) list" where
  "members_ProtoOATimeInForce =
    [(''GOOD_TILL_DATE'', 1), (''GOOD_TILL_CANCEL'', 2), (''IMMEDIATE_OR_CANCEL'', 3), (''FILL_OR_KILL'', 4),
     (''MARKET_ON_OPEN'', 5)]"

definition members_ProtoOAOrderStatus :: "(string \<times> int) list" where
  "members_ProtoOAOrderStatus =
    [(''ORDER_STATUS_ACCEPTED'', 1), (''ORDER_STATUS_FILLED'', 2), (''ORDER_STATUS_REJECTED'', 3),
     (''ORDER_STATUS_EXPIRED'', 4), (''ORDER_STATUS_CANCELLED'', 5)]"

definition members_ProtoOAOrderTriggerMethod :: "(string \<times> int) list" where
  "members_ProtoOAOrderTriggerMethod =
    [(''TRADE'', 1), (''OPPOSITE'', 2), (''DOUBLE_TRADE'', 3), (''DOUBLE_OPPOSITE'', 4)]"

definition members_ProtoOAExecutionType :: "(string \<times> int) list" where
  "members_ProtoOAExecutionType =
    [(''ORDER_ACCEPTED'', 2), (''ORDER_FILLED'', 3), (''ORDER_REPLACED'', 4), (''ORDER_CANCELLED'', 5),
     (''ORDER_EXPIRED'', 6), (''ORDER_REJECTED'', 7), (''ORDER_CANCEL_REJECTED'', 8), (''SWAP'', 9),
     (''DEPOSIT_WITHDRAW'', 10), (''ORDER_PARTIAL_FILL'', 11), (''BONUS_DEPOSIT_WITHDRAW'', 12)]"

definition members_ProtoOAChangeBonusType :: "(string \<times> int) list" where
  "members_ProtoOAChangeBonusType =
    [(''BONUS_DEPOSIT'', 0), (''BONUS_WITHDRAW'', 1)]"

definition members_ProtoOAChangeBalanceType :: "(string \<times> int) list" where
  "members_ProtoOAChangeBalanceType =
    [(''BALANCE_DEPOSIT'', 0), (''BALANCE_WITHDRAW'', 1), (''BALANCE_DEPOSIT_STRATEGY_COMMISSION_INNER'', 3),
     (''BALANCE_WITHDRAW_STRATEGY_COMMISSION_INNER'', 4), (''BALANCE_DEPOSIT_IB_COMMISSIONS'', 5),
     (''BALANCE_WITHDRAW_IB_SHARED_PERCENTAGE'', 6), (''BALANCE_DEPOSIT_IB_SHARED_PERCENTAGE_FROM_SUB_IB'', 7),
     (''BALANCE_DEPOSIT_IB_SHARED_PERCENTAGE_FROM_BROKER'', 8), (''BALANCE_DEPOSIT_REBATE'', 9),
     (''BALANCE_WITHDRAW_REBATE'', 10), (''BALANCE_DEPOSIT_STRATEGY_COMMISSION_OUTER'', 11),
     (''BALANCE_WITHDRAW_STRATEGY_COMMISSION_OUTER'', 12), (''BALANCE_WITHDRAW_BONUS_COMPENSATION'', 13),
     (''BALANCE_WITHDRAW_IB_SHARED_PERCENTAGE_TO_BROKER'', 14), (''BALANCE_DEPOSIT_DIVIDENDS'', 15),
     (''BALANCE_WITHDRAW_DIVIDENDS'', 16), (''BALANCE_WITHDRAW_GSL_CHARGE'', 17),
     (''BALANCE_WITHDRAW_ROLLOVER'', 18), (''BALANCE_DEPOSIT_NONWITHDRAWABLE_BONUS'', 19),
     (''BALANCE_WITHDRAW_NONWITHDRAWABLE_BONUS'', 20), (''BALANCE_DEPOSIT_SWAP'', 21),
     (''BALANCE_WITHDRAW_SWAP'', 22), (''BALANCE_DEPOSIT_MANAGEMENT_FEE'', 27),
     (''BALANCE_WITHDRAW_MANAGEMENT_FEE'', 28), (''BALANCE_DEPOSIT_PERFORMANCE_FEE'', 29),
     (''BALANCE_WITHDRAW_FOR_SUBACCOUNT'', 30), (''BALANCE_DEPOSIT_TO_SUBACCOUNT'', 31),
     (''BALANCE_WITHDRAW_FROM_SUBACCOUNT'', 32), (''BALANCE_DEPOSIT_FROM_SUBACCOUNT'', 33),
     (''BALANCE_WITHDRAW_COPY_FEE'', 34), (''BALANCE_WITHDRAW_INACTIVITY_FEE'', 35),
     (''BALANCE_DEPOSIT_TRANSFER'', 36), (''BALANCE_WITHDRAW_TRANSFER'', 37),
     (''BALANCE_DEPOSIT_CONVERTED_BONUS'', 38), (''BALANCE_DEPOSIT_NEGATIVE_BALANCE_PROTECTION'', 39)]"

definition members_ProtoOADealStatus :: "(string \<times> int) list" where
  "members_ProtoOADealStatus =
    [(''FILLED'', 2), (''PARTIALLY_FILLED'', 3), (''REJECTED'', 4), (''INTERNALLY_REJECTED'', 5), (''ERROR'', 6),
     (''MISSED'', 7)]"

definition members_ProtoOATrendbarPeriod :: "(string \<times> int) list" where
  "members_ProtoOATrendbarPeriod =
    [(''M1'', 1), (''M2'', 2), (''M3'', 3), (''M4'', 4), (''M5'', 5), (''M10'', 6), (''M15'', 7), (''M30'', 8),
     (''H1'', 9), (''H4'', 10), (''H12'', 11), (''D1'', 12), (''W1'', 13), (''MN1'', 14)]"

definition members_ProtoOAQuoteType :: "(string \<times> int) list" where
  "members_ProtoOAQuoteType =
    [(''BID'', 1), (''ASK'', 2)]"

definition members_ProtoOAClientPermissionScope :: "(string \<times> int) list" where
  "members_ProtoOAClientPermissionScope =
    [(''SCOPE_VIEW'', 0), (''SCOPE_TRADE'', 1)]"

definition members_ProtoOANotificationType :: "(string \<times> int) list" where
  "members_ProtoOANotificationType =
    [(''MARGIN_LEVEL_THRESHOLD_1'', 61), (''MARGIN_LEVEL_THRESHOLD_2'', 62), (''MARGIN_LEVEL_THRESHOLD_3'', 63)]"

definition members_ProtoOAErrorCode :: "(string \<times> int) list" where
  "members_ProtoOAErrorCode =
    [(''OA_AUTH_TOKEN_EXPIRED'', 1), (''ACCOUNT_NOT_AUTHORIZED'', 2), (''RET_NO_SUCH_LOGIN'', 12),
     (''ALREADY_LOGGED_IN'', 14), (''RET_ACCOUNT_DISABLED'', 64), (''CH_CLIENT_AUTH_FAILURE'', 101),
     (''CH_CLIENT_NOT_AUTHENTICATED'', 102), (''CH_CLIENT_ALREADY_AUTHENTICATED'', 103),
     (''CH_ACCESS_TOKEN_INVALID'', 104), (''CH_SERVER_NOT_REACHABLE'', 105),
     (''CH_CTID_TRADER_ACCOUNT_NOT_FOUND'', 106), (''CH_OA_CLIENT_NOT_FOUND'', 107),
     (''REQUEST_FREQUENCY_EXCEEDED'', 108), (''SERVER_IS_UNDER_MAINTENANCE'', 109), (''CHANNEL_IS_BLOCKED'', 110),
     (''CONNECTIONS_LIMIT_EXCEEDED'', 67), (''WORSE_GSL_NOT_ALLOWED'', 68), (''SYMBOL_HAS_HOLIDAY'', 69),
     (''NOT_SUBSCRIBED_TO_SPOTS'', 112), (''ALREADY_SUBSCRIBED'', 113), (''SYMBOL_NOT_FOUND'', 114),
     (''UNKNOWN_SYMBOL'', 115), (''INCORRECT_BOUNDARIES'', 35), (''NO_QUOTES'', 117), (''NOT_ENOUGH_MONEY'', 118),
     (''MAX_EXPOSURE_REACHED'', 119), (''POSITION_NOT_FOUND'', 120), (''ORDER_NOT_FOUND'', 121),
     (''POSITION_NOT_OPEN'', 122), (''POSITION_LOCKED'', 123), (''TOO_MANY_POSITIONS'', 124),
     (''TRADING_BAD_VOLUME'', 125), (''TRADING_BAD_STOPS'', 126), (''TRADING_BAD_PRICES'', 127),
     (''TRADING_BAD_STAKE'', 128), (''PROTECTION_IS_TOO_CLOSE_TO_MARKET'', 129),
     (''TRADING_BAD_EXPIRATION_DATE'', 130), (''PENDING_EXECUTION'', 131), (''TRADING_DISABLED'', 132),
     (''TRADING_NOT_ALLOWED'', 133), (''UNABLE_TO_CANCEL_ORDER'', 134), (''UNABLE_TO_AMEND_ORDER'', 135),
     (''SHORT_SELLING_NOT_ALLOWED'', 136)]"

definition members_ProtoOALimitedRiskMarginCalculationStrategy :: "(string \<times> int) list" where
  "members_ProtoOALimitedRiskMarginCalculationStrategy =
    [(''ACCORDING_TO_LEVERAGE'', 0), (''ACCORDING_TO_GSL'', 1), (''ACCORDING_TO_GSL_AND_LEVERAGE'', 2)]"

definition members_ProtoOAStopOutStrategy :: "(string \<times> int) list" where
  "members_ProtoOAStopOutStrategy =
    [(''MOST_MARGIN_USED_FIRST'', 0), (''MOST_LOSING_FIRST'', 1)]"

primrec enum_members :: "proto_enum \<Rightarrow> (string \<times> int) list" where
  "enum_members ProtoPayloadType = members_ProtoPayloadType"
| "enum_members ProtoErrorCode = members_ProtoErrorCode"
| "enum_members ProtoOAPayloadType = members_ProtoOAPayloadType"
| "enum_members ProtoOADayOfWeek = members_ProtoOADayOfWeek"
| "enum_members ProtoOACommissionType = members_ProtoOACommissionType"
| "enum_members ProtoOASymbolDistanceType = members_ProtoOASymbolDistanceType"
| "enum_members ProtoOAMinCommissionType = members_ProtoOAMinCommissionType"
| "enum_members ProtoOATradingMode = members_ProtoOATradingMode"
| "enum_members ProtoOASwapCalculationType = members_ProtoOASwapCalculationType"
| "enum_members ProtoOAAccessRights = members_ProtoOAAccessRights"
| "enum_members ProtoOATotalMarginCalculationType = members_ProtoOATotalMarginCalculationType"
| "enum_members ProtoOAAccountType = members_ProtoOAAccountType"
| "enum_members ProtoOAPositionStatus = members_ProtoOAPositionStatus"
| "enum_members ProtoOATradeSide = members_ProtoOATradeSide"
| "enum_members ProtoOAOrderType = members_ProtoOAOrderType"
| "enum_members ProtoOATimeInForce = members_ProtoOATimeInForce"
| "enum_members ProtoOAOrderStatus = members_ProtoOAOrderStatus"
| "enum_members ProtoOAOrderTriggerMethod = members_ProtoOAOrderTriggerMethod"
| "enum_members ProtoOAExecutionType = members_ProtoOAExecutionType"
| "enum_members ProtoOAChangeBonusType = members_ProtoOAChangeBonusType"
| "enum_members ProtoOAChangeBalanceType = members_ProtoOAChangeBalanceType"
| "enum_members ProtoOADealStatus = members_ProtoOADealStatus"
| "enum_members ProtoOATrendbarPeriod = members_ProtoOATrendbarPeriod"
| "enum_members ProtoOAQuoteType = members_ProtoOAQuoteType"
| "enum_members ProtoOAClientPermissionScope = members_ProtoOAClientPermissionScope"
| "enum_members ProtoOANotificationType = members_ProtoOANotificationType"
| "enum_members ProtoOAErrorCode = members_ProtoOAErrorCode"
| "enum_members ProtoOALimitedRiskMarginCalculationStrategy = members_ProtoOALimitedRiskMarginCalculationStrategy"
| "enum_members ProtoOAStopOutStrategy = members_ProtoOAStopOutStrategy"

primrec enum_name :: "proto_enum \<Rightarrow> string" where
  "enum_name ProtoPayloadType = ''ProtoPayloadType''"
| "enum_name ProtoErrorCode = ''ProtoErrorCode''"
| "enum_name ProtoOAPayloadType = ''ProtoOAPayloadType''"
| "enum_name ProtoOADayOfWeek = ''ProtoOADayOfWeek''"
| "enum_name ProtoOACommissionType = ''ProtoOACommissionType''"
| "enum_name ProtoOASymbolDistanceType = ''ProtoOASymbolDistanceType''"
| "enum_name ProtoOAMinCommissionType = ''ProtoOAMinCommissionType''"
| "enum_name ProtoOATradingMode = ''ProtoOATradingMode''"
| "enum_name ProtoOASwapCalculationType = ''ProtoOASwapCalculationType''"
| "enum_name ProtoOAAccessRights = ''ProtoOAAccessRights''"
| "enum_name ProtoOATotalMarginCalculationType = ''ProtoOATotalMarginCalculationType''"
| "enum_name ProtoOAAccountType = ''ProtoOAAccountType''"
| "enum_name ProtoOAPositionStatus = ''ProtoOAPositionStatus''"
| "enum_name ProtoOATradeSide = ''ProtoOATradeSide''"
| "enum_name ProtoOAOrderType = ''ProtoOAOrderType''"
| "enum_name ProtoOATimeInForce = ''ProtoOATimeInForce''"
| "enum_name ProtoOAOrderStatus = ''ProtoOAOrderStatus''"
| "enum_name ProtoOAOrderTriggerMethod = ''ProtoOAOrderTriggerMethod''"
| "enum_name ProtoOAExecutionType = ''ProtoOAExecutionType''"
| "enum_name ProtoOAChangeBonusType = ''ProtoOAChangeBonusType''"
| "enum_name ProtoOAChangeBalanceType = ''ProtoOAChangeBalanceType''"
| "enum_name ProtoOADealStatus = ''ProtoOADealStatus''"
| "enum_name ProtoOATrendbarPeriod = ''ProtoOATrendbarPeriod''"
| "enum_name ProtoOAQuoteType = ''ProtoOAQuoteType''"
| "enum_name ProtoOAClientPermissionScope = ''ProtoOAClientPermissionScope''"
| "enum_name ProtoOANotificationType = ''ProtoOANotificationType''"
| "enum_name ProtoOAErrorCode = ''ProtoOAErrorCode''"
| "enum_name ProtoOALimitedRiskMarginCalculationStrategy = ''ProtoOALimitedRiskMarginCalculationStrategy''"
| "enum_name ProtoOAStopOutStrategy = ''ProtoOAStopOutStrategy''"

subsection \<open>Entities\<close>

definition fields_ProtoOAAsset :: "field list" where
  "fields_ProtoOAAsset =
    [Single ''asset_id'' 1 (Scalar INT64), Single ''name'' 2 (Scalar STRING),
     Single ''display_name'' 3 (Scalar STRING), Single ''digits'' 4 (Scalar INT32)]"

definition fields_ProtoOASymbol :: "field list" where
  "fields_ProtoOASymbol =
    [Single ''symbol_id'' 1 (Scalar INT64), Single ''digits'' 2 (Scalar INT32),
     Single ''pip_position'' 3 (Scalar INT32), Single ''enable_short_selling'' 4 (Scalar BOOL),
     Single ''guaranteed_stop_loss'' 5 (Scalar BOOL), Single ''swap_rollover3_days'' 6 (EnumField ProtoOADayOfWeek),
     Single ''swap_long'' 7 (Scalar DOUBLE), Single ''swap_short'' 8 (Scalar DOUBLE),
     Single ''max_volume'' 9 (Scalar INT64), Single ''min_volume'' 10 (Scalar INT64),
     Single ''step_volume'' 11 (Scalar INT64), Single ''max_exposure'' 12 (Scalar UINT64),
     Repeated ''schedule'' 13 (MessageField ProtoOAInterval), Single ''commission'' 14 (Scalar INT64),
     Single ''commission_type'' 15 (EnumField ProtoOACommissionType), Single ''sl_distance'' 16 (Scalar UINT32),
     Single ''tp_distance'' 17 (Scalar UINT32), Single ''gsl_distance'' 18 (Scalar UINT32),
     Single ''gsl_charge'' 19 (Scalar INT64), Single ''distance_set_in'' 20 (EnumField ProtoOASymbolDistanceType),
     Single ''min_commission'' 21 (Scalar INT64),
     Single ''min_commission_type'' 22 (EnumField ProtoOAMinCommissionType),
     Single ''min_commission_asset'' 23 (Scalar STRING), Single ''rollover_commission'' 24 (Scalar INT64),
     Single ''skip_rollover_days'' 25 (Scalar INT32), Single ''schedule_time_zone'' 26 (Scalar STRING),
     Single ''trading_mode'' 27 (EnumField ProtoOATradingMode),
     Single ''rollover_commission3_days'' 28 (EnumField ProtoOADayOfWeek),
     Single ''swap_calculation_type'' 29 (EnumField ProtoOASwapCalculationType),
     Single ''lot_size'' 30 (Scalar INT64), Single ''precise_trading_commission_rate'' 31 (Scalar INT64),
     Single ''precise_min_commission'' 32 (Scalar INT64), Repeated ''holiday'' 33 (MessageField ProtoOAHoliday),
     Single ''pnl_conversion_fee_rate'' 34 (Scalar INT32), Single ''leverage_id'' 35 (Scalar INT64),
     Single ''swap_period'' 36 (Scalar INT32), Single ''swap_time'' 37 (Scalar INT32),
     Single ''skip_s_w_a_p_periods'' 38 (Scalar INT32), Single ''charge_swap_at_weekends'' 39 (Scalar BOOL),
     Single ''measurement_units'' 40 (Scalar STRING)]"

definition fields_ProtoOALightSymbol :: "field list" where
  "fields_ProtoOALightSymbol =
    [Single ''symbol_id'' 1 (Scalar INT64), Single ''symbol_name'' 2 (Scalar STRING),
     Single ''enabled'' 3 (Scalar BOOL), Single ''base_asset_id'' 4 (Scalar INT64),
     Single ''quote_asset_id'' 5 (Scalar INT64), Single ''symbol_category_id'' 6 (Scalar INT64),
     Single ''description'' 7 (Scalar STRING), Single ''sorting_number'' 8 (Scalar DOUBLE)]"

definition fields_ProtoOAArchivedSymbol :: "field list" where
  "fields_ProtoOAArchivedSymbol =
    [Single ''symbol_id'' 1 (Scalar INT64), Single ''name'' 2 (Scalar STRING),
     Single ''utc_last_update_timestamp'' 3 (Scalar INT64), Single ''description'' 4 (Scalar STRING)]"

definition fields_ProtoOASymbolCategory :: "field list" where
  "fields_ProtoOASymbolCategory =
    [Single ''id'' 1 (Scalar INT64), Single ''asset_class_id'' 2 (Scalar INT64), Single ''name'' 3 (Scalar STRING),
     Single ''sorting_number'' 4 (Scalar DOUBLE)]"

definition fields_ProtoOAInterval :: "field list" where
  "fields_ProtoOAInterval =
    [Single ''start_second'' 3 (Scalar UINT32), Single ''end_second'' 4 (Scalar UINT32)]"

definition fields_ProtoOATrader :: "field list" where
  "fields_ProtoOATrader =
    [Single ''ctid_trader_account_id'' 1 (Scalar INT64), Single ''balance'' 2 (Scalar INT64),
     Single ''balance_version'' 3 (Scalar INT64), Single ''manager_bonus'' 4 (Scalar INT64),
     Single ''ib_bonus'' 5 (Scalar INT64), Single ''non_withdrawable_bonus'' 6 (Scalar INT64),
     Single ''access_rights'' 7 (EnumField ProtoOAAccessRights), Single ''deposit_asset_id'' 8 (Scalar INT64),
     Single ''swap_free'' 9 (Scalar BOOL), Single ''leverage_in_cents'' 10 (Scalar UINT32),
     Single ''total_margin_calculation_type'' 11 (EnumField ProtoOATotalMarginCalculationType),
     Single ''max_leverage'' 12 (Scalar UINT32), Single ''french_risk'' 13 (Scalar BOOL),
     Single ''trader_login'' 14 (Scalar INT64), Single ''account_type'' 15 (EnumField ProtoOAAccountType),
     Single ''broker_name'' 16 (Scalar STRING), Single ''registration_timestamp'' 17 (Scalar INT64),
     Single ''is_limited_risk'' 18 (Scalar BOOL),
     Single ''limited_risk_margin_calculation_strategy'' 19 (EnumField ProtoOALimitedRiskMarginCalculationStrategy),
     Single ''money_digits'' 20 (Scalar UINT32), Single ''fair_stop_out'' 21 (Scalar BOOL),
     Single ''stop_out_strategy'' 22 (EnumField ProtoOAStopOutStrategy)]"

definition fields_ProtoOAPosition :: "field list" where
  "fields_ProtoOAPosition =
    [Single ''position_id'' 1 (Scalar INT64), Single ''trade_data'' 2 (MessageField ProtoOATradeData),
     Single ''position_status'' 3 (EnumField ProtoOAPositionStatus), Single ''swap'' 4 (Scalar INT64),
     Single ''price'' 5 (Scalar DOUBLE), Single ''stop_loss'' 6 (Scalar DOUBLE),
     Single ''take_profit'' 7 (Scalar DOUBLE), Single ''utc_last_update_timestamp'' 8 (Scalar INT64),
     Single ''commission'' 9 (Scalar INT64), Single ''margin_rate'' 10 (Scalar DOUBLE),
     Single ''mirroring_commission'' 11 (Scalar INT64), Single ''guaranteed_stop_loss'' 12 (Scalar BOOL),
     Single ''used_margin'' 13 (Scalar UINT64),
     Single ''stop_loss_trigger_method'' 14 (EnumField ProtoOAOrderTriggerMethod),
     Single ''money_digits'' 15 (Scalar UINT32), Single ''trailing_stop_loss'' 16 (Scalar BOOL)]"

definition fields_ProtoOATradeData :: "field list" where
  "fields_ProtoOATradeData =
    [Single ''symbol_id'' 1 (Scalar INT64), Single ''volume'' 2 (Scalar INT64),
     Single ''trade_side'' 3 (EnumField ProtoOATradeSide), Single ''open_timestamp'' 4 (Scalar INT64),
     Single ''label'' 5 (Scalar STRING), Single ''guaranteed_stop_loss'' 6 (Scalar BOOL),
     Single ''comment'' 7 (Scalar STRING), Single ''measurement_units'' 8 (Scalar STRING),
     Single ''close_timestamp'' 9 (Scalar UINT64)]"

definition fields_ProtoOAOrder :: "field list" where
  "fields_ProtoOAOrder =
    [Single ''order_id'' 1 (Scalar INT64), Single ''trade_data'' 2 (MessageField ProtoOATradeData),
     Single ''order_type'' 3 (EnumField ProtoOAOrderType), Single ''order_status'' 4 (EnumField ProtoOAOrderStatus),
     Single ''expiration_timestamp'' 6 (Scalar INT64), Single ''execution_price'' 7 (Scalar DOUBLE),
     Single ''executed_volume'' 8 (Scalar INT64), Single ''utc_last_update_timestamp'' 9 (Scalar INT64),
     Single ''base_slippage_price'' 10 (Scalar DOUBLE), Single ''slippage_in_points'' 11 (Scalar INT64),
     Single ''closing_order'' 12 (Scalar BOOL), Single ''limit_price'' 13 (Scalar DOUBLE),
     Single ''stop_price'' 14 (Scalar DOUBLE), Single ''stop_loss'' 15 (Scalar DOUBLE),
     Single ''take_profit'' 16 (Scalar DOUBLE), Single ''client_order_id'' 17 (Scalar STRING),
     Single ''time_in_force'' 18 (EnumField ProtoOATimeInForce), Single ''position_id'' 19 (Scalar INT64),
     Single ''relative_stop_loss'' 20 (Scalar INT64), Single ''relative_take_profit'' 21 (Scalar INT64),
     Single ''is_stop_out'' 22 (Scalar BOOL), Single ''trailing_stop_loss'' 23 (Scalar BOOL),
     Single ''stop_trigger_method'' 24 (EnumField ProtoOAOrderTriggerMethod)]"

definition fields_ProtoOABonusDepositWithdraw :: "field list" where
  "fields_ProtoOABonusDepositWithdraw =
    [Single ''operation_type'' 1 (EnumField ProtoOAChangeBonusType), Single ''bonus_history_id'' 2 (Scalar INT64),
     Single ''manager_bonus'' 3 (Scalar INT64), Single ''manager_delta'' 4 (Scalar INT64),
     Single ''ib_bonus'' 5 (Scalar INT64), Single ''ib_delta'' 6 (Scalar INT64),
     Single ''change_bonus_timestamp'' 7 (Scalar INT64), Single ''external_note'' 8 (Scalar STRING),
     Single ''introducing_broker_id'' 9 (Scalar INT64), Single ''money_digits'' 10 (Scalar UINT32)]"

definition fields_ProtoOADepositWithdraw :: "field list" where
  "fields_ProtoOADepositWithdraw =
    [Single ''operation_type'' 1 (EnumField ProtoOAChangeBalanceType),
     Single ''balance_history_id'' 2 (Scalar INT64), Single ''balance'' 3 (Scalar INT64),
     Single ''delta'' 4 (Scalar INT64), Single ''change_balance_timestamp'' 5 (Scalar INT64),
     Single ''external_note'' 6 (Scalar STRING), Single ''balance_version'' 7 (Scalar INT64),
     Single ''equity'' 8 (Scalar INT64), Single ''money_digits'' 9 (Scalar UINT32)]"

definition fields_ProtoOADeal :: "field list" where
  "fields_ProtoOADeal =
    [Single ''deal_id'' 1 (Scalar INT64), Single ''order_id'' 2 (Scalar INT64),
     Single ''position_id'' 3 (Scalar INT64), Single ''volume'' 4 (Scalar INT64),
     Single ''filled_volume'' 5 (Scalar INT64), Single ''symbol_id'' 6 (Scalar INT64),
     Single ''create_timestamp'' 7 (Scalar INT64), Single ''execution_timestamp'' 8 (Scalar INT64),
     Single ''utc_last_update_timestamp'' 9 (Scalar INT64), Single ''execution_price'' 10 (Scalar DOUBLE),
     Single ''trade_side'' 11 (EnumField ProtoOATradeSide), Single ''deal_status'' 12 (EnumField ProtoOADealStatus),
     Single ''margin_rate'' 13 (Scalar DOUBLE), Single ''commission'' 14 (Scalar INT64),
     Single ''base_to_usd_conversion_rate'' 15 (Scalar DOUBLE),
     Single ''close_position_detail'' 16 (MessageField ProtoOAClosePositionDetail),
     Single ''money_digits'' 17 (Scalar UINT32)]"

definition fields_ProtoOADealOffset :: "field list" where
  "fields_ProtoOADealOffset =
    [Single ''deal_id'' 1 (Scalar INT64), Single ''volume'' 2 (Scalar INT64),
     Single ''execution_timestamp'' 3 (Scalar INT64), Single ''execution_price'' 4 (Scalar DOUBLE)]"

definition fields_ProtoOAClosePositionDetail :: "field list" where
  "fields_ProtoOAClosePositionDetail =
    [Single ''entry_price'' 1 (Scalar DOUBLE), Single ''gross_profit'' 2 (Scalar INT64),
     Single ''swap'' 3 (Scalar INT64), Single ''commission'' 4 (Scalar INT64), Single ''balance'' 5 (Scalar INT64),
     Single ''quote_to_deposit_conversion_rate'' 6 (Scalar DOUBLE), Single ''closed_volume'' 7 (Scalar INT64),
     Single ''balance_version'' 8 (Scalar INT64), Single ''money_digits'' 9 (Scalar UINT32),
     Single ''pnl_conversion_fee'' 10 (Scalar INT64)]"

definition fields_ProtoOATrendbar :: "field list" where
  "fields_ProtoOATrendbar =
    [Single ''volume'' 3 (Scalar INT64), Single ''period'' 4 (EnumField ProtoOATrendbarPeriod),
     Single ''low'' 5 (Scalar INT64), Single ''delta_open'' 6 (Scalar UINT64),
     Single ''delta_close'' 7 (Scalar UINT64), Single ''delta_high'' 8 (Scalar UINT64),
     Single ''utc_timestamp_in_minutes'' 9 (Scalar UINT32)]"

definition fields_ProtoOAExpectedMargin :: "field list" where
  "fields_ProtoOAExpectedMargin =
    [Single ''volume'' 1 (Scalar INT64), Single ''buy_margin'' 2 (Scalar INT64),
     Single ''sell_margin'' 3 (Scalar INT64)]"

definition fields_ProtoOATickData :: "field list" where
  "fields_ProtoOATickData =
    [Single ''timestamp'' 1 (Scalar INT64), Single ''tick'' 2 (Scalar INT64)]"

definition fields_ProtoOACtidProfile :: "field list" where
  "fields_ProtoOACtidProfile =
    [Single ''user_id'' 1 (Scalar INT64)]"

definition fields_ProtoOACtidTraderAccount :: "field list" where
  "fields_ProtoOACtidTraderAccount =
    [Single ''ctid_trader_account_id'' 1 (Scalar UINT64), Single ''is_live'' 2 (Scalar BOOL),
     Single ''trader_login'' 3 (Scalar INT64), Single ''last_closing_deal_timestamp'' 4 (Scalar INT64),
     Single ''last_balance_update_timestamp'' 5 (Scalar INT64), Single ''broker_title_short'' 6 (Scalar STRING)]"

definition fields_ProtoOAAssetClass :: "field list" where
  "fields_ProtoOAAssetClass =
    [Single ''id'' 1 (Scalar INT64), Single ''name'' 2 (Scalar STRING), Single ''sorting_number'' 3 (Scalar DOUBLE)]"

definition fields_ProtoOADepthQuote :: "field list" where
  "fields_ProtoOADepthQuote =
    [Single ''id'' 1 (Scalar UINT64), Single ''size'' 3 (Scalar UINT64), Single ''bid'' 4 (Scalar UINT64),
     Single ''ask'' 5 (Scalar UINT64)]"

definition fields_ProtoOAMarginCall :: "field list" where
  "fields_ProtoOAMarginCall =
    [Single ''margin_call_type'' 1 (EnumField ProtoOANotificationType),
     Single ''margin_level_threshold'' 2 (Scalar DOUBLE), Single ''utc_last_update_timestamp'' 3 (Scalar INT64)]"

definition fields_ProtoOAHoliday :: "field list" where
  "fields_ProtoOAHoliday =
    [Single ''holiday_id'' 1 (Scalar INT64), Single ''name'' 2 (Scalar STRING),
     Single ''description'' 3 (Scalar STRING), Single ''schedule_time_zone'' 4 (Scalar STRING),
     Single ''holiday_date'' 5 (Scalar INT64), Single ''is_recurring'' 6 (Scalar BOOL),
     Single ''start_second'' 7 (Scalar INT32), Single ''end_second'' 8 (Scalar INT32)]"

definition fields_ProtoOADynamicLeverage :: "field list" where
  "fields_ProtoOADynamicLeverage =
    [Single ''leverage_id'' 1 (Scalar INT64), Repeated ''tiers'' 2 (MessageField ProtoOADynamicLeverageTier)]"

definition fields_ProtoOADynamicLeverageTier :: "field list" where
  "fields_ProtoOADynamicLeverageTier =
    [Single ''volume'' 1 (Scalar INT64), Single ''leverage'' 2 (Scalar INT32)]"

definition fields_ProtoOAPositionUnrealizedPnL :: "field list" where
  "fields_ProtoOAPositionUnrealizedPnL =
    [Single ''position_id'' 1 (Scalar INT64), Single ''gross_unrealized_pn_l'' 2 (Scalar INT64),
     Single ''net_unrealized_pn_l'' 3 (Scalar INT64)]"

primrec entity_fields :: "proto_entity \<Rightarrow> field list" where
  "entity_fields ProtoOAAsset = fields_ProtoOAAsset"
| "entity_fields ProtoOASymbol = fields_ProtoOASymbol"
| "entity_fields ProtoOALightSymbol = fields_ProtoOALightSymbol"
| "entity_fields ProtoOAArchivedSymbol = fields_ProtoOAArchivedSymbol"
| "entity_fields ProtoOASymbolCategory = fields_ProtoOASymbolCategory"
| "entity_fields ProtoOAInterval = fields_ProtoOAInterval"
| "entity_fields ProtoOATrader = fields_ProtoOATrader"
| "entity_fields ProtoOAPosition = fields_ProtoOAPosition"
| "entity_fields ProtoOATradeData = fields_ProtoOATradeData"
| "entity_fields ProtoOAOrder = fields_ProtoOAOrder"
| "entity_fields ProtoOABonusDepositWithdraw = fields_ProtoOABonusDepositWithdraw"
| "entity_fields ProtoOADepositWithdraw = fields_ProtoOADepositWithdraw"
| "entity_fields ProtoOADeal = fields_ProtoOADeal"
| "entity_fields ProtoOADealOffset = fields_ProtoOADealOffset"
| "entity_fields ProtoOAClosePositionDetail = fields_ProtoOAClosePositionDetail"
| "entity_fields ProtoOATrendbar = fields_ProtoOATrendbar"
| "entity_fields ProtoOAExpectedMargin = fields_ProtoOAExpectedMargin"
| "entity_fields ProtoOATickData = fields_ProtoOATickData"
| "entity_fields ProtoOACtidProfile = fields_ProtoOACtidProfile"
| "entity_fields ProtoOACtidTraderAccount = fields_ProtoOACtidTraderAccount"
| "entity_fields ProtoOAAssetClass = fields_ProtoOAAssetClass"
| "entity_fields ProtoOADepthQuote = fields_ProtoOADepthQuote"
| "entity_fields ProtoOAMarginCall = fields_ProtoOAMarginCall"
| "entity_fields ProtoOAHoliday = fields_ProtoOAHoliday"
| "entity_fields ProtoOADynamicLeverage = fields_ProtoOADynamicLeverage"
| "entity_fields ProtoOADynamicLeverageTier = fields_ProtoOADynamicLeverageTier"
| "entity_fields ProtoOAPositionUnrealizedPnL = fields_ProtoOAPositionUnrealizedPnL"

primrec entity_name :: "proto_entity \<Rightarrow> string" where
  "entity_name ProtoOAAsset = ''ProtoOAAsset''"
| "entity_name ProtoOASymbol = ''ProtoOASymbol''"
| "entity_name ProtoOALightSymbol = ''ProtoOALightSymbol''"
| "entity_name ProtoOAArchivedSymbol = ''ProtoOAArchivedSymbol''"
| "entity_name ProtoOASymbolCategory = ''ProtoOASymbolCategory''"
| "entity_name ProtoOAInterval = ''ProtoOAInterval''"
| "entity_name ProtoOATrader = ''ProtoOATrader''"
| "entity_name ProtoOAPosition = ''ProtoOAPosition''"
| "entity_name ProtoOATradeData = ''ProtoOATradeData''"
| "entity_name ProtoOAOrder = ''ProtoOAOrder''"
| "entity_name ProtoOABonusDepositWithdraw = ''ProtoOABonusDepositWithdraw''"
| "entity_name ProtoOADepositWithdraw = ''ProtoOADepositWithdraw''"
| "entity_name ProtoOADeal = ''ProtoOADeal''"
| "entity_name ProtoOADealOffset = ''ProtoOADealOffset''"
| "entity_name ProtoOAClosePositionDetail = ''ProtoOAClosePositionDetail''"
| "entity_name ProtoOATrendbar = ''ProtoOATrendbar''"
| "entity_name ProtoOAExpectedMargin = ''ProtoOAExpectedMargin''"
| "entity_name ProtoOATickData = ''ProtoOATickData''"
| "entity_name ProtoOACtidProfile = ''ProtoOACtidProfile''"
| "entity_name ProtoOACtidTraderAccount = ''ProtoOACtidTraderAccount''"
| "entity_name ProtoOAAssetClass = ''ProtoOAAssetClass''"
| "entity_name ProtoOADepthQuote = ''ProtoOADepthQuote''"
| "entity_name ProtoOAMarginCall = ''ProtoOAMarginCall''"
| "entity_name ProtoOAHoliday = ''ProtoOAHoliday''"
| "entity_name ProtoOADynamicLeverage = ''ProtoOADynamicLeverage''"
| "entity_name ProtoOADynamicLeverageTier = ''ProtoOADynamicLeverageTier''"
| "entity_name ProtoOAPositionUnrealizedPnL = ''ProtoOAPositionUnrealizedPnL''"

subsection \<open>Message classes\<close>

definition fields_ProtoMessage :: "field list" where
  "fields_ProtoMessage =
    [Single ''payload_type'' 1 (Scalar UINT32), Single ''payload'' 2 (Scalar BYTES),
     Single ''client_msg_id'' 3 (Scalar STRING)]"

definition fields_ProtoErrorRes :: "field list" where
  "fields_ProtoErrorRes =
    [Single ''payload_type'' 1 (EnumField ProtoPayloadType), Single ''error_code'' 2 (Scalar STRING),
     Single ''description'' 3 (Scalar STRING), Single ''maintenance_end_timestamp'' 4 (Scalar UINT64)]"

definition fields_ProtoHeartbeatEvent :: "field list" where
  "fields_ProtoHeartbeatEvent =
    [Single ''payload_type'' 1 (EnumField ProtoPayloadType)]"

definition fields_ProtoOAApplicationAuthReq :: "field list" where
  "fields_ProtoOAApplicationAuthReq =
    [Single ''payload_type'' 1 (EnumField ProtoOAPayloadType), Single ''client_id'' 2 (Scalar STRING),
     Single ''client_secret'' 3 (Scalar STRING)]"

definition fields_ProtoOAApplicationAuthRes :: "field list" where
  "fields_ProtoOAApplicationAuthRes =
    [Single ''payload_type'' 1 (EnumField ProtoOAPayloadType)]"

definition fields_ProtoOAAccountAuthReq :: "field list" where
  "fields_ProtoOAAccountAuthReq =
    [Single ''payload_type'' 1 (EnumField ProtoOAPayloadType), Single ''ctid_trader_account_id'' 2 (Scalar INT64),
     Single ''access_token'' 3 (Scalar STRING)]"

definition fields_ProtoOAAccountAuthRes :: "field list" where
  "fields_ProtoOAAccountAuthRes =
    [Single ''payload_type'' 1 (EnumField ProtoOAPayloadType), Single ''ctid_trader_account_id'' 2 (Scalar INT64)]"

definition fields_ProtoOAErrorRes :: "field list" where
  "fields_ProtoOAErrorRes =
    [Single ''payload_type'' 1 (EnumField ProtoOAPayloadType), Single ''ctid_trader_account_id'' 2 (Scalar INT64),
     Single ''error_code'' 3 (Scalar STRING), Single ''description'' 4 (Scalar STRING),
     Single ''maintenance_end_timestamp'' 5 (Scalar INT64), Single ''retry_after'' 6 (Scalar UINT64)]"

definition fields_ProtoOAClientDisconnectEvent :: "field list" where
  "fields_ProtoOAClientDisconnectEvent =
    [Single ''payload_type'' 1 (EnumField ProtoOAPayloadType), Single ''reason'' 2 (Scalar STRING)]"

definition fields_ProtoOAAccountsTokenInvalidatedEvent :: "field list" where
  "fields_ProtoOAAccountsTokenInvalidatedEvent =
    [Single ''payload_type'' 1 (EnumField ProtoOAPayloadType), Repeated ''ctid_trader_account_ids'' 2 (Scalar INT64),
     Single ''reason'' 3 (Scalar STRING)]"

definition fields_ProtoOAVersionReq :: "field list" where
  "fields_ProtoOAVersionReq =
    [Single ''payload_type'' 1 (EnumField ProtoOAPayloadType)]"

definition fields_ProtoOAVersionRes :: "field list" where
  "fields_ProtoOAVersionRes =
    [Single ''payload_type'' 1 (EnumField ProtoOAPayloadType), Single ''version'' 2 (Scalar STRING)]"

definition fields_ProtoOANewOrderReq :: "field list" where
  "fields_ProtoOANewOrderReq =
    [Single ''payload_type'' 1 (EnumField ProtoOAPayloadType), Single ''ctid_trader_account_id'' 2 (Scalar INT64),
     Single ''symbol_id'' 3 (Scalar INT64), Single ''order_type'' 4 (EnumField ProtoOAOrderType),
     Single ''trade_side'' 5 (EnumField ProtoOATradeSide), Single ''volume'' 6 (Scalar INT64),
     Single ''limit_price'' 7 (Scalar DOUBLE), Single ''stop_price'' 8 (Scalar DOUBLE),
     Single ''time_in_force'' 9 (EnumField ProtoOATimeInForce), Single ''expiration_timestamp'' 10 (Scalar INT64),
     Single ''stop_loss'' 11 (Scalar DOUBLE), Single ''take_profit'' 12 (Scalar DOUBLE),
     Single ''comment'' 13 (Scalar STRING), Single ''base_slippage_price'' 14 (Scalar DOUBLE),
     Single ''slippage_in_points'' 15 (Scalar INT32), Single ''label'' 16 (Scalar STRING),
     Single ''position_id'' 17 (Scalar INT64), Single ''client_order_id'' 18 (Scalar STRING),
     Single ''relative_stop_loss'' 19 (Scalar INT64), Single ''relative_take_profit'' 20 (Scalar INT64),
     Single ''guaranteed_stop_loss'' 21 (Scalar BOOL), Single ''trailing_stop_loss'' 22 (Scalar BOOL),
     Single ''stop_trigger_method'' 23 (EnumField ProtoOAOrderTriggerMethod)]"

definition fields_ProtoOAExecutionEvent :: "field list" where
  "fields_ProtoOAExecutionEvent =
    [Single ''payload_type'' 1 (EnumField ProtoOAPayloadType), Single ''ctid_trader_account_id'' 2 (Scalar INT64),
     Single ''execution_type'' 3 (EnumField ProtoOAExecutionType),
     Single ''position'' 4 (MessageField ProtoOAPosition), Single ''order'' 5 (MessageField ProtoOAOrder),
     Single ''deal'' 6 (MessageField ProtoOADeal),
     Single ''bonus_deposit_withdraw'' 7 (MessageField ProtoOABonusDepositWithdraw),
     Single ''deposit_withdraw'' 8 (MessageField ProtoOADepositWithdraw), Single ''error_code'' 9 (Scalar STRING),
     Single ''is_server_event'' 10 (Scalar BOOL)]"

definition fields_ProtoOACancelOrderReq :: "field list" where
  "fields_ProtoOACancelOrderReq =
    [Single ''payload_type'' 1 (EnumField ProtoOAPayloadType), Single ''ctid_trader_account_id'' 2 (Scalar INT64),
     Single ''order_id'' 3 (Scalar INT64)]"

definition fields_ProtoOAAmendOrderReq :: "field list" where
  "fields_ProtoOAAmendOrderReq =
    [Single ''payload_type'' 1 (EnumField ProtoOAPayloadType), Single ''ctid_trader_account_id'' 2 (Scalar INT64),
     Single ''order_id'' 3 (Scalar INT64), Single ''volume'' 4 (Scalar INT64),
     Single ''limit_price'' 5 (Scalar DOUBLE), Single ''stop_price'' 6 (Scalar DOUBLE),
     Single ''expiration_timestamp'' 7 (Scalar INT64), Single ''stop_loss'' 8 (Scalar DOUBLE),
     Single ''take_profit'' 9 (Scalar DOUBLE), Single ''slippage_in_points'' 10 (Scalar INT32),
     Single ''relative_stop_loss'' 11 (Scalar INT64), Single ''relative_take_profit'' 12 (Scalar INT64),
     Single ''guaranteed_stop_loss'' 13 (Scalar BOOL), Single ''trailing_stop_loss'' 14 (Scalar BOOL),
     Single ''stop_trigger_method'' 15 (EnumField ProtoOAOrderTriggerMethod)]"

definition fields_ProtoOAAmendPositionSLTPReq :: "field list" where
  "fields_ProtoOAAmendPositionSLTPReq =
    [Single ''payload_type'' 1 (EnumField ProtoOAPayloadType), Single ''ctid_trader_account_id'' 2 (Scalar INT64),
     Single ''position_id'' 3 (Scalar INT64), Single ''stop_loss'' 4 (Scalar DOUBLE),
     Single ''take_profit'' 5 (Scalar DOUBLE), Single ''guaranteed_stop_loss'' 7 (Scalar BOOL),
     Single ''trailing_stop_loss'' 8 (Scalar BOOL),
     Single ''stop_loss_trigger_method'' 9 (EnumField ProtoOAOrderTriggerMethod)]"

definition fields_ProtoOAClosePositionReq :: "field list" where
  "fields_ProtoOAClosePositionReq =
    [Single ''payload_type'' 1 (EnumField ProtoOAPayloadType), Single ''ctid_trader_account_id'' 2 (Scalar INT64),
     Single ''position_id'' 3 (Scalar INT64), Single ''volume'' 4 (Scalar INT64)]"

definition fields_ProtoOATrailingSLChangedEvent :: "field list" where
  "fields_ProtoOATrailingSLChangedEvent =
    [Single ''payload_type'' 1 (EnumField ProtoOAPayloadType), Single ''ctid_trader_account_id'' 2 (Scalar INT64),
     Single ''position_id'' 3 (Scalar INT64), Single ''order_id'' 4 (Scalar INT64),
     Single ''stop_price'' 5 (Scalar DOUBLE), Single ''utc_last_update_timestamp'' 6 (Scalar INT64)]"

definition fields_ProtoOAAssetListReq :: "field list" where
  "fields_ProtoOAAssetListReq =
    [Single ''payload_type'' 1 (EnumField ProtoOAPayloadType), Single ''ctid_trader_account_id'' 2 (Scalar INT64)]"

definition fields_ProtoOAAssetListRes :: "field list" where
  "fields_ProtoOAAssetListRes =
    [Single ''payload_type'' 1 (EnumField ProtoOAPayloadType), Single ''ctid_trader_account_id'' 2 (Scalar INT64),
     Repeated ''asset'' 3 (MessageField ProtoOAAsset)]"

definition fields_ProtoOASymbolsListReq :: "field list" where
  "fields_ProtoOASymbolsListReq =
    [Single ''payload_type'' 1 (EnumField ProtoOAPayloadType), Single ''ctid_trader_account_id'' 2 (Scalar INT64),
     Single ''include_archived_symbols'' 3 (Scalar BOOL)]"

definition fields_ProtoOASymbolsListRes :: "field list" where
  "fields_ProtoOASymbolsListRes =
    [Single ''payload_type'' 1 (EnumField ProtoOAPayloadType), Single ''ctid_trader_account_id'' 2 (Scalar INT64),
     Repeated ''symbol'' 3 (MessageField ProtoOALightSymbol),
     Repeated ''archived_symbol'' 4 (MessageField ProtoOAArchivedSymbol)]"

definition fields_ProtoOASymbolByIdReq :: "field list" where
  "fields_ProtoOASymbolByIdReq =
    [Single ''payload_type'' 1 (EnumField ProtoOAPayloadType), Single ''ctid_trader_account_id'' 2 (Scalar INT64),
     Repeated ''symbol_id'' 3 (Scalar INT64)]"

definition fields_ProtoOASymbolByIdRes :: "field list" where
  "fields_ProtoOASymbolByIdRes =
    [Single ''payload_type'' 1 (EnumField ProtoOAPayloadType), Single ''ctid_trader_account_id'' 2 (Scalar INT64),
     Repeated ''symbol'' 3 (MessageField ProtoOASymbol),
     Repeated ''archived_symbol'' 4 (MessageField ProtoOAArchivedSymbol)]"

definition fields_ProtoOASymbolsForConversionReq :: "field list" where
  "fields_ProtoOASymbolsForConversionReq =
    [Single ''payload_type'' 1 (EnumField ProtoOAPayloadType), Single ''ctid_trader_account_id'' 2 (Scalar INT64),
     Single ''first_asset_id'' 3 (Scalar INT64), Single ''last_asset_id'' 4 (Scalar INT64)]"

definition fields_ProtoOASymbolsForConversionRes :: "field list" where
  "fields_ProtoOASymbolsForConversionRes =
    [Single ''payload_type'' 1 (EnumField ProtoOAPayloadType), Single ''ctid_trader_account_id'' 2 (Scalar INT64),
     Repeated ''symbol'' 3 (MessageField ProtoOALightSymbol)]"

definition fields_ProtoOASymbolChangedEvent :: "field list" where
  "fields_ProtoOASymbolChangedEvent =
    [Single ''payload_type'' 1 (EnumField ProtoOAPayloadType), Single ''ctid_trader_account_id'' 2 (Scalar INT64),
     Repeated ''symbol_id'' 3 (Scalar INT64)]"

definition fields_ProtoOAAssetClassListReq :: "field list" where
  "fields_ProtoOAAssetClassListReq =
    [Single ''payload_type'' 1 (EnumField ProtoOAPayloadType), Single ''ctid_trader_account_id'' 2 (Scalar INT64)]"

definition fields_ProtoOAAssetClassListRes :: "field list" where
  "fields_ProtoOAAssetClassListRes =
    [Single ''payload_type'' 1 (EnumField ProtoOAPayloadType), Single ''ctid_trader_account_id'' 2 (Scalar INT64),
     Repeated ''asset_class'' 3 (MessageField ProtoOAAssetClass)]"

definition fields_ProtoOATraderReq :: "field list" where
  "fields_ProtoOATraderReq =
    [Single ''payload_type'' 1 (EnumField ProtoOAPayloadType), Single ''ctid_trader_account_id'' 2 (Scalar INT64)]"

definition fields_ProtoOATraderRes :: "field list" where
  "fields_ProtoOATraderRes =
    [Single ''payload_type'' 1 (EnumField ProtoOAPayloadType), Single ''ctid_trader_account_id'' 2 (Scalar INT64),
     Single ''trader'' 3 (MessageField ProtoOATrader)]"

definition fields_ProtoOATraderUpdatedEvent :: "field list" where
  "fields_ProtoOATraderUpdatedEvent =
    [Single ''payload_type'' 1 (EnumField ProtoOAPayloadType), Single ''ctid_trader_account_id'' 2 (Scalar INT64),
     Single ''trader'' 3 (MessageField ProtoOATrader)]"

definition fields_ProtoOAReconcileReq :: "field list" where
  "fields_ProtoOAReconcileReq =
    [Single ''payload_type'' 1 (EnumField ProtoOAPayloadType), Single ''ctid_trader_account_id'' 2 (Scalar INT64),
     Single ''return_protection_orders'' 3 (Scalar BOOL)]"

definition fields_ProtoOAReconcileRes :: "field list" where
  "fields_ProtoOAReconcileRes =
    [Single ''payload_type'' 1 (EnumField ProtoOAPayloadType), Single ''ctid_trader_account_id'' 2 (Scalar INT64),
     Repeated ''position'' 3 (MessageField ProtoOAPosition), Repeated ''order'' 4 (MessageField ProtoOAOrder)]"

definition fields_ProtoOAOrderErrorEvent :: "field list" where
  "fields_ProtoOAOrderErrorEvent =
    [Single ''payload_type'' 1 (EnumField ProtoOAPayloadType), Single ''ctid_trader_account_id'' 5 (Scalar INT64),
     Single ''error_code'' 2 (Scalar STRING), Single ''order_id'' 3 (Scalar INT64),
     Single ''position_id'' 6 (Scalar INT64), Single ''description'' 7 (Scalar STRING)]"

definition fields_ProtoOADealListReq :: "field list" where
  "fields_ProtoOADealListReq =
    [Single ''payload_type'' 1 (EnumField ProtoOAPayloadType), Single ''ctid_trader_account_id'' 2 (Scalar INT64),
     Single ''from_timestamp'' 3 (Scalar INT64), Single ''to_timestamp'' 4 (Scalar INT64),
     Single ''max_rows'' 5 (Scalar INT32)]"

definition fields_ProtoOADealListRes :: "field list" where
  "fields_ProtoOADealListRes =
    [Single ''payload_type'' 1 (EnumField ProtoOAPayloadType), Single ''ctid_trader_account_id'' 2 (Scalar INT64),
     Repeated ''deal'' 3 (MessageField ProtoOADeal), Single ''has_more'' 4 (Scalar BOOL)]"

definition fields_ProtoOAOrderListReq :: "field list" where
  "fields_ProtoOAOrderListReq =
    [Single ''payload_type'' 1 (EnumField ProtoOAPayloadType), Single ''ctid_trader_account_id'' 2 (Scalar INT64),
     Single ''from_timestamp'' 3 (Scalar INT64), Single ''to_timestamp'' 4 (Scalar INT64)]"

definition fields_ProtoOAOrderListRes :: "field list" where
  "fields_ProtoOAOrderListRes =
    [Single ''payload_type'' 1 (EnumField ProtoOAPayloadType), Single ''ctid_trader_account_id'' 2 (Scalar INT64),
     Repeated ''order'' 3 (MessageField ProtoOAOrder), Single ''has_more'' 4 (Scalar BOOL)]"

definition fields_ProtoOAExpectedMarginReq :: "field list" where
  "fields_ProtoOAExpectedMarginReq =
    [Single ''payload_type'' 1 (EnumField ProtoOAPayloadType), Single ''ctid_trader_account_id'' 2 (Scalar INT64),
     Single ''symbol_id'' 3 (Scalar INT64), Repeated ''volume'' 4 (Scalar INT64)]"

definition fields_ProtoOAExpectedMarginRes :: "field list" where
  "fields_ProtoOAExpectedMarginRes =
    [Single ''payload_type'' 1 (EnumField ProtoOAPayloadType), Single ''ctid_trader_account_id'' 2 (Scalar INT64),
     Repeated ''margin'' 3 (MessageField ProtoOAExpectedMargin), Single ''money_digits'' 4 (Scalar UINT32)]"

definition fields_ProtoOAMarginChangedEvent :: "field list" where
  "fields_ProtoOAMarginChangedEvent =
    [Single ''payload_type'' 1 (EnumField ProtoOAPayloadType), Single ''ctid_trader_account_id'' 2 (Scalar INT64),
     Single ''position_id'' 3 (Scalar UINT64), Single ''used_margin'' 4 (Scalar UINT64),
     Single ''money_digits'' 5 (Scalar UINT32)]"

definition fields_ProtoOACashFlowHistoryListReq :: "field list" where
  "fields_ProtoOACashFlowHistoryListReq =
    [Single ''payload_type'' 1 (EnumField ProtoOAPayloadType), Single ''ctid_trader_account_id'' 2 (Scalar INT64),
     Single ''from_timestamp'' 3 (Scalar INT64), Single ''to_timestamp'' 4 (Scalar INT64)]"

definition fields_ProtoOACashFlowHistoryListRes :: "field list" where
  "fields_ProtoOACashFlowHistoryListRes =
    [Single ''payload_type'' 1 (EnumField ProtoOAPayloadType), Single ''ctid_trader_account_id'' 2 (Scalar INT64),
     Repeated ''deposit_withdraw'' 3 (MessageField ProtoOADepositWithdraw)]"

definition fields_ProtoOAGetAccountListByAccessTokenReq :: "field list" where
  "fields_ProtoOAGetAccountListByAccessTokenReq =
    [Single ''payload_type'' 1 (EnumField ProtoOAPayloadType), Single ''access_token'' 2 (Scalar STRING)]"

definition fields_ProtoOAGetAccountListByAccessTokenRes :: "field list" where
  "fields_ProtoOAGetAccountListByAccessTokenRes =
    [Single ''payload_type'' 1 (EnumField ProtoOAPayloadType), Single ''access_token'' 2 (Scalar STRING),
     Single ''permission_scope'' 3 (EnumField ProtoOAClientPermissionScope),
     Repeated ''ctid_trader_account'' 4 (MessageField ProtoOACtidTraderAccount)]"

definition fields_ProtoOARefreshTokenReq :: "field list" where
  "fields_ProtoOARefreshTokenReq =
    [Single ''payload_type'' 1 (EnumField ProtoOAPayloadType), Single ''refresh_token'' 2 (Scalar STRING)]"

definition fields_ProtoOARefreshTokenRes :: "field list" where
  "fields_ProtoOARefreshTokenRes =
    [Single ''payload_type'' 1 (EnumField ProtoOAPayloadType), Single ''access_token'' 2 (Scalar STRING),
     Single ''token_type'' 3 (Scalar STRING), Single ''expires_in'' 4 (Scalar INT64),
     Single ''refresh_token'' 5 (Scalar STRING)]"

definition fields_ProtoOASubscribeSpotsReq :: "field list" where
  "fields_ProtoOASubscribeSpotsReq =
    [Single ''payload_type'' 1 (EnumField ProtoOAPayloadType), Single ''ctid_trader_account_id'' 2 (Scalar INT64),
     Repeated ''symbol_id'' 3 (Scalar INT64), Single ''subscribe_to_spot_timestamp'' 4 (Scalar BOOL)]"

definition fields_ProtoOASubscribeSpotsRes :: "field list" where
  "fields_ProtoOASubscribeSpotsRes =
    [Single ''payload_type'' 1 (EnumField ProtoOAPayloadType), Single ''ctid_trader_account_id'' 2 (Scalar INT64)]"

definition fields_ProtoOAUnsubscribeSpotsReq :: "field list" where
  "fields_ProtoOAUnsubscribeSpotsReq =
    [Single ''payload_type'' 1 (EnumField ProtoOAPayloadType), Single ''ctid_trader_account_id'' 2 (Scalar INT64),
     Repeated ''symbol_id'' 3 (Scalar INT64)]"

definition fields_ProtoOAUnsubscribeSpotsRes :: "field list" where
  "fields_ProtoOAUnsubscribeSpotsRes =
    [Single ''payload_type'' 1 (EnumField ProtoOAPayloadType), Single ''ctid_trader_account_id'' 2 (Scalar INT64)]"

definition fields_ProtoOASpotEvent :: "field list" where
  "fields_ProtoOASpotEvent =
    [Single ''payload_type'' 1 (EnumField ProtoOAPayloadType), Single ''ctid_trader_account_id'' 2 (Scalar INT64),
     Single ''symbol_id'' 3 (Scalar INT64), Single ''bid'' 4 (Scalar UINT64), Single ''ask'' 5 (Scalar UINT64),
     Repeated ''trendbar'' 6 (MessageField ProtoOATrendbar), Single ''session_close'' 7 (Scalar UINT64),
     Single ''timestamp'' 8 (Scalar INT64)]"

definition fields_ProtoOASubscribeLiveTrendbarReq :: "field list" where
  "fields_ProtoOASubscribeLiveTrendbarReq =
    [Single ''payload_type'' 1 (EnumField ProtoOAPayloadType), Single ''ctid_trader_account_id'' 2 (Scalar INT64),
     Single ''period'' 3 (EnumField ProtoOATrendbarPeriod), Single ''symbol_id'' 4 (Scalar INT64)]"

definition fields_ProtoOASubscribeLiveTrendbarRes :: "field list" where
  "fields_ProtoOASubscribeLiveTrendbarRes =
    [Single ''payload_type'' 1 (EnumField ProtoOAPayloadType), Single ''ctid_trader_account_id'' 2 (Scalar INT64)]"

definition fields_ProtoOAUnsubscribeLiveTrendbarReq :: "field list" where
  "fields_ProtoOAUnsubscribeLiveTrendbarReq =
    [Single ''payload_type'' 1 (EnumField ProtoOAPayloadType), Single ''ctid_trader_account_id'' 2 (Scalar INT64),
     Single ''period'' 3 (EnumField ProtoOATrendbarPeriod), Single ''symbol_id'' 4 (Scalar INT64)]"

definition fields_ProtoOAUnsubscribeLiveTrendbarRes :: "field list" where
  "fields_ProtoOAUnsubscribeLiveTrendbarRes =
    [Single ''payload_type'' 1 (EnumField ProtoOAPayloadType), Single ''ctid_trader_account_id'' 2 (Scalar INT64)]"

definition fields_ProtoOAGetTrendbarsReq :: "field list" where
  "fields_ProtoOAGetTrendbarsReq =
    [Single ''payload_type'' 1 (EnumField ProtoOAPayloadType), Single ''ctid_trader_account_id'' 2 (Scalar INT64),
     Single ''from_timestamp'' 3 (Scalar INT64), Single ''to_timestamp'' 4 (Scalar INT64),
     Single ''period'' 5 (EnumField ProtoOATrendbarPeriod), Single ''symbol_id'' 6 (Scalar INT64),
     Single ''count'' 7 (Scalar UINT32)]"

definition fields_ProtoOAGetTrendbarsRes :: "field list" where
  "fields_ProtoOAGetTrendbarsRes =
    [Single ''payload_type'' 1 (EnumField ProtoOAPayloadType), Single ''ctid_trader_account_id'' 2 (Scalar INT64),
     Single ''period'' 3 (EnumField ProtoOATrendbarPeriod), Single ''timestamp'' 4 (Scalar INT64),
     Repeated ''trendbar'' 5 (MessageField ProtoOATrendbar), Single ''symbol_id'' 6 (Scalar INT64),
     Single ''has_more'' 7 (Scalar BOOL)]"

definition fields_ProtoOAGetTickDataReq :: "field list" where
  "fields_ProtoOAGetTickDataReq =
    [Single ''payload_type'' 1 (EnumField ProtoOAPayloadType), Single ''ctid_trader_account_id'' 2 (Scalar INT64),
     Single ''symbol_id'' 3 (Scalar INT64), Single ''type'' 4 (EnumField ProtoOAQuoteType),
     Single ''from_timestamp'' 5 (Scalar INT64), Single ''to_timestamp'' 6 (Scalar INT64)]"

definition fields_ProtoOAGetTickDataRes :: "field list" where
  "fields_ProtoOAGetTickDataRes =
    [Single ''payload_type'' 1 (EnumField ProtoOAPayloadType), Single ''ctid_trader_account_id'' 2 (Scalar INT64),
     Repeated ''tick_data'' 3 (MessageField ProtoOATickData), Single ''has_more'' 4 (Scalar BOOL)]"

definition fields_ProtoOAGetCtidProfileByTokenReq :: "field list" where
  "fields_ProtoOAGetCtidProfileByTokenReq =
    [Single ''payload_type'' 1 (EnumField ProtoOAPayloadType), Single ''access_token'' 2 (Scalar STRING)]"

definition fields_ProtoOAGetCtidProfileByTokenRes :: "field list" where
  "fields_ProtoOAGetCtidProfileByTokenRes =
    [Single ''payload_type'' 1 (EnumField ProtoOAPayloadType), Single ''profile'' 2 (MessageField ProtoOACtidProfile)]"

definition fields_ProtoOADepthEvent :: "field list" where
  "fields_ProtoOADepthEvent =
    [Single ''payload_type'' 1 (EnumField ProtoOAPayloadType), Single ''ctid_trader_account_id'' 2 (Scalar INT64),
     Single ''symbol_id'' 3 (Scalar UINT64), Repeated ''new_quotes'' 4 (MessageField ProtoOADepthQuote),
     Repeated ''deleted_quotes'' 5 (Scalar UINT64)]"

definition fields_ProtoOASubscribeDepthQuotesReq :: "field list" where
  "fields_ProtoOASubscribeDepthQuotesReq =
    [Single ''payload_type'' 1 (EnumField ProtoOAPayloadType), Single ''ctid_trader_account_id'' 2 (Scalar INT64),
     Repeated ''symbol_id'' 3 (Scalar INT64)]"

definition fields_ProtoOASubscribeDepthQuotesRes :: "field list" where
  "fields_ProtoOASubscribeDepthQuotesRes =
    [Single ''payload_type'' 1 (EnumField ProtoOAPayloadType), Single ''ctid_trader_account_id'' 2 (Scalar INT64)]"

definition fields_ProtoOAUnsubscribeDepthQuotesReq :: "field list" where
  "fields_ProtoOAUnsubscribeDepthQuotesReq =
    [Single ''payload_type'' 1 (EnumField ProtoOAPayloadType), Single ''ctid_trader_account_id'' 2 (Scalar INT64),
     Repeated ''symbol_id'' 3 (Scalar INT64)]"

definition fields_ProtoOAUnsubscribeDepthQuotesRes :: "field list" where
  "fields_ProtoOAUnsubscribeDepthQuotesRes =
    [Single ''payload_type'' 1 (EnumField ProtoOAPayloadType), Single ''ctid_trader_account_id'' 2 (Scalar INT64)]"

definition fields_ProtoOASymbolCategoryListReq :: "field list" where
  "fields_ProtoOASymbolCategoryListReq =
    [Single ''payload_type'' 1 (EnumField ProtoOAPayloadType), Single ''ctid_trader_account_id'' 2 (Scalar INT64)]"

definition fields_ProtoOASymbolCategoryListRes :: "field list" where
  "fields_ProtoOASymbolCategoryListRes =
    [Single ''payload_type'' 1 (EnumField ProtoOAPayloadType), Single ''ctid_trader_account_id'' 2 (Scalar INT64),
     Repeated ''symbol_category'' 3 (MessageField ProtoOASymbolCategory)]"

definition fields_ProtoOAAccountLogoutReq :: "field list" where
  "fields_ProtoOAAccountLogoutReq =
    [Single ''payload_type'' 1 (EnumField ProtoOAPayloadType), Single ''ctid_trader_account_id'' 2 (Scalar INT64)]"

definition fields_ProtoOAAccountLogoutRes :: "field list" where
  "fields_ProtoOAAccountLogoutRes =
    [Single ''payload_type'' 1 (EnumField ProtoOAPayloadType), Single ''ctid_trader_account_id'' 2 (Scalar INT64)]"

definition fields_ProtoOAAccountDisconnectEvent :: "field list" where
  "fields_ProtoOAAccountDisconnectEvent =
    [Single ''payload_type'' 1 (EnumField ProtoOAPayloadType), Single ''ctid_trader_account_id'' 2 (Scalar INT64)]"

definition fields_ProtoOAMarginCallListReq :: "field list" where
  "fields_ProtoOAMarginCallListReq =
    [Single ''payload_type'' 1 (EnumField ProtoOAPayloadType), Single ''ctid_trader_account_id'' 2 (Scalar INT64)]"

definition fields_ProtoOAMarginCallListRes :: "field list" where
  "fields_ProtoOAMarginCallListRes =
    [Single ''payload_type'' 1 (EnumField ProtoOAPayloadType),
     Repeated ''margin_call'' 2 (MessageField ProtoOAMarginCall)]"

definition fields_ProtoOAMarginCallUpdateReq :: "field list" where
  "fields_ProtoOAMarginCallUpdateReq =
    [Single ''payload_type'' 1 (EnumField ProtoOAPayloadType), Single ''ctid_trader_account_id'' 2 (Scalar INT64),
     Single ''margin_call'' 3 (MessageField ProtoOAMarginCall)]"

definition fields_ProtoOAMarginCallUpdateRes :: "field list" where
  "fields_ProtoOAMarginCallUpdateRes =
    [Single ''payload_type'' 1 (EnumField ProtoOAPayloadType)]"

definition fields_ProtoOAMarginCallUpdateEvent :: "field list" where
  "fields_ProtoOAMarginCallUpdateEvent =
    [Single ''payload_type'' 1 (EnumField ProtoOAPayloadType), Single ''ctid_trader_account_id'' 2 (Scalar INT64),
     Single ''margin_call'' 3 (MessageField ProtoOAMarginCall)]"

definition fields_ProtoOAMarginCallTriggerEvent :: "field list" where
  "fields_ProtoOAMarginCallTriggerEvent =
    [Single ''payload_type'' 1 (EnumField ProtoOAPayloadType), Single ''ctid_trader_account_id'' 2 (Scalar INT64),
     Single ''margin_call'' 3 (MessageField ProtoOAMarginCall)]"

definition fields_ProtoOAGetDynamicLeverageByIDReq :: "field list" where
  "fields_ProtoOAGetDynamicLeverageByIDReq =
    [Single ''payload_type'' 1 (EnumField ProtoOAPayloadType), Single ''ctid_trader_account_id'' 2 (Scalar INT64),
     Single ''leverage_id'' 3 (Scalar INT64)]"

definition fields_ProtoOAGetDynamicLeverageByIDRes :: "field list" where
  "fields_ProtoOAGetDynamicLeverageByIDRes =
    [Single ''payload_type'' 1 (EnumField ProtoOAPayloadType), Single ''ctid_trader_account_id'' 2 (Scalar INT64),
     Single ''leverage'' 3 (MessageField ProtoOADynamicLeverage)]"

definition fields_ProtoOADealListByPositionIdReq :: "field list" where
  "fields_ProtoOADealListByPositionIdReq =
    [Single ''payload_type'' 1 (EnumField ProtoOAPayloadType), Single ''ctid_trader_account_id'' 2 (Scalar INT64),
     Single ''position_id'' 3 (Scalar INT64), Single ''from_timestamp'' 4 (Scalar INT64),
     Single ''to_timestamp'' 5 (Scalar INT64)]"

definition fields_ProtoOADealListByPositionIdRes :: "field list" where
  "fields_ProtoOADealListByPositionIdRes =
    [Single ''payload_type'' 1 (EnumField ProtoOAPayloadType), Single ''ctid_trader_account_id'' 2 (Scalar INT64),
     Repeated ''deal'' 3 (MessageField ProtoOADeal), Single ''has_more'' 4 (Scalar BOOL)]"

definition fields_ProtoOAOrderDetailsReq :: "field list" where
  "fields_ProtoOAOrderDetailsReq =
    [Single ''payload_type'' 1 (EnumField ProtoOAPayloadType), Single ''ctid_trader_account_id'' 2 (Scalar INT64),
     Single ''order_id'' 3 (Scalar INT64)]"

definition fields_ProtoOAOrderDetailsRes :: "field list" where
  "fields_ProtoOAOrderDetailsRes =
    [Single ''payload_type'' 1 (EnumField ProtoOAPayloadType), Single ''ctid_trader_account_id'' 2 (Scalar INT64),
     Single ''order'' 3 (MessageField ProtoOAOrder), Repeated ''deal'' 4 (MessageField ProtoOADeal)]"

definition fields_ProtoOAOrderListByPositionIdReq :: "field list" where
  "fields_ProtoOAOrderListByPositionIdReq =
    [Single ''payload_type'' 1 (EnumField ProtoOAPayloadType), Single ''ctid_trader_account_id'' 2 (Scalar INT64),
     Single ''position_id'' 3 (Scalar INT64), Single ''from_timestamp'' 4 (Scalar INT64),
     Single ''to_timestamp'' 5 (Scalar INT64)]"

definition fields_ProtoOAOrderListByPositionIdRes :: "field list" where
  "fields_ProtoOAOrderListByPositionIdRes =
    [Single ''payload_type'' 1 (EnumField ProtoOAPayloadType), Single ''ctid_trader_account_id'' 2 (Scalar INT64),
     Repeated ''order'' 3 (MessageField ProtoOAOrder), Single ''has_more'' 4 (Scalar BOOL)]"

definition fields_ProtoOADealOffsetListReq :: "field list" where
  "fields_ProtoOADealOffsetListReq =
    [Single ''payload_type'' 1 (EnumField ProtoOAPayloadType), Single ''ctid_trader_account_id'' 2 (Scalar INT64),
     Single ''deal_id'' 3 (Scalar INT64)]"

definition fields_ProtoOADealOffsetListRes :: "field list" where
  "fields_ProtoOADealOffsetListRes =
    [Single ''payload_type'' 1 (EnumField ProtoOAPayloadType), Single ''ctid_trader_account_id'' 2 (Scalar INT64),
     Repeated ''offset_by'' 3 (MessageField ProtoOADealOffset),
     Repeated ''offsetting'' 4 (MessageField ProtoOADealOffset)]"

definition fields_ProtoOAGetPositionUnrealizedPnLReq :: "field list" where
  "fields_ProtoOAGetPositionUnrealizedPnLReq =
    [Single ''payload_type'' 1 (EnumField ProtoOAPayloadType), Single ''ctid_trader_account_id'' 2 (Scalar INT64)]"

definition fields_ProtoOAGetPositionUnrealizedPnLRes :: "field list" where
  "fields_ProtoOAGetPositionUnrealizedPnLRes =
    [Single ''payload_type'' 1 (EnumField ProtoOAPayloadType), Single ''ctid_trader_account_id'' 2 (Scalar INT64),
     Repeated ''position_unrealized_pn_l'' 3 (MessageField ProtoOAPositionUnrealizedPnL),
     Single ''money_digits'' 4 (Scalar UINT32)]"

primrec request_fields :: "request_class \<Rightarrow> field list" where
  "request_fields Cls_ProtoOAApplicationAuthReq = fields_ProtoOAApplicationAuthReq"
| "request_fields Cls_ProtoOAAccountAuthReq = fields_ProtoOAAccountAuthReq"
| "request_fields Cls_ProtoOATraderReq = fields_ProtoOATraderReq"
| "request_fields Cls_ProtoOARefreshTokenReq = fields_ProtoOARefreshTokenReq"
| "request_fields Cls_ProtoOASubscribeSpotsReq = fields_ProtoOASubscribeSpotsReq"
| "request_fields Cls_ProtoOAUnsubscribeSpotsReq = fields_ProtoOAUnsubscribeSpotsReq"
| "request_fields Cls_ProtoOASubscribeLiveTrendbarReq = fields_ProtoOASubscribeLiveTrendbarReq"
| "request_fields Cls_ProtoOAUnsubscribeLiveTrendbarReq = fields_ProtoOAUnsubscribeLiveTrendbarReq"
| "request_fields Cls_ProtoOASubscribeDepthQuotesReq = fields_ProtoOASubscribeDepthQuotesReq"
| "request_fields Cls_ProtoOAUnsubscribeDepthQuotesReq = fields_ProtoOAUnsubscribeDepthQuotesReq"
| "request_fields Cls_ProtoOAGetTrendbarsReq = fields_ProtoOAGetTrendbarsReq"
| "request_fields Cls_ProtoOAGetTickDataReq = fields_ProtoOAGetTickDataReq"
| "request_fields Cls_ProtoOANewOrderReq = fields_ProtoOANewOrderReq"
| "request_fields Cls_ProtoOAAmendOrderReq = fields_ProtoOAAmendOrderReq"
| "request_fields Cls_ProtoOAAmendPositionSLTPReq = fields_ProtoOAAmendPositionSLTPReq"
| "request_fields Cls_ProtoOAClosePositionReq = fields_ProtoOAClosePositionReq"
| "request_fields Cls_ProtoOACancelOrderReq = fields_ProtoOACancelOrderReq"
| "request_fields Cls_ProtoOAGetPositionUnrealizedPnLReq = fields_ProtoOAGetPositionUnrealizedPnLReq"
| "request_fields Cls_ProtoOAReconcileReq = fields_ProtoOAReconcileReq"
| "request_fields Cls_ProtoOAOrderListReq = fields_ProtoOAOrderListReq"
| "request_fields Cls_ProtoOADealListReq = fields_ProtoOADealListReq"
| "request_fields Cls_ProtoOADealListByPositionIdReq = fields_ProtoOADealListByPositionIdReq"
| "request_fields Cls_ProtoOAGetAccountListByAccessTokenReq = fields_ProtoOAGetAccountListByAccessTokenReq"
| "request_fields Cls_ProtoOASymbolsListReq = fields_ProtoOASymbolsListReq"
| "request_fields Cls_ProtoOASymbolByIdReq = fields_ProtoOASymbolByIdReq"

primrec reply_fields :: "reply_class \<Rightarrow> field list" where
  "reply_fields Cls_ProtoErrorRes = fields_ProtoErrorRes"
| "reply_fields Cls_ProtoOAErrorRes = fields_ProtoOAErrorRes"
| "reply_fields Cls_ProtoOAApplicationAuthRes = fields_ProtoOAApplicationAuthRes"
| "reply_fields Cls_ProtoOAAccountAuthRes = fields_ProtoOAAccountAuthRes"
| "reply_fields Cls_ProtoOATraderRes = fields_ProtoOATraderRes"
| "reply_fields Cls_ProtoOARefreshTokenRes = fields_ProtoOARefreshTokenRes"
| "reply_fields Cls_ProtoOASubscribeSpotsRes = fields_ProtoOASubscribeSpotsRes"
| "reply_fields Cls_ProtoOAUnsubscribeSpotsRes = fields_ProtoOAUnsubscribeSpotsRes"
| "reply_fields Cls_ProtoOASubscribeLiveTrendbarRes = fields_ProtoOASubscribeLiveTrendbarRes"
| "reply_fields Cls_ProtoOAUnsubscribeLiveTrendbarRes = fields_ProtoOAUnsubscribeLiveTrendbarRes"
| "reply_fields Cls_ProtoOASubscribeDepthQuotesRes = fields_ProtoOASubscribeDepthQuotesRes"
| "reply_fields Cls_ProtoOAUnsubscribeDepthQuotesRes = fields_ProtoOAUnsubscribeDepthQuotesRes"
| "reply_fields Cls_ProtoOAGetTrendbarsRes = fields_ProtoOAGetTrendbarsRes"
| "reply_fields Cls_ProtoOAGetTickDataRes = fields_ProtoOAGetTickDataRes"
| "reply_fields Cls_ProtoOAGetPositionUnrealizedPnLRes = fields_ProtoOAGetPositionUnrealizedPnLRes"
| "reply_fields Cls_ProtoOAReconcileRes = fields_ProtoOAReconcileRes"
| "reply_fields Cls_ProtoOAOrderListRes = fields_ProtoOAOrderListRes"
| "reply_fields Cls_ProtoOADealListRes = fields_ProtoOADealListRes"
| "reply_fields Cls_ProtoOADealListByPositionIdRes = fields_ProtoOADealListByPositionIdRes"
| "reply_fields Cls_ProtoOAGetAccountListByAccessTokenRes = fields_ProtoOAGetAccountListByAccessTokenRes"
| "reply_fields Cls_ProtoOASymbolsListRes = fields_ProtoOASymbolsListRes"
| "reply_fields Cls_ProtoOASymbolByIdRes = fields_ProtoOASymbolByIdRes"

primrec push_fields :: "push_class \<Rightarrow> field list" where
  "push_fields Cls_ProtoHeartbeatEvent = fields_ProtoHeartbeatEvent"
| "push_fields Cls_ProtoOASpotEvent = fields_ProtoOASpotEvent"
| "push_fields Cls_ProtoOAExecutionEvent = fields_ProtoOAExecutionEvent"
| "push_fields Cls_ProtoOAOrderErrorEvent = fields_ProtoOAOrderErrorEvent"
| "push_fields Cls_ProtoOATraderUpdatedEvent = fields_ProtoOATraderUpdatedEvent"
| "push_fields Cls_ProtoOAMarginChangedEvent = fields_ProtoOAMarginChangedEvent"
| "push_fields Cls_ProtoOADepthEvent = fields_ProtoOADepthEvent"
| "push_fields Cls_ProtoOAAccountsTokenInvalidatedEvent = fields_ProtoOAAccountsTokenInvalidatedEvent"
| "push_fields Cls_ProtoOAClientDisconnectEvent = fields_ProtoOAClientDisconnectEvent"
| "push_fields Cls_ProtoOAAccountDisconnectEvent = fields_ProtoOAAccountDisconnectEvent"
| "push_fields Cls_ProtoOASymbolChangedEvent = fields_ProtoOASymbolChangedEvent"
| "push_fields Cls_ProtoOATrailingSLChangedEvent = fields_ProtoOATrailingSLChangedEvent"
| "push_fields Cls_ProtoOAMarginCallTriggerEvent = fields_ProtoOAMarginCallTriggerEvent"

primrec unread_fields :: "unread_class \<Rightarrow> field list" where
  "unread_fields Unread_ProtoOAVersionReq = fields_ProtoOAVersionReq"
| "unread_fields Unread_ProtoOAVersionRes = fields_ProtoOAVersionRes"
| "unread_fields Unread_ProtoOAAssetListReq = fields_ProtoOAAssetListReq"
| "unread_fields Unread_ProtoOAAssetListRes = fields_ProtoOAAssetListRes"
| "unread_fields Unread_ProtoOASymbolsForConversionReq = fields_ProtoOASymbolsForConversionReq"
| "unread_fields Unread_ProtoOASymbolsForConversionRes = fields_ProtoOASymbolsForConversionRes"
| "unread_fields Unread_ProtoOAExpectedMarginReq = fields_ProtoOAExpectedMarginReq"
| "unread_fields Unread_ProtoOAExpectedMarginRes = fields_ProtoOAExpectedMarginRes"
| "unread_fields Unread_ProtoOACashFlowHistoryListReq = fields_ProtoOACashFlowHistoryListReq"
| "unread_fields Unread_ProtoOACashFlowHistoryListRes = fields_ProtoOACashFlowHistoryListRes"
| "unread_fields Unread_ProtoOAGetCtidProfileByTokenReq = fields_ProtoOAGetCtidProfileByTokenReq"
| "unread_fields Unread_ProtoOAGetCtidProfileByTokenRes = fields_ProtoOAGetCtidProfileByTokenRes"
| "unread_fields Unread_ProtoOAAssetClassListReq = fields_ProtoOAAssetClassListReq"
| "unread_fields Unread_ProtoOAAssetClassListRes = fields_ProtoOAAssetClassListRes"
| "unread_fields Unread_ProtoOASymbolCategoryListReq = fields_ProtoOASymbolCategoryListReq"
| "unread_fields Unread_ProtoOASymbolCategoryListRes = fields_ProtoOASymbolCategoryListRes"
| "unread_fields Unread_ProtoOAAccountLogoutReq = fields_ProtoOAAccountLogoutReq"
| "unread_fields Unread_ProtoOAAccountLogoutRes = fields_ProtoOAAccountLogoutRes"
| "unread_fields Unread_ProtoOAMarginCallListReq = fields_ProtoOAMarginCallListReq"
| "unread_fields Unread_ProtoOAMarginCallListRes = fields_ProtoOAMarginCallListRes"
| "unread_fields Unread_ProtoOAMarginCallUpdateReq = fields_ProtoOAMarginCallUpdateReq"
| "unread_fields Unread_ProtoOAMarginCallUpdateRes = fields_ProtoOAMarginCallUpdateRes"
| "unread_fields Unread_ProtoOAMarginCallUpdateEvent = fields_ProtoOAMarginCallUpdateEvent"
| "unread_fields Unread_ProtoOAGetDynamicLeverageByIDReq = fields_ProtoOAGetDynamicLeverageByIDReq"
| "unread_fields Unread_ProtoOAGetDynamicLeverageByIDRes = fields_ProtoOAGetDynamicLeverageByIDRes"
| "unread_fields Unread_ProtoOAOrderDetailsReq = fields_ProtoOAOrderDetailsReq"
| "unread_fields Unread_ProtoOAOrderDetailsRes = fields_ProtoOAOrderDetailsRes"
| "unread_fields Unread_ProtoOAOrderListByPositionIdReq = fields_ProtoOAOrderListByPositionIdReq"
| "unread_fields Unread_ProtoOAOrderListByPositionIdRes = fields_ProtoOAOrderListByPositionIdRes"
| "unread_fields Unread_ProtoOADealOffsetListReq = fields_ProtoOADealOffsetListReq"
| "unread_fields Unread_ProtoOADealOffsetListRes = fields_ProtoOADealOffsetListRes"

text \<open>The one class that is not registered is the envelope.\<close>

primrec class_fields :: "message_class \<Rightarrow> field list" where
  "class_fields (ClsRequest c) = request_fields c"
| "class_fields (ClsReply c) = reply_fields c"
| "class_fields (ClsPush c) = push_fields c"
| "class_fields (ClsUnread c) = unread_fields c"
| "class_fields (ClsUnregistered n) = (if n = ''ProtoMessage'' then fields_ProtoMessage else [])"

end
