(* ===== verification/Wire_View.thy ===== *)
theory Wire_View
  imports Wire_Schema
begin

text \<open>
  The modelled messages against the wire schema. A message is viewed as the list of its field values
  in the order of its class; \<open>typed_fields\<close> says that a list of values fits a list of fields. The
  \<open>payload_type\<close> member every message class starts with is left out of the view. Fitting is a matter
  of shape: names are not compared, and an integer fits every integer and enumeration type, whatever
  its range.
\<close>

datatype wire_value =
    IntV int | DoubleV rat | BoolV bool | StringV string | BytesV bytes | MessageV "wire_value list" | NoMessage | ListV "wire_value list"

fun scalar_typed :: "scalar \<Rightarrow> wire_value \<Rightarrow> bool" where
  "scalar_typed DOUBLE v \<longleftrightarrow> (case v of DoubleV _ \<Rightarrow> True | _ \<Rightarrow> False)"
| "scalar_typed BOOL v \<longleftrightarrow> (case v of BoolV _ \<Rightarrow> True | _ \<Rightarrow> False)"
| "scalar_typed STRING v \<longleftrightarrow> (case v of StringV _ \<Rightarrow> True | _ \<Rightarrow> False)"
| "scalar_typed BYTES v \<longleftrightarrow> (case v of BytesV _ \<Rightarrow> True | _ \<Rightarrow> False)"
| "scalar_typed _ v \<longleftrightarrow> (case v of IntV _ \<Rightarrow> True | _ \<Rightarrow> False)"

fun typed :: "field_type \<Rightarrow> wire_value \<Rightarrow> bool"
  and typed_fields :: "field list \<Rightarrow> wire_value list \<Rightarrow> bool"
  and typed_all :: "field_type \<Rightarrow> wire_value list \<Rightarrow> bool" where
  "typed (Scalar s) v \<longleftrightarrow> scalar_typed s v"
| "typed (EnumField e) v \<longleftrightarrow> (case v of IntV _ \<Rightarrow> True | _ \<Rightarrow> False)"
| "typed (MessageField e) (MessageV vs) \<longleftrightarrow> typed_fields (entity_fields e) vs"
| "typed (MessageField e) _ \<longleftrightarrow> False"
| "typed_fields [] [] \<longleftrightarrow> True"
| "typed_fields (Single n i (MessageField e) # fs) (NoMessage # vs) \<longleftrightarrow> typed_fields fs vs"
| "typed_fields (Single n i t # fs) (v # vs) \<longleftrightarrow> typed t v \<and> typed_fields fs vs"
| "typed_fields (Repeated n i t # fs) (ListV us # vs) \<longleftrightarrow> typed_all t us \<and> typed_fields fs vs"
| "typed_fields _ _ \<longleftrightarrow> False"
| "typed_all t [] \<longleftrightarrow> True"
| "typed_all t (v # vs) \<longleftrightarrow> typed t v \<and> typed_all t vs"

lemma typed_all_iff: "typed_all t vs \<longleftrightarrow> (\<forall>v \<in> set vs. typed t v)"
  by (induction vs) simp_all

subsection \<open>Views\<close>

text \<open>A sub-message, absent or present, and a list of sub-messages.\<close>

definition sub_message :: "('a \<Rightarrow> wire_value list) \<Rightarrow> 'a option \<Rightarrow> wire_value" where
  "sub_message f m = (case m of None \<Rightarrow> NoMessage | Some x \<Rightarrow> MessageV (f x))"

definition sub_messages :: "('a \<Rightarrow> wire_value list) \<Rightarrow> 'a list \<Rightarrow> wire_value" where
  "sub_messages f xs = ListV (map (\<lambda>x. MessageV (f x)) xs)"

lemma typed_sub_message:
  "typed_fields (Single n i (MessageField e) # fs) (sub_message f m # vs) \<longleftrightarrow>
     (\<forall>x. m = Some x \<longrightarrow> typed_fields (entity_fields e) (f x)) \<and> typed_fields fs vs"
  by (cases m) (simp_all add: sub_message_def)

lemma typed_sub_messages:
  "typed_fields (Repeated n i (MessageField e) # fs) (sub_messages f xs # vs) \<longleftrightarrow>
     (\<forall>x \<in> set xs. typed_fields (entity_fields e) (f x)) \<and> typed_fields fs vs"
  by (simp add: sub_messages_def typed_all_iff)

definition ints :: "int list \<Rightarrow> wire_value" where
  "ints xs = ListV (map IntV xs)"

lemma typed_ints:
  "typed_fields (Repeated n i (Scalar INT64) # fs) (ints xs # vs) \<longleftrightarrow> typed_fields fs vs"
  "typed_fields (Repeated n i (Scalar UINT64) # fs) (ints xs # vs) \<longleftrightarrow> typed_fields fs vs"
  by (simp_all add: ints_def typed_all_iff)

definition view_ProtoOAInterval :: "proto_oa_interval \<Rightarrow> wire_value list" where
  "view_ProtoOAInterval m =
    [IntV (piv_start_second m), IntV (piv_end_second m)]"

definition view_ProtoOAHoliday :: "proto_oa_holiday \<Rightarrow> wire_value list" where
  "view_ProtoOAHoliday m =
    [IntV (phol_holiday_id m), StringV (phol_name m), StringV (phol_description m),
     StringV (phol_schedule_time_zone m), IntV (phol_holiday_date m), BoolV (phol_is_recurring m),
     IntV (phol_start_second m), IntV (phol_end_second m)]"

definition view_ProtoOASymbol :: "proto_oa_symbol \<Rightarrow> wire_value list" where
  "view_ProtoOASymbol m =
    [IntV (psym_symbol_id m), IntV (psym_digits m), IntV (psym_pip_position m), BoolV (psym_enable_short_selling m),
     BoolV (psym_guaranteed_stop_loss m), IntV (psym_swap_rollover3_days m), DoubleV (psym_swap_long m),
     DoubleV (psym_swap_short m), IntV (psym_max_volume m), IntV (psym_min_volume m), IntV (psym_step_volume m),
     IntV (psym_max_exposure m), sub_messages view_ProtoOAInterval (psym_schedule m), IntV (psym_commission m),
     IntV (psym_commission_type m), IntV (psym_sl_distance m), IntV (psym_tp_distance m), IntV (psym_gsl_distance m),
     IntV (psym_gsl_charge m), IntV (psym_distance_set_in m), IntV (psym_min_commission m),
     IntV (psym_min_commission_type m), StringV (psym_min_commission_asset m), IntV (psym_rollover_commission m),
     IntV (psym_skip_rollover_days m), StringV (psym_schedule_time_zone m), IntV (psym_trading_mode m),
     IntV (psym_rollover_commission3_days m), IntV (psym_swap_calculation_type m), IntV (psym_lot_size m),
     IntV (psym_precise_trading_commission_rate m), IntV (psym_precise_min_commission m),
     sub_messages view_ProtoOAHoliday (psym_holiday m), IntV (psym_pnl_conversion_fee_rate m),
     IntV (psym_leverage_id m), IntV (psym_swap_period m), IntV (psym_swap_time m),
     IntV (psym_skip_s_w_a_p_periods m), BoolV (psym_charge_swap_at_weekends m), StringV (psym_measurement_units m)]"

definition view_ProtoOALightSymbol :: "proto_oa_light_symbol \<Rightarrow> wire_value list" where
  "view_ProtoOALightSymbol m =
    [IntV (plsym_symbol_id m), StringV (plsym_symbol_name m), BoolV (plsym_enabled m), IntV (plsym_base_asset_id m),
     IntV (plsym_quote_asset_id m), IntV (plsym_symbol_category_id m), StringV (plsym_description m),
     DoubleV (plsym_sorting_number m)]"

definition view_ProtoOAArchivedSymbol :: "proto_oa_archived_symbol \<Rightarrow> wire_value list" where
  "view_ProtoOAArchivedSymbol m =
    [IntV (pasym_symbol_id m), StringV (pasym_name m), IntV (pasym_utc_last_update_timestamp m),
     StringV (pasym_description m)]"

definition view_ProtoOATrader :: "proto_oa_trader \<Rightarrow> wire_value list" where
  "view_ProtoOATrader m =
    [IntV (ptr_ctid_trader_account_id m), IntV (ptr_balance m), IntV (ptr_balance_version m),
     IntV (ptr_manager_bonus m), IntV (ptr_ib_bonus m), IntV (ptr_non_withdrawable_bonus m),
     IntV (ptr_access_rights m), IntV (ptr_deposit_asset_id m), BoolV (ptr_swap_free m),
     IntV (ptr_leverage_in_cents m), IntV (ptr_total_margin_calculation_type m), IntV (ptr_max_leverage m),
     BoolV (ptr_french_risk m), IntV (ptr_trader_login m), IntV (ptr_account_type m), StringV (ptr_broker_name m),
     IntV (ptr_registration_timestamp m), BoolV (ptr_is_limited_risk m),
     IntV (ptr_limited_risk_margin_calculation_strategy m), IntV (ptr_money_digits m), BoolV (ptr_fair_stop_out m),
     IntV (ptr_stop_out_strategy m)]"

definition view_ProtoOATradeData :: "proto_oa_trade_data \<Rightarrow> wire_value list" where
  "view_ProtoOATradeData m =
    [IntV (ptd_symbol_id m), IntV (ptd_volume m), IntV (ptd_trade_side m), IntV (ptd_open_timestamp m),
     StringV (ptd_label m), BoolV (ptd_guaranteed_stop_loss m), StringV (ptd_comment m),
     StringV (ptd_measurement_units m), IntV (ptd_close_timestamp m)]"

definition view_ProtoOAPosition :: "proto_oa_position \<Rightarrow> wire_value list" where
  "view_ProtoOAPosition m =
    [IntV (ppos_position_id m), sub_message view_ProtoOATradeData (ppos_trade_data m), IntV (ppos_position_status m),
     IntV (ppos_swap m), DoubleV (ppos_price m), DoubleV (ppos_stop_loss m), DoubleV (ppos_take_profit m),
     IntV (ppos_utc_last_update_timestamp m), IntV (ppos_commission m), DoubleV (ppos_margin_rate m),
     IntV (ppos_mirroring_commission m), BoolV (ppos_guaranteed_stop_loss m), IntV (ppos_used_margin m),
     IntV (ppos_stop_loss_trigger_method m), IntV (ppos_money_digits m), BoolV (ppos_trailing_stop_loss m)]"

definition view_ProtoOAOrder :: "proto_oa_order \<Rightarrow> wire_value list" where
  "view_ProtoOAOrder m =
    [IntV (pord_order_id m), sub_message view_ProtoOATradeData (pord_trade_data m), IntV (pord_order_type m),
     IntV (pord_order_status m), IntV (pord_expiration_timestamp m), DoubleV (pord_execution_price m),
     IntV (pord_executed_volume m), IntV (pord_utc_last_update_timestamp m), DoubleV (pord_base_slippage_price m),
     IntV (pord_slippage_in_points m), BoolV (pord_closing_order m), DoubleV (pord_limit_price m),
     DoubleV (pord_stop_price m), DoubleV (pord_stop_loss m), DoubleV (pord_take_profit m),
     StringV (pord_client_order_id m), IntV (pord_time_in_force m), IntV (pord_position_id m),
     IntV (pord_relative_stop_loss m), IntV (pord_relative_take_profit m), BoolV (pord_is_stop_out m),
     BoolV (pord_trailing_stop_loss m), IntV (pord_stop_trigger_method m)]"

definition view_ProtoOABonusDepositWithdraw :: "proto_oa_bonus_deposit_withdraw \<Rightarrow> wire_value list" where
  "view_ProtoOABonusDepositWithdraw m =
    [IntV (pbdw_operation_type m), IntV (pbdw_bonus_history_id m), IntV (pbdw_manager_bonus m),
     IntV (pbdw_manager_delta m), IntV (pbdw_ib_bonus m), IntV (pbdw_ib_delta m),
     IntV (pbdw_change_bonus_timestamp m), StringV (pbdw_external_note m), IntV (pbdw_introducing_broker_id m),
     IntV (pbdw_money_digits m)]"

definition view_ProtoOADepositWithdraw :: "proto_oa_deposit_withdraw \<Rightarrow> wire_value list" where
  "view_ProtoOADepositWithdraw m =
    [IntV (pdw_operation_type m), IntV (pdw_balance_history_id m), IntV (pdw_balance m), IntV (pdw_delta m),
     IntV (pdw_change_balance_timestamp m), StringV (pdw_external_note m), IntV (pdw_balance_version m),
     IntV (pdw_equity m), IntV (pdw_money_digits m)]"

definition view_ProtoOAClosePositionDetail :: "proto_oa_close_position_detail \<Rightarrow> wire_value list" where
  "view_ProtoOAClosePositionDetail m =
    [DoubleV (pcpd_entry_price m), IntV (pcpd_gross_profit m), IntV (pcpd_swap m), IntV (pcpd_commission m),
     IntV (pcpd_balance m), DoubleV (pcpd_quote_to_deposit_conversion_rate m), IntV (pcpd_closed_volume m),
     IntV (pcpd_balance_version m), IntV (pcpd_money_digits m), IntV (pcpd_pnl_conversion_fee m)]"

definition view_ProtoOADeal :: "proto_oa_deal \<Rightarrow> wire_value list" where
  "view_ProtoOADeal m =
    [IntV (pdeal_deal_id m), IntV (pdeal_order_id m), IntV (pdeal_position_id m), IntV (pdeal_volume m),
     IntV (pdeal_filled_volume m), IntV (pdeal_symbol_id m), IntV (pdeal_create_timestamp m),
     IntV (pdeal_execution_timestamp m), IntV (pdeal_utc_last_update_timestamp m), DoubleV (pdeal_execution_price m),
     IntV (pdeal_trade_side m), IntV (pdeal_deal_status m), DoubleV (pdeal_margin_rate m), IntV (pdeal_commission m),
     DoubleV (pdeal_base_to_usd_conversion_rate m),
     sub_message view_ProtoOAClosePositionDetail (pdeal_close_position_detail m), IntV (pdeal_money_digits m)]"

definition view_ProtoOATrendbar :: "proto_oa_trendbar \<Rightarrow> wire_value list" where
  "view_ProtoOATrendbar m =
    [IntV (ptb_volume m), IntV (ptb_period m), IntV (ptb_low m), IntV (ptb_delta_open m), IntV (ptb_delta_close m),
     IntV (ptb_delta_high m), IntV (ptb_utc_timestamp_in_minutes m)]"

definition view_ProtoOATickData :: "proto_oa_tick_data \<Rightarrow> wire_value list" where
  "view_ProtoOATickData m =
    [IntV (ptick_timestamp m), IntV (ptick_tick m)]"

definition view_ProtoOACtidTraderAccount :: "proto_oa_ctid_trader_account \<Rightarrow> wire_value list" where
  "view_ProtoOACtidTraderAccount m =
    [IntV (pcta_ctid_trader_account_id m), BoolV (pcta_is_live m), IntV (pcta_trader_login m),
     IntV (pcta_last_closing_deal_timestamp m), IntV (pcta_last_balance_update_timestamp m),
     StringV (pcta_broker_title_short m)]"

definition view_ProtoOADepthQuote :: "proto_oa_depth_quote \<Rightarrow> wire_value list" where
  "view_ProtoOADepthQuote m =
    [IntV (pdq_id m), IntV (pdq_size m), IntV (pdq_bid m), IntV (pdq_ask m)]"

definition view_ProtoOAMarginCall :: "proto_oa_margin_call \<Rightarrow> wire_value list" where
  "view_ProtoOAMarginCall m =
    [IntV (pmc_margin_call_type m), DoubleV (pmc_margin_level_threshold m), IntV (pmc_utc_last_update_timestamp m)]"

definition view_ProtoOAPositionUnrealizedPnL :: "proto_oa_position_unrealized_pnl \<Rightarrow> wire_value list" where
  "view_ProtoOAPositionUnrealizedPnL m =
    [IntV (ppnl_position_id m), IntV (ppnl_gross_unrealized_pn_l m), IntV (ppnl_net_unrealized_pn_l m)]"

definition view_ProtoOAErrorRes :: "proto_oa_error_res \<Rightarrow> wire_value list" where
  "view_ProtoOAErrorRes m =
    [IntV (perr_ctid_trader_account_id m), StringV (perr_error_code m), StringV (perr_description m),
     IntV (perr_maintenance_end_timestamp m), IntV (perr_retry_after m)]"

definition view_ProtoOANewOrderReq :: "proto_oa_new_order_req \<Rightarrow> wire_value list" where
  "view_ProtoOANewOrderReq m =
    [IntV (pno_ctid_trader_account_id m), IntV (pno_symbol_id m), IntV (pno_order_type m), IntV (pno_trade_side m),
     IntV (pno_volume m), DoubleV (pno_limit_price m), DoubleV (pno_stop_price m), IntV (pno_time_in_force m),
     IntV (pno_expiration_timestamp m), DoubleV (pno_stop_loss m), DoubleV (pno_take_profit m),
     StringV (pno_comment m), DoubleV (pno_base_slippage_price m), IntV (pno_slippage_in_points m),
     StringV (pno_label m), IntV (pno_position_id m), StringV (pno_client_order_id m),
     IntV (pno_relative_stop_loss m), IntV (pno_relative_take_profit m), BoolV (pno_guaranteed_stop_loss m),
     BoolV (pno_trailing_stop_loss m), IntV (pno_stop_trigger_method m)]"

definition view_ProtoOAAmendOrderReq :: "proto_oa_amend_order_req \<Rightarrow> wire_value list" where
  "view_ProtoOAAmendOrderReq m =
    [IntV (pao_ctid_trader_account_id m), IntV (pao_order_id m), IntV (pao_volume m), DoubleV (pao_limit_price m),
     DoubleV (pao_stop_price m), IntV (pao_expiration_timestamp m), DoubleV (pao_stop_loss m),
     DoubleV (pao_take_profit m), IntV (pao_slippage_in_points m), IntV (pao_relative_stop_loss m),
     IntV (pao_relative_take_profit m), BoolV (pao_guaranteed_stop_loss m), BoolV (pao_trailing_stop_loss m),
     IntV (pao_stop_trigger_method m)]"

definition view_ProtoOAAmendPositionSLTPReq :: "proto_oa_amend_position_sltp_req \<Rightarrow> wire_value list" where
  "view_ProtoOAAmendPositionSLTPReq m =
    [IntV (pap_ctid_trader_account_id m), IntV (pap_position_id m), DoubleV (pap_stop_loss m),
     DoubleV (pap_take_profit m), BoolV (pap_guaranteed_stop_loss m), BoolV (pap_trailing_stop_loss m),
     IntV (pap_stop_loss_trigger_method m)]"

definition view_ProtoOAClosePositionReq :: "proto_oa_close_position_req \<Rightarrow> wire_value list" where
  "view_ProtoOAClosePositionReq m =
    [IntV (pcp_ctid_trader_account_id m), IntV (pcp_position_id m), IntV (pcp_volume m)]"

definition view_ProtoOASpotEvent :: "proto_oa_spot_event \<Rightarrow> wire_value list" where
  "view_ProtoOASpotEvent m =
    [IntV (psp_ctid_trader_account_id m), IntV (psp_symbol_id m), IntV (psp_bid m), IntV (psp_ask m),
     sub_messages view_ProtoOATrendbar (psp_trendbar m), IntV (psp_session_close m), IntV (psp_timestamp m)]"

definition view_ProtoOAExecutionEvent :: "proto_oa_execution_event \<Rightarrow> wire_value list" where
  "view_ProtoOAExecutionEvent m =
    [IntV (pex_ctid_trader_account_id m), IntV (pex_execution_type m),
     sub_message view_ProtoOAPosition (pex_position m), sub_message view_ProtoOAOrder (pex_order m),
     sub_message view_ProtoOADeal (pex_deal m),
     sub_message view_ProtoOABonusDepositWithdraw (pex_bonus_deposit_withdraw m),
     sub_message view_ProtoOADepositWithdraw (pex_deposit_withdraw m), StringV (pex_error_code m),
     BoolV (pex_is_server_event m)]"

definition view_ProtoOAOrderErrorEvent :: "proto_oa_order_error_event \<Rightarrow> wire_value list" where
  "view_ProtoOAOrderErrorEvent m =
    [IntV (poe_ctid_trader_account_id m), StringV (poe_error_code m), IntV (poe_order_id m),
     IntV (poe_position_id m), StringV (poe_description m)]"

definition view_ProtoOATrailingSLChangedEvent :: "proto_oa_trailing_sl_changed_event \<Rightarrow> wire_value list" where
  "view_ProtoOATrailingSLChangedEvent m =
    [IntV (ptsl_ctid_trader_account_id m), IntV (ptsl_position_id m), IntV (ptsl_order_id m),
     DoubleV (ptsl_stop_price m), IntV (ptsl_utc_last_update_timestamp m)]"

definition view_ProtoOAGetTrendbarsReq :: "proto_oa_get_trendbars_req \<Rightarrow> wire_value list" where
  "view_ProtoOAGetTrendbarsReq m =
    [IntV (pgt_ctid_trader_account_id m), IntV (pgt_from_timestamp m), IntV (pgt_to_timestamp m),
     IntV (pgt_period m), IntV (pgt_symbol_id m), IntV (pgt_count m)]"

definition view_ProtoOAGetTrendbarsRes :: "proto_oa_get_trendbars_res \<Rightarrow> wire_value list" where
  "view_ProtoOAGetTrendbarsRes m =
    [IntV (pgtr_ctid_trader_account_id m), IntV (pgtr_period m), IntV (pgtr_timestamp m),
     sub_messages view_ProtoOATrendbar (pgtr_trendbar m), IntV (pgtr_symbol_id m), BoolV (pgtr_has_more m)]"

definition view_ProtoOAGetTickDataReq :: "proto_oa_get_tick_data_req \<Rightarrow> wire_value list" where
  "view_ProtoOAGetTickDataReq m =
    [IntV (pgk_ctid_trader_account_id m), IntV (pgk_symbol_id m), IntV (pgk_type m), IntV (pgk_from_timestamp m),
     IntV (pgk_to_timestamp m)]"

definition view_ProtoOARefreshTokenRes :: "proto_oa_refresh_token_res \<Rightarrow> wire_value list" where
  "view_ProtoOARefreshTokenRes m =
    [StringV (prt_access_token m), StringV (prt_token_type m), IntV (prt_expires_in m), StringV (prt_refresh_token m)]"

primrec request_view :: "request \<Rightarrow> wire_value list" where
  "request_view (ProtoOAApplicationAuthReq a b) = [StringV a, StringV b]"
| "request_view (ProtoOAAccountAuthReq a b) = [IntV a, StringV b]"
| "request_view (ProtoOATraderReq a) = [IntV a]"
| "request_view (ProtoOARefreshTokenReq a) = [StringV a]"
| "request_view (ProtoOASubscribeSpotsReq a b c) = [IntV a, ints b, BoolV c]"
| "request_view (ProtoOAUnsubscribeSpotsReq a b) = [IntV a, ints b]"
| "request_view (ProtoOASubscribeLiveTrendbarReq a b c) = [IntV a, IntV b, IntV c]"
| "request_view (ProtoOAUnsubscribeLiveTrendbarReq a b c) = [IntV a, IntV b, IntV c]"
| "request_view (ProtoOASubscribeDepthQuotesReq a b) = [IntV a, ints b]"
| "request_view (ProtoOAUnsubscribeDepthQuotesReq a b) = [IntV a, ints b]"
| "request_view (ProtoOAGetTrendbarsReq m) = view_ProtoOAGetTrendbarsReq m"
| "request_view (ProtoOAGetTickDataReq m) = view_ProtoOAGetTickDataReq m"
| "request_view (ProtoOANewOrderReq m) = view_ProtoOANewOrderReq m"
| "request_view (ProtoOAAmendOrderReq m) = view_ProtoOAAmendOrderReq m"
| "request_view (ProtoOAAmendPositionSLTPReq m) = view_ProtoOAAmendPositionSLTPReq m"
| "request_view (ProtoOAClosePositionReq m) = view_ProtoOAClosePositionReq m"
| "request_view (ProtoOACancelOrderReq a b) = [IntV a, IntV b]"
| "request_view (ProtoOAGetPositionUnrealizedPnLReq a) = [IntV a]"
| "request_view (ProtoOAReconcileReq a b) = [IntV a, BoolV b]"
| "request_view (ProtoOAOrderListReq a b c) = [IntV a, IntV b, IntV c]"
| "request_view (ProtoOADealListReq a b c d) = [IntV a, IntV b, IntV c, IntV d]"
| "request_view (ProtoOADealListByPositionIdReq a b c d) = [IntV a, IntV b, IntV c, IntV d]"
| "request_view (ProtoOAGetAccountListByAccessTokenReq a) = [StringV a]"
| "request_view (ProtoOASymbolsListReq a b) = [IntV a, BoolV b]"
| "request_view (ProtoOASymbolByIdReq a b) = [IntV a, ints b]"

primrec reply_view :: "reply \<Rightarrow> wire_value list" where
  "reply_view (ProtoErrorRes a b c) = [StringV a, StringV b, IntV c]"
| "reply_view (ProtoOAErrorRes m) = view_ProtoOAErrorRes m"
| "reply_view ProtoOAApplicationAuthRes = []"
| "reply_view (ProtoOAAccountAuthRes a) = [IntV a]"
| "reply_view (ProtoOATraderRes a b) = [IntV a, sub_message view_ProtoOATrader b]"
| "reply_view (ProtoOARefreshTokenRes m) = view_ProtoOARefreshTokenRes m"
| "reply_view (ProtoOASubscribeSpotsRes a) = [IntV a]"
| "reply_view (ProtoOAUnsubscribeSpotsRes a) = [IntV a]"
| "reply_view (ProtoOASubscribeLiveTrendbarRes a) = [IntV a]"
| "reply_view (ProtoOAUnsubscribeLiveTrendbarRes a) = [IntV a]"
| "reply_view (ProtoOASubscribeDepthQuotesRes a) = [IntV a]"
| "reply_view (ProtoOAUnsubscribeDepthQuotesRes a) = [IntV a]"
| "reply_view (ProtoOAGetTrendbarsRes m) = view_ProtoOAGetTrendbarsRes m"
| "reply_view (ProtoOAGetTickDataRes a b c) = [IntV a, sub_messages view_ProtoOATickData b, BoolV c]"
| "reply_view (ProtoOAGetPositionUnrealizedPnLRes a b c) = [IntV a, sub_messages view_ProtoOAPositionUnrealizedPnL b, IntV c]"
| "reply_view (ProtoOAReconcileRes a b c) = [IntV a, sub_messages view_ProtoOAPosition b, sub_messages view_ProtoOAOrder c]"
| "reply_view (ProtoOAOrderListRes a b c) = [IntV a, sub_messages view_ProtoOAOrder b, BoolV c]"
| "reply_view (ProtoOADealListRes a b c) = [IntV a, sub_messages view_ProtoOADeal b, BoolV c]"
| "reply_view (ProtoOADealListByPositionIdRes a b c) = [IntV a, sub_messages view_ProtoOADeal b, BoolV c]"
| "reply_view (ProtoOAGetAccountListByAccessTokenRes a b c) = [StringV a, IntV b, sub_messages view_ProtoOACtidTraderAccount c]"
| "reply_view (ProtoOASymbolsListRes a b c) = [IntV a, sub_messages view_ProtoOALightSymbol b, sub_messages view_ProtoOAArchivedSymbol c]"
| "reply_view (ProtoOASymbolByIdRes a b c) = [IntV a, sub_messages view_ProtoOASymbol b, sub_messages view_ProtoOAArchivedSymbol c]"

primrec push_view :: "push \<Rightarrow> wire_value list" where
  "push_view ProtoHeartbeatEvent = []"
| "push_view (ProtoOASpotEvent m) = view_ProtoOASpotEvent m"
| "push_view (ProtoOAExecutionEvent m) = view_ProtoOAExecutionEvent m"
| "push_view (ProtoOAOrderErrorEvent m) = view_ProtoOAOrderErrorEvent m"
| "push_view (ProtoOATraderUpdatedEvent a b) = [IntV a, sub_message view_ProtoOATrader b]"
| "push_view (ProtoOAMarginChangedEvent a b c d) = [IntV a, IntV b, IntV c, IntV d]"
| "push_view (ProtoOADepthEvent a b c d) = [IntV a, IntV b, sub_messages view_ProtoOADepthQuote c, ints d]"
| "push_view (ProtoOAAccountsTokenInvalidatedEvent a b) = [ints a, StringV b]"
| "push_view (ProtoOAClientDisconnectEvent a) = [StringV a]"
| "push_view (ProtoOAAccountDisconnectEvent a) = [IntV a]"
| "push_view (ProtoOASymbolChangedEvent a b) = [IntV a, ints b]"
| "push_view (ProtoOATrailingSLChangedEvent m) = view_ProtoOATrailingSLChangedEvent m"
| "push_view (ProtoOAMarginCallTriggerEvent a b) = [IntV a, sub_message view_ProtoOAMarginCall b]"

subsection \<open>Every entity fits its class\<close>

lemmas typed_simps = typed_sub_message typed_sub_messages typed_ints

lemma typed_view_ProtoOAInterval [simp]: "typed_fields fields_ProtoOAInterval (view_ProtoOAInterval m)"
  by (simp add: fields_ProtoOAInterval_def view_ProtoOAInterval_def typed_simps)

lemma typed_view_ProtoOAHoliday [simp]: "typed_fields fields_ProtoOAHoliday (view_ProtoOAHoliday m)"
  by (simp add: fields_ProtoOAHoliday_def view_ProtoOAHoliday_def typed_simps)

lemma typed_view_ProtoOASymbol [simp]: "typed_fields fields_ProtoOASymbol (view_ProtoOASymbol m)"
  by (simp add: fields_ProtoOASymbol_def view_ProtoOASymbol_def typed_simps)

lemma typed_view_ProtoOALightSymbol [simp]: "typed_fields fields_ProtoOALightSymbol (view_ProtoOALightSymbol m)"
  by (simp add: fields_ProtoOALightSymbol_def view_ProtoOALightSymbol_def typed_simps)

lemma typed_view_ProtoOAArchivedSymbol [simp]: "typed_fields fields_ProtoOAArchivedSymbol (view_ProtoOAArchivedSymbol m)"
  by (simp add: fields_ProtoOAArchivedSymbol_def view_ProtoOAArchivedSymbol_def typed_simps)

lemma typed_view_ProtoOATrader [simp]: "typed_fields fields_ProtoOATrader (view_ProtoOATrader m)"
  by (simp add: fields_ProtoOATrader_def view_ProtoOATrader_def typed_simps)

lemma typed_view_ProtoOATradeData [simp]: "typed_fields fields_ProtoOATradeData (view_ProtoOATradeData m)"
  by (simp add: fields_ProtoOATradeData_def view_ProtoOATradeData_def typed_simps)

lemma typed_view_ProtoOAPosition [simp]: "typed_fields fields_ProtoOAPosition (view_ProtoOAPosition m)"
  by (simp add: fields_ProtoOAPosition_def view_ProtoOAPosition_def typed_simps)

lemma typed_view_ProtoOAOrder [simp]: "typed_fields fields_ProtoOAOrder (view_ProtoOAOrder m)"
  by (simp add: fields_ProtoOAOrder_def view_ProtoOAOrder_def typed_simps)

lemma typed_view_ProtoOABonusDepositWithdraw [simp]: "typed_fields fields_ProtoOABonusDepositWithdraw (view_ProtoOABonusDepositWithdraw m)"
  by (simp add: fields_ProtoOABonusDepositWithdraw_def view_ProtoOABonusDepositWithdraw_def typed_simps)

lemma typed_view_ProtoOADepositWithdraw [simp]: "typed_fields fields_ProtoOADepositWithdraw (view_ProtoOADepositWithdraw m)"
  by (simp add: fields_ProtoOADepositWithdraw_def view_ProtoOADepositWithdraw_def typed_simps)

lemma typed_view_ProtoOAClosePositionDetail [simp]: "typed_fields fields_ProtoOAClosePositionDetail (view_ProtoOAClosePositionDetail m)"
  by (simp add: fields_ProtoOAClosePositionDetail_def view_ProtoOAClosePositionDetail_def typed_simps)

lemma typed_view_ProtoOADeal [simp]: "typed_fields fields_ProtoOADeal (view_ProtoOADeal m)"
  by (simp add: fields_ProtoOADeal_def view_ProtoOADeal_def typed_simps)

lemma typed_view_ProtoOATrendbar [simp]: "typed_fields fields_ProtoOATrendbar (view_ProtoOATrendbar m)"
  by (simp add: fields_ProtoOATrendbar_def view_ProtoOATrendbar_def typed_simps)

lemma typed_view_ProtoOATickData [simp]: "typed_fields fields_ProtoOATickData (view_ProtoOATickData m)"
  by (simp add: fields_ProtoOATickData_def view_ProtoOATickData_def typed_simps)

lemma typed_view_ProtoOACtidTraderAccount [simp]: "typed_fields fields_ProtoOACtidTraderAccount (view_ProtoOACtidTraderAccount m)"
  by (simp add: fields_ProtoOACtidTraderAccount_def view_ProtoOACtidTraderAccount_def typed_simps)

lemma typed_view_ProtoOADepthQuote [simp]: "typed_fields fields_ProtoOADepthQuote (view_ProtoOADepthQuote m)"
  by (simp add: fields_ProtoOADepthQuote_def view_ProtoOADepthQuote_def typed_simps)

lemma typed_view_ProtoOAMarginCall [simp]: "typed_fields fields_ProtoOAMarginCall (view_ProtoOAMarginCall m)"
  by (simp add: fields_ProtoOAMarginCall_def view_ProtoOAMarginCall_def typed_simps)

lemma typed_view_ProtoOAPositionUnrealizedPnL [simp]: "typed_fields fields_ProtoOAPositionUnrealizedPnL (view_ProtoOAPositionUnrealizedPnL m)"
  by (simp add: fields_ProtoOAPositionUnrealizedPnL_def view_ProtoOAPositionUnrealizedPnL_def typed_simps)

lemmas request_schema =
  fields_ProtoOAApplicationAuthReq_def fields_ProtoOAAccountAuthReq_def fields_ProtoOATraderReq_def
  fields_ProtoOARefreshTokenReq_def fields_ProtoOASubscribeSpotsReq_def fields_ProtoOAUnsubscribeSpotsReq_def
  fields_ProtoOASubscribeLiveTrendbarReq_def fields_ProtoOAUnsubscribeLiveTrendbarReq_def
  fields_ProtoOASubscribeDepthQuotesReq_def fields_ProtoOAUnsubscribeDepthQuotesReq_def
  fields_ProtoOAGetTrendbarsReq_def fields_ProtoOAGetTickDataReq_def fields_ProtoOANewOrderReq_def
  fields_ProtoOAAmendOrderReq_def fields_ProtoOAAmendPositionSLTPReq_def fields_ProtoOAClosePositionReq_def
  fields_ProtoOACancelOrderReq_def fields_ProtoOAGetPositionUnrealizedPnLReq_def fields_ProtoOAReconcileReq_def
  fields_ProtoOAOrderListReq_def fields_ProtoOADealListReq_def fields_ProtoOADealListByPositionIdReq_def
  fields_ProtoOAGetAccountListByAccessTokenReq_def fields_ProtoOASymbolsListReq_def
  fields_ProtoOASymbolByIdReq_def view_ProtoOAGetTrendbarsReq_def view_ProtoOAGetTickDataReq_def
  view_ProtoOANewOrderReq_def view_ProtoOAAmendOrderReq_def view_ProtoOAAmendPositionSLTPReq_def
  view_ProtoOAClosePositionReq_def

lemma typed_request_view: "typed_fields (tl (request_fields (request_class_of m))) (request_view m)"
  by (cases m) (simp_all add: request_schema typed_simps)

lemmas reply_schema =
  fields_ProtoErrorRes_def fields_ProtoOAErrorRes_def fields_ProtoOAApplicationAuthRes_def
  fields_ProtoOAAccountAuthRes_def fields_ProtoOATraderRes_def fields_ProtoOARefreshTokenRes_def
  fields_ProtoOASubscribeSpotsRes_def fields_ProtoOAUnsubscribeSpotsRes_def
  fields_ProtoOASubscribeLiveTrendbarRes_def fields_ProtoOAUnsubscribeLiveTrendbarRes_def
  fields_ProtoOASubscribeDepthQuotesRes_def fields_ProtoOAUnsubscribeDepthQuotesRes_def
  fields_ProtoOAGetTrendbarsRes_def fields_ProtoOAGetTickDataRes_def fields_ProtoOAGetPositionUnrealizedPnLRes_def
  fields_ProtoOAReconcileRes_def fields_ProtoOAOrderListRes_def fields_ProtoOADealListRes_def
  fields_ProtoOADealListByPositionIdRes_def fields_ProtoOAGetAccountListByAccessTokenRes_def
  fields_ProtoOASymbolsListRes_def fields_ProtoOASymbolByIdRes_def view_ProtoOAErrorRes_def
  view_ProtoOARefreshTokenRes_def view_ProtoOAGetTrendbarsRes_def

lemma typed_reply_view: "typed_fields (tl (reply_fields (reply_class_of m))) (reply_view m)"
  by (cases m) (simp_all add: reply_schema typed_simps)

lemmas push_schema =
  fields_ProtoHeartbeatEvent_def fields_ProtoOASpotEvent_def fields_ProtoOAExecutionEvent_def
  fields_ProtoOAOrderErrorEvent_def fields_ProtoOATraderUpdatedEvent_def fields_ProtoOAMarginChangedEvent_def
  fields_ProtoOADepthEvent_def fields_ProtoOAAccountsTokenInvalidatedEvent_def
  fields_ProtoOAClientDisconnectEvent_def fields_ProtoOAAccountDisconnectEvent_def
  fields_ProtoOASymbolChangedEvent_def fields_ProtoOATrailingSLChangedEvent_def
  fields_ProtoOAMarginCallTriggerEvent_def view_ProtoOASpotEvent_def view_ProtoOAExecutionEvent_def
  view_ProtoOAOrderErrorEvent_def view_ProtoOATrailingSLChangedEvent_def

lemma typed_push_view: "typed_fields (tl (push_fields (push_class_of m))) (push_view m)"
  by (cases m) (simp_all add: push_schema typed_simps)

end
