(* ===== verification/Wire_Properties.thy ===== *)
theory Wire_Properties
  imports Wire_View
begin

text \<open>
  What the generated schema promises the rest of the client: every message the model builds or reads
  has, field by field, the shape its generated class declares; the numbers that identify fields and members
  on the wire are unambiguous; messages nest to a bounded depth; and the hand-written registry of
  payload types agrees with the generated enumeration.
\<close>

primrec field_name :: "field \<Rightarrow> string" where
  "field_name (Single n i t) = n"
| "field_name (Repeated n i t) = n"

primrec field_number :: "field \<Rightarrow> nat" where
  "field_number (Single n i t) = i"
| "field_number (Repeated n i t) = i"

primrec field_type_of :: "field \<Rightarrow> field_type" where
  "field_type_of (Single n i t) = t"
| "field_type_of (Repeated n i t) = t"

subsection \<open>Unambiguous numbers\<close>

definition wf_fields :: "field list \<Rightarrow> bool" where
  "wf_fields fs \<longleftrightarrow> distinct (map field_number fs) \<and> distinct (map field_name fs) \<and> list_all (\<lambda>f. 1 \<le> field_number f) fs"

text \<open>Two members of an enumeration with the same number would be aliases of one member.\<close>

definition wf_enum :: "(string \<times> int) list \<Rightarrow> bool" where
  "wf_enum ms \<longleftrightarrow> distinct (map snd ms)"

lemma wf_entity_fields: "wf_fields (entity_fields e)"
  by (rule proto_entity.induct) (code_simp+)

lemma wf_enum_members: "wf_enum (enum_members e)"
  by (rule proto_enum.induct) (code_simp+)

lemma wf_request_fields: "wf_fields (request_fields c)"
  by (rule request_class.induct) (code_simp+)

lemma wf_reply_fields: "wf_fields (reply_fields c)"
  by (rule reply_class.induct) (code_simp+)

lemma wf_push_fields: "wf_fields (push_fields c)"
  by (rule push_class.induct) (code_simp+)

lemma wf_unread_fields: "wf_fields (unread_fields c)"
  by (rule unread_class.induct) (code_simp+)

lemma wf_class_fields: "wf_fields (class_fields c)"
proof (cases c)
  case (ClsUnregistered n)
  have "wf_fields fields_ProtoMessage" "wf_fields []" by code_simp+
  with ClsUnregistered show ?thesis by simp
qed (simp_all add: wf_request_fields wf_reply_fields wf_push_fields wf_unread_fields)

subsection \<open>Nesting\<close>

definition sub_entities :: "field list \<Rightarrow> proto_entity list" where
  "sub_entities fs = concat (map (\<lambda>f. case field_type_of f of MessageField e \<Rightarrow> [e] | _ \<Rightarrow> []) fs)"

text \<open>No field nests messages more than \<open>k\<close> levels deep.\<close>

primrec nests_within :: "nat \<Rightarrow> field list \<Rightarrow> bool" where
  "nests_within 0 fs \<longleftrightarrow> sub_entities fs = []"
| "nests_within (Suc k) fs \<longleftrightarrow> list_all (\<lambda>e. nests_within k (entity_fields e)) (sub_entities fs)"

text \<open>How deep a tree of values is.\<close>

fun value_depth :: "wire_value \<Rightarrow> nat" and values_depth :: "wire_value list \<Rightarrow> nat" where
  "value_depth (MessageV vs) = Suc (values_depth vs)"
| "value_depth (ListV vs) = values_depth vs"
| "value_depth _ = 0"
| "values_depth [] = 0"
| "values_depth (v # vs) = max (value_depth v) (values_depth vs)"

definition type_within :: "nat \<Rightarrow> field_type \<Rightarrow> bool" where
  "type_within k t \<longleftrightarrow> (case t of MessageField e \<Rightarrow> k > 0 \<and> nests_within (k - 1) (entity_fields e) | _ \<Rightarrow> True)"

lemma nests_within_Cons: "nests_within k (f # fs) \<longleftrightarrow> type_within k (field_type_of f) \<and> nests_within k fs"
  by (cases k) (auto simp: sub_entities_def type_within_def split: field_type.splits)

lemma scalar_typed_depth: "scalar_typed s v \<Longrightarrow> value_depth v = 0"
  by (cases s; cases v) auto

lemma typed_depth:
  "typed t v \<Longrightarrow> type_within k t \<Longrightarrow> value_depth v \<le> k"
  "typed_fields fs vs \<Longrightarrow> nests_within k fs \<Longrightarrow> values_depth vs \<le> k"
  "typed_all t vs \<Longrightarrow> type_within k t \<Longrightarrow> values_depth vs \<le> k"
proof (induction t v and fs vs and t vs arbitrary: k and k and k rule: typed_typed_fields_typed_all.induct)
  case (3 e vs)
  then show ?case by (cases k) (auto simp: type_within_def)
qed (auto simp: nests_within_Cons scalar_typed_depth split: wire_value.splits)

lemma request_nests: "nests_within 2 (request_fields c)"
  by (rule request_class.induct) (code_simp+)

lemma reply_nests: "nests_within 2 (reply_fields c)"
  by (rule reply_class.induct) (code_simp+)

lemma push_nests: "nests_within 2 (push_fields c)"
  by (rule push_class.induct) (code_simp+)

lemma unread_nests: "nests_within 2 (unread_fields c)"
  by (rule unread_class.induct) (code_simp+)

lemma class_nests: "nests_within 2 (class_fields c)"
proof (cases c)
  case (ClsUnregistered n)
  have "nests_within 2 fields_ProtoMessage" "nests_within 2 []" by code_simp+
  with ClsUnregistered show ?thesis by simp
qed (simp_all add: request_nests reply_nests push_nests unread_nests)

subsection \<open>Names\<close>

text \<open>
  A name without its underscores and its case: \<open>PROTO_OA_SPOT_EVENT\<close> and \<open>ProtoOASpotEvent\<close> agree.
  Setting the sixth bit folds the case of an ASCII letter and leaves digits alone.
\<close>

fun fold_case :: "char \<Rightarrow> char" where
  "fold_case (Char b0 b1 b2 b3 b4 b5 b6 b7) = Char b0 b1 b2 b3 b4 (b5 \<or> b6) b6 b7"

definition squash :: "string \<Rightarrow> string" where
  "squash s = map fold_case (filter (\<lambda>c. c \<noteq> CHR ''_'') s)"

text \<open>The payload types whose class is named differently.\<close>

definition irregular_names :: "(string \<times> string) list" where
  "irregular_names =
     [(''PROTO_OA_TRADER_UPDATE_EVENT'', ''ProtoOATraderUpdatedEvent''),
      (''PROTO_OA_GET_ACCOUNTS_BY_ACCESS_TOKEN_REQ'', ''ProtoOAGetAccountListByAccessTokenReq''),
      (''PROTO_OA_GET_ACCOUNTS_BY_ACCESS_TOKEN_RES'', ''ProtoOAGetAccountListByAccessTokenRes''),
      (''PROTO_OA_SYMBOL_CATEGORY_REQ'', ''ProtoOASymbolCategoryListReq''),
      (''PROTO_OA_SYMBOL_CATEGORY_RES'', ''ProtoOASymbolCategoryListRes''),
      (''PROTO_OA_GET_DYNAMIC_LEVERAGE_REQ'', ''ProtoOAGetDynamicLeverageByIDReq''),
      (''PROTO_OA_GET_DYNAMIC_LEVERAGE_RES'', ''ProtoOAGetDynamicLeverageByIDRes'')]"

definition named_alike :: "string \<Rightarrow> string \<Rightarrow> bool" where
  "named_alike n c \<longleftrightarrow> squash n = squash c \<or> squash (''Proto'' @ n) = squash c \<or> List.member irregular_names (n, c)"

lemma registry_follows_payload_types:
  "list_all2 (\<lambda>(n, v) (k, c). k = v \<and> named_alike n (class_name c))
     (drop 1 members_ProtoPayloadType @ members_ProtoOAPayloadType) payload_type_to_class"
  by code_simp

text \<open>The payload types a message can carry: the envelope's own type is the one member left out.\<close>

definition payload_members :: "(string \<times> int) list" where
  "payload_members = drop 1 members_ProtoPayloadType @ members_ProtoOAPayloadType"

lemma registered_member:
  assumes "(n, v) \<in> set payload_members"
  shows "\<exists>c. get_class v = Some c \<and> named_alike n (class_name c)"
proof -
  from assms registry_follows_payload_types [folded payload_members_def] obtain c where
    "(v, c) \<in> set payload_type_to_class" "named_alike n (class_name c)"
    by (auto simp: list_all2_conv_all_nth in_set_conv_nth split: prod.splits) (metis prod.collapse fst_conv snd_conv nth_mem)
  then show ?thesis using dict_get_in [OF wf_payload_type_to_class] by (auto simp: get_class_def)
qed

lemma registry_keys: "map fst payload_type_to_class = map snd payload_members"
  using registry_follows_payload_types [folded payload_members_def]
  by (auto simp: list_all2_conv_all_nth list_eq_iff_nth_eq split: prod.splits) (metis prod.collapse)

lemma classes_registered:
  "ClsRequest q \<in> snd ` set payload_type_to_class" "ClsReply r \<in> snd ` set payload_type_to_class"
  "ClsPush p \<in> snd ` set payload_type_to_class" "ClsUnread u \<in> snd ` set payload_type_to_class"
  by (cases q, simp_all add: payload_type_to_class_def) (cases r, simp_all, cases p, simp_all, cases u, simp_all)

lemma registry_total: "(\<exists>v. get_class v = Some c) \<longleftrightarrow> (\<nexists>n. c = ClsUnregistered n)"
proof -
  have "(\<exists>v. get_class v = Some c) \<longleftrightarrow> c \<in> snd ` set payload_type_to_class"
    using dict_get_in [OF wf_payload_type_to_class] by (force simp: get_class_def)
  moreover have "ClsUnregistered n \<notin> snd ` set payload_type_to_class" for n by (simp add: payload_type_to_class_def)
  ultimately show ?thesis by (cases c) (simp_all add: classes_registered)
qed

text \<open>
  The messages of the model have the shape of the generated ones. For every request, reply and
  pushed message, the values of its fields, in order, are what its class declares after the payload
  type: none is missing or extra, each is of the declared kind, and sub-messages and lists of
  sub-messages fit their own classes in turn. This compares shapes only: names are not compared, and
  all integer and enumeration types are one kind.
\<close>

theorem messages_fit_schema:
  "typed_fields (tl (class_fields (msg_class (Request q)))) (request_view q) \<and>
   typed_fields (tl (class_fields (msg_class (Reply r)))) (reply_view r) \<and>
   typed_fields (tl (class_fields (msg_class (Push e)))) (push_view e)"
  by (simp add: typed_request_view typed_reply_view typed_push_view)

text \<open>
  The schema is unambiguous. In every message class and every entity, field numbers start at one
  and no two fields share a number or a name, so a tag on the wire names one field; in every
  enumeration no two members share a number.
\<close>

theorem schema_unambiguous:
  "wf_fields (class_fields c) \<and> wf_fields (entity_fields e) \<and> wf_enum (enum_members x)"
  by (simp add: wf_class_fields wf_entity_fields wf_enum_members)

text \<open>
  Messages nest to a bounded depth. Whatever values fit a message class, they hold sub-messages at
  most two levels deep (an execution event holds an order, which holds its trade data), so reading a
  message recurses no deeper.
\<close>

theorem nesting_bounded:
  assumes "typed_fields (class_fields c) vs"
  shows "values_depth vs \<le> 2"
  using assms class_nests by (rule typed_depth(2))

theorem nesting_bounded_witness:
  "values_depth [IntV 2123, IntV 7, sub_message view_ProtoOATrader (Some default_trader)] \<le> 2"
proof (rule nesting_bounded [of "ClsPush Cls_ProtoOATraderUpdatedEvent"])
  show "typed_fields (class_fields (ClsPush Cls_ProtoOATraderUpdatedEvent))
      [IntV 2123, IntV 7, sub_message view_ProtoOATrader (Some default_trader)]"
    by (simp add: fields_ProtoOATraderUpdatedEvent_def typed_simps)
qed

text \<open>
  C28: the hand-written registry agrees with the generated enumeration. The registered payload types
  are exactly the members of \<open>ProtoOAPayloadType\<close> and the two of \<open>ProtoPayloadType\<close> that are not the
  envelope's, in the same order; every member is registered with the class of its own name, up to
  case and underscores, but for the seven the protocol names irregularly; and every generated
  message class but the envelope is registered, so none is refused as unknown.
\<close>

theorem registry_follows_enum:
  "map fst payload_type_to_class = map snd payload_members \<and>
   (\<forall>(n, v) \<in> set payload_members. \<exists>c. get_class v = Some c \<and> named_alike n (class_name c)) \<and>
   ((\<exists>v. get_class v = Some c) \<longleftrightarrow> (\<nexists>n. c = ClsUnregistered n))"
  using registry_keys registered_member registry_total by blast

theorem registry_follows_enum_witness: "get_class 2131 \<noteq> None"
  using registry_follows_enum [THEN conjunct2, THEN conjunct1, THEN bspec, of "(''PROTO_OA_SPOT_EVENT'', 2131)"]
  by (auto simp: payload_members_def members_ProtoOAPayloadType_def)

end
