(* ===== verification/Enum_Wire.thy ===== *)
theory Enum_Wire
  imports Wire_Schema Requests Market_Data
begin

text \<open>
  The client's own enumerations (\<open>enums.py\<close>) against the generated ones: the names of the members, and
  the tables that translate between a member and its number on the wire.
\<close>

subsection \<open>Member names\<close>

primrec execution_type_name :: "execution_type \<Rightarrow> string" where
  "execution_type_name EX_ORDER_ACCEPTED = ''ORDER_ACCEPTED''"
| "execution_type_name EX_ORDER_FILLED = ''ORDER_FILLED''"
| "execution_type_name EX_ORDER_REPLACED = ''ORDER_REPLACED''"
| "execution_type_name EX_ORDER_CANCELLED = ''ORDER_CANCELLED''"
| "execution_type_name EX_ORDER_EXPIRED = ''ORDER_EXPIRED''"
| "execution_type_name EX_ORDER_REJECTED = ''ORDER_REJECTED''"
| "execution_type_name EX_ORDER_CANCEL_REJECTED = ''ORDER_CANCEL_REJECTED''"
| "execution_type_name EX_ORDER_PARTIAL_FILL = ''ORDER_PARTIAL_FILL''"
| "execution_type_name EX_SWAP = ''SWAP''"
| "execution_type_name EX_DEPOSIT_WITHDRAW = ''DEPOSIT_WITHDRAW''"
| "execution_type_name EX_BONUS_DEPOSIT_WITHDRAW = ''BONUS_DEPOSIT_WITHDRAW''"

primrec order_side_name :: "order_side \<Rightarrow> string" where
  "order_side_name BUY = ''BUY''"
| "order_side_name SELL = ''SELL''"

primrec order_type_name :: "order_type \<Rightarrow> string" where
  "order_type_name OT_MARKET = ''MARKET''"
| "order_type_name OT_LIMIT = ''LIMIT''"
| "order_type_name OT_STOP = ''STOP''"
| "order_type_name OT_STOP_LIMIT = ''STOP_LIMIT''"
| "order_type_name OT_MARKET_RANGE = ''MARKET_RANGE''"
| "order_type_name OT_STOP_LOSS_TAKE_PROFIT = ''STOP_LOSS_TAKE_PROFIT''"

primrec order_status_name :: "order_status \<Rightarrow> string" where
  "order_status_name OS_ACCEPTED = ''ACCEPTED''"
| "order_status_name OS_FILLED = ''FILLED''"
| "order_status_name OS_REJECTED = ''REJECTED''"
| "order_status_name OS_EXPIRED = ''EXPIRED''"
| "order_status_name OS_CANCELLED = ''CANCELLED''"

primrec position_status_name :: "position_status \<Rightarrow> string" where
  "position_status_name PS_OPEN = ''OPEN''"
| "position_status_name PS_CLOSED = ''CLOSED''"
| "position_status_name PS_CREATED = ''CREATED''"
| "position_status_name PS_ERROR = ''ERROR''"

primrec time_in_force_name :: "time_in_force \<Rightarrow> string" where
  "time_in_force_name GOOD_TILL_CANCEL = ''GOOD_TILL_CANCEL''"
| "time_in_force_name GOOD_TILL_DATE = ''GOOD_TILL_DATE''"
| "time_in_force_name IMMEDIATE_OR_CANCEL = ''IMMEDIATE_OR_CANCEL''"
| "time_in_force_name FILL_OR_KILL = ''FILL_OR_KILL''"
| "time_in_force_name MARKET_ON_OPEN = ''MARKET_ON_OPEN''"

primrec deal_status_name :: "deal_status \<Rightarrow> string" where
  "deal_status_name DS_FILLED = ''FILLED''"
| "deal_status_name DS_PARTIALLY_FILLED = ''PARTIALLY_FILLED''"
| "deal_status_name DS_REJECTED = ''REJECTED''"
| "deal_status_name DS_INTERNALLY_REJECTED = ''INTERNALLY_REJECTED''"
| "deal_status_name DS_ERROR = ''ERROR''"
| "deal_status_name DS_MISSED = ''MISSED''"

primrec access_rights_name :: "access_rights \<Rightarrow> string" where
  "access_rights_name FULL_ACCESS = ''FULL_ACCESS''"
| "access_rights_name CLOSE_ONLY = ''CLOSE_ONLY''"
| "access_rights_name NO_TRADING = ''NO_TRADING''"
| "access_rights_name NO_LOGIN = ''NO_LOGIN''"

primrec account_type_name :: "account_type \<Rightarrow> string" where
  "account_type_name HEDGED = ''HEDGED''"
| "account_type_name NETTED = ''NETTED''"
| "account_type_name SPREAD_BETTING = ''SPREAD_BETTING''"

primrec trading_mode_name :: "trading_mode \<Rightarrow> string" where
  "trading_mode_name TM_ENABLED = ''ENABLED''"
| "trading_mode_name TM_DISABLED_WITHOUT_PENDINGS_EXECUTION = ''DISABLED_WITHOUT_PENDINGS_EXECUTION''"
| "trading_mode_name TM_DISABLED_WITH_PENDINGS_EXECUTION = ''DISABLED_WITH_PENDINGS_EXECUTION''"
| "trading_mode_name TM_CLOSE_ONLY = ''CLOSE_ONLY''"

primrec trendbar_period_name :: "trendbar_period \<Rightarrow> string" where
  "trendbar_period_name M1 = ''M1''"
| "trendbar_period_name M2 = ''M2''"
| "trendbar_period_name M3 = ''M3''"
| "trendbar_period_name M4 = ''M4''"
| "trendbar_period_name M5 = ''M5''"
| "trendbar_period_name M10 = ''M10''"
| "trendbar_period_name M15 = ''M15''"
| "trendbar_period_name M30 = ''M30''"
| "trendbar_period_name H1 = ''H1''"
| "trendbar_period_name H4 = ''H4''"
| "trendbar_period_name H12 = ''H12''"
| "trendbar_period_name D1 = ''D1''"
| "trendbar_period_name W1 = ''W1''"
| "trendbar_period_name MN1 = ''MN1''"

primrec stop_trigger_method_name :: "stop_trigger_method \<Rightarrow> string" where
  "stop_trigger_method_name TRADE = ''TRADE''"
| "stop_trigger_method_name OPPOSITE = ''OPPOSITE''"
| "stop_trigger_method_name DOUBLE_TRADE = ''DOUBLE_TRADE''"
| "stop_trigger_method_name DOUBLE_OPPOSITE = ''DOUBLE_OPPOSITE''"


subsection \<open>Translation tables\<close>

text \<open>
  A decoding table covers a wire enumeration: entry by entry it holds the number of a member and the
  client's member of that name.
\<close>

locale wire_enum =
  fixes members :: "(string \<times> int) list" and decode :: "(int, 'm) dict" and wire_name :: "'m \<Rightarrow> string"
  assumes covers: "list_all2 (\<lambda>(n, v) (k, m). k = v \<and> n = wire_name m) members decode"
    and unambiguous: "distinct (map snd members)"
    and telling: "wire_name m = wire_name m' \<Longrightarrow> m = m'"
begin

lemma aligned:
  "length decode = length members"
  "i < length members \<Longrightarrow> fst (decode ! i) = snd (members ! i) \<and> fst (members ! i) = wire_name (snd (decode ! i))"
  using covers by (auto simp: list_all2_conv_all_nth case_prod_unfold)

lemma keys: "map fst decode = map snd members"
  by (simp add: list_eq_iff_nth_eq aligned)

lemma wf: "wf_dict decode"
  using unambiguous by (simp add: wf_dict_def keys)

lemma entries: "(v, m) \<in> set decode \<longleftrightarrow> (wire_name m, v) \<in> set members"
  unfolding in_set_conv_nth by (metis aligned telling prod.collapse fst_conv snd_conv)

text \<open>A number decodes to a member exactly when the wire enumeration gives that number to its name.\<close>

lemma decode_iff: "dict_get decode v = Some m \<longleftrightarrow> (wire_name m, v) \<in> set members"
  using dict_get_in [OF wf] by (simp add: entries [symmetric])

lemma decode_injective: "dict_get decode v = Some m \<Longrightarrow> dict_get decode v' = Some m \<Longrightarrow>
    distinct (map fst members) \<Longrightarrow> v = v'"
  by (simp add: decode_iff eq_key_imp_eq_value)

lemma decode_total: "(n, v) \<in> set members \<Longrightarrow> \<exists>m. dict_get decode v = Some m \<and> wire_name m = n"
  unfolding decode_iff in_set_conv_nth by (metis aligned(2) fst_conv)

end

text \<open>An encoding table beside the decoding one.\<close>

locale wire_codec = wire_enum members decode wire_name
  for members :: "(string \<times> int) list" and decode :: "(int, 'm) dict" and wire_name :: "'m \<Rightarrow> string" +
  fixes encode :: "('m, int) dict"
  assumes inverse: "dict_get decode (index encode m) = Some m"
begin

lemma encode_iff: "(wire_name m, index encode m) \<in> set members"
  using inverse by (simp add: decode_iff)

end

text \<open>The wire names of the members that differ from the client's.\<close>

definition trading_mode_wire :: "trading_mode \<Rightarrow> string" where
  "trading_mode_wire m = (if m = TM_CLOSE_ONLY then ''CLOSE_ONLY_MODE'' else trading_mode_name m)"

definition order_status_wire :: "order_status \<Rightarrow> string" where
  "order_status_wire m = ''ORDER_STATUS_'' @ order_status_name m"

definition position_status_wire :: "position_status \<Rightarrow> string" where
  "position_status_wire m = ''POSITION_STATUS_'' @ position_status_name m"

interpretation ot: wire_codec members_ProtoOAOrderType ORDER_TYPE_MAP order_type_name ORDER_TYPE_TO_PROTO
proof unfold_locales
  show "list_all2 (\<lambda>(n, v) (k, m). k = v \<and> n = order_type_name m) members_ProtoOAOrderType ORDER_TYPE_MAP" by code_simp
  show "distinct (map snd members_ProtoOAOrderType)" by code_simp
next
  fix m m' :: order_type
  show "order_type_name m = order_type_name m' \<Longrightarrow> m = m'" by (cases m; cases m'; simp)
next
  fix m :: order_type
  show "dict_get ORDER_TYPE_MAP (index ORDER_TYPE_TO_PROTO m) = Some m" by (cases m) (simp_all add: index_def ORDER_TYPE_MAP_def ORDER_TYPE_TO_PROTO_def)
qed

interpretation os: wire_enum members_ProtoOAOrderStatus ORDER_STATUS_MAP order_status_wire
proof unfold_locales
  show "list_all2 (\<lambda>(n, v) (k, m). k = v \<and> n = order_status_wire m) members_ProtoOAOrderStatus ORDER_STATUS_MAP" by code_simp
  show "distinct (map snd members_ProtoOAOrderStatus)" by code_simp
next
  fix m m' :: order_status
  show "order_status_wire m = order_status_wire m' \<Longrightarrow> m = m'" by (cases m; cases m'; simp add: order_status_wire_def)
qed

interpretation tif: wire_codec members_ProtoOATimeInForce TIME_IN_FORCE_MAP time_in_force_name TIME_IN_FORCE_TO_PROTO
proof unfold_locales
  show "list_all2 (\<lambda>(n, v) (k, m). k = v \<and> n = time_in_force_name m) members_ProtoOATimeInForce TIME_IN_FORCE_MAP" by code_simp
  show "distinct (map snd members_ProtoOATimeInForce)" by code_simp
next
  fix m m' :: time_in_force
  show "time_in_force_name m = time_in_force_name m' \<Longrightarrow> m = m'" by (cases m; cases m'; simp)
next
  fix m :: time_in_force
  show "dict_get TIME_IN_FORCE_MAP (index TIME_IN_FORCE_TO_PROTO m) = Some m" by (cases m) (simp_all add: index_def TIME_IN_FORCE_MAP_def TIME_IN_FORCE_TO_PROTO_def)
qed

interpretation trg: wire_codec members_ProtoOAOrderTriggerMethod TRIGGER_METHOD_MAP stop_trigger_method_name TRIGGER_TO_PROTO
proof unfold_locales
  show "list_all2 (\<lambda>(n, v) (k, m). k = v \<and> n = stop_trigger_method_name m) members_ProtoOAOrderTriggerMethod TRIGGER_METHOD_MAP" by code_simp
  show "distinct (map snd members_ProtoOAOrderTriggerMethod)" by code_simp
next
  fix m m' :: stop_trigger_method
  show "stop_trigger_method_name m = stop_trigger_method_name m' \<Longrightarrow> m = m'" by (cases m; cases m'; simp)
next
  fix m :: stop_trigger_method
  show "dict_get TRIGGER_METHOD_MAP (index TRIGGER_TO_PROTO m) = Some m" by (cases m) (simp_all add: index_def TRIGGER_METHOD_MAP_def TRIGGER_TO_PROTO_def)
qed

interpretation ptrg: wire_enum members_ProtoOAOrderTriggerMethod POSITION_TRIGGER_METHOD_MAP stop_trigger_method_name
proof unfold_locales
  show "list_all2 (\<lambda>(n, v) (k, m). k = v \<and> n = stop_trigger_method_name m) members_ProtoOAOrderTriggerMethod POSITION_TRIGGER_METHOD_MAP"
    by (simp add: members_ProtoOAOrderTriggerMethod_def POSITION_TRIGGER_METHOD_MAP_def)
  show "distinct (map snd members_ProtoOAOrderTriggerMethod)" by code_simp
next
  fix m m' :: stop_trigger_method
  show "stop_trigger_method_name m = stop_trigger_method_name m' \<Longrightarrow> m = m'" by (cases m; cases m'; simp)
qed

interpretation ps: wire_enum members_ProtoOAPositionStatus POSITION_STATUS_MAP position_status_wire
proof unfold_locales
  show "list_all2 (\<lambda>(n, v) (k, m). k = v \<and> n = position_status_wire m) members_ProtoOAPositionStatus POSITION_STATUS_MAP" by code_simp
  show "distinct (map snd members_ProtoOAPositionStatus)" by code_simp
next
  fix m m' :: position_status
  show "position_status_wire m = position_status_wire m' \<Longrightarrow> m = m'" by (cases m; cases m'; simp add: position_status_wire_def)
qed

interpretation ds: wire_enum members_ProtoOADealStatus DEAL_STATUS_MAP deal_status_name
proof unfold_locales
  show "list_all2 (\<lambda>(n, v) (k, m). k = v \<and> n = deal_status_name m) members_ProtoOADealStatus DEAL_STATUS_MAP" by code_simp
  show "distinct (map snd members_ProtoOADealStatus)" by code_simp
next
  fix m m' :: deal_status
  show "deal_status_name m = deal_status_name m' \<Longrightarrow> m = m'" by (cases m; cases m'; simp)
qed

interpretation tm: wire_enum members_ProtoOATradingMode TRADING_MODE_MAP trading_mode_wire
proof unfold_locales
  show "list_all2 (\<lambda>(n, v) (k, m). k = v \<and> n = trading_mode_wire m) members_ProtoOATradingMode TRADING_MODE_MAP" by code_simp
  show "distinct (map snd members_ProtoOATradingMode)" by code_simp
next
  fix m m' :: trading_mode
  show "trading_mode_wire m = trading_mode_wire m' \<Longrightarrow> m = m'" by (cases m; cases m'; simp add: trading_mode_wire_def)
qed

interpretation acc: wire_enum members_ProtoOAAccountType ACCOUNT_TYPE_MAP account_type_name
proof unfold_locales
  show "list_all2 (\<lambda>(n, v) (k, m). k = v \<and> n = account_type_name m) members_ProtoOAAccountType ACCOUNT_TYPE_MAP" by code_simp
  show "distinct (map snd members_ProtoOAAccountType)" by code_simp
next
  fix m m' :: account_type
  show "account_type_name m = account_type_name m' \<Longrightarrow> m = m'" by (cases m; cases m'; simp)
qed

interpretation acr: wire_enum members_ProtoOAAccessRights ACCESS_RIGHTS_MAP access_rights_name
proof unfold_locales
  show "list_all2 (\<lambda>(n, v) (k, m). k = v \<and> n = access_rights_name m) members_ProtoOAAccessRights ACCESS_RIGHTS_MAP" by code_simp
  show "distinct (map snd members_ProtoOAAccessRights)" by code_simp
next
  fix m m' :: access_rights
  show "access_rights_name m = access_rights_name m' \<Longrightarrow> m = m'" by (cases m; cases m'; simp)
qed

interpretation per: wire_codec members_ProtoOATrendbarPeriod PERIOD_MAP trendbar_period_name PERIOD_TO_PROTO
proof unfold_locales
  show "list_all2 (\<lambda>(n, v) (k, m). k = v \<and> n = trendbar_period_name m) members_ProtoOATrendbarPeriod PERIOD_MAP" by code_simp
  show "distinct (map snd members_ProtoOATrendbarPeriod)" by code_simp
next
  fix m m' :: trendbar_period
  show "trendbar_period_name m = trendbar_period_name m' \<Longrightarrow> m = m'" by (cases m; cases m'; simp)
next
  fix m :: trendbar_period
  show "dict_get PERIOD_MAP (index PERIOD_TO_PROTO m) = Some m" by (cases m) (simp_all add: index_def PERIOD_MAP_def PERIOD_TO_PROTO_def)
qed

interpretation ext: wire_enum members_ProtoOAExecutionType EXECUTION_TYPE_MAP execution_type_name
proof unfold_locales
  show "list_all2 (\<lambda>(n, v) (k, m). k = v \<and> n = execution_type_name m) members_ProtoOAExecutionType EXECUTION_TYPE_MAP" by code_simp
  show "distinct (map snd members_ProtoOAExecutionType)" by code_simp
next
  fix m m' :: execution_type
  show "execution_type_name m = execution_type_name m' \<Longrightarrow> m = m'" by (cases m; cases m'; simp)
qed

subsection \<open>Properties\<close>

text \<open>
  C29: every enumeration is decoded exactly. For each of the twelve tables, a number decodes to a member
  if and only if the generated enumeration gives that number to the member of the same name (with
  the prefix or suffix the protocol adds); so every declared value is understood, as what it says,
  and no undeclared one is.
\<close>

theorem enums_decoded_exactly:
  "(dict_get ORDER_TYPE_MAP v = Some ot \<longleftrightarrow> (order_type_name ot, v) \<in> set members_ProtoOAOrderType) \<and>
   (dict_get ORDER_STATUS_MAP v = Some os \<longleftrightarrow> (''ORDER_STATUS_'' @ order_status_name os, v) \<in> set members_ProtoOAOrderStatus) \<and>
   (dict_get TIME_IN_FORCE_MAP v = Some tif \<longleftrightarrow> (time_in_force_name tif, v) \<in> set members_ProtoOATimeInForce) \<and>
   (dict_get TRIGGER_METHOD_MAP v = Some tr \<longleftrightarrow> (stop_trigger_method_name tr, v) \<in> set members_ProtoOAOrderTriggerMethod) \<and>
   (dict_get POSITION_TRIGGER_METHOD_MAP v = Some pt \<longleftrightarrow> (stop_trigger_method_name pt, v) \<in> set members_ProtoOAOrderTriggerMethod) \<and>
   (dict_get POSITION_STATUS_MAP v = Some ps \<longleftrightarrow>
      (''POSITION_STATUS_'' @ position_status_name ps, v) \<in> set members_ProtoOAPositionStatus) \<and>
   (dict_get DEAL_STATUS_MAP v = Some ds \<longleftrightarrow> (deal_status_name ds, v) \<in> set members_ProtoOADealStatus) \<and>
   (dict_get TRADING_MODE_MAP v = Some tm \<longleftrightarrow> (trading_mode_wire tm, v) \<in> set members_ProtoOATradingMode) \<and>
   (dict_get ACCOUNT_TYPE_MAP v = Some act \<longleftrightarrow> (account_type_name act, v) \<in> set members_ProtoOAAccountType) \<and>
   (dict_get ACCESS_RIGHTS_MAP v = Some ar \<longleftrightarrow> (access_rights_name ar, v) \<in> set members_ProtoOAAccessRights) \<and>
   (dict_get PERIOD_MAP v = Some p \<longleftrightarrow> (trendbar_period_name p, v) \<in> set members_ProtoOATrendbarPeriod) \<and>
   (dict_get EXECUTION_TYPE_MAP v = Some et \<longleftrightarrow> (execution_type_name et, v) \<in> set members_ProtoOAExecutionType)"
  by (intro conjI ot.decode_iff os.decode_iff [unfolded order_status_wire_def] tif.decode_iff trg.decode_iff ptrg.decode_iff
      ps.decode_iff [unfolded position_status_wire_def] ds.decode_iff tm.decode_iff acc.decode_iff acr.decode_iff
      per.decode_iff ext.decode_iff)

text \<open>
  What the client sends is what it means. The number it puts on the wire for an order type, a time in
  force, a trigger method or a trendbar period is the one the generated enumeration gives to the
  member of the same name, and reading it back gives the member again.
\<close>

theorem enums_encoded_exactly:
  "(order_type_name ot, index ORDER_TYPE_TO_PROTO ot) \<in> set members_ProtoOAOrderType \<and>
   (time_in_force_name tif, index TIME_IN_FORCE_TO_PROTO tif) \<in> set members_ProtoOATimeInForce \<and>
   (stop_trigger_method_name tr, index TRIGGER_TO_PROTO tr) \<in> set members_ProtoOAOrderTriggerMethod \<and>
   (trendbar_period_name p, index PERIOD_TO_PROTO p) \<in> set members_ProtoOATrendbarPeriod \<and>
   dict_get ORDER_TYPE_MAP (index ORDER_TYPE_TO_PROTO ot) = Some ot \<and>
   dict_get TIME_IN_FORCE_MAP (index TIME_IN_FORCE_TO_PROTO tif) = Some tif \<and>
   dict_get TRIGGER_METHOD_MAP (index TRIGGER_TO_PROTO tr) = Some tr \<and>
   dict_get PERIOD_MAP (index PERIOD_TO_PROTO p) = Some p"
  by (intro conjI ot.encode_iff tif.encode_iff trg.encode_iff per.encode_iff ot.inverse tif.inverse trg.inverse per.inverse)

text \<open>
  The error codes the client tests for are members of the server's enumeration, and the code it makes up
  itself for an unexpected reply is none of the server's.
\<close>

lemma error_codes_declared:
  "TOKEN_ERROR_CODES @ [ALREADY_LOGGED_IN, REQUEST_FREQUENCY_EXCEEDED, SERVER_IS_UNDER_MAINTENANCE] =
     filter (\<lambda>n. n \<in> fst ` set members_ProtoOAErrorCode)
       (TOKEN_ERROR_CODES @ [ALREADY_LOGGED_IN, REQUEST_FREQUENCY_EXCEEDED, SERVER_IS_UNDER_MAINTENANCE])"
  "UNEXPECTED_RESPONSE \<notin> fst ` set (members_ProtoOAErrorCode @ members_ProtoErrorCode)"
  by code_simp+

end
