(* ===== verification/Proto_Build.thy ===== *)
theory Proto_Build
  imports Prelude "HOL-Library.Sublist" "HOL-Library.Char_ord" "HOL-Library.List_Lexorder"
begin

text \<open>
  \<open>scripts/fix_proto_imports.py\<close>: the build step that turns the output of the protobuf compiler into a
  package. A file is its text; the directory is a dictionary from file names to texts. Texts are
  ASCII, so \<open>\w\<close> is a letter, a digit or an underscore and \<open>\s\<close> one of the ASCII blanks. What the
  script prints is left out.
\<close>

subsection \<open>Strings\<close>

text \<open>\<open>needle in text\<close>.\<close>

fun occurs :: "string \<Rightarrow> string \<Rightarrow> bool" where
  "occurs needle [] \<longleftrightarrow> needle = []"
| "occurs needle (c # cs) \<longleftrightarrow> prefix needle (c # cs) \<or> occurs needle cs"

text \<open>\<open>text.replace(old, new)\<close> for a non-empty \<open>old\<close>: from left to right, without overlaps.\<close>

function replace :: "string \<Rightarrow> string \<Rightarrow> string \<Rightarrow> string" where
  "replace old new [] = []"
| "replace old new (c # cs) =
     (if old \<noteq> [] \<and> prefix old (c # cs) then new @ replace old new (drop (length old) (c # cs))
      else c # replace old new cs)"
  by pat_completeness auto
termination
  by (relation "measure (\<lambda>(_, _, s). length s)") (auto simp: prefix_def)

text \<open>\<open>"\n".join(lines) + "\n"\<close>.\<close>

definition unlines :: "string list \<Rightarrow> string" where
  "unlines ls = concat (map (\<lambda>l. l @ ''\<newline>'') ls)"

subsection \<open>Inserting the imports\<close>

definition FIXED_MARK :: string where "FIXED_MARK = ''from .OpenApi''"

definition marker :: string where "marker = ''import betterproto\<newline>''"

definition MODEL_TYPES :: "string list" where
  "MODEL_TYPES =
     [''ProtoOAPayloadType'', ''ProtoOAOrderType'', ''ProtoOATradeSide'', ''ProtoOATimeInForce'', ''ProtoOAExecutionType'',
      ''ProtoOAOrderTriggerMethod'', ''ProtoOATrendbarPeriod'', ''ProtoOAQuoteType'', ''ProtoOAClientPermissionScope'',
      ''ProtoOAPosition'', ''ProtoOAOrder'', ''ProtoOADeal'', ''ProtoOATrader'', ''ProtoOAAsset'', ''ProtoOALightSymbol'',
      ''ProtoOAArchivedSymbol'', ''ProtoOASymbol'', ''ProtoOAAssetClass'', ''ProtoOASymbolCategory'', ''ProtoOATrendbar'',
      ''ProtoOATickData'', ''ProtoOADepthQuote'', ''ProtoOACtidTraderAccount'', ''ProtoOACtidProfile'',
      ''ProtoOAExpectedMargin'', ''ProtoOADepositWithdraw'', ''ProtoOABonusDepositWithdraw'', ''ProtoOAMarginCall'',
      ''ProtoOADynamicLeverage'', ''ProtoOADealOffset'', ''ProtoOAPositionUnrealizedPnL'']"

definition IMPORTS_FOR_MESSAGES :: string where
  "IMPORTS_FOR_MESSAGES = unlines
     ([''from .OpenApiModelMessages import (''] @ map (\<lambda>n. ''    '' @ n @ '','') MODEL_TYPES @ ['')''])"

definition IMPORTS_FOR_COMMON_MESSAGES :: string where
  "IMPORTS_FOR_COMMON_MESSAGES = unlines [''from .OpenApiCommonModelMessages import ProtoPayloadType'']"

definition fix_file :: "string \<Rightarrow> string \<Rightarrow> string" where
  "fix_file imports content =
     (if occurs FIXED_MARK content then content
      else if occurs marker content then replace marker (marker @ imports) content
      else content)"

subsection \<open>The exports of a module\<close>

definition is_word :: "char \<Rightarrow> bool" where
  "is_word c = list_ex (\<lambda>(first, last). first \<le> c \<and> c \<le> last)
     [(CHR ''_'', CHR ''_''), (CHR ''0'', CHR ''9''), (CHR ''A'', CHR ''Z''), (CHR ''a'', CHR ''z'')]"

definition is_space :: "char \<Rightarrow> bool" where
  "is_space c \<longleftrightarrow> c \<in> {CHR '' '', CHR 0x09, CHR 0x0A, CHR 0x0B, CHR 0x0C, CHR 0x0D, CHR 0x1C, CHR 0x1D, CHR 0x1E, CHR 0x1F}"

text \<open>
  The pattern \<open>class\s+(\w+)\s*[\(:]\<close> at the front of a text: the name and what follows the match. The
  three character classes are disjoint, so the greedy match is the only one.
\<close>

definition match_class :: "string \<Rightarrow> (string \<times> string) option" where
  "match_class s =
     (if \<not> prefix ''class'' s then None
      else let s1 = drop 5 s; s2 = dropWhile is_space s1; name = takeWhile is_word s2;
               s3 = dropWhile is_space (dropWhile is_word s2) in
        if s1 = s2 \<or> name = [] then None
        else case s3 of [] \<Rightarrow> None | c # rest \<Rightarrow> if c = CHR ''('' \<or> c = CHR '':'' then Some (name, rest) else None)"

lemma match_class_shorter: "match_class s = Some (name, rest) \<Longrightarrow> length rest < length s"
proof -
  assume "match_class s = Some (name, rest)"
  then obtain c where "dropWhile is_space (dropWhile is_word (dropWhile is_space (drop 5 s))) = c # rest"
    by (auto simp: match_class_def Let_def split: if_splits list.splits)
  then have "Suc (length rest) \<le> length s"
    by (metis length_Cons length_dropWhile_le length_drop diff_le_self order_trans)
  then show ?thesis by simp
qed

text \<open>\<open>re.findall\<close> with \<open>^\<close> in \<open>re.MULTILINE\<close>: a match may start where a line does.\<close>

function find_classes :: "bool \<Rightarrow> string \<Rightarrow> string list" where
  "find_classes line_start [] = []"
| "find_classes line_start (c # cs) =
     (case (if line_start then match_class (c # cs) else None) of
        Some (name, rest) \<Rightarrow> name # find_classes False rest
      | None \<Rightarrow> find_classes (c = CHR ''\<newline>'') cs)"
  by pat_completeness auto
termination
  by (relation "measure (\<lambda>(_, s). length s)") (auto dest: match_class_shorter split: if_splits)

definition extract_exports :: "string \<Rightarrow> string list" where
  "extract_exports content = find_classes True content"

subsection \<open>The package file\<close>

definition modules :: "string list" where
  "modules = [''OpenApiCommonModelMessages'', ''OpenApiCommonMessages'', ''OpenApiModelMessages'', ''OpenApiMessages'']"

type_synonym directory = "(string, string) dict"

definition all_exports :: "directory \<Rightarrow> (string \<times> string list) list" where
  "all_exports d = concat (map (\<lambda>m. case dict_get d (m @ ''.py'') of None \<Rightarrow> [] | Some content \<Rightarrow> [(m, extract_exports content)]) modules)"

definition import_block :: "string \<times> string list \<Rightarrow> string list" where
  "import_block e = (case e of (m, exports) \<Rightarrow>
     if exports = [] then []
     else [''from .'' @ m @ '' import (''] @ map (\<lambda>n. ''    '' @ n @ '','') (sort exports) @ ['')'', ''''])"

definition init_lines :: "(string \<times> string list) list \<Rightarrow> string list" where
  "init_lines es =
     [CHR 0x22 # CHR 0x22 # CHR 0x22 # ''Generated protobuf messages for cTrader Open API.'' @ [CHR 0x22, CHR 0x22, CHR 0x22], ''''] @
     concat (map import_block es) @
     [''__all__ = [''] @ map (\<lambda>n. ''    '' @ [CHR 0x22] @ n @ [CHR 0x22] @ '','') (sort (concat (map snd es))) @ ['']'']"

definition create_init :: "directory \<Rightarrow> directory" where
  "create_init d = dict_set ''__init__.py'' (unlines (init_lines (all_exports d))) d"

definition fix_entry :: "string \<Rightarrow> string \<Rightarrow> directory \<Rightarrow> directory" where
  "fix_entry name imports d =
     (case dict_get d name of None \<Rightarrow> d | Some content \<Rightarrow> dict_set name (fix_file imports content) d)"

definition main :: "directory \<Rightarrow> directory" where
  "main d = create_init (fix_entry ''OpenApiCommonMessages.py'' IMPORTS_FOR_COMMON_MESSAGES
     (fix_entry ''OpenApiMessages.py'' IMPORTS_FOR_MESSAGES d))"

subsection \<open>Replacing\<close>

lemma occurs_iff: "occurs needle s \<longleftrightarrow> sublist needle s"
  by (induction s) (auto simp: sublist_Cons_right)

lemma replace_absent: "\<not> occurs old s \<Longrightarrow> replace old new s = s"
  by (induction old new s rule: replace.induct) auto

lemma replace_inserts:
  "old \<noteq> [] \<Longrightarrow> occurs old s \<Longrightarrow> occurs new (replace old new s)"
proof (induction old new s rule: replace.induct)
  case (2 old new c cs)
  then show ?case
    by (cases "prefix old (c # cs)") (auto simp: occurs_iff sublist_Cons_right)
qed simp

text \<open>One occurrence: nothing but the inserted text changes.\<close>

lemma replace_once:
  assumes "old \<noteq> []" "\<not> occurs old (pre @ butlast old)" "\<not> occurs old post"
  shows "replace old new (pre @ old @ post) = pre @ new @ post"
  using assms(2)
proof (induction pre)
  case Nil
  obtain c cs where old: "old = c # cs" using assms(1) by (cases old) auto
  have "replace old new (old @ post) = new @ replace old new post" unfolding old by simp
  then show ?case using assms(3) by (simp add: replace_absent)
next
  case (Cons c pre)
  have "\<not> prefix old ((c # pre) @ old @ post)"
  proof
    assume "prefix old ((c # pre) @ old @ post)"
    moreover have "prefix ((c # pre) @ butlast old) ((c # pre) @ old @ post)"
      by (metis append_butlast_last_id append_assoc assms(1) prefixI)
    moreover have "length old \<le> length ((c # pre) @ butlast old)" using assms(1) by simp
    ultimately have "prefix old ((c # pre) @ butlast old)" using prefix_length_prefix by blast
    with Cons.prems show False by (simp add: occurs_iff prefix_imp_sublist del: append_Cons)
  qed
  with Cons show ?case by simp
qed

lemma fix_file_idempotent:
  assumes "occurs FIXED_MARK imports"
  shows "fix_file imports (fix_file imports content) = fix_file imports content"
proof (cases "occurs FIXED_MARK content \<or> \<not> occurs marker content")
  case False
  then have "occurs (marker @ imports) (fix_file imports content)"
    by (simp add: fix_file_def replace_inserts marker_def)
  with assms have "occurs FIXED_MARK (fix_file imports content)"
    by (meson occurs_iff sublist_append_leftI sublist_order.order.trans)
  then show ?thesis by (simp add: fix_file_def [of _ "fix_file imports content"])
qed (auto simp: fix_file_def)

lemma imports_marked: "occurs FIXED_MARK IMPORTS_FOR_MESSAGES" "occurs FIXED_MARK IMPORTS_FOR_COMMON_MESSAGES"
  by (simp_all add: FIXED_MARK_def IMPORTS_FOR_MESSAGES_def IMPORTS_FOR_COMMON_MESSAGES_def MODEL_TYPES_def unlines_def)

subsection \<open>Running the step again\<close>

lemma dict_set_same: "dict_get d k = Some v \<Longrightarrow> dict_set k v d = d"
  by (induction d) auto

lemma fix_entry_get:
  "dict_get (fix_entry n imports d) m = (if m = n then map_option (fix_file imports) (dict_get d n) else dict_get d m)"
  by (auto simp: fix_entry_def dict_simps split: option.split)

lemma fix_entry_fixed: "(\<And>c. dict_get d n = Some c \<Longrightarrow> fix_file imports c = c) \<Longrightarrow> fix_entry n imports d = d"
  by (auto simp: fix_entry_def dict_set_same split: option.split)

lemma all_exports_cong: "(\<And>m. m \<in> set modules \<Longrightarrow> dict_get d (m @ ''.py'') = dict_get d' (m @ ''.py'')) \<Longrightarrow> all_exports d = all_exports d'"
  by (simp add: all_exports_def cong: map_cong)

lemma create_init_again: "create_init (create_init d) = create_init d"
proof -
  have "all_exports (create_init d) = all_exports d"
    by (rule all_exports_cong) (auto simp: modules_def create_init_def dict_simps)
  then show ?thesis by (simp add: create_init_def [of "create_init d"] dict_set_same) (simp add: create_init_def dict_simps dict_set_same)
qed

text \<open>
  The build step can be run again. Whatever the directory holds, running the script on what it
  left changes nothing: files that have their imports are left alone, and the package file comes out
  the same.
\<close>

theorem main_idempotent: "main (main d) = main d"
proof -
  let ?M = "''OpenApiMessages.py''" and ?C = "''OpenApiCommonMessages.py''"
  have fixed: "fix_file IMPORTS_FOR_MESSAGES c = c" if "dict_get (main d) ?M = Some c" for c
    using that fix_file_idempotent [OF imports_marked(1)] by (auto simp: main_def create_init_def dict_simps fix_entry_get)
  have fixed': "fix_file IMPORTS_FOR_COMMON_MESSAGES c = c" if "dict_get (main d) ?C = Some c" for c
    using that fix_file_idempotent [OF imports_marked(2)] by (auto simp: main_def create_init_def dict_simps fix_entry_get)
  have "main (main d) = create_init (main d)"
    by (simp add: main_def [of "main d"] fix_entry_fixed [OF fixed] fix_entry_fixed [OF fixed'])
  then show ?thesis by (simp add: main_def create_init_again)
qed

subsection \<open>Generated modules\<close>

text \<open>The lines of a generated module: class headers, and lines that do not start with \<open>class\<close>.\<close>

datatype source_line = ClassLine string string | OtherLine string

primrec line_text :: "source_line \<Rightarrow> string" where
  "line_text (ClassLine name bases) = ''class '' @ name @ ''('' @ bases @ ''):''"
| "line_text (OtherLine l) = l"

primrec wf_line :: "source_line \<Rightarrow> bool" where
  "wf_line (ClassLine name bases) \<longleftrightarrow> name \<noteq> [] \<and> list_all is_word name \<and> CHR ''\<newline>'' \<notin> set bases"
| "wf_line (OtherLine l) \<longleftrightarrow> CHR ''\<newline>'' \<notin> set l \<and> \<not> prefix ''class'' l"

primrec declared_in :: "source_line \<Rightarrow> string list" where
  "declared_in (ClassLine name bases) = [name]"
| "declared_in (OtherLine l) = []"

definition module_text :: "source_line list \<Rightarrow> string" where
  "module_text ls = unlines (map line_text ls)"

definition declared :: "source_line list \<Rightarrow> string list" where
  "declared ls = concat (map declared_in ls)"

lemma module_text_simps [simp]:
  "module_text [] = []" "module_text (l # ls) = line_text l @ CHR ''\<newline>'' # module_text ls"
  "module_text (ls @ ls') = module_text ls @ module_text ls'"
  by (simp_all add: module_text_def unlines_def)

lemma declared_simps [simp]:
  "declared [] = []" "declared (l # ls) = declared_in l @ declared ls" "declared (ls @ ls') = declared ls @ declared ls'"
  by (simp_all add: declared_def)

lemma find_classes_rest: "CHR ''\<newline>'' \<notin> set l \<Longrightarrow> find_classes False (l @ CHR ''\<newline>'' # rest) = find_classes True rest"
proof (induction l)
  case (Cons a l)
  then have "(a = CHR ''\<newline>'') = False" by auto
  with Cons show ?case by simp
qed simp

lemma find_classes_other:
  assumes "CHR ''\<newline>'' \<notin> set l" "\<not> prefix ''class'' l"
  shows "find_classes True (l @ CHR ''\<newline>'' # rest) = find_classes True rest"
proof (cases l)
  case (Cons c cs)
  have "\<not> prefix ''class'' (l @ CHR ''\<newline>'' # rest)"
  proof
    assume "prefix ''class'' (l @ CHR ''\<newline>'' # rest)"
    with assms(2) obtain zs where "''class'' = l @ zs" "prefix zs (CHR ''\<newline>'' # rest)" "zs \<noteq> []"
      by (auto simp: prefix_append)
    then have "CHR ''\<newline>'' \<in> set ''class''" by (cases zs) auto
    then show False by simp
  qed
  then have "match_class (l @ CHR ''\<newline>'' # rest) = None" by (simp add: match_class_def)
  moreover have "(c = CHR ''\<newline>'') = False" using assms(1) Cons by auto
  ultimately show ?thesis using Cons assms(1) find_classes_rest [of cs rest] by simp
qed (simp add: match_class_def)

lemma is_word_disjoint [simp]: "is_word c \<Longrightarrow> \<not> is_space c" "\<not> is_word (CHR ''('')" "\<not> is_space (CHR ''('')" "is_space (CHR '' '')"
  by (auto simp: is_word_def is_space_def)

lemma match_class_line:
  assumes "name \<noteq> []" "list_all is_word name"
  shows "match_class (''class '' @ name @ ''('' @ rest) = Some (name, rest)"
proof -
  have "dropWhile is_space (name @ CHR ''('' # rest) = name @ CHR ''('' # rest"
    using assms by (cases name) auto
  moreover have "takeWhile is_word (name @ CHR ''('' # rest) = name" "dropWhile is_word (name @ CHR ''('' # rest) = CHR ''('' # rest"
    using assms(2) by (simp_all add: takeWhile_append2 dropWhile_append2 list_all_iff)
  ultimately show ?thesis using assms(1) by (simp add: match_class_def Let_def)
qed

lemma find_classes_module: "list_all wf_line ls \<Longrightarrow> find_classes True (module_text ls) = declared ls"
proof (induction ls)
  case (Cons l ls)
  show ?case
  proof (cases l)
    case (ClassLine name bases)
    have "find_classes True (module_text (l # ls)) =
        name # find_classes False ((bases @ ''):'') @ CHR ''\<newline>'' # module_text ls)"
      using match_class_line [of name "(bases @ ''):'') @ CHR ''\<newline>'' # module_text ls"] Cons.prems ClassLine by simp
    then show ?thesis using Cons find_classes_rest [of "bases @ ''):''" "module_text ls"] ClassLine by simp
  next
    case (OtherLine t)
    with Cons find_classes_other [of t "module_text ls"] show ?thesis by simp
  qed
qed simp

text \<open>The inserted imports are lines that declare nothing.\<close>

definition inert :: "string \<Rightarrow> bool" where
  "inert text \<longleftrightarrow> (\<exists>ls. text = unlines ls \<and> list_all (\<lambda>l. wf_line (OtherLine l)) ls)"

lemma inert_imports: "inert IMPORTS_FOR_MESSAGES" "inert IMPORTS_FOR_COMMON_MESSAGES"
  unfolding inert_def IMPORTS_FOR_MESSAGES_def IMPORTS_FOR_COMMON_MESSAGES_def
  by (rule exI, rule conjI [OF refl], simp add: MODEL_TYPES_def)+

lemma inert_lines: "inert text \<Longrightarrow> \<exists>ls. text = module_text ls \<and> list_all wf_line ls \<and> declared ls = []"
proof -
  assume "inert text"
  then obtain ls where "text = unlines ls" "list_all (\<lambda>l. wf_line (OtherLine l)) ls" by (auto simp: inert_def)
  moreover have "declared (map OtherLine ls) = []" by (induction ls) simp_all
  ultimately show ?thesis
    by (intro exI [of _ "map OtherLine ls"]) (auto simp: module_text_def comp_def list_all_iff)
qed

text \<open>What the compiler writes: well-formed lines, among them one that imports the runtime.\<close>

definition generated :: "source_line list \<Rightarrow> bool" where
  "generated ls \<longleftrightarrow> list_all wf_line ls \<and>
     (\<exists>ls1 ls2. ls = ls1 @ OtherLine ''import betterproto'' # ls2 \<and>
        \<not> occurs marker (module_text ls1 @ butlast marker) \<and> \<not> occurs marker (module_text ls2))"

lemma fix_file_generated:
  assumes "generated ls" "inert imports"
  shows "\<exists>ls'. fix_file imports (module_text ls) = module_text ls' \<and> list_all wf_line ls' \<and> declared ls' = declared ls"
proof (cases "occurs FIXED_MARK (module_text ls)")
  case True
  then show ?thesis using assms(1) by (auto simp: fix_file_def generated_def)
next
  case False
  obtain ls1 ls2 where ls: "ls = ls1 @ OtherLine ''import betterproto'' # ls2" "list_all wf_line ls"
    and once: "\<not> occurs marker (module_text ls1 @ butlast marker)" "\<not> occurs marker (module_text ls2)"
    using assms(1) by (auto simp: generated_def)
  obtain new where new: "imports = module_text new" "list_all wf_line new" "declared new = []" using inert_lines [OF assms(2)] by blast
  have whole: "module_text ls = module_text ls1 @ marker @ module_text ls2" by (simp add: ls marker_def)
  moreover have "occurs marker (module_text ls)" by (simp add: whole occurs_iff sublist_appendI)
  ultimately have "fix_file imports (module_text ls) = module_text ls1 @ (marker @ imports) @ module_text ls2"
    using False replace_once [OF _ once, of "marker @ imports"] by (simp add: fix_file_def marker_def)
  also have "\<dots> = module_text (ls1 @ OtherLine ''import betterproto'' # new @ ls2)" by (simp add: new(1) marker_def)
  finally show ?thesis using ls new by (intro exI [of _ "ls1 @ OtherLine ''import betterproto'' # new @ ls2"]) simp
qed

subsection \<open>Reading the package file\<close>

text \<open>
  A reader of the little language package files are written in: a docstring line, blank lines,
  parenthesised imports of one name a line from a sibling module, and the list \<open>__all__\<close>, one quoted
  name a line. Any other line is a syntax error. It returns what is imported from where, and what is
  listed.
\<close>

definition is_name :: "string \<Rightarrow> bool" where
  "is_name n \<longleftrightarrow> n \<noteq> [] \<and> list_all is_word n"

definition between :: "string \<Rightarrow> string \<Rightarrow> string \<Rightarrow> string option" where
  "between before after l =
     (let n = takeWhile is_word (drop (length before) l) in if is_name n \<and> l = before @ n @ after then Some n else None)"

datatype package_part = Top | Importing string | Listing

fun read_package :: "package_part \<Rightarrow> string list \<Rightarrow> ((string \<times> string) list \<times> string list) option" where
  "read_package part [] = (if part = Top then Some ([], []) else None)"
| "read_package Top (l # ls) =
     (if l = [] \<or> prefix [CHR 0x22, CHR 0x22, CHR 0x22] l \<and> CHR ''\<newline>'' \<notin> set l then read_package Top ls
      else if l = ''__all__ = ['' then read_package Listing ls
      else case between ''from .'' '' import ('' l of Some m \<Rightarrow> read_package (Importing m) ls | None \<Rightarrow> None)"
| "read_package (Importing m) (l # ls) =
     (if l = '')'' then read_package Top ls
      else case between ''    '' '','' l of
        Some n \<Rightarrow> map_option (\<lambda>(imported, listed). ((m, n) # imported, listed)) (read_package (Importing m) ls)
      | None \<Rightarrow> None)"
| "read_package Listing (l # ls) =
     (if l = '']'' then read_package Top ls
      else case between (''    '' @ [CHR 0x22]) (CHR 0x22 # '','') l of
        Some n \<Rightarrow> map_option (\<lambda>(imported, listed). (imported, n # listed)) (read_package Listing ls)
      | None \<Rightarrow> None)"

lemma declared_names: "list_all wf_line ls \<Longrightarrow> list_all is_name (declared ls)"
proof (induction ls)
  case (Cons l ls)
  then show ?case by (cases l) (simp_all add: is_name_def)
qed simp

lemma between_name:
  assumes "is_name n" "after \<noteq> []" "\<not> is_word (hd after)"
  shows "between before after (before @ n @ after) = Some n"
proof -
  have "takeWhile is_word (n @ after) = n"
    using assms by (cases after) (auto simp: is_name_def list_all_iff takeWhile_append2)
  then show ?thesis using assms(1) by (simp add: between_def)
qed

lemma not_word: "\<not> is_word CHR '' ''" "\<not> is_word CHR '',''" "\<not> is_word CHR 0x22"
  by (simp_all add: is_word_def)

lemma between_item: "is_name n \<Longrightarrow> between ''    '' '','' (''    '' @ n @ '','') = Some n"
  "is_name n \<Longrightarrow> between (''    '' @ [CHR 0x22]) (CHR 0x22 # '','') (''    '' @ [CHR 0x22] @ n @ [CHR 0x22] @ '','') = Some n"
  "is_name n \<Longrightarrow> between ''from .'' '' import ('' (''from .'' @ n @ '' import ('') = Some n"
  using between_name [of n "'',''" "''    ''"] between_name [of n "CHR 0x22 # '',''" "''    '' @ [CHR 0x22]"]
    between_name [of n "'' import (''" "''from .''"]
  by (simp_all add: not_word)

lemma read_importing:
  "list_all is_name ns \<Longrightarrow> read_package (Importing m) (map (\<lambda>n. ''    '' @ n @ '','') ns @ '')'' # ls) =
     map_option (\<lambda>(imported, listed). (map (Pair m) ns @ imported, listed)) (read_package Top ls)"
proof (induction ns)
  case (Cons n ns)
  then show ?case using between_item(1) [of n] by (simp add: option.map_comp comp_def case_prod_beta)
qed (simp add: option.map_id case_prod_beta)

lemma read_listing:
  "list_all is_name ns \<Longrightarrow>
     read_package Listing (map (\<lambda>n. ''    '' @ [CHR 0x22] @ n @ [CHR 0x22] @ '','') ns @ ['']'']) = Some ([], ns)"
proof (induction ns)
  case (Cons n ns)
  then show ?case using between_item(2) [of n] by simp
qed simp

lemma read_import_block:
  assumes "is_name m" "list_all is_name ns"
  shows "read_package Top (import_block (m, ns) @ ls) =
    map_option (\<lambda>(imported, listed). (map (Pair m) (sort ns) @ imported, listed)) (read_package Top ls)"
proof (cases "ns = []")
  case False
  have "list_all is_name (sort ns)" using assms(2) by (simp add: list_all_iff)
  from read_importing [OF this, of m "[] # ls"] between_item(3) [OF assms(1)] False show ?thesis
    by (simp add: import_block_def)
qed (simp add: import_block_def option.map_id case_prod_beta)

lemma read_import_blocks:
  "\<forall>(m, ns) \<in> set es. is_name m \<and> list_all is_name ns \<Longrightarrow>
   read_package Top (concat (map import_block es) @ ls) =
     map_option (\<lambda>(imported, listed). (concat (map (\<lambda>(m, ns). map (Pair m) (sort ns)) es) @ imported, listed))
       (read_package Top ls)"
proof (induction es)
  case (Cons e es)
  obtain m ns where "e = (m, ns)" by (cases e)
  with Cons read_import_block [of m ns] show ?case by (simp add: option.map_comp comp_def case_prod_beta)
qed (simp add: option.map_id case_prod_beta)

lemma read_init_lines:
  assumes "\<forall>(m, ns) \<in> set es. is_name m \<and> list_all is_name ns"
  shows "read_package Top (init_lines es) =
    Some (concat (map (\<lambda>(m, ns). map (Pair m) (sort ns)) es), sort (concat (map snd es)))"
proof -
  have "list_all is_name (sort (concat (map snd es)))" using assms by (fastforce simp: list_all_iff)
  from read_listing [OF this] show ?thesis
    by (simp add: init_lines_def read_import_blocks [OF assms])
qed

text \<open>
  C40: the build step exports everything. If the four modules are as the compiler writes them, whether or
  not the imports were added before, the package file that the script leaves is well formed; reading it,
  each module's classes, and nothing else, are imported from that module, in order, and \<open>__all__\<close> lists
  exactly the names of all of them, in order.
\<close>

theorem main_exports_all:
  assumes "\<forall>m \<in> set modules. generated (src m) \<and> dict_get d (m @ ''.py'') = Some (module_text (src m))"
  shows "\<exists>ls. dict_get (main d) ''__init__.py'' = Some (unlines ls) \<and>
    read_package Top ls = Some (concat (map (\<lambda>m. map (Pair m) (sort (declared (src m)))) modules),
      sort (concat (map (\<lambda>m. declared (src m)) modules)))"
proof -
  define d' where "d' = fix_entry ''OpenApiCommonMessages.py'' IMPORTS_FOR_COMMON_MESSAGES (fix_entry ''OpenApiMessages.py'' IMPORTS_FOR_MESSAGES d)"
  have gen: "generated (src m)" "dict_get d (m @ ''.py'') = Some (module_text (src m))" if "m \<in> set modules" for m
    using assms that by auto
  have plain: "extract_exports (module_text (src m)) = declared (src m)" if "m \<in> set modules" for m
    using find_classes_module gen(1) [OF that] by (simp add: extract_exports_def generated_def)
  have fixed: "extract_exports (fix_file imps (module_text (src m))) = declared (src m)"
    if "m \<in> set modules" "inert imps" for m and imps
    using fix_file_generated [OF gen(1) [OF that(1)] that(2)] find_classes_module by (auto simp: extract_exports_def)
  have exports: "map_option extract_exports (dict_get d' (m @ ''.py'')) = Some (declared (src m))" if "m \<in> set modules" for m
    using gen(2) [OF that] plain [OF that] fixed [OF that] inert_imports by (auto simp: d'_def fix_entry_get)
  have "(case dict_get d' (m @ ''.py'') of None \<Rightarrow> [] | Some content \<Rightarrow> [(m, extract_exports content)]) = [(m, declared (src m))]"
    if "m \<in> set modules" for m using exports [OF that] by auto
  then have "all_exports d' = concat (map (\<lambda>m. [(m, declared (src m))]) modules)"
    unfolding all_exports_def by (intro arg_cong [where f = concat] map_cong refl) blast
  then have "all_exports d' = map (\<lambda>m. (m, declared (src m))) modules" by (simp add: concat_map_singleton)
  moreover have "is_name m \<and> list_all is_name (declared (src m))" if "m \<in> set modules" for m
    using declared_names gen(1) [OF that] that by (auto simp: generated_def modules_def is_name_def is_word_def)
  ultimately have "read_package Top (init_lines (all_exports d')) =
      Some (concat (map (\<lambda>m. map (Pair m) (sort (declared (src m)))) modules), sort (concat (map (\<lambda>m. declared (src m)) modules)))"
    by (subst read_init_lines) (auto simp: comp_def)
  then show ?thesis by (auto simp: main_def create_init_def dict_simps d'_def)
qed

definition sample_module :: "string \<Rightarrow> source_line list" where
  "sample_module m = [OtherLine ''import betterproto'', OtherLine [], ClassLine (''Proto'' @ drop 7 m) ''betterproto.Message'', OtherLine ''    pass'']"

definition sample_directory :: directory where
  "sample_directory = map (\<lambda>m. (m @ ''.py'', module_text (sample_module m))) modules"

theorem main_exports_all_witness:
  "\<exists>ls. dict_get (main sample_directory) ''__init__.py'' = Some (unlines ls) \<and>
    read_package Top ls = Some
      ([(''OpenApiCommonModelMessages'', ''ProtoCommonModelMessages''), (''OpenApiCommonMessages'', ''ProtoCommonMessages''),
        (''OpenApiModelMessages'', ''ProtoModelMessages''), (''OpenApiMessages'', ''ProtoMessages'')],
       [''ProtoCommonMessages'', ''ProtoCommonModelMessages'', ''ProtoMessages'', ''ProtoModelMessages''])"
proof -
  have "\<forall>m \<in> set modules. generated (sample_module m) \<and> dict_get sample_directory (m @ ''.py'') = Some (module_text (sample_module m))"
  proof
    fix m assume m: "m \<in> set modules"
    have "list_all wf_line (sample_module m)" "\<not> occurs marker (module_text (tl (sample_module m)))"
      using m by (auto simp: modules_def sample_module_def is_word_def marker_def)
    moreover have "\<not> occurs marker (butlast marker)" by (simp add: marker_def)
    ultimately have "generated (sample_module m)"
      unfolding generated_def by (intro conjI exI [of _ "[]"] exI [of _ "tl (sample_module m)"]) (simp_all add: sample_module_def)
    moreover have "dict_get sample_directory (m @ ''.py'') = Some (module_text (sample_module m))"
      using m by (auto simp: modules_def sample_directory_def)
    ultimately show "generated (sample_module m) \<and> dict_get sample_directory (m @ ''.py'') = Some (module_text (sample_module m))" ..
  qed
  from main_exports_all [OF this] show ?thesis by (simp add: modules_def sample_module_def less_char_def)
qed

end
