(* ===== verification/Package.thy ===== *)
theory Package
  imports Wire_Schema Events
begin

text \<open>
  What the packages export: \<open>_internal/proto/__init__.py\<close>, which re-exports the generated classes of its
  four modules, and the \<open>__init__.py\<close> of the library, where a caller finds everything it names.
\<close>

subsection \<open>The generated package\<close>

datatype (plugins only: code) proto_class = EnumClass proto_enum | EntityClass proto_entity | MessageClass message_class

primrec proto_class_name :: "proto_class \<Rightarrow> string" where
  "proto_class_name (EnumClass e) = enum_name e"
| "proto_class_name (EntityClass e) = entity_name e"
| "proto_class_name (MessageClass c) = class_name c"

definition exports_OpenApiCommonMessages :: "proto_class list" where
  "exports_OpenApiCommonMessages =
    [MessageClass (ClsReply Cls_ProtoErrorRes), MessageClass (ClsPush Cls_ProtoHeartbeatEvent),
     MessageClass (ClsUnregistered ''ProtoMessage'')]"

definition exports_OpenApiCommonModelMessages :: "proto_class list" where
  "exports_OpenApiCommonModelMessages =
    [EnumClass ProtoErrorCode, EnumClass ProtoPayloadType]"

definition exports_OpenApiMessages :: "proto_class list" where
  "exports_OpenApiMessages =
    [MessageClass (ClsRequest Cls_ProtoOAAccountAuthReq), MessageClass (ClsReply Cls_ProtoOAAccountAuthRes),
     MessageClass (ClsPush Cls_ProtoOAAccountDisconnectEvent),
     MessageClass (ClsUnread Unread_ProtoOAAccountLogoutReq),
     MessageClass (ClsUnread Unread_ProtoOAAccountLogoutRes),
     MessageClass (ClsPush Cls_ProtoOAAccountsTokenInvalidatedEvent),
     MessageClass (ClsRequest Cls_ProtoOAAmendOrderReq), MessageClass (ClsRequest Cls_ProtoOAAmendPositionSLTPReq),
     MessageClass (ClsRequest Cls_ProtoOAApplicationAuthReq), MessageClass (ClsReply Cls_ProtoOAApplicationAuthRes),
     MessageClass (ClsUnread Unread_ProtoOAAssetClassListReq),
     MessageClass (ClsUnread Unread_ProtoOAAssetClassListRes), MessageClass (ClsUnread Unread_ProtoOAAssetListReq),
     MessageClass (ClsUnread Unread_ProtoOAAssetListRes), MessageClass (ClsRequest Cls_ProtoOACancelOrderReq),
     MessageClass (ClsUnread Unread_ProtoOACashFlowHistoryListReq),
     MessageClass (ClsUnread Unread_ProtoOACashFlowHistoryListRes),
     MessageClass (ClsPush Cls_ProtoOAClientDisconnectEvent), MessageClass (ClsRequest Cls_ProtoOAClosePositionReq),
     MessageClass (ClsRequest Cls_ProtoOADealListByPositionIdReq),
     MessageClass (ClsReply Cls_ProtoOADealListByPositionIdRes), MessageClass (ClsRequest Cls_ProtoOADealListReq),
     MessageClass (ClsReply Cls_ProtoOADealListRes), MessageClass (ClsUnread Unread_ProtoOADealOffsetListReq),
     MessageClass (ClsUnread Unread_ProtoOADealOffsetListRes), MessageClass (ClsPush Cls_ProtoOADepthEvent),
     MessageClass (ClsReply Cls_ProtoOAErrorRes), MessageClass (ClsPush Cls_ProtoOAExecutionEvent),
     MessageClass (ClsUnread Unread_ProtoOAExpectedMarginReq),
     MessageClass (ClsUnread Unread_ProtoOAExpectedMarginRes),
     MessageClass (ClsRequest Cls_ProtoOAGetAccountListByAccessTokenReq),
     MessageClass (ClsReply Cls_ProtoOAGetAccountListByAccessTokenRes),
     MessageClass (ClsUnread Unread_ProtoOAGetCtidProfileByTokenReq),
     MessageClass (ClsUnread Unread_ProtoOAGetCtidProfileByTokenRes),
     MessageClass (ClsUnread Unread_ProtoOAGetDynamicLeverageByIDReq),
     MessageClass (ClsUnread Unread_ProtoOAGetDynamicLeverageByIDRes),
     MessageClass (ClsRequest Cls_ProtoOAGetPositionUnrealizedPnLReq),
     MessageClass (ClsReply Cls_ProtoOAGetPositionUnrealizedPnLRes),
     MessageClass (ClsRequest Cls_ProtoOAGetTickDataReq), MessageClass (ClsReply Cls_ProtoOAGetTickDataRes),
     MessageClass (ClsRequest Cls_ProtoOAGetTrendbarsReq), MessageClass (ClsReply Cls_ProtoOAGetTrendbarsRes),
     MessageClass (ClsUnread Unread_ProtoOAMarginCallListReq),
     MessageClass (ClsUnread Unread_ProtoOAMarginCallListRes),
     MessageClass (ClsPush Cls_ProtoOAMarginCallTriggerEvent),
     MessageClass (ClsUnread Unread_ProtoOAMarginCallUpdateEvent),
     MessageClass (ClsUnread Unread_ProtoOAMarginCallUpdateReq),
     MessageClass (ClsUnread Unread_ProtoOAMarginCallUpdateRes),
     MessageClass (ClsPush Cls_ProtoOAMarginChangedEvent), MessageClass (ClsRequest Cls_ProtoOANewOrderReq),
     MessageClass (ClsUnread Unread_ProtoOAOrderDetailsReq), MessageClass (ClsUnread Unread_ProtoOAOrderDetailsRes),
     MessageClass (ClsPush Cls_ProtoOAOrderErrorEvent),
     MessageClass (ClsUnread Unread_ProtoOAOrderListByPositionIdReq),
     MessageClass (ClsUnread Unread_ProtoOAOrderListByPositionIdRes),
     MessageClass (ClsRequest Cls_ProtoOAOrderListReq), MessageClass (ClsReply Cls_ProtoOAOrderListRes),
     MessageClass (ClsRequest Cls_ProtoOAReconcileReq), MessageClass (ClsReply Cls_ProtoOAReconcileRes),
     MessageClass (ClsRequest Cls_ProtoOARefreshTokenReq), MessageClass (ClsReply Cls_ProtoOARefreshTokenRes),
     MessageClass (ClsPush Cls_ProtoOASpotEvent), MessageClass (ClsRequest Cls_ProtoOASubscribeDepthQuotesReq),
     MessageClass (ClsReply Cls_ProtoOASubscribeDepthQuotesRes),
     MessageClass (ClsRequest Cls_ProtoOASubscribeLiveTrendbarReq),
     MessageClass (ClsReply Cls_ProtoOASubscribeLiveTrendbarRes),
     MessageClass (ClsRequest Cls_ProtoOASubscribeSpotsReq), MessageClass (ClsReply Cls_ProtoOASubscribeSpotsRes),
     MessageClass (ClsRequest Cls_ProtoOASymbolByIdReq), MessageClass (ClsReply Cls_ProtoOASymbolByIdRes),
     MessageClass (ClsUnread Unread_ProtoOASymbolCategoryListReq),
     MessageClass (ClsUnread Unread_ProtoOASymbolCategoryListRes),
     MessageClass (ClsPush Cls_ProtoOASymbolChangedEvent),
     MessageClass (ClsUnread Unread_ProtoOASymbolsForConversionReq),
     MessageClass (ClsUnread Unread_ProtoOASymbolsForConversionRes),
     MessageClass (ClsRequest Cls_ProtoOASymbolsListReq), MessageClass (ClsReply Cls_ProtoOASymbolsListRes),
     MessageClass (ClsRequest Cls_ProtoOATraderReq), MessageClass (ClsReply Cls_ProtoOATraderRes),
     MessageClass (ClsPush Cls_ProtoOATraderUpdatedEvent), MessageClass (ClsPush Cls_ProtoOATrailingSLChangedEvent),
     MessageClass (ClsRequest Cls_ProtoOAUnsubscribeDepthQuotesReq),
     MessageClass (ClsReply Cls_ProtoOAUnsubscribeDepthQuotesRes),
     MessageClass (ClsRequest Cls_ProtoOAUnsubscribeLiveTrendbarReq),
     MessageClass (ClsReply Cls_ProtoOAUnsubscribeLiveTrendbarRes),
     MessageClass (ClsRequest Cls_ProtoOAUnsubscribeSpotsReq),
     MessageClass (ClsReply Cls_ProtoOAUnsubscribeSpotsRes), MessageClass (ClsUnread Unread_ProtoOAVersionReq),
     MessageClass (ClsUnread Unread_ProtoOAVersionRes)]"

definition exports_OpenApiModelMessages :: "proto_class list" where
  "exports_OpenApiModelMessages =
    [EnumClass ProtoOAAccessRights, EnumClass ProtoOAAccountType, EntityClass ProtoOAArchivedSymbol,
     EntityClass ProtoOAAsset, EntityClass ProtoOAAssetClass, EntityClass ProtoOABonusDepositWithdraw,
     EnumClass ProtoOAChangeBalanceType, EnumClass ProtoOAChangeBonusType, EnumClass ProtoOAClientPermissionScope,
     EntityClass ProtoOAClosePositionDetail, EnumClass ProtoOACommissionType, EntityClass ProtoOACtidProfile,
     EntityClass ProtoOACtidTraderAccount, EnumClass ProtoOADayOfWeek, EntityClass ProtoOADeal,
     EntityClass ProtoOADealOffset, EnumClass ProtoOADealStatus, EntityClass ProtoOADepositWithdraw,
     EntityClass ProtoOADepthQuote, EntityClass ProtoOADynamicLeverage, EntityClass ProtoOADynamicLeverageTier,
     EnumClass ProtoOAErrorCode, EnumClass ProtoOAExecutionType, EntityClass ProtoOAExpectedMargin,
     EntityClass ProtoOAHoliday, EntityClass ProtoOAInterval, EntityClass ProtoOALightSymbol,
     EnumClass ProtoOALimitedRiskMarginCalculationStrategy, EntityClass ProtoOAMarginCall,
     EnumClass ProtoOAMinCommissionType, EnumClass ProtoOANotificationType, EntityClass ProtoOAOrder,
     EnumClass ProtoOAOrderStatus, EnumClass ProtoOAOrderTriggerMethod, EnumClass ProtoOAOrderType,
     EnumClass ProtoOAPayloadType, EntityClass ProtoOAPosition, EnumClass ProtoOAPositionStatus,
     EntityClass ProtoOAPositionUnrealizedPnL, EnumClass ProtoOAQuoteType, EnumClass ProtoOAStopOutStrategy,
     EnumClass ProtoOASwapCalculationType, EntityClass ProtoOASymbol, EntityClass ProtoOASymbolCategory,
     EnumClass ProtoOASymbolDistanceType, EntityClass ProtoOATickData, EnumClass ProtoOATimeInForce,
     EnumClass ProtoOATotalMarginCalculationType, EntityClass ProtoOATradeData, EntityClass ProtoOATrader,
     EnumClass ProtoOATradeSide, EnumClass ProtoOATradingMode, EntityClass ProtoOATrendbar,
     EnumClass ProtoOATrendbarPeriod]"

definition proto_all :: "proto_class list" where
  "proto_all =
    [EnumClass ProtoErrorCode, MessageClass (ClsReply Cls_ProtoErrorRes),
     MessageClass (ClsPush Cls_ProtoHeartbeatEvent), MessageClass (ClsUnregistered ''ProtoMessage''),
     EnumClass ProtoOAAccessRights, MessageClass (ClsRequest Cls_ProtoOAAccountAuthReq),
     MessageClass (ClsReply Cls_ProtoOAAccountAuthRes), MessageClass (ClsPush Cls_ProtoOAAccountDisconnectEvent),
     MessageClass (ClsUnread Unread_ProtoOAAccountLogoutReq),
     MessageClass (ClsUnread Unread_ProtoOAAccountLogoutRes), EnumClass ProtoOAAccountType,
     MessageClass (ClsPush Cls_ProtoOAAccountsTokenInvalidatedEvent),
     MessageClass (ClsRequest Cls_ProtoOAAmendOrderReq), MessageClass (ClsRequest Cls_ProtoOAAmendPositionSLTPReq),
     MessageClass (ClsRequest Cls_ProtoOAApplicationAuthReq), MessageClass (ClsReply Cls_ProtoOAApplicationAuthRes),
     EntityClass ProtoOAArchivedSymbol, EntityClass ProtoOAAsset, EntityClass ProtoOAAssetClass,
     MessageClass (ClsUnread Unread_ProtoOAAssetClassListReq),
     MessageClass (ClsUnread Unread_ProtoOAAssetClassListRes), MessageClass (ClsUnread Unread_ProtoOAAssetListReq),
     MessageClass (ClsUnread Unread_ProtoOAAssetListRes), EntityClass ProtoOABonusDepositWithdraw,
     MessageClass (ClsRequest Cls_ProtoOACancelOrderReq),
     MessageClass (ClsUnread Unread_ProtoOACashFlowHistoryListReq),
     MessageClass (ClsUnread Unread_ProtoOACashFlowHistoryListRes), EnumClass ProtoOAChangeBalanceType,
     EnumClass ProtoOAChangeBonusType, MessageClass (ClsPush Cls_ProtoOAClientDisconnectEvent),
     EnumClass ProtoOAClientPermissionScope, EntityClass ProtoOAClosePositionDetail,
     MessageClass (ClsRequest Cls_ProtoOAClosePositionReq), EnumClass ProtoOACommissionType,
     EntityClass ProtoOACtidProfile, EntityClass ProtoOACtidTraderAccount, EnumClass ProtoOADayOfWeek,
     EntityClass ProtoOADeal, MessageClass (ClsRequest Cls_ProtoOADealListByPositionIdReq),
     MessageClass (ClsReply Cls_ProtoOADealListByPositionIdRes), MessageClass (ClsRequest Cls_ProtoOADealListReq),
     MessageClass (ClsReply Cls_ProtoOADealListRes), EntityClass ProtoOADealOffset,
     MessageClass (ClsUnread Unread_ProtoOADealOffsetListReq),
     MessageClass (ClsUnread Unread_ProtoOADealOffsetListRes), EnumClass ProtoOADealStatus,
     EntityClass ProtoOADepositWithdraw, MessageClass (ClsPush Cls_ProtoOADepthEvent), EntityClass ProtoOADepthQuote,
     EntityClass ProtoOADynamicLeverage, EntityClass ProtoOADynamicLeverageTier, EnumClass ProtoOAErrorCode,
     MessageClass (ClsReply Cls_ProtoOAErrorRes), MessageClass (ClsPush Cls_ProtoOAExecutionEvent),
     EnumClass ProtoOAExecutionType, EntityClass ProtoOAExpectedMargin,
     MessageClass (ClsUnread Unread_ProtoOAExpectedMarginReq),
     MessageClass (ClsUnread Unread_ProtoOAExpectedMarginRes),
     MessageClass (ClsRequest Cls_ProtoOAGetAccountListByAccessTokenReq),
     MessageClass (ClsReply Cls_ProtoOAGetAccountListByAccessTokenRes),
     MessageClass (ClsUnread Unread_ProtoOAGetCtidProfileByTokenReq),
     MessageClass (ClsUnread Unread_ProtoOAGetCtidProfileByTokenRes),
     MessageClass (ClsUnread Unread_ProtoOAGetDynamicLeverageByIDReq),
     MessageClass (ClsUnread Unread_ProtoOAGetDynamicLeverageByIDRes),
     MessageClass (ClsRequest Cls_ProtoOAGetPositionUnrealizedPnLReq),
     MessageClass (ClsReply Cls_ProtoOAGetPositionUnrealizedPnLRes),
     MessageClass (ClsRequest Cls_ProtoOAGetTickDataReq), MessageClass (ClsReply Cls_ProtoOAGetTickDataRes),
     MessageClass (ClsRequest Cls_ProtoOAGetTrendbarsReq), MessageClass (ClsReply Cls_ProtoOAGetTrendbarsRes),
     EntityClass ProtoOAHoliday, EntityClass ProtoOAInterval, EntityClass ProtoOALightSymbol,
     EnumClass ProtoOALimitedRiskMarginCalculationStrategy, EntityClass ProtoOAMarginCall,
     MessageClass (ClsUnread Unread_ProtoOAMarginCallListReq),
     MessageClass (ClsUnread Unread_ProtoOAMarginCallListRes),
     MessageClass (ClsPush Cls_ProtoOAMarginCallTriggerEvent),
     MessageClass (ClsUnread Unread_ProtoOAMarginCallUpdateEvent),
     MessageClass (ClsUnread Unread_ProtoOAMarginCallUpdateReq),
     MessageClass (ClsUnread Unread_ProtoOAMarginCallUpdateRes),
     MessageClass (ClsPush Cls_ProtoOAMarginChangedEvent), EnumClass ProtoOAMinCommissionType,
     MessageClass (ClsRequest Cls_ProtoOANewOrderReq), EnumClass ProtoOANotificationType, EntityClass ProtoOAOrder,
     MessageClass (ClsUnread Unread_ProtoOAOrderDetailsReq), MessageClass (ClsUnread Unread_ProtoOAOrderDetailsRes),
     MessageClass (ClsPush Cls_ProtoOAOrderErrorEvent),
     MessageClass (ClsUnread Unread_ProtoOAOrderListByPositionIdReq),
     MessageClass (ClsUnread Unread_ProtoOAOrderListByPositionIdRes),
     MessageClass (ClsRequest Cls_ProtoOAOrderListReq), MessageClass (ClsReply Cls_ProtoOAOrderListRes),
     EnumClass ProtoOAOrderStatus, EnumClass ProtoOAOrderTriggerMethod, EnumClass ProtoOAOrderType,
     EnumClass ProtoOAPayloadType, EntityClass ProtoOAPosition, EnumClass ProtoOAPositionStatus,
     EntityClass ProtoOAPositionUnrealizedPnL, EnumClass ProtoOAQuoteType,
     MessageClass (ClsRequest Cls_ProtoOAReconcileReq), MessageClass (ClsReply Cls_ProtoOAReconcileRes),
     MessageClass (ClsRequest Cls_ProtoOARefreshTokenReq), MessageClass (ClsReply Cls_ProtoOARefreshTokenRes),
     MessageClass (ClsPush Cls_ProtoOASpotEvent), EnumClass ProtoOAStopOutStrategy,
     MessageClass (ClsRequest Cls_ProtoOASubscribeDepthQuotesReq),
     MessageClass (ClsReply Cls_ProtoOASubscribeDepthQuotesRes),
     MessageClass (ClsRequest Cls_ProtoOASubscribeLiveTrendbarReq),
     MessageClass (ClsReply Cls_ProtoOASubscribeLiveTrendbarRes),
     MessageClass (ClsRequest Cls_ProtoOASubscribeSpotsReq), MessageClass (ClsReply Cls_ProtoOASubscribeSpotsRes),
     EnumClass ProtoOASwapCalculationType, EntityClass ProtoOASymbol,
     MessageClass (ClsRequest Cls_ProtoOASymbolByIdReq), MessageClass (ClsReply Cls_ProtoOASymbolByIdRes),
     EntityClass ProtoOASymbolCategory, MessageClass (ClsUnread Unread_ProtoOASymbolCategoryListReq),
     MessageClass (ClsUnread Unread_ProtoOASymbolCategoryListRes),
     MessageClass (ClsPush Cls_ProtoOASymbolChangedEvent), EnumClass ProtoOASymbolDistanceType,
     MessageClass (ClsUnread Unread_ProtoOASymbolsForConversionReq),
     MessageClass (ClsUnread Unread_ProtoOASymbolsForConversionRes),
     MessageClass (ClsRequest Cls_ProtoOASymbolsListReq), MessageClass (ClsReply Cls_ProtoOASymbolsListRes),
     EntityClass ProtoOATickData, EnumClass ProtoOATimeInForce, EnumClass ProtoOATotalMarginCalculationType,
     EntityClass ProtoOATradeData, EnumClass ProtoOATradeSide, EntityClass ProtoOATrader,
     MessageClass (ClsRequest Cls_ProtoOATraderReq), MessageClass (ClsReply Cls_ProtoOATraderRes),
     MessageClass (ClsPush Cls_ProtoOATraderUpdatedEvent), EnumClass ProtoOATradingMode,
     MessageClass (ClsPush Cls_ProtoOATrailingSLChangedEvent), EntityClass ProtoOATrendbar,
     EnumClass ProtoOATrendbarPeriod, MessageClass (ClsRequest Cls_ProtoOAUnsubscribeDepthQuotesReq),
     MessageClass (ClsReply Cls_ProtoOAUnsubscribeDepthQuotesRes),
     MessageClass (ClsRequest Cls_ProtoOAUnsubscribeLiveTrendbarReq),
     MessageClass (ClsReply Cls_ProtoOAUnsubscribeLiveTrendbarRes),
     MessageClass (ClsRequest Cls_ProtoOAUnsubscribeSpotsReq),
     MessageClass (ClsReply Cls_ProtoOAUnsubscribeSpotsRes), MessageClass (ClsUnread Unread_ProtoOAVersionReq),
     MessageClass (ClsUnread Unread_ProtoOAVersionRes), EnumClass ProtoPayloadType]"

subsection \<open>The library\<close>

definition from_auth :: "string list" where
  "from_auth =
    [''AccountCredentials'', ''ReauthPolicy'', ''RefreshPolicy'', ''TokenStore'']"

definition from_client :: "string list" where
  "from_client =
    [''CTraderClient'']"

definition from_config :: "string list" where
  "from_config =
    [''ClientConfig'']"

definition from_enums :: "string list" where
  "from_enums =
    [''AccessRights'', ''AccountType'', ''AuthTrigger'', ''DealStatus'', ''ExecutionType'', ''OrderSide'',
     ''OrderStatus'', ''OrderType'', ''PositionStatus'', ''StopTriggerMethod'', ''TimeInForce'', ''TradingMode'',
     ''TrendbarPeriod'']"

definition from_events :: "string list" where
  "from_events =
    [''AccountDisconnectEvent'', ''ClientDisconnectEvent'', ''DepthEvent'', ''DepthQuote'', ''Event'',
     ''ExecutionEvent'', ''MarginCallTriggerEvent'', ''MarginChangeEvent'', ''OrderErrorEvent'', ''ReadyEvent'',
     ''ReconnectedEvent'', ''SpotEvent'', ''SubscriptionRestoreFailedEvent'', ''SymbolChangedEvent'',
     ''TokenInvalidatedEvent'', ''TokenRefreshFailedEvent'', ''TraderUpdateEvent'', ''TrailingStopChangedEvent'']"

definition from_exceptions :: "string list" where
  "from_exceptions =
    [''AccountAuthError'', ''AccountNotFoundError'', ''APIError'', ''ApplicationAuthError'', ''AuthenticationError'',
     ''CTraderConnectionClosedError'', ''CTraderConnectionError'', ''CTraderConnectionFailedError'',
     ''CTraderConnectionTimeoutError'', ''CTraderError'', ''CTraderReconnectAbandonedError'',
     ''DeserializationError'', ''FramingError'', ''ProtocolError'', ''TokenExpiredError'', ''TokenRefreshError'',
     ''UnknownPayloadTypeError'']"

definition from_models :: "string list" where
  "from_models =
    [''Account'', ''AccountSummary'', ''AmendOrderRequest'', ''AmendPositionRequest'', ''CloseDetail'',
     ''ClosePositionRequest'', ''Deal'', ''NewOrderRequest'', ''Order'', ''Position'', ''PositionUnrealizedPnL'',
     ''Symbol'', ''SymbolInfo'', ''TickData'', ''Trendbar'']"

definition package_all :: "string list" where
  "package_all =
    [''APIError'', ''AccessRights'', ''Account'', ''AccountAuthError'', ''AccountCredentials'',
     ''AccountDisconnectEvent'', ''AccountNotFoundError'', ''AccountSummary'', ''AccountType'',
     ''AmendOrderRequest'', ''AmendPositionRequest'', ''ApplicationAuthError'', ''AuthTrigger'',
     ''AuthenticationError'', ''CTraderClient'', ''CTraderConnectionClosedError'', ''CTraderConnectionError'',
     ''CTraderConnectionFailedError'', ''CTraderConnectionTimeoutError'', ''CTraderError'',
     ''CTraderReconnectAbandonedError'', ''ClientConfig'', ''ClientDisconnectEvent'', ''CloseDetail'',
     ''ClosePositionRequest'', ''Deal'', ''DealStatus'', ''DepthEvent'', ''DepthQuote'', ''DeserializationError'',
     ''Event'', ''ExecutionEvent'', ''ExecutionType'', ''FramingError'', ''MarginCallTriggerEvent'',
     ''MarginChangeEvent'', ''NewOrderRequest'', ''Order'', ''OrderErrorEvent'', ''OrderSide'', ''OrderStatus'',
     ''OrderType'', ''Position'', ''PositionStatus'', ''PositionUnrealizedPnL'', ''ProtocolError'', ''ReadyEvent'',
     ''ReauthPolicy'', ''ReconnectedEvent'', ''RefreshPolicy'', ''SpotEvent'', ''StopTriggerMethod'',
     ''SubscriptionRestoreFailedEvent'', ''Symbol'', ''SymbolChangedEvent'', ''SymbolInfo'', ''TickData'',
     ''TimeInForce'', ''TokenExpiredError'', ''TokenInvalidatedEvent'', ''TokenRefreshError'',
     ''TokenRefreshFailedEvent'', ''TokenStore'', ''TraderUpdateEvent'', ''TradingMode'',
     ''TrailingStopChangedEvent'', ''Trendbar'', ''TrendbarPeriod'', ''UnknownPayloadTypeError'']"

subsection \<open>The subpackages\<close>

definition internal_imports :: "string list" where
  "internal_imports =
    [''Clock'', ''MonotonicClock'', ''DEFAULT_MONEY_DIGITS'', ''money_divisor'', ''timestamp_to_datetime'',
     ''ClientMessageIdGenerator'', ''deserialize_proto_message'', ''get_class'', ''get_payload_type'',
     ''unwrap_message'', ''wrap_message'', ''encode_with_length_prefix'', ''read_exact'', ''read_framed_message'']"

definition internal_all :: "string list" where
  "internal_all =
    [''DEFAULT_MONEY_DIGITS'', ''ClientMessageIdGenerator'', ''Clock'', ''MonotonicClock'',
     ''deserialize_proto_message'', ''encode_with_length_prefix'', ''get_class'', ''get_payload_type'',
     ''money_divisor'', ''read_exact'', ''read_framed_message'', ''timestamp_to_datetime'', ''unwrap_message'',
     ''wrap_message'']"

definition api_imports :: "string list" where
  "api_imports =
    [''AccountsAPI'', ''MarketDataAPI'', ''SymbolsAPI'', ''TradingAPI'']"

definition api_all :: "string list" where
  "api_all =
    [''AccountsAPI'', ''MarketDataAPI'', ''SymbolsAPI'', ''TradingAPI'']"

definition auth_imports :: "string list" where
  "auth_imports =
    [''SessionRecovery'', ''TokenRefresher'', ''SessionStore'', ''AccountCredentials'', ''AuthManager'',
     ''ReauthPolicy'', ''RefreshPolicy'', ''TokenStore'']"

definition auth_all :: "string list" where
  "auth_all =
    [''AccountCredentials'', ''AuthManager'', ''ReauthPolicy'', ''RefreshPolicy'', ''SessionRecovery'',
     ''SessionStore'', ''TokenRefresher'', ''TokenStore'']"

definition connection_imports :: "string list" where
  "connection_imports =
    [''HeartbeatManager'', ''ConnectionListener'', ''Protocol'', ''ConnectionSupervisor'', ''Transport'']"

definition connection_all :: "string list" where
  "connection_all =
    [''ConnectionListener'', ''ConnectionSupervisor'', ''HeartbeatManager'', ''Protocol'', ''Transport'']"

definition events_imports :: "string list" where
  "events_imports =
    [''EventEmitter'', ''EventPublisher'', ''EventRouter'', ''AccountDisconnectEvent'', ''ClientDisconnectEvent'',
     ''DepthEvent'', ''DepthQuote'', ''Event'', ''ExecutionEvent'', ''MarginCallTriggerEvent'',
     ''MarginChangeEvent'', ''OrderErrorEvent'', ''ReadyEvent'', ''ReconnectedEvent'', ''SpotEvent'',
     ''SubscriptionRestoreFailedEvent'', ''SymbolChangedEvent'', ''TokenInvalidatedEvent'',
     ''TokenRefreshFailedEvent'', ''TraderUpdateEvent'', ''TrailingStopChangedEvent'']"

definition events_all :: "string list" where
  "events_all =
    [''AccountDisconnectEvent'', ''ClientDisconnectEvent'', ''DepthEvent'', ''DepthQuote'', ''Event'',
     ''EventEmitter'', ''EventPublisher'', ''EventRouter'', ''ExecutionEvent'', ''MarginCallTriggerEvent'',
     ''MarginChangeEvent'', ''OrderErrorEvent'', ''ReadyEvent'', ''ReconnectedEvent'', ''SpotEvent'',
     ''SubscriptionRestoreFailedEvent'', ''SymbolChangedEvent'', ''TokenInvalidatedEvent'',
     ''TokenRefreshFailedEvent'', ''TraderUpdateEvent'', ''TrailingStopChangedEvent'']"

definition models_imports :: "string list" where
  "models_imports =
    [''Account'', ''AccountSummary'', ''CloseDetail'', ''Deal'', ''TickData'', ''Trendbar'', ''Order'', ''Position'',
     ''PositionUnrealizedPnL'', ''AmendOrderRequest'', ''AmendPositionRequest'', ''ClosePositionRequest'',
     ''NewOrderRequest'', ''Symbol'', ''SymbolInfo'']"

definition models_all :: "string list" where
  "models_all =
    [''Account'', ''AccountSummary'', ''AmendOrderRequest'', ''AmendPositionRequest'', ''CloseDetail'',
     ''ClosePositionRequest'', ''Deal'', ''NewOrderRequest'', ''Order'', ''Position'', ''PositionUnrealizedPnL'',
     ''Symbol'', ''SymbolInfo'', ''TickData'', ''Trendbar'']"

definition package_imports :: "string list" where
  "package_imports = from_auth @ from_client @ from_config @ from_enums @ from_events @ from_exceptions @ from_models"

text \<open>The class of an event, and of an exception of the library.\<close>

primrec event_class_name :: "event_type \<Rightarrow> string" where
  "event_class_name T_SpotEvent = ''SpotEvent''"
| "event_class_name T_ExecutionEvent = ''ExecutionEvent''"
| "event_class_name T_OrderErrorEvent = ''OrderErrorEvent''"
| "event_class_name T_TraderUpdateEvent = ''TraderUpdateEvent''"
| "event_class_name T_MarginChangeEvent = ''MarginChangeEvent''"
| "event_class_name T_DepthEvent = ''DepthEvent''"
| "event_class_name T_TokenInvalidatedEvent = ''TokenInvalidatedEvent''"
| "event_class_name T_TokenRefreshFailedEvent = ''TokenRefreshFailedEvent''"
| "event_class_name T_SubscriptionRestoreFailedEvent = ''SubscriptionRestoreFailedEvent''"
| "event_class_name T_ClientDisconnectEvent = ''ClientDisconnectEvent''"
| "event_class_name T_AccountDisconnectEvent = ''AccountDisconnectEvent''"
| "event_class_name T_SymbolChangedEvent = ''SymbolChangedEvent''"
| "event_class_name T_TrailingStopChangedEvent = ''TrailingStopChangedEvent''"
| "event_class_name T_MarginCallTriggerEvent = ''MarginCallTriggerEvent''"
| "event_class_name T_ReconnectedEvent = ''ReconnectedEvent''"
| "event_class_name T_ReadyEvent = ''ReadyEvent''"

fun exception_class_name :: "exn \<Rightarrow> string option" where
  "exception_class_name (CTraderConnectionFailedError _ _ _) = Some ''CTraderConnectionFailedError''"
| "exception_class_name (CTraderConnectionClosedError _ _) = Some ''CTraderConnectionClosedError''"
| "exception_class_name (CTraderConnectionTimeoutError _ _) = Some ''CTraderConnectionTimeoutError''"
| "exception_class_name (CTraderReconnectAbandonedError _ _) = Some ''CTraderReconnectAbandonedError''"
| "exception_class_name (ApplicationAuthError _ _) = Some ''ApplicationAuthError''"
| "exception_class_name (AccountAuthError _ _ _) = Some ''AccountAuthError''"
| "exception_class_name (TokenExpiredError _) = Some ''TokenExpiredError''"
| "exception_class_name (TokenRefreshError _ _) = Some ''TokenRefreshError''"
| "exception_class_name (AccountNotFoundError _ _) = Some ''AccountNotFoundError''"
| "exception_class_name (APIError _) = Some ''APIError''"
| "exception_class_name (FramingError _ _) = Some ''FramingError''"
| "exception_class_name (DeserializationError _ _) = Some ''DeserializationError''"
| "exception_class_name (UnknownPayloadTypeError _) = Some ''UnknownPayloadTypeError''"
| "exception_class_name _ = None"

subsection \<open>Completeness\<close>

definition proto_imports :: "proto_class list" where
  "proto_imports = exports_OpenApiCommonMessages @ exports_OpenApiCommonModelMessages @ exports_OpenApiMessages @ exports_OpenApiModelMessages"

lemmas proto_import_defs = proto_imports_def exports_OpenApiCommonMessages_def exports_OpenApiCommonModelMessages_def
  exports_OpenApiMessages_def exports_OpenApiModelMessages_def

lemma distinct_proto_imports: "distinct proto_imports"
  by code_simp

lemma exported_enum: "EnumClass e \<in> set proto_imports"
  by (cases e) (simp_all add: proto_import_defs)

lemma exported_entity: "EntityClass e \<in> set proto_imports"
  by (cases e) (simp_all add: proto_import_defs)

lemma exported_request: "MessageClass (ClsRequest c) \<in> set proto_imports"
  by (cases c) (simp_all add: proto_import_defs)

lemma exported_reply: "MessageClass (ClsReply c) \<in> set proto_imports"
  by (cases c) (simp_all add: proto_import_defs)

lemma exported_push: "MessageClass (ClsPush c) \<in> set proto_imports"
  by (cases c) (simp_all add: proto_import_defs)

lemma exported_unread: "MessageClass (ClsUnread c) \<in> set proto_imports"
  by (cases c) (simp_all add: proto_import_defs)

lemma exported_unregistered: "MessageClass (ClsUnregistered n) \<in> set proto_imports \<longleftrightarrow> n = ''ProtoMessage''"
  by (simp add: proto_import_defs)

lemma exported_iff: "c \<in> set proto_imports \<longleftrightarrow> (\<forall>n. c = MessageClass (ClsUnregistered n) \<longrightarrow> n = ''ProtoMessage'')"
proof (cases c)
  case (MessageClass m)
  then show ?thesis
    by (cases m) (simp_all add: exported_request exported_reply exported_push exported_unread exported_unregistered)
qed (simp_all add: exported_enum exported_entity)

lemma proto_all_imports: "set proto_all = set proto_imports"
proof
  show "set proto_imports \<subseteq> set proto_all" by code_simp
  show "set proto_all \<subseteq> set proto_imports" by code_simp
qed

lemma package_all_imports: "set package_all = set package_imports"
proof
  show "set package_imports \<subseteq> set package_all" by code_simp
  show "set package_all \<subseteq> set package_imports" by code_simp
qed

text \<open>Every subpackage lists what it imports, and the library takes from it only what it lists.\<close>

definition same_names :: "string list \<Rightarrow> string list \<Rightarrow> bool" where
  "same_names xs ys \<longleftrightarrow> set xs \<subseteq> set ys \<and> set ys \<subseteq> set xs"

lemma subpackage_lists:
  "same_names internal_all internal_imports" "same_names api_all api_imports" "same_names auth_all auth_imports"
  "same_names connection_all connection_imports" "same_names events_all events_imports" "same_names models_all models_imports"
  by code_simp+

lemma library_takes_listed: "set from_auth \<subseteq> set auth_all" "set from_events \<subseteq> set events_all" "set from_models \<subseteq> set models_all"
  by code_simp+

lemma event_exported: "event_class_name e \<in> set package_all"
  by (cases e) (simp_all add: package_all_def)

lemma exception_exported: "exception_class_name e = Some n \<Longrightarrow> n \<in> set package_all"
  by (cases e) (auto simp: package_all_def)

text \<open>
  The packages export what they should. The generated package exports every generated class: each
  enumeration, each entity, each message class and the envelope, each imported once from its module
  and listed in \<open>__all__\<close>. The library lists exactly what it imports, and a caller finds there the
  class of every event it can receive and of every exception of the library it can catch.
\<close>

theorem packages_complete:
  "distinct proto_imports \<and> set proto_all = set proto_imports \<and>
   (c \<in> set proto_all \<longleftrightarrow> (\<forall>n. c = MessageClass (ClsUnregistered n) \<longrightarrow> n = ''ProtoMessage'')) \<and>
   set package_all = set package_imports \<and> event_class_name t \<in> set package_all \<and>
   (exception_class_name e = Some n \<longrightarrow> n \<in> set package_all)"
  by (intro conjI impI distinct_proto_imports proto_all_imports package_all_imports event_exported)
    (simp_all only: proto_all_imports exported_iff exception_exported)

theorem packages_complete_witness: "''TokenExpiredError'' \<in> set package_all"
proof -
  have "exception_class_name (TokenExpiredError None) = Some ''TokenExpiredError'' \<longrightarrow> ''TokenExpiredError'' \<in> set package_all"
    using packages_complete by blast
  then show ?thesis by simp
qed

end
