(* ===== verification/Build_Schema.thy ===== *)
theory Build_Schema
  imports Proto_Build Package
begin

text \<open>
  The build step against the schema it works on: the imports it adds to \<open>OpenApiMessages\<close> and
  \<open>OpenApiCommonMessages\<close> are the types their messages refer to.
\<close>

text \<open>The classes of the generated package that the fields of a message refer to.\<close>

definition references :: "field list \<Rightarrow> proto_class list" where
  "references fs = concat (map (\<lambda>f. case (case f of Single _ _ t \<Rightarrow> t | Repeated _ _ t \<Rightarrow> t) of
     Scalar _ \<Rightarrow> [] | EnumField e \<Rightarrow> [EnumClass e] | MessageField e \<Rightarrow> [EntityClass e]) fs)"

primrec proto_class_fields :: "proto_class \<Rightarrow> field list" where
  "proto_class_fields (EnumClass e) = []"
| "proto_class_fields (EntityClass e) = entity_fields e"
| "proto_class_fields (MessageClass c) = class_fields c"

definition module_references :: "proto_class list \<Rightarrow> proto_class list" where
  "module_references cs = concat (map (\<lambda>c. references (proto_class_fields c)) cs)"

text \<open>The classes behind the names the script imports.\<close>

definition model_classes :: "proto_class list" where
  "model_classes =
     [EnumClass ProtoOAPayloadType, EnumClass ProtoOAOrderType, EnumClass ProtoOATradeSide,
      EnumClass ProtoOATimeInForce, EnumClass ProtoOAExecutionType, EnumClass ProtoOAOrderTriggerMethod,
      EnumClass ProtoOATrendbarPeriod, EnumClass ProtoOAQuoteType, EnumClass ProtoOAClientPermissionScope,
      EntityClass ProtoOAPosition, EntityClass ProtoOAOrder, EntityClass ProtoOADeal, EntityClass ProtoOATrader,
      EntityClass ProtoOAAsset, EntityClass ProtoOALightSymbol, EntityClass ProtoOAArchivedSymbol,
      EntityClass ProtoOASymbol, EntityClass ProtoOAAssetClass, EntityClass ProtoOASymbolCategory,
      EntityClass ProtoOATrendbar, EntityClass ProtoOATickData, EntityClass ProtoOADepthQuote,
      EntityClass ProtoOACtidTraderAccount, EntityClass ProtoOACtidProfile, EntityClass ProtoOAExpectedMargin,
      EntityClass ProtoOADepositWithdraw, EntityClass ProtoOABonusDepositWithdraw, EntityClass ProtoOAMarginCall,
      EntityClass ProtoOADynamicLeverage, EntityClass ProtoOADealOffset, EntityClass ProtoOAPositionUnrealizedPnL]"

lemma model_class_names: "map proto_class_name model_classes = MODEL_TYPES"
  by (simp add: model_classes_def MODEL_TYPES_def)

lemma messages_refer: "set (module_references exports_OpenApiMessages) \<subseteq> set model_classes"
  by code_simp

lemma messages_refer_all: "set model_classes \<subseteq> set (module_references exports_OpenApiMessages)"
  by code_simp

lemma common_refer: "remdups (module_references exports_OpenApiCommonMessages) = [EnumClass ProtoPayloadType]"
  by code_simp

text \<open>
  The script imports what is needed, and nothing else: the names it adds to \<open>OpenApiMessages\<close> are exactly
  those of the enumerations and entities the message classes of that module refer to, and the one it
  adds to \<open>OpenApiCommonMessages\<close> is the one type that module refers to.
\<close>

theorem imports_exact:
  "set MODEL_TYPES = proto_class_name ` set (module_references exports_OpenApiMessages) \<and>
   remdups (module_references exports_OpenApiCommonMessages) = [EnumClass ProtoPayloadType] \<and>
   IMPORTS_FOR_COMMON_MESSAGES = unlines [''from .OpenApiCommonModelMessages import '' @ proto_class_name (EnumClass ProtoPayloadType)]"
proof (intro conjI common_refer)
  have "set model_classes = set (module_references exports_OpenApiMessages)" using messages_refer messages_refer_all by (rule equalityI [rotated])
  then show "set MODEL_TYPES = proto_class_name ` set (module_references exports_OpenApiMessages)"
    by (simp add: model_class_names [symmetric])
qed (simp add: IMPORTS_FOR_COMMON_MESSAGES_def)

end
