(* ===== verification/Spec2Isabelle.thy ===== *)
theory Spec2Isabelle
  imports Correlation Reconnection Client_Typing Pool Wire_Properties Enum_Wire Build_Schema
begin

text \<open>
  A verification development of the cTrader Open API client, \<open>src/src/ctrader_api_client\<close>: an
  asynchronous client of a trading server that speaks length-prefixed protobuf over TLS.

  \<^bold>\<open>The program.\<close> A \<open>Transport\<close> carries bytes; \<open>_internal/serialization.py\<close> cuts them into frames;
  \<open>_internal/messages.py\<close> wraps messages in envelopes with a payload type and a correlation id; the
  \<open>Protocol\<close> matches replies to requests, hands other messages to handlers and reconnects a lost link;
  the \<open>HeartbeatManager\<close> notices silence; the \<open>ConnectionSupervisor\<close> holds these three together and
  tells its listeners of link transitions. The \<open>EventRouter\<close> turns push messages into events on the
  \<open>EventEmitter\<close>. The \<open>SessionStore\<close> says which accounts are authorized; \<open>AuthManager\<close> authorizes them,
  \<open>SessionRecovery\<close> puts lost sessions back and \<open>TokenRefresher\<close> rotates tokens, restoring the standing
  subscriptions of \<open>MarketDataAPI\<close>. The API namespaces send requests and convert replies to models.
  \<open>CTraderClient\<close> assembles all of it and runs it for the length of an \<open>async with\<close> block.

  \<^bold>\<open>Theories and sources.\<close>
  \<^item> \<open>Prelude\<close>: results that may raise, Python's insertion-ordered \<open>dict\<close> (a locale and its
    interpretation), truthiness idioms, decimal text of integers.
  \<^item> \<open>Exceptions\<close> (\<open>exceptions.py\<close>): every class with its attributes, \<open>isinstance\<close>, classification, texts.
  \<^item> \<open>Framing\<close> (\<open>_internal/serialization.py\<close>): encoding and reading of frames over any stream that obeys
    the byte-stream contract, a locale interpreted on lists of chunks.
  \<^item> \<open>Proto_Types\<close>, \<open>Messages\<close> (\<open>_internal/proto\<close>, \<open>_internal/messages.py\<close>): the fields of the wire
    messages, the registry, correlation ids, wrapping and unwrapping over a codec that is a parameter.
  \<^item> \<open>Transport\<close>, \<open>Protocol\<close> (\<open>connection/transport.py\<close>, \<open>connection/protocol.py\<close>): the operations, cut at
    their awaits; \<open>Correlation\<close> runs requests, dispatch and shutdown in every order, \<open>Reconnection\<close> is the
    step relation of readers, heartbeats, the reconnection task and shutdown.
  \<^item> \<open>Py_Num\<close>, \<open>Models\<close>, \<open>Instruments\<close>, \<open>Requests\<close> (\<open>_internal/conversions.py\<close>, \<open>enums.py\<close>, \<open>models\<close>): decimals
    with 28 digits and doubles, and the models with their conversions in both directions.
  \<^item> \<open>Events\<close>, \<open>Emitter\<close>, \<open>Router\<close> (\<open>events\<close>); \<open>Heartbeat\<close> (\<open>connection/heartbeat.py\<close>,
    \<open>connection/supervisor.py\<close>).
  \<^item> \<open>Session\<close> (\<open>auth/_session.py\<close>, \<open>auth/credentials.py\<close>, \<open>auth/policy.py\<close>): the store, with its contract as a
    locale.
  \<^item> \<open>Coroutine\<close>: code that awaits, as trees of suspensions. A continuation takes the outcome of the await
    and whatever state the other tasks leave, so \<open>always\<close> quantifies over every interleaving; \<open>drive\<close>
    follows one script of outcomes and interference, and \<open>guards\<close> says what holds at every suspension
    on the way; \<open>quiet_run\<close> is the run in which nobody interferes, with the trace of what it did.
  \<^item> \<open>Market_Data\<close> (\<open>api/market_data.py\<close>, \<open>api/_base.py\<close>), \<open>Auth\<close> (\<open>auth/manager.py\<close>), \<open>Recovery\<close> and
    \<open>Recovery_Properties\<close> (\<open>auth/_recovery.py\<close>), \<open>Refresh\<close> and \<open>Refresh_Properties\<close> (\<open>auth/_refresh.py\<close>):
    records that extend one another, because the components share their state.
  \<^item> \<open>Api\<close> (\<open>api/trading.py\<close>, \<open>api/accounts.py\<close>, \<open>api/symbols.py\<close>); \<open>Client\<close> (\<open>config.py\<close>, \<open>composition.py\<close>,
    \<open>client.py\<close>, \<open>ConnectionSupervisor.serving\<close>); \<open>Client_Typing\<close>: the overloads of \<open>on\<close>.
  \<^item> \<open>Guarantee\<close>: what a task promises the tasks it shares the session state with, derived once in a chain
    of locales over the updates the code makes and interpreted for three promises; \<open>Pool\<close>: the
    recovery loop, the refresh loop and any number of calls in flight as a step relation.
  \<^item> \<open>Wire_Schema\<close> (\<open>_internal/proto\<close>): every generated enumeration and the fields of every generated class;
    \<open>Wire_View\<close>: the modelled messages as lists of field values; \<open>Wire_Properties\<close>: both have one
    shape. \<open>Enum_Wire\<close>: the
    client's enumerations against the generated ones, with the translation tables as instances of a
    locale. \<open>Package\<close>: the exports of every package.
  \<^item> \<open>Proto_Build\<close> (\<open>scripts/fix_proto_imports.py\<close>): the build step, on texts; \<open>Build_Schema\<close>: its imports against
    the schema.

  \<^bold>\<open>What is shown.\<close> On the wire: what is sent is read back, whatever the cuts; oversized and truncated
  frames are refused; the registry is a bijection. On the link: under every interleaving a running
  protocol has a served link or exactly one party bringing it back, never two readers or two
  heartbeats, attempts stay within the budget, a reply goes from the stream to the request it answers
  and to nobody else, a silent link is reported within a check of the timeout and a live one never,
  and nobody waits forever after a shutdown. Every message the server pushes is published as the
  event it stands for, or dropped or handed on for a stated reason. On sessions: what authorizing an account does on every branch, that it is
  announced after its subscriptions were restored, the exact trace of a pass of the recovery, of a
  reconnection and of a refresh, that both loops survive every failure but one, that a refresh ends and shields its account from the
  disconnect it provokes. On the session tasks together (\<open>Pool\<close>): in every interleaving the state stays
  well formed, at most one account is marked as being refreshed and no mark is left behind, and the
  recovery loop is never asleep while it has work that is due. On the schema: the messages of the model
  have the shape of the generated ones (names and ranges are not compared), numbers are unambiguous, messages nest two levels deep, the
  registry and the twelve decoding tables agree with the generated enumerations, the packages export
  every class and the build step that writes them is complete and idempotent. On data: amounts are not
  rounded, deltas decode to prefix sums, volumes survive the conversion to lots and back, and an order
  goes onto the wire as it was asked for, prices to the nearest double and the expiration to about a
  millisecond. On the client: it starts completely or not at all, always winds down, lets a single
  failure out as itself, and accepts exactly the registrations its types allow; and, below, it holds
  its link.

  \<^bold>\<open>Bounds.\<close> The recovery and refresh loops run forever; they take a bound on their rounds and the
  statements hold for every bound. The retries of one refresh take fuel, and as much as the policy has
  attempts is enough (\<open>refresh_settles\<close>). Reading an exact number of bytes takes the stream's fuel, which
  its length bounds. The heartbeat loop is a recursion over the checks it makes, for every list of them.
  Times, delays and prices sent as doubles are exact rationals except where rounding
  matters, which \<open>Py_Num\<close> writes out. Strings are ASCII where \<open>upper()\<close> is called.

  \<^bold>\<open>Parameters.\<close> betterproto's codec, tenacity's \<open>stop\<close> and \<open>wait\<close>, anyio's streams, the user's event
  handlers and token store; what is relied on is a named hypothesis (\<open>stop_law\<close>, \<open>stops_after\<close>, the codec
  and stream laws), with an instance that satisfies it.

  \<^bold>\<open>Not modelled.\<close> Logging; the clock (\<open>_internal/clock.py\<close>), whose readings are arguments or fields;
  cancellation, except that a task may end at any of its suspensions and that a cancelled loop runs its
  \<open>finally\<close> clauses (\<open>Pool\<close>); the fields of wire messages of classes the client never looks into, beyond
  their types; the pydantic configuration of the models (\<open>models/_base.py\<close>); type-only interfaces
  (\<open>auth/store.py\<close>, \<open>events/publisher.py\<close>, \<open>connection/listener.py\<close>).

  \<^bold>\<open>Plan.\<close> Next: the state of a client between two runs of its block, and the link of \<open>Reconnection\<close> driving
  the tasks of \<open>Pool\<close>.
\<close>

subsection \<open>The client and its link\<close>

lemma register_all_record:
  "register_all regs pr = pr\<lparr>pr_event_handlers :=
     fold (\<lambda>(k, h) d. dict_set k ((case dict_get d k of None \<Rightarrow> [] | Some hs \<Rightarrow> hs) @ [h]) d) regs (pr_event_handlers pr)\<rparr>"
  unfolding register_all_def by (induction regs arbitrary: pr) (auto simp: on_event_def Let_def split: option.splits)

lemma register_all_keeps:
  "register_all regs (pr\<lparr>pr_running := b, pr_task_group := c\<rparr>) = (register_all regs pr)\<lparr>pr_running := b, pr_task_group := c\<rparr>"
  "set_listener (register_all regs pr) = register_all regs (set_listener pr)"
  "pr_reconnecting (register_all regs pr) = pr_reconnecting pr" "pr_redo_requested (register_all regs pr) = pr_redo_requested pr"
  "pr_reconnect_attempts (register_all regs pr) = pr_reconnect_attempts pr"
  by (simp_all add: register_all_record set_listener_def)

text \<open>The protocol object of a client: what \<open>build_graph\<close> makes, with the handlers of the client.\<close>

definition own_protocol :: "client_config \<Rightarrow> component_handler protocol" where
  "own_protocol c = register_all router_registrations (register_all heartbeat_registrations
     (protocol_init (cf_reconnect_attempts c) (cf_reconnect_min_wait c) (cf_reconnect_max_wait c)))"

lemma own_protocol_idle: "Reconnection.idle (own_protocol c)" "pr_reconnect_attempts (own_protocol c) = cf_reconnect_attempts c"
  by (simp_all add: own_protocol_def Reconnection.idle_def register_all_keeps) (simp_all add: protocol_init_def)

lemma own_protocol_served:
  "cg_protocol (all_up now n (adopt (build_graph c token_store time now'))) = lk_protocol (link_up (own_protocol c))"
proof -
  have "\<not> pr_running (own_protocol c)" using own_protocol_idle by (simp add: Reconnection.idle_def)
  then have "lk_protocol (link_up (own_protocol c)) = (set_listener (own_protocol c))\<lparr>pr_running := True, pr_task_group := True\<rparr>"
    by (simp add: link_up_def serve_enter_def set_listener_def)
  then show ?thesis
    by (simp add: all_up_def linked_up_def adopt_def build_graph_def client_graph.defs client.defs supervisor_init_def
        own_protocol_def register_all_keeps)
qed

text \<open>
  C6: a client made from its configuration and entered holds its link. The protocol it runs on is
  the one the interleavings of \<open>Reconnection\<close> start from, with the configured budget; so in every
  state they reach while the protocol runs, there is a connected link with one active reader, or
  exactly one party is at work to bring it back, and a client configured to retry forever never
  gives up.
\<close>

theorem client_holds_link:
  fixes c :: client_config and token_store :: bool and time now' :: rat
  defines "s \<equiv> adopt (build_graph c token_store time now') :: ('h, 'n) client"
  assumes "dialled dial s = Inr n"
    and "narrow (ClsReply Cls_ProtoOAApplicationAuthRes) (answer (app_request s)) = Inr reply"
    and "stop_law stop_never stop_after_attempt"
  shows "\<exists>s'. quiet_run answer saved (client_enter dial aclose now i lost died s) = ([Requested (app_request s)], Inr None, s') \<and>
    cg_protocol s' = lk_protocol (link_up (own_protocol c)) \<and>
    (\<forall>lk. link_reachable stop_never stop_after_attempt (link_up (own_protocol c)) lk \<and> pr_running (lk_protocol lk) \<longrightarrow>
      (if pr_reconnecting (lk_protocol lk) then working_on_it lk = 1
       else lk_connected lk \<and> length (active (lk_readers lk)) = 1)) \<and>
    (\<forall>lk. link_reachable stop_never stop_after_attempt (link_up (own_protocol c)) lk \<and> cf_reconnect_attempts c = None \<longrightarrow>
      lk_raised lk = None)"
proof -
  have start: "client_idle s" "\<not> cl_running s" by (simp_all add: s_def graph_idle)
  have one_reader: "length (active (lk_readers lk)) = 1"
    if "link_inv lk" "pr_running (lk_protocol lk)" "\<not> pr_reconnecting (lk_protocol lk)" for lk :: "component_handler link"
    using that by (cases "active (lk_readers lk)") (auto simp: link_inv_defs tasks_ok_def)
  show ?thesis
  proof (intro exI conjI allI impI)
    show "quiet_run answer saved (client_enter dial aclose now i lost died s) =
        ([Requested (app_request s)], Inr None, (all_up now n s)\<lparr>cl_running := True\<rparr>)"
      by (rule quiet_run_client_accepted [where dial = dial and answer = answer and n = n, OF start assms(2,3)])
    show "cg_protocol ((all_up now n s)\<lparr>cl_running := True\<rparr>) = lk_protocol (link_up (own_protocol c))"
      using own_protocol_served by (simp add: s_def)
  next
    fix lk
    assume lk: "link_reachable stop_never stop_after_attempt (link_up (own_protocol c)) lk \<and> pr_running (lk_protocol lk)"
    then have "link_inv lk" using reachable_inv own_protocol_idle(1) assms(4) by blast
    with lk one_reader [of lk] show "if pr_reconnecting (lk_protocol lk) then working_on_it lk = 1
        else lk_connected lk \<and> length (active (lk_readers lk)) = 1"
      by (auto simp: link_inv_def running_inv_def serviced_def)
  next
    fix lk
    assume lk: "link_reachable stop_never stop_after_attempt (link_up (own_protocol c)) lk \<and> cf_reconnect_attempts c = None"
    then have "raise_inv (pr_reconnect_attempts (own_protocol c)) lk" using reachable_raise_inv assms(4) by blast
    with lk show "lk_raised lk = None" by (cases "lk_raised lk") (auto simp: raise_inv_def own_protocol_idle(2))
  qed
qed

theorem client_holds_link_witness:
  "\<exists>s'. quiet_run (\<lambda>_. Inr (Reply ProtoOAApplicationAuthRes)) (\<lambda>_. Inr ())
      (client_enter (\<lambda>_ _ _ _. Inr ()) (\<lambda>_. None) 0 1 [] [] (adopt (build_graph (default_config ''id'' ''secret'') False 0 0) :: (nat, unit) client)) =
      ([Requested (app_request (adopt (build_graph (default_config ''id'' ''secret'') False 0 0) :: (nat, unit) client))], Inr None, s') \<and>
    cg_protocol s' = lk_protocol (link_up (own_protocol (default_config ''id'' ''secret'')))"
  using client_holds_link [where dial = "\<lambda>_ _ _ _. Inr ()" and n = "()" and answer = "\<lambda>_. Inr (Reply ProtoOAApplicationAuthRes)"
      and reply = "Reply ProtoOAApplicationAuthRes" and c = "default_config ''id'' ''secret''" and token_store = False and time = 0 and now' = 0
      and saved = "\<lambda>_. Inr ()" and aclose = "\<lambda>_. None" and now = 0 and i = 1 and lost = "[]" and died = "[]", OF refl _ tenacity_stop_law]
  by (auto simp: narrow_def)

end
